(* ===== verification/Prelude.thy ===== *)
theory Prelude
  imports Main "HOL-Library.Sublist" "HOL-Library.Product_Lexorder"
begin

text \<open>
  Shared vocabulary of the development.

  \<^item> JavaScript values: strings are lists of Latin-1 code units (\<open>string\<close>), dynamically
    typed values are \<open>json\<close>, objects are association lists written with \<open>spread\<close>.
  \<^item> HTTP errors of the NestJS exception classes and the result type of every handler:
    an error or a value, together with the state that is left behind. The state is kept
    in the error case because a Prisma write made before a \<open>throw\<close> is not undone.
  \<^item> Tables: a table of schema.prisma is the list of its rows in creation order, and the
    Prisma calls the services use are the list operations below. The interface that the
    components rely on is the locale \<open>keyed_table\<close>.
\<close>

named_theorems frame \<open>fields of the state that an operation leaves unchanged\<close>
named_theorems handler_defs \<open>definitions of the small building blocks of handlers\<close>

section \<open>JavaScript strings\<close>

definition js_lower_char :: "char \<Rightarrow> char" where
  "js_lower_char c =
     (let n = of_char c :: nat in
      if (65 \<le> n \<and> n \<le> 90) \<or> (192 \<le> n \<and> n \<le> 222 \<and> n \<noteq> 215) then char_of (n + 32) else c)"

definition js_lower :: "string \<Rightarrow> string" where
  "js_lower s = map js_lower_char s"

definition js_upper_char :: "char \<Rightarrow> char" where
  "js_upper_char c =
     (let n = of_char c :: nat in if 97 \<le> n \<and> n \<le> 122 then char_of (n - 32) else c)"

definition js_upper :: "string \<Rightarrow> string" where
  "js_upper s = map js_upper_char s"

text \<open>White space of \<open>String.prototype.trim\<close> among the Latin-1 code units.\<close>

definition js_space :: "char \<Rightarrow> bool" where
  "js_space c = (let n = of_char c :: nat in n \<in> {9, 10, 11, 12, 13, 32, 160})"

definition js_trim :: "string \<Rightarrow> string" where
  "js_trim s = rev (dropWhile js_space (rev (dropWhile js_space s)))"

definition js_includes :: "string \<Rightarrow> string \<Rightarrow> bool" where
  "js_includes s t = sublist t s"

text \<open>\<open>String.prototype.split\<close> with a one-character separator.\<close>

fun js_split :: "char \<Rightarrow> string \<Rightarrow> string list" where
  "js_split c [] = [[]]"
| "js_split c (x # xs) =
     (if x = c then [] # js_split c xs
      else (case js_split c xs of [] \<Rightarrow> [[x]] | y # ys \<Rightarrow> (x # y) # ys))"

fun js_join :: "string \<Rightarrow> string list \<Rightarrow> string" where
  "js_join sep [] = []"
| "js_join sep [x] = x"
| "js_join sep (x # y # ys) = x @ sep @ js_join sep (y # ys)"

text \<open>Decimal rendering of a number in a template literal.\<close>

fun show_nat :: "nat \<Rightarrow> string" where
  "show_nat n =
     (if n < 10 then [char_of (48 + n)] else show_nat (n div 10) @ [char_of (48 + n mod 10)])"

declare show_nat.simps [simp del]

lemma js_split_nonempty [simp]: "js_split c s \<noteq> []"
  by (induction s) (auto split: list.splits)

lemma js_join_split: "js_join [c] (js_split c s) = s"
proof (induction s)
  case Nil
  then show ?case by simp
next
  case (Cons x xs)
  obtain y ys where "js_split c xs = y # ys"
    by (cases "js_split c xs") auto
  with Cons show ?case by (cases ys) auto
qed

lemma js_split_no_sep: "t \<in> set (js_split c s) \<Longrightarrow> c \<notin> set t"
  by (induction s arbitrary: t) (auto split: list.splits if_splits)

lemma js_split_none: "c \<notin> set x \<Longrightarrow> js_split c x = [x]"
  by (induction x) auto

lemma js_split_append: "c \<notin> set x \<Longrightarrow> js_split c (x @ c # y) = x # js_split c y"
  by (induction x) auto

lemma js_split_join:
  "\<forall>x \<in> set xs. c \<notin> set x \<Longrightarrow> xs \<noteq> [] \<Longrightarrow> js_split c (js_join [c] xs) = xs"
proof (induction "[c]" xs rule: js_join.induct)
  case (3 x y ys)
  then show ?case by (simp add: js_split_append)
qed (auto simp: js_split_none)

lemma js_lower_char_idem [simp]: "js_lower_char (js_lower_char c) = js_lower_char c"
  by (auto simp: js_lower_char_def Let_def)

lemma js_lower_idem [simp]: "js_lower (js_lower s) = js_lower s"
  by (simp add: js_lower_def)

lemma length_js_lower [simp]: "length (js_lower s) = length s"
  by (simp add: js_lower_def)

section \<open>Dynamically typed values\<close>

text \<open>
  \<open>JId\<close> is the string of a row's UUID and \<open>JDate\<close> the ISO string of an instant; both are
  kept abstract because no code under consideration looks inside them.
\<close>

type_synonym id = nat
type_synonym time = int

datatype json =
    JNull
  | JBool bool
  | JNum int
  | JStr string
  | JId id
  | JDate time
  | JArr "json list"
  | JObj "(string \<times> json) list"

text \<open>\<open>String\<close> of a value that came from JSON, which has no dates.\<close>

fun js_string :: "json \<Rightarrow> string" where
  "js_string JNull = ''null''"
| "js_string (JBool b) = (if b then ''true'' else ''false'')"
| "js_string (JNum n) = (if n < 0 then ''-'' @ show_nat (nat (- n)) else show_nat (nat n))"
| "js_string (JStr x) = x"
| "js_string (JId i) = show_nat i"
| "js_string (JDate t) = []"
| "js_string (JArr xs) = js_join '','' (map (\<lambda>x. if x = JNull then [] else js_string x) xs)"
| "js_string (JObj fs) = ''[object Object]''"

type_synonym obj = "(string \<times> json) list"

fun obj_put :: "string \<Rightarrow> json \<Rightarrow> obj \<Rightarrow> obj" where
  "obj_put k v [] = [(k, v)]"
| "obj_put k v ((k', v') # o') = (if k = k' then (k, v) # o' else (k', v') # obj_put k v o')"

text \<open>\<open>{ ...a, ...b }\<close>: later properties win.\<close>

definition spread :: "obj \<Rightarrow> obj \<Rightarrow> obj" where
  "spread a b = foldl (\<lambda>o' (k, v). obj_put k v o') a b"

lemma map_of_obj_put [simp]: "map_of (obj_put k v o') = (map_of o')(k \<mapsto> v)"
  by (induction k v o' rule: obj_put.induct) (auto simp: fun_eq_iff)

lemma spread_Nil [simp]: "spread a [] = a"
  by (simp add: spread_def)

lemma map_of_spread_notin:
  "k \<notin> fst ` set b \<Longrightarrow> map_of (spread a b) k = map_of a k"
  unfolding spread_def
proof (induction b arbitrary: a)
  case (Cons x b)
  then show ?case by (cases x) auto
qed simp

section \<open>Errors and results\<close>

datatype http_error =
    BadRequest string
  | Unauthorized string
  | Forbidden string
  | NotFound string
  | Conflict string
  | InternalError string

type_synonym ('a, 's) res = "(http_error + 'a) \<times> 's"

abbreviation ok :: "'a \<Rightarrow> 's \<Rightarrow> ('a, 's) res" where
  "ok v s \<equiv> (Inr v, s)"

abbreviation fail :: "http_error \<Rightarrow> 's \<Rightarrow> ('a, 's) res" where
  "fail e s \<equiv> (Inl e, s)"

definition and_then :: "('a, 's) res \<Rightarrow> ('a \<Rightarrow> 's \<Rightarrow> ('b, 's) res) \<Rightarrow> ('b, 's) res" where
  "and_then r k = (case r of (Inl e, s) \<Rightarrow> (Inl e, s) | (Inr v, s) \<Rightarrow> k v s)"

definition succeeds :: "('a, 's) res \<Rightarrow> bool" where
  "succeeds r = (case fst r of Inl _ \<Rightarrow> False | Inr _ \<Rightarrow> True)"

lemma and_then_simps [simp]:
  "and_then (Inl e, s) k = (Inl e, s)"
  "and_then (Inr v, s) k = k v s"
  by (simp_all add: and_then_def)

lemma and_then_Inr:
  "(and_then r k = (Inr w, t)) = (\<exists>v s. r = (Inr v, s) \<and> k v s = (Inr w, t))"
  by (cases r) (auto simp: and_then_def split: sum.splits)

lemma and_then_assoc:
  "and_then (and_then r k) l = and_then r (\<lambda>v s. and_then (k v s) l)"
  by (cases r) (auto simp: and_then_def split: sum.splits)

lemma succeeds_simps [simp]:
  "succeeds (Inr v, s)" "\<not> succeeds (Inl e, s)"
  by (simp_all add: succeeds_def)

lemma succeedsE:
  assumes "succeeds r"
  obtains v s where "r = (Inr v, s)"
  using assms by (cases r) (auto simp: succeeds_def split: sum.splits)

section \<open>Tables\<close>

definition find_row :: "('r \<Rightarrow> id) \<Rightarrow> id \<Rightarrow> 'r list \<Rightarrow> 'r option" where
  "find_row key i rows = find (\<lambda>r. key r = i) rows"

definition update_row :: "('r \<Rightarrow> id) \<Rightarrow> id \<Rightarrow> ('r \<Rightarrow> 'r) \<Rightarrow> 'r list \<Rightarrow> 'r list" where
  "update_row key i f rows = map (\<lambda>r. if key r = i then f r else r) rows"

definition update_many :: "('r \<Rightarrow> bool) \<Rightarrow> ('r \<Rightarrow> 'r) \<Rightarrow> 'r list \<Rightarrow> 'r list" where
  "update_many p f rows = map (\<lambda>r. if p r then f r else r) rows"

definition delete_many :: "('r \<Rightarrow> bool) \<Rightarrow> 'r list \<Rightarrow> 'r list" where
  "delete_many p rows = filter (\<lambda>r. \<not> p r) rows"

definition count_rows :: "('r \<Rightarrow> bool) \<Rightarrow> 'r list \<Rightarrow> nat" where
  "count_rows p rows = length (filter p rows)"

text \<open>\<open>findFirst\<close> with \<open>orderBy\<close> descending on a column: the first row with the largest key.\<close>

fun find_max :: "('r \<Rightarrow> 'k::linorder) \<Rightarrow> 'r list \<Rightarrow> 'r option" where
  "find_max f [] = None"
| "find_max f (r # rs) =
     (case find_max f rs of None \<Rightarrow> Some r | Some m \<Rightarrow> if f r < f m then Some m else Some r)"

text \<open>\<open>skip\<close> and \<open>take\<close> of a page.\<close>

definition page :: "nat \<Rightarrow> nat \<Rightarrow> 'r list \<Rightarrow> 'r list" where
  "page skip tk rows = take tk (drop skip rows)"

lemma length_page: "length (page skip tk rows) \<le> tk"
  by (simp add: page_def)

lemma find_Some_iff_filter: "(find p xs = Some x) \<Longrightarrow> p x \<and> x \<in> set xs"
  by (induction xs) (auto split: if_splits)

lemma find_row_simps [simp]:
  "find_row key i [] = None"
  "find_row key i (r # rows) = (if key r = i then Some r else find_row key i rows)"
  by (simp_all add: find_row_def)

lemma find_row_SomeD: "find_row key i rows = Some r \<Longrightarrow> key r = i \<and> r \<in> set rows"
  unfolding find_row_def by (rule find_Some_iff_filter)

lemma find_row_None_iff: "find_row key i rows = None \<longleftrightarrow> i \<notin> key ` set rows"
  by (auto simp: find_row_def find_None_iff)

lemma find_row_distinct:
  "distinct (map key rows) \<Longrightarrow> r \<in> set rows \<Longrightarrow> find_row key (key r) rows = Some r"
  by (induction rows) (auto simp: find_row_def)

lemma find_row_append:
  "find_row key i (xs @ ys) = (case find_row key i xs of None \<Rightarrow> find_row key i ys | Some r \<Rightarrow> Some r)"
  by (induction xs) (auto simp: find_row_def)

lemma find_row_update_row:
  assumes "\<And>r. key (f r) = key r"
  shows "find_row key j (update_row key i f rows) =
    (if i = j then map_option f (find_row key j rows) else find_row key j rows)"
  by (induction rows) (use assms in \<open>auto simp: find_row_def update_row_def\<close>)

lemma map_key_update_row [simp]:
  "(\<And>r. key (f r) = key r) \<Longrightarrow> map key (update_row key i f rows) = map key rows"
  by (induction rows) (auto simp: update_row_def)

lemma set_update_row:
  "set (update_row key i f rows) = {r \<in> set rows. key r \<noteq> i} \<union> f ` {r \<in> set rows. key r = i}"
  by (auto simp: update_row_def)

lemma length_update_row [simp]: "length (update_row key i f rows) = length rows"
  by (simp add: update_row_def)

lemma update_row_id [simp]: "(\<And>r. key r = i \<Longrightarrow> f r = r) \<Longrightarrow> update_row key i f rows = rows"
  by (induction rows) (auto simp: update_row_def)

lemma update_row_commute:
  assumes "\<And>r. key (f r) = key r" "\<And>r. key (g r) = key r" "i \<noteq> j"
  shows "update_row key i f (update_row key j g rows) = update_row key j g (update_row key i f rows)"
  using assms by (auto simp: update_row_def)

lemma find_max_mem: "find_max f rows = Some m \<Longrightarrow> m \<in> set rows"
  by (induction rows arbitrary: m) (auto split: option.splits if_splits)

lemma find_max_upper: "find_max f rows = Some m \<Longrightarrow> r \<in> set rows \<Longrightarrow> f r \<le> f m"
proof (induction rows arbitrary: m)
  case (Cons x rows)
  show ?case
  proof (cases "find_max f rows")
    case None
    with Cons.prems show ?thesis by (cases rows) (auto split: option.splits if_splits)
  next
    case (Some m')
    with Cons show ?thesis by (auto split: if_splits dest: order_trans less_imp_le)
  qed
qed simp

lemma find_max_None [simp]: "find_max f rows = None \<longleftrightarrow> rows = []"
  by (cases rows) (auto split: option.splits)

text \<open>
  The sort key of a nullable column under PostgreSQL's default for \<open>DESC\<close>: nulls come first.
\<close>

definition desc_key :: "time option \<Rightarrow> bool \<times> time" where
  "desc_key x = (case x of None \<Rightarrow> (True, 0) | Some t \<Rightarrow> (False, t))"

lemma count_rows_le: "count_rows p rows \<le> length rows"
  by (simp add: count_rows_def)

lemma count_rows_mono: "(\<And>r. r \<in> set rows \<Longrightarrow> p r \<Longrightarrow> q r) \<Longrightarrow> count_rows p rows \<le> count_rows q rows"
  unfolding count_rows_def by (induction rows) auto

lemma in_delete_many [simp]: "r \<in> set (delete_many p rows) \<longleftrightarrow> r \<in> set rows \<and> \<not> p r"
  by (auto simp: delete_many_def)

subsection \<open>The interface of a table\<close>

text \<open>
  What the services rely on when they read and write one row by its primary key: a row
  found under a key has that key, an update that keeps the primary key is seen by later
  reads of that key and by no others, and a row created under a fresh key is found.
\<close>

locale keyed_table =
  fixes key :: "'r \<Rightarrow> id"
    and lookup :: "id \<Rightarrow> 't \<Rightarrow> 'r option"
    and modify :: "id \<Rightarrow> ('r \<Rightarrow> 'r) \<Rightarrow> 't \<Rightarrow> 't"
    and insert_row :: "'r \<Rightarrow> 't \<Rightarrow> 't"
  assumes lookup_key: "lookup i t = Some r \<Longrightarrow> key r = i"
    and lookup_modify: "(\<And>r. key (f r) = key r) \<Longrightarrow>
      lookup j (modify i f t) = (if i = j then map_option f (lookup j t) else lookup j t)"
    and lookup_insert: "lookup (key r) t = None \<Longrightarrow>
      lookup j (insert_row r t) = (if j = key r then Some r else lookup j t)"
begin

lemma lookup_modify_same:
  "(\<And>r. key (f r) = key r) \<Longrightarrow> lookup i t = Some r \<Longrightarrow> lookup i (modify i f t) = Some (f r)"
  by (simp add: lookup_modify)

lemma lookup_modify_other:
  "(\<And>r. key (f r) = key r) \<Longrightarrow> i \<noteq> j \<Longrightarrow> lookup j (modify i f t) = lookup j t"
  by (simp add: lookup_modify)

lemma lookup_modify_twice:
  assumes "\<And>r. key (f r) = key r" "\<And>r. key (g r) = key r"
  shows "lookup j (modify i f (modify i g t)) = lookup j (modify i (f \<circ> g) t)"
  using assms by (auto simp: lookup_modify option.map_comp)

lemma lookup_insert_then_modify:
  assumes "\<And>r. key (f r) = key r" "lookup (key r) t = None"
  shows "lookup (key r) (modify (key r) f (insert_row r t)) = Some (f r)"
  using assms by (simp add: lookup_modify lookup_insert)

end

lemma keyed_table_list:
  "keyed_table key (find_row key) (update_row key) (\<lambda>r rows. rows @ [r])"
proof
  fix f :: "'a \<Rightarrow> 'a" and i j t
  assume "\<And>r. key (f r) = key r"
  then show "find_row key j (update_row key i f t) =
    (if i = j then map_option f (find_row key j t) else find_row key j t)"
    by (rule find_row_update_row)
qed (auto simp: find_row_append dest: find_row_SomeD split: option.splits)

subsection \<open>The interface of a tenant-scoped API\<close>

text \<open>
  An API whose commands run on behalf of one tenant: every command keeps the integrity of the
  store and leaves the rows of the other tenants as they are. The lemma of the locale lifts
  this to any interleaving of commands of any tenants.
\<close>

locale tenant_api =
  fixes rows :: "'s \<Rightarrow> 'r list"
    and org :: "'r \<Rightarrow> id"
    and inv :: "'s \<Rightarrow> bool"
    and exec :: "'cmd \<Rightarrow> id \<Rightarrow> 's \<Rightarrow> 's"
  assumes inv_exec: "inv s \<Longrightarrow> inv (exec c t s)"
    and isolated: "inv s \<Longrightarrow> t \<noteq> x \<Longrightarrow>
      filter (\<lambda>r. org r = x) (rows (exec c t s)) = filter (\<lambda>r. org r = x) (rows s)"
begin

lemma inv_run: "inv s \<Longrightarrow> inv (foldl (\<lambda>s (c, t). exec c t s) s cmds)"
  by (induction cmds arbitrary: s) (auto simp: inv_exec)

lemma run_isolated:
  assumes "inv s" "x \<notin> snd ` set cmds"
  shows "filter (\<lambda>r. org r = x) (rows (foldl (\<lambda>s (c, t). exec c t s) s cmds)) =
    filter (\<lambda>r. org r = x) (rows s)"
  using assms
proof (induction cmds arbitrary: s)
  case (Cons ct cmds)
  obtain c t where ct: "ct = (c, t)" by (cases ct)
  have "filter (\<lambda>r. org r = x) (rows (foldl (\<lambda>s (c, t). exec c t s) (exec c t s) cmds)) =
      filter (\<lambda>r. org r = x) (rows (exec c t s))"
    using Cons.prems by (intro Cons.IH) (auto simp: inv_exec)
  also have "\<dots> = filter (\<lambda>r. org r = x) (rows s)"
    using Cons.prems by (intro isolated) (auto simp: ct)
  finally show ?case by (simp add: ct)
qed simp

end

text \<open>
  The two facts every interpretation needs: an update or a deletion of one row of tenant
  \<open>t\<close> is invisible to tenant \<open>x\<close>.
\<close>

lemma filter_update_row_other:
  assumes "distinct (map key rows)" "r \<in> set rows" "org r \<noteq> x" "\<And>r. org (f r) = org r"
  shows "filter (\<lambda>r. org r = x) (update_row key (key r) f rows) = filter (\<lambda>r. org r = x) rows"
proof -
  have "org r' \<noteq> x" if "r' \<in> set rows" "key r' = key r" for r'
    using assms that by (auto simp: distinct_map inj_on_def)
  then show ?thesis
    using assms(4) unfolding update_row_def by (induction rows) auto
qed

lemma filter_delete_other:
  assumes "distinct (map key rows)" "r \<in> set rows" "org r \<noteq> x"
  shows "filter (\<lambda>r. org r = x) (delete_many (\<lambda>r'. key r' = key r) rows) = filter (\<lambda>r. org r = x) rows"
proof -
  have "org r' \<noteq> x" if "r' \<in> set rows" "key r' = key r" for r'
    using assms that by (auto simp: distinct_map inj_on_def)
  then show ?thesis
    unfolding delete_many_def by (induction rows) auto
qed

end
