(* ===== verification/Schema.thy ===== *)
theory Schema
  imports Prelude
begin

text \<open>
  The data model of packages/database/prisma/schema.prisma: its enums as datatypes, its
  models as records (the columns the services read or write), and the database as one
  record \<open>db\<close> of tables. \<open>next_id\<close> stands for \<open>@default(uuid())\<close>: every created row takes
  the next unused number. The BullMQ queues are the lists of the jobs ever added.
  \<open>env\<close> is what a handler reads besides the database: the clock, the random generator,
  the SHA-256 function of node:crypto, the object store and the configuration. One handler
  call reads one instant of the clock.
\<close>

section \<open>Enums\<close>

datatype user_status = UserActive | UserInvited | UserSuspended | UserDeactivated
datatype platform_role = PlatformUser | PLATFORM_ADMIN
datatype membership_role = OWNER | ADMIN | MANAGER | AUDITOR | MEMBER
datatype org_status = OrgActive | OrgTrial | OrgSuspended | OrgCanceled
datatype document_status =
  DRAFT | AWAITING_SIGNATURE | IN_PROGRESS | COMPLETED | VOIDED | CANCELLED | EXPIRED
datatype signing_mode = SEQUENTIAL | PARALLEL
datatype signer_role = SIGNER | APPROVER | CC
datatype signer_status =
  PENDING | INVITED | VIEWED | SIGNED | DECLINED | RESCINDED | SignerExpired
datatype signature_type = TYPED | DRAWN | UPLOADED | CERTIFICATE
datatype certificate_provider = CERULEAN | ACME | INTERNAL_PKI | WEB
datatype certificate_status = CertActive | CertRevoked | CertExpired
datatype event_type =
  EvCreated | EvInvited | EvViewed | EvSigned | EvDeclined | EvReminded | EvExpired
| EvCancelled | EvVoided | EvApproved | EvRejected | EvDownloaded | EvEmailFailed | EvHandedOver
datatype rule_action = RuleApprove | RuleRoute | RuleRequire | RuleNotify
datatype field_type =
  FtSignature | FtInitial | FtDate | FtText | FtCheckbox | FtDropdown | FtAttachment | FtName
| FtEmail | FtCompany | FtJobTitle | FtPhone | FtAddress | FtCustom
datatype template_status = TplDraft | TplActive | TplArchived
datatype audit_outcome = AuditSuccess | AuditFailure | AuditDenied
datatype channel = ChEmail | ChSms | ChInApp
datatype notification_status = NQueued | NSent | NDelivered | NFailed | NRead
datatype delivery_status = DlPending | DlDelivered | DlFailed
datatype visibility = VisPrivate | VisTeam | VisOrganization
datatype plan_code = COMMUNITY | PROFESSIONAL | BUSINESS | ENTERPRISE
datatype subscription_status = SubTrialing | SubActive | SubPastDue | SubCanceled | SubUnpaid
datatype coupon_type = PERCENT | FIXED

section \<open>Identity and tenancy\<close>

record user_row =
  u_id :: id
  u_email :: string
  u_first_name :: "string option"
  u_last_name :: "string option"
  u_display_name :: "string option"
  u_email_verified :: "time option"
  u_mfa :: bool
  u_status :: user_status
  u_platform_role :: platform_role
  u_provider_id :: "string option"
  u_timezone :: string
  u_locale :: string
  u_last_login :: "time option"
  u_deleted :: "time option"

record org_row =
  o_id :: id
  o_name :: string
  o_slug :: string
  o_legal_name :: "string option"
  o_tax_id :: "string option"
  o_status :: org_status
  o_branding :: "json option"
  o_deleted :: "time option"

record membership_row =
  m_id :: id
  m_org :: id
  m_user :: id
  m_role :: membership_role
  m_role_id :: "id option"

record role_row =
  ro_id :: id
  ro_name :: string
  ro_permissions :: "string list"

record session_row =
  se_id :: id
  se_user :: id
  se_hash :: string
  se_expires :: time
  se_revoked :: "time option"
  se_ip :: string

record api_key_row =
  k_id :: id
  k_org :: id
  k_user :: "id option"
  k_name :: string
  k_hash :: string
  k_prefix :: string
  k_scopes :: "string list"
  k_expires :: "time option"
  k_revoked :: "time option"

record workspace_row =
  w_id :: id
  w_org :: id
  w_name :: string
  w_slug :: string
  w_description :: "string option"
  w_visibility :: visibility
  w_default :: bool
  w_created_by :: "id option"

record team_row =
  t_id :: id
  t_org :: id
  t_workspace :: "id option"
  t_name :: string
  t_description :: "string option"

section \<open>Documents and templates\<close>

record document_row =
  d_id :: id
  d_org :: id
  d_workspace :: "id option"
  d_template :: "id option"
  d_title :: string
  d_description :: "string option"
  d_status :: document_status
  d_file_name :: string
  d_file_key :: string
  d_content_type :: string
  d_size :: nat
  d_checksum :: string
  d_version :: nat
  d_tags :: "string list"
  d_created_by :: "id option"
  d_deleted :: "time option"

record version_row =
  v_id :: id
  v_document :: id
  v_version :: nat
  v_file_key :: string
  v_size :: nat
  v_checksum :: string
  v_note :: "string option"
  v_created_by :: "id option"

record template_row =
  tp_id :: id
  tp_org :: id
  tp_workspace :: "id option"
  tp_name :: string
  tp_description :: "string option"
  tp_status :: template_status
  tp_variables :: "json option"
  tp_created_by :: "id option"

record template_field_row =
  tf_id :: id
  tf_template :: id
  tf_type :: field_type
  tf_name :: "string option"
  tf_key :: "string option"
  tf_required :: bool
  tf_page :: int
  tf_assignee :: int
  tf_x :: "int option"
  tf_y :: "int option"
  tf_width :: "int option"
  tf_height :: "int option"
  tf_options :: "json option"

section \<open>Signing\<close>

record request_row =
  rq_id :: id
  rq_org :: id
  rq_document :: id
  rq_title :: "string option"
  rq_message :: "string option"
  rq_status :: document_status
  rq_mode :: signing_mode
  rq_deadline :: "time option"
  rq_completed :: "time option"
  rq_created_by :: "id option"

record signer_row =
  sg_id :: id
  sg_request :: id
  sg_user :: "id option"
  sg_email :: string
  sg_name :: "string option"
  sg_role :: signer_role
  sg_order :: int
  sg_status :: signer_status
  sg_token :: string
  sg_viewed :: "time option"
  sg_signed :: "time option"
  sg_reminders :: nat
  sg_auth :: "string option"

record signature_row =
  si_id :: id
  si_request :: id
  si_document :: id
  si_signer :: id
  si_type :: signature_type
  si_certificate :: "id option"
  si_serial :: "string option"
  si_hash :: string
  si_value :: "string option"
  si_format :: "string option"
  si_algorithm :: string
  si_assurance :: json
  si_ip :: "string option"
  si_agent :: "string option"
  si_at :: time

record event_row =
  ev_id :: id
  ev_request :: id
  ev_signer :: "id option"
  ev_type :: event_type
  ev_meta :: obj
  ev_ip :: "string option"
  ev_agent :: "string option"
  ev_at :: time

record request_field_row =
  rf_id :: id
  rf_request :: id
  rf_signer :: "id option"
  rf_type :: field_type
  rf_name :: "string option"
  rf_key :: "string option"
  rf_required :: bool
  rf_page :: int
  rf_x :: "int option"
  rf_y :: "int option"
  rf_width :: "int option"
  rf_height :: "int option"
  rf_options :: "json option"
  rf_value :: "json option"
  rf_filled :: "time option"

record rule_row =
  wr_id :: id
  wr_request :: id
  wr_order :: int
  wr_condition :: json
  wr_action :: rule_action
  wr_target :: "id option"

record certificate_row =
  c_id :: id
  c_org :: id
  c_user :: "id option"
  c_provider :: certificate_provider
  c_status :: certificate_status
  c_common_name :: string
  c_email :: "string option"
  c_serial :: string
  c_subject :: string
  c_issuer :: "string option"
  c_not_before :: time
  c_not_after :: time
  c_pem :: string
  c_chain :: "string option"
  c_key_enc :: "string option"
  c_key_algorithm :: "string option"
  c_validation :: "string option"
  c_source_ref :: "string option"
  c_created_by :: "id option"
  c_revoked_at :: "time option"
  c_revoked_reason :: "string option"

datatype signing_job =
    SendSigningInvite id id
  | SendSigningReminder id id nat
  | SendCompletionMail id

section \<open>Webhooks, notifications, audit\<close>

record endpoint_row =
  wh_id :: id
  wh_org :: id
  wh_url :: string
  wh_events :: "string list"
  wh_description :: "string option"
  wh_active :: bool
  wh_disabled :: "time option"
  wh_secret :: string
  wh_created :: time

record delivery_row =
  dl_id :: id
  dl_endpoint :: id
  dl_org :: id
  dl_event :: string
  dl_payload :: json
  dl_status :: delivery_status
  dl_attempts :: nat
  dl_response :: "nat option"
  dl_error :: "string option"
  dl_created :: time
  dl_last_attempt :: "time option"
  dl_delivered :: "time option"

record notification_row =
  n_id :: id
  n_user :: id
  n_org :: "id option"
  n_type :: string
  n_channel :: channel
  n_title :: string
  n_body :: "string option"
  n_meta :: "json option"
  n_status :: notification_status
  n_read :: "time option"
  n_sent :: "time option"
  n_delivered :: "time option"
  n_error :: "string option"

record audit_row =
  al_org :: "id option"
  al_actor :: "id option"
  al_actor_email :: "string option"
  al_action :: string
  al_resource_type :: string
  al_resource_id :: "string option"
  al_outcome :: audit_outcome
  al_meta :: "json option"
  al_ip :: "string option"
  al_agent :: "string option"
  al_at :: time

section \<open>Billing\<close>

record plan_row =
  pl_id :: id
  pl_code :: plan_code
  pl_name :: string
  pl_monthly :: int
  pl_yearly :: int
  pl_active :: bool

record coupon_row =
  cp_id :: id
  cp_code :: string
  cp_type :: coupon_type
  cp_value :: int
  cp_active :: bool
  cp_expires :: "time option"
  cp_max :: "nat option"
  cp_redeemed :: nat

record account_row =
  ac_id :: id
  ac_org :: id
  ac_plan :: plan_code
  ac_status :: subscription_status
  ac_seats :: int
  ac_period_end :: "time option"

record subscription_row =
  sb_id :: id
  sb_account :: id
  sb_plan :: id
  sb_provider :: string
  sb_provider_id :: "string option"
  sb_status :: subscription_status
  sb_seats :: int
  sb_start :: time
  sb_end :: time

record invoice_row =
  iv_id :: id
  iv_account :: id
  iv_subscription :: id
  iv_amount :: int
  iv_quantity :: int
  iv_unit :: int
  iv_discount :: int

section \<open>The database\<close>

record db =
  next_id :: id
  users :: "user_row list"
  orgs :: "org_row list"
  memberships :: "membership_row list"
  roles :: "role_row list"
  sessions :: "session_row list"
  api_keys :: "api_key_row list"
  workspaces :: "workspace_row list"
  workspace_members :: "(id \<times> id) list"
  teams :: "team_row list"
  team_members :: "(id \<times> id) list"
  documents :: "document_row list"
  versions :: "version_row list"
  templates :: "template_row list"
  template_fields :: "template_field_row list"
  requests :: "request_row list"
  signers :: "signer_row list"
  signatures :: "signature_row list"
  events :: "event_row list"
  request_fields :: "request_field_row list"
  rules :: "rule_row list"
  certificates :: "certificate_row list"
  endpoints :: "endpoint_row list"
  deliveries :: "delivery_row list"
  notifications :: "notification_row list"
  audit_logs :: "audit_row list"
  plans :: "plan_row list"
  coupons :: "coupon_row list"
  redemptions :: "(id \<times> id) list"
  accounts :: "account_row list"
  subscriptions :: "subscription_row list"
  invoices :: "invoice_row list"
  signing_queue :: "signing_job list"
  webhook_queue :: "id list"
  notification_queue :: "id list"

definition empty_db :: db where
  "empty_db = \<lparr>next_id = 1, users = [], orgs = [], memberships = [], roles = [], sessions = [],
     api_keys = [], workspaces = [], workspace_members = [], teams = [], team_members = [],
     documents = [], versions = [], templates = [], template_fields = [], requests = [],
     signers = [], signatures = [], events = [], request_fields = [], rules = [],
     certificates = [], endpoints = [], deliveries = [], notifications = [], audit_logs = [],
     plans = [], coupons = [], redemptions = [], accounts = [], subscriptions = [],
     invoices = [], signing_queue = [], webhook_queue = [], notification_queue = []\<rparr>"

section \<open>What a handler reads besides the database\<close>

record env =
  e_now :: time
  e_rand :: "nat \<Rightarrow> string"
  e_sha256 :: "string \<Rightarrow> string"
  e_blob :: "string \<Rightarrow> string option"
  e_smtp_host :: "string option"
  e_reminder_after_days :: "int option"
  e_reminder_max :: "nat option"
  e_web_url :: "string option"
  e_allow_private :: "bool option"
  e_disable_after_days :: "int option"
  e_disable_min_failures :: "nat option"
  e_billing_enabled :: bool

text \<open>JavaScript's \<open>??\<close>.\<close>

definition coalesce :: "'a option \<Rightarrow> 'a \<Rightarrow> 'a" where
  "coalesce x d = (case x of None \<Rightarrow> d | Some v \<Rightarrow> v)"

definition coalesce_opt :: "'a option \<Rightarrow> 'a option \<Rightarrow> 'a option" where
  "coalesce_opt x y = (case x of None \<Rightarrow> y | Some v \<Rightarrow> Some v)"

lemma coalesce_simps [simp]:
  "coalesce None d = d" "coalesce (Some v) d = v"
  "coalesce_opt None y = y" "coalesce_opt (Some v) y = Some v"
  by (simp_all add: coalesce_def coalesce_opt_def)

definition day_ms :: time where
  "day_ms = 24 * 60 * 60 * 1000"

section \<open>The authenticated principal (apps/api/src/common/types.ts)\<close>

datatype tenant_role = TenantRole membership_role | API_KEY

record tenant =
  tn_id :: id
  tn_slug :: string
  tn_role :: tenant_role
  tn_permissions :: "string list"

text \<open>\<open>au_id = None\<close> is the id \<open>'system'\<close> of an API key that has no owner.\<close>

record auth_user =
  au_id :: "id option"
  au_email :: string
  au_display_name :: "string option"
  au_platform_role :: platform_role
  au_sub :: string
  au_groups :: "string list"
  au_org :: "tenant option"

definition org_of :: "auth_user \<Rightarrow> id option" where
  "org_of u = map_option tn_id (au_org u)"

text \<open>The principal \<open>u\<close> acting in the tenant \<open>t\<close>.\<close>

definition acting_for :: "id \<Rightarrow> auth_user \<Rightarrow> auth_user" where
  "acting_for t u = u\<lparr>au_org := Some (case au_org u of
     None \<Rightarrow> \<lparr>tn_id = t, tn_slug = [], tn_role = TenantRole MEMBER, tn_permissions = []\<rparr>
   | Some tn \<Rightarrow> tn\<lparr>tn_id := t\<rparr>)\<rparr>"

lemma org_of_acting_for [simp]: "org_of (acting_for t u) = Some t"
  by (simp add: org_of_def acting_for_def split: option.splits)

text \<open>
  Services that write \<open>user.org?.id!\<close> pass \<open>undefined\<close> when there is no tenant, and Prisma
  drops an \<open>undefined\<close> filter. The guards of the controllers keep such principals out.
\<close>

definition in_tenant :: "auth_user \<Rightarrow> id \<Rightarrow> bool" where
  "in_tenant u x = (case org_of u of None \<Rightarrow> True | Some org \<Rightarrow> x = org)"

lemma in_tenant_acting_for [simp]: "in_tenant (acting_for t u) x \<longleftrightarrow> x = t"
  by (simp add: in_tenant_def)

text \<open>
  An insert with \<open>createdById: 'system'\<close> violates the foreign key to User, and one without
  an organization fails Prisma's validation.
\<close>

abbreviation fk_error :: http_error where
  "fk_error \<equiv> InternalError ''Foreign key constraint violated''"

abbreviation missing_org_error :: http_error where
  "missing_org_error \<equiv> InternalError ''Argument organizationId is missing''"

section \<open>Sample values for the witnesses\<close>

definition sample_env :: env where
  "sample_env = \<lparr>e_now = 1000, e_rand = show_nat, e_sha256 = (\<lambda>x. ''h:'' @ x),
     e_blob = (\<lambda>k. Some (''blob of '' @ k)), e_smtp_host = Some ''smtp'',
     e_reminder_after_days = None, e_reminder_max = None, e_web_url = None,
     e_allow_private = None, e_disable_after_days = None, e_disable_min_failures = None,
     e_billing_enabled = False\<rparr>"

definition sample_user :: user_row where
  "sample_user = \<lparr>u_id = 5, u_email = ''ada@acme.test'', u_first_name = None, u_last_name = None,
     u_display_name = Some ''Ada'', u_email_verified = None, u_mfa = False, u_status = UserActive,
     u_platform_role = PlatformUser, u_provider_id = None, u_timezone = ''UTC'', u_locale = ''en'',
     u_last_login = None, u_deleted = None\<rparr>"

definition sample_principal :: auth_user where
  "sample_principal = \<lparr>au_id = Some 5, au_email = ''ada@acme.test'', au_display_name = Some ''Ada'',
     au_platform_role = PlatformUser, au_sub = ''sub-5'', au_groups = [],
     au_org = Some \<lparr>tn_id = 1, tn_slug = ''acme'', tn_role = TenantRole OWNER,
                   tn_permissions = []\<rparr>\<rparr>"

section \<open>The tables as keyed tables\<close>

interpretation user_table: keyed_table u_id "find_row u_id" "update_row u_id" "\<lambda>r t. t @ [r]"
  by (rule keyed_table_list)

interpretation session_table: keyed_table se_id "find_row se_id" "update_row se_id" "\<lambda>r t. t @ [r]"
  by (rule keyed_table_list)

interpretation document_table: keyed_table d_id "find_row d_id" "update_row d_id" "\<lambda>r t. t @ [r]"
  by (rule keyed_table_list)

interpretation request_table: keyed_table rq_id "find_row rq_id" "update_row rq_id" "\<lambda>r t. t @ [r]"
  by (rule keyed_table_list)

interpretation signer_table: keyed_table sg_id "find_row sg_id" "update_row sg_id" "\<lambda>r t. t @ [r]"
  by (rule keyed_table_list)

interpretation certificate_table: keyed_table c_id "find_row c_id" "update_row c_id" "\<lambda>r t. t @ [r]"
  by (rule keyed_table_list)

interpretation endpoint_table: keyed_table wh_id "find_row wh_id" "update_row wh_id" "\<lambda>r t. t @ [r]"
  by (rule keyed_table_list)

interpretation delivery_table: keyed_table dl_id "find_row dl_id" "update_row dl_id" "\<lambda>r t. t @ [r]"
  by (rule keyed_table_list)

end
