(* ===== verification/Net.thy ===== *)
theory Net
  imports Schema
begin

text \<open>
  Hosts and URLs: the SSRF guard of apps/api/src/modules/webhooks/webhooks.service.ts
  (\<open>isPrivateHost\<close>, \<open>assertDeliverableUrl\<close>), the webhook signature header of the same file,
  and the URL-derived values of apps/api/src/config/configuration.ts (cookie domain, CORS
  allowlist). The WHATWG parser \<open>new URL\<close> is the parameter \<open>parse\<close>: \<open>None\<close> when it throws.
\<close>

record url =
  url_protocol :: string
  url_hostname :: string
  url_port :: string
  url_href :: string

section \<open>Decimal numbers\<close>

definition is_digit :: "char \<Rightarrow> bool" where
  "is_digit c = (let n = of_char c :: nat in 48 \<le> n \<and> n \<le> 57)"

definition digit_value :: "char \<Rightarrow> nat" where
  "digit_value c = of_char c - 48"

definition read_nat :: "string \<Rightarrow> nat" where
  "read_nat s = foldl (\<lambda>n c. 10 * n + digit_value c) 0 s"

lemma is_digit_char [simp]: "d < 10 \<Longrightarrow> is_digit (char_of (48 + d :: nat))"
  by (simp add: is_digit_def Let_def)

lemma digit_value_char [simp]: "d < 10 \<Longrightarrow> digit_value (char_of (48 + d :: nat)) = d"
  by (simp add: digit_value_def)

lemma show_nat_digits: "c \<in> set (show_nat n) \<Longrightarrow> is_digit c"
proof (induction n arbitrary: c rule: show_nat.induct)
  case (1 n)
  show ?case
  proof (cases "n < 10")
    case True
    with 1 show ?thesis by (simp add: show_nat.simps [of n])
  next
    case False
    with "1.prems" have "c \<in> set (show_nat (n div 10)) \<or> c = char_of (48 + n mod 10)"
      by (auto simp: show_nat.simps [of n])
    with False "1.IH" show ?thesis by auto
  qed
qed

lemma read_nat_snoc: "read_nat (s @ [c]) = 10 * read_nat s + digit_value c"
  by (simp add: read_nat_def)

lemma read_show_nat [simp]: "read_nat (show_nat n) = n"
proof (induction n rule: show_nat.induct)
  case (1 n)
  show ?case
  proof (cases "n < 10")
    case True
    then show ?thesis by (simp add: show_nat.simps [of n] read_nat_def)
  next
    case False
    with "1.IH" have "read_nat (show_nat (n div 10)) = n div 10" by simp
    moreover have "show_nat n = show_nat (n div 10) @ [char_of (48 + n mod 10)]"
      using False by (simp add: show_nat.simps [of n])
    ultimately show ?thesis by (simp add: read_nat_snoc)
  qed
qed

lemma show_nat_inject [simp]: "show_nat m = show_nat n \<longleftrightarrow> m = n"
  by (metis read_show_nat)

lemma show_nat_nonempty [simp]: "show_nat n \<noteq> []"
  by (simp add: show_nat.simps [of n])

lemma length_show_nat_le: "n < 10 ^ k \<Longrightarrow> 0 < k \<Longrightarrow> length (show_nat n) \<le> k"
proof (induction k arbitrary: n)
  case (Suc k)
  show ?case
  proof (cases "n < 10")
    case True
    then show ?thesis by (simp add: show_nat.simps [of n])
  next
    case False
    then have "0 < k" using Suc.prems by (cases k) auto
    moreover have "n div 10 < 10 ^ k" using Suc.prems by auto
    ultimately show ?thesis using False Suc.IH [of "n div 10"] by (simp add: show_nat.simps [of n])
  qed
qed simp

lemma show_nat_no_sep: "\<not> is_digit c \<Longrightarrow> c \<notin> set (show_nat n)"
  using show_nat_digits by blast

lemma not_digits [simp]: "\<not> is_digit CHR ''.''" "\<not> is_digit CHR '':''" "\<not> is_digit CHR ''[''"
  "\<not> is_digit CHR '']''" "\<not> is_digit CHR '',''" "\<not> is_digit CHR ''-''"
  by (simp_all add: is_digit_def)

section \<open>Private hosts\<close>

definition strip_brackets :: "string \<Rightarrow> string" where
  "strip_brackets h =
     (let h1 = (case h of c # t \<Rightarrow> if c = CHR ''['' then t else h | [] \<Rightarrow> [])
      in if h1 \<noteq> [] \<and> last h1 = CHR '']'' then butlast h1 else h1)"

text \<open>The four-group decimal pattern; only the first two groups are used.\<close>

definition ipv4_groups :: "string \<Rightarrow> (nat \<times> nat) option" where
  "ipv4_groups h =
     (let parts = js_split (CHR ''.'') h
      in if length parts = 4 \<and> list_all (\<lambda>p. 1 \<le> length p \<and> length p \<le> 3 \<and> list_all is_digit p) parts
         then Some (read_nat (parts ! 0), read_nat (parts ! 1)) else None)"

definition private_groups :: "nat \<Rightarrow> nat \<Rightarrow> bool" where
  "private_groups a b \<longleftrightarrow>
     a = 0 \<or> a = 10 \<or> a = 127 \<or> (a = 100 \<and> b \<ge> 64 \<and> b \<le> 127) \<or> (a = 169 \<and> b = 254) \<or>
     (a = 172 \<and> b \<ge> 16 \<and> b \<le> 31) \<or> (a = 192 \<and> b = 168)"

definition is_private_host :: "string \<Rightarrow> bool" where
  "is_private_host hostname =
     (let host = strip_brackets (js_lower hostname) in
      if CHR '':'' \<in> set host
      then host = ''::1'' \<or> host = ''::'' \<or> prefix ''fc'' host \<or> prefix ''fd'' host \<or> prefix ''fe80'' host
      else if CHR ''.'' \<notin> set host \<or> suffix ''.local'' host \<or> suffix ''.localhost'' host
              \<or> suffix ''.internal'' host
      then True
      else (case ipv4_groups host of None \<Rightarrow> False | Some (a, b) \<Rightarrow> private_groups a b))"

definition assert_deliverable_url ::
  "(string \<Rightarrow> url option) \<Rightarrow> bool option \<Rightarrow> string \<Rightarrow> http_error + url" where
  "assert_deliverable_url parse allow raw =
     (case parse raw of
        None \<Rightarrow> Inl (BadRequest ''url must be an absolute http(s) URL'')
      | Some u \<Rightarrow>
          if url_protocol u \<noteq> ''https:'' \<and> url_protocol u \<noteq> ''http:''
          then Inl (BadRequest ''url must be an absolute http(s) URL'')
          else if is_private_host (url_hostname u)
          then (if \<not> coalesce allow False
                then Inl (BadRequest (''url resolves to a private or loopback host ('' @ url_hostname u @
                  ''); set WEBHOOKS_ALLOW_PRIVATE=true to allow internal endpoints''))
                else Inr u)
          else if url_protocol u \<noteq> ''https:''
          then Inl (BadRequest ''url must use https for non-private hosts'')
          else Inr u)"

subsection \<open>Dotted quads against address blocks\<close>

definition dotted :: "nat \<Rightarrow> nat \<Rightarrow> nat \<Rightarrow> nat \<Rightarrow> string" where
  "dotted a b c d = show_nat a @ ''.'' @ show_nat b @ ''.'' @ show_nat c @ ''.'' @ show_nat d"

definition ip_value :: "nat \<Rightarrow> nat \<Rightarrow> nat \<Rightarrow> nat \<Rightarrow> nat" where
  "ip_value a b c d = ((a * 256 + b) * 256 + c) * 256 + d"

text \<open>\<open>in_block ip base len\<close>: the first \<open>len\<close> of the 32 bits of \<open>ip\<close> are those of \<open>base\<close>.\<close>

definition in_block :: "nat \<Rightarrow> nat \<Rightarrow> nat \<Rightarrow> bool" where
  "in_block ip base len \<longleftrightarrow> ip div 2 ^ (32 - len) = base div 2 ^ (32 - len)"

definition non_public_ip :: "nat \<Rightarrow> bool" where
  "non_public_ip ip \<longleftrightarrow>
     in_block ip (ip_value 0 0 0 0) 8 \<or> in_block ip (ip_value 10 0 0 0) 8 \<or>
     in_block ip (ip_value 127 0 0 0) 8 \<or> in_block ip (ip_value 100 64 0 0) 10 \<or>
     in_block ip (ip_value 169 254 0 0) 16 \<or> in_block ip (ip_value 172 16 0 0) 12 \<or>
     in_block ip (ip_value 192 168 0 0) 16"

lemma js_lower_digit: "is_digit c \<Longrightarrow> js_lower_char c = c"
  by (auto simp: js_lower_char_def is_digit_def Let_def)

lemma dotted_chars: "x \<in> set (dotted a b c d) \<Longrightarrow> is_digit x \<or> x = CHR ''.''"
  using show_nat_digits by (auto simp: dotted_def)

lemma js_lower_dotted [simp]: "js_lower (dotted a b c d) = dotted a b c d"
proof -
  have "js_lower_char x = x" if "x \<in> set (dotted a b c d)" for x
  proof (cases "x = CHR ''.''")
    case True
    then show ?thesis by (simp add: js_lower_char_def)
  next
    case False
    then show ?thesis using dotted_chars [OF that] by (simp add: js_lower_digit)
  qed
  then show ?thesis by (simp add: js_lower_def map_idI)
qed

lemma dotted_no:
  "\<not> is_digit x \<Longrightarrow> x \<noteq> CHR ''.'' \<Longrightarrow> x \<notin> set (dotted a b c d)"
  using dotted_chars by blast

lemma dotted_nonempty [simp]: "dotted a b c d \<noteq> []"
  by (simp add: dotted_def)

lemma last_dotted: "is_digit (last (dotted a b c d))"
  using show_nat_digits [OF last_in_set [OF show_nat_nonempty]] by (simp add: dotted_def)

lemma strip_brackets_dotted [simp]: "strip_brackets (dotted a b c d) = dotted a b c d"
proof -
  have "CHR ''['' \<notin> set (dotted a b c d)" "CHR '']'' \<notin> set (dotted a b c d)"
    by (simp_all add: dotted_no)
  then show ?thesis
    by (auto simp: strip_brackets_def Let_def split: list.splits dest: last_in_set)
qed

lemma suffix_last: "suffix (p @ [x]) s \<Longrightarrow> last s = x"
  by (auto simp: suffix_def)

lemma not_suffix_dotted:
  assumes "\<not> is_digit x"
  shows "\<not> suffix (p @ [x]) (dotted a b c d)"
  using assms last_dotted [of a b c d] suffix_last by metis

lemma split_dotted:
  "js_split (CHR ''.'') (dotted a b c d) = [show_nat a, show_nat b, show_nat c, show_nat d]"
  by (simp add: dotted_def js_split_append js_split_none show_nat_no_sep)

lemma ipv4_groups_dotted:
  assumes "a < 256" "b < 256" "c < 256" "d < 256"
  shows "ipv4_groups (dotted a b c d) = Some (a, b)"
proof -
  have "length (show_nat n) \<le> 3 \<and> 1 \<le> length (show_nat n)" if "n < 256" for n
    using that length_show_nat_le [of n 3] by (cases "show_nat n") auto
  moreover have "list_all is_digit (show_nat n)" for n
    by (simp add: list_all_iff show_nat_digits)
  ultimately show ?thesis
    using assms by (simp add: ipv4_groups_def split_dotted Let_def)
qed

lemma digits_inject:
  fixes a b n x y :: nat
  assumes "b < n" "y < n"
  shows "a * n + b = x * n + y \<longleftrightarrow> a = x \<and> b = y"
proof
  assume eq: "a * n + b = x * n + y"
  have "(a * n + b) div n = a" "(x * n + y) div n = x" "(a * n + b) mod n = b" "(x * n + y) mod n = y"
    using assms by simp_all
  with eq show "a = x \<and> b = y" by simp
qed simp

lemma block_10:
  fixes a b :: nat
  assumes "a < 256" "b < 256"
  shows "(a * 256 + b) div 64 = 401 \<longleftrightarrow> a = 100 \<and> 64 \<le> b \<and> b \<le> 127"
proof -
  have "(a * 256 + b) div 64 = 4 * a + b div 64" "b div 64 < 4"
    using assms by auto
  moreover have "b div 64 = 1 \<longleftrightarrow> 64 \<le> b \<and> b \<le> 127"
    by auto
  moreover have "4 * a + q = 401 \<longleftrightarrow> a = 100 \<and> q = 1" if "q < 4" for q
    using digits_inject [OF that, of 1 a 100] by (simp add: mult.commute)
  ultimately show ?thesis by metis
qed

lemma block_12:
  fixes a b :: nat
  assumes "a < 256" "b < 256"
  shows "(a * 256 + b) div 16 = 2753 \<longleftrightarrow> a = 172 \<and> 16 \<le> b \<and> b \<le> 31"
proof -
  have "(a * 256 + b) div 16 = 16 * a + b div 16" "b div 16 < 16"
    using assms by auto
  moreover have "b div 16 = 1 \<longleftrightarrow> 16 \<le> b \<and> b \<le> 31"
    by auto
  moreover have "16 * a + q = 2753 \<longleftrightarrow> a = 172 \<and> q = 1" if "q < 16" for q
    using digits_inject [OF that, of 1 a 172] by (simp add: mult.commute)
  ultimately show ?thesis by metis
qed

lemma private_groups_blocks:
  assumes "a < 256" "b < 256" "c < 256" "d < 256"
  shows "private_groups a b \<longleftrightarrow> non_public_ip (ip_value a b c d)"
proof -
  have shifts: "ip_value a b c d div 2 ^ 24 = a" "ip_value a b c d div 2 ^ 16 = a * 256 + b"
    "ip_value a b c d div 2 ^ 22 = (a * 256 + b) div 64"
    "ip_value a b c d div 2 ^ 20 = (a * 256 + b) div 16"
    using assms by (auto simp: ip_value_def)
  have bases: "ip_value 0 0 0 0 div 2 ^ 24 = 0" "ip_value 10 0 0 0 div 2 ^ 24 = 10"
    "ip_value 127 0 0 0 div 2 ^ 24 = 127" "ip_value 100 64 0 0 div 2 ^ 22 = 401"
    "ip_value 169 254 0 0 div 2 ^ 16 = 43518" "ip_value 172 16 0 0 div 2 ^ 20 = 2753"
    "ip_value 192 168 0 0 div 2 ^ 16 = 49320"
    by (simp_all add: ip_value_def)
  have sixteen: "a * 256 + b = 43518 \<longleftrightarrow> a = 169 \<and> b = 254" "a * 256 + b = 49320 \<longleftrightarrow> a = 192 \<and> b = 168"
    using digits_inject [OF assms(2), of 254 a 169] digits_inject [OF assms(2), of 168 a 192]
    by simp_all
  have "non_public_ip (ip_value a b c d) \<longleftrightarrow>
      a = 0 \<or> a = 10 \<or> a = 127 \<or> (a * 256 + b) div 64 = 401 \<or> a * 256 + b = 43518
      \<or> (a * 256 + b) div 16 = 2753 \<or> a * 256 + b = 49320"
  proof -
    have "32 - 8 = (24::nat)" "32 - 10 = (22::nat)" "32 - 16 = (16::nat)" "32 - 12 = (20::nat)"
      by simp_all
    then show ?thesis
      by (simp only: non_public_ip_def in_block_def shifts bases)
  qed
  then show ?thesis
    using block_10 [OF assms(1,2)] block_12 [OF assms(1,2)] sixteen
    by (simp add: private_groups_def)
qed

text \<open>
  C33: on a dotted-quad host the SSRF guard refuses exactly the addresses of the
  blocks 0/8, 10/8, 127/8, 100.64/10, 169.254/16, 172.16/12 and 192.168/16.
\<close>

theorem is_private_host_ipv4:
  assumes "a < 256" "b < 256" "c < 256" "d < 256"
  shows "is_private_host (dotted a b c d) \<longleftrightarrow> non_public_ip (ip_value a b c d)"
proof -
  have "CHR '':'' \<notin> set (dotted a b c d)"
    by (simp add: dotted_no)
  moreover have "CHR ''.'' \<in> set (dotted a b c d)"
    by (simp add: dotted_def)
  moreover have "\<not> suffix ''.local'' (dotted a b c d)" "\<not> suffix ''.localhost'' (dotted a b c d)"
    "\<not> suffix ''.internal'' (dotted a b c d)"
    using not_suffix_dotted [of "CHR ''l''" "''.loca''"] not_suffix_dotted [of "CHR ''t''" "''.localhos''"]
      not_suffix_dotted [of "CHR ''l''" "''.interna''"] by (auto simp: is_digit_def)
  ultimately show ?thesis
    using assms
    by (simp add: is_private_host_def Let_def ipv4_groups_dotted private_groups_blocks [OF assms])
qed

theorem is_private_host_ipv4_witness:
  "is_private_host (dotted 172 31 0 9) \<and> \<not> is_private_host (dotted 172 32 0 9)"
  using is_private_host_ipv4 [of 172 31 0 9] is_private_host_ipv4 [of 172 32 0 9]
  by (simp add: non_public_ip_def in_block_def ip_value_def)

text \<open>
  an endpoint URL is accepted exactly when it parses and is either an https URL of a
  host that is not private, or an http(s) URL of a private host in a deployment that opted in.
\<close>

theorem deliverable_url_iff:
  "assert_deliverable_url parse allow raw = Inr u \<longleftrightarrow>
     parse raw = Some u \<and>
     (if is_private_host (url_hostname u)
      then allow = Some True \<and> url_protocol u \<in> {''http:'', ''https:''}
      else url_protocol u = ''https:'')"
  by (auto simp: assert_deliverable_url_def coalesce_def split: option.splits)

text \<open>
  names that resolve to this deployment and are nevertheless treated as public: a
  single-label name or localhost written with its root dot, and the IPv4-mapped form of the
  loopback address.
\<close>

theorem private_host_gaps:
  "is_private_host ''signara-redis'' \<and> is_private_host ''localhost''
   \<and> \<not> is_private_host ''signara-redis.'' \<and> \<not> is_private_host ''localhost.''
   \<and> is_private_host ''[::1]'' \<and> \<not> is_private_host ''[::ffff:7f00:1]''"
  by code_simp

section \<open>The signature header\<close>

definition sign_webhook_payload :: "(string \<Rightarrow> string \<Rightarrow> string) \<Rightarrow> string \<Rightarrow> nat \<Rightarrow> string \<Rightarrow> string" where
  "sign_webhook_payload hmac secret timestamp body =
     (let digest = hmac secret (show_nat timestamp @ ''.'' @ body)
      in ''t='' @ show_nat timestamp @ '',v1='' @ digest)"

lemma append_sep_inject:
  assumes "c \<notin> set x" "c \<notin> set y"
  shows "x @ c # s = y @ c # t \<longleftrightarrow> x = y \<and> s = t"
  using assms
proof (induction x arbitrary: y)
  case Nil
  then show ?case by (cases y) auto
next
  case (Cons a x)
  then show ?case by (cases y) auto
qed

lemma signed_string_inject:
  "show_nat t @ ''.'' @ b = show_nat t' @ ''.'' @ b' \<longleftrightarrow> t = t' \<and> b = b'"
  by (simp add: append_sep_inject show_nat_no_sep)

text \<open>
  the header pins the delivery: with an HMAC that is injective under the secret, two
  deliveries with the same header have the same timestamp and the same body, so a captured
  header cannot be reused with another clock value or another payload.
\<close>

theorem webhook_header_binds:
  assumes "inj (hmac secret)"
    and "sign_webhook_payload hmac secret t body = sign_webhook_payload hmac secret t' body'"
  shows "t = t' \<and> body = body'"
proof -
  have "show_nat t @ '','' @ (''v1='' @ hmac secret (show_nat t @ ''.'' @ body)) =
    show_nat t' @ '','' @ (''v1='' @ hmac secret (show_nat t' @ ''.'' @ body'))"
    using assms(2) by (simp add: sign_webhook_payload_def Let_def)
  then have "hmac secret (show_nat t @ ''.'' @ body) = hmac secret (show_nat t' @ ''.'' @ body')"
    by (auto simp: append_sep_inject show_nat_no_sep)
  then have "show_nat t @ ''.'' @ body = show_nat t' @ ''.'' @ body'"
    using assms(1) by (simp only: inj_eq)
  then show ?thesis by (simp only: signed_string_inject)
qed

theorem webhook_header_binds_witness:
  "(7::nat) = 7 \<and> ''{}'' = ''{}'' \<and>
   sign_webhook_payload (\<lambda>k m. m) ''whsec'' 7 ''{}'' = ''t=7,v1=7.{}''"
  using webhook_header_binds [of "\<lambda>k m. m" "''whsec''" 7 "''{}''" 7 "''{}''"]
  by (intro conjI refl) code_simp

section \<open>Cookie domain and CORS origins (configuration.ts)\<close>

definition derive_cookie_domain :: "(string \<Rightarrow> url option) \<Rightarrow> string \<Rightarrow> string" where
  "derive_cookie_domain parse api_url =
     (case parse api_url of
        None \<Rightarrow> ''''
      | Some u \<Rightarrow>
          (let host = url_hostname u; labels = js_split (CHR ''.'') host
           in if length labels < 2 then ''''
              else if length labels = 2 then ''.'' @ host
              else ''.'' @ js_join ''.'' (tl labels)))"

definition ipv4_pattern :: "string \<Rightarrow> bool" where
  "ipv4_pattern h = (ipv4_groups h \<noteq> None)"

definition derive_apex_origin :: "(string \<Rightarrow> url option) \<Rightarrow> string \<Rightarrow> string option" where
  "derive_apex_origin parse url =
     (case parse url of
        None \<Rightarrow> None
      | Some u \<Rightarrow>
          (let host = url_hostname u
           in if ipv4_pattern host \<or> CHR '':'' \<in> set host then None
              else (let labels = js_split (CHR ''.'') host
                    in if length labels < 3 then None
                       else Some (url_protocol u @ ''//'' @ js_join ''.'' (tl labels) @
                              (if url_port u = '''' then '''' else '':'' @ url_port u)))))"

text \<open>A JavaScript \<open>Set\<close> of strings keeps its members in insertion order.\<close>

definition set_add :: "string \<Rightarrow> string list \<Rightarrow> string list" where
  "set_add x xs = (if x \<in> set xs then xs else xs @ [x])"

definition drop_slash :: "string \<Rightarrow> string" where
  "drop_slash s = (if s \<noteq> [] \<and> last s = CHR ''/'' then butlast s else s)"

definition add_origin :: "(string \<Rightarrow> url option) \<Rightarrow> string list \<Rightarrow> string \<Rightarrow> string list" where
  "add_origin parse acc entry =
     (let normalized = drop_slash (js_trim entry)
      in if normalized = '''' then acc
         else (let acc' = set_add normalized acc
               in case derive_apex_origin parse normalized of
                    None \<Rightarrow> acc' | Some apex \<Rightarrow> if apex = '''' then acc' else set_add apex acc'))"

definition add_origins :: "(string \<Rightarrow> url option) \<Rightarrow> string \<Rightarrow> string list \<Rightarrow> string list" where
  "add_origins parse url acc =
     (if url = '''' then acc else foldl (add_origin parse) acc (js_split (CHR '','') url))"

definition add_extra :: "string list \<Rightarrow> string \<Rightarrow> string list" where
  "add_extra acc origin =
     (let trimmed = drop_slash (js_trim origin) in if trimmed = '''' then acc else set_add trimmed acc)"

definition build_cors_origins ::
  "(string \<Rightarrow> url option) \<Rightarrow> string option \<Rightarrow> string \<Rightarrow> string \<Rightarrow> string list" where
  "build_cors_origins parse extra web_url app_url =
     (let o1 = add_origins parse app_url (add_origins parse web_url []);
          o2 = set_add ''http://127.0.0.1:3000'' (set_add ''http://localhost:3000'' o1);
          o3 = foldl add_extra o2 (js_split (CHR '','') (coalesce extra ''''))
      in filter (\<lambda>x. x \<noteq> '''') o3)"

lemma set_set_add [simp]: "set (set_add x xs) = insert x (set xs)"
  by (auto simp: set_add_def)

lemma distinct_set_add [simp]: "distinct xs \<Longrightarrow> distinct (set_add x xs)"
  by (simp add: set_add_def)

lemma add_origin_props:
  "set acc \<subseteq> set (add_origin parse acc entry)"
  "distinct acc \<Longrightarrow> distinct (add_origin parse acc entry)"
  by (auto simp: add_origin_def Let_def split: option.splits)

lemma add_extra_props:
  "set acc \<subseteq> set (add_extra acc entry)"
  "distinct acc \<Longrightarrow> distinct (add_extra acc entry)"
  by (auto simp: add_extra_def Let_def)

lemma foldl_grows:
  assumes "\<And>acc x. set acc \<subseteq> set (f acc x)"
  shows "set acc \<subseteq> set (foldl f acc xs)"
proof (induction xs arbitrary: acc)
  case (Cons x xs)
  show ?case using assms [of acc x] Cons [of "f acc x"] by simp
qed simp

lemma foldl_distinct:
  assumes "\<And>acc x. distinct acc \<Longrightarrow> distinct (f acc x)"
  shows "distinct acc \<Longrightarrow> distinct (foldl f acc xs)"
  by (induction xs arbitrary: acc) (auto simp: assms)

lemma foldl_member:
  assumes "\<And>acc x. set acc \<subseteq> set (f acc x)" and "x \<in> set xs" and "\<And>acc. y \<in> set (f acc x)"
  shows "y \<in> set (foldl f acc xs)"
  using assms(2)
proof (induction xs arbitrary: acc)
  case (Cons z zs)
  show ?case
  proof (cases "z = x")
    case True
    then show ?thesis
      using foldl_grows [of f "f acc x" zs, OF assms(1)] assms(3) [of acc] by auto
  next
    case False
    with Cons show ?thesis by simp
  qed
qed simp

text \<open>
  the CORS allowlist has no duplicates and no empty origin, always holds the two local
  origins, and holds every non-blank entry of CORS_ORIGINS without its final slash.
\<close>

theorem cors_origins_complete:
  "distinct (build_cors_origins parse extra web app)
   \<and> '''' \<notin> set (build_cors_origins parse extra web app)
   \<and> {''http://localhost:3000'', ''http://127.0.0.1:3000''} \<subseteq> set (build_cors_origins parse extra web app)
   \<and> {drop_slash (js_trim x) | x. x \<in> set (js_split (CHR '','') (coalesce extra ''''))} - {''''}
       \<subseteq> set (build_cors_origins parse extra web app)"
proof (intro conjI)
  let ?o1 = "add_origins parse app (add_origins parse web [])"
  let ?o2 = "set_add ''http://127.0.0.1:3000'' (set_add ''http://localhost:3000'' ?o1)"
  let ?xs = "js_split (CHR '','') (coalesce extra '''')"
  have b: "build_cors_origins parse extra web app = filter (\<lambda>x. x \<noteq> '''') (foldl add_extra ?o2 ?xs)"
    by (simp add: build_cors_origins_def Let_def)
  have d: "distinct acc \<Longrightarrow> distinct (add_origins parse u acc)" for u acc
    by (auto simp: add_origins_def intro!: foldl_distinct add_origin_props)
  show "distinct (build_cors_origins parse extra web app)"
    unfolding b by (intro distinct_filter foldl_distinct add_extra_props distinct_set_add d) auto
  show "'''' \<notin> set (build_cors_origins parse extra web app)"
    unfolding b by simp
  have "set ?o2 \<subseteq> set (foldl add_extra ?o2 ?xs)"
    by (rule foldl_grows) (rule add_extra_props)
  then show "{''http://localhost:3000'', ''http://127.0.0.1:3000''} \<subseteq> set (build_cors_origins parse extra web app)"
    unfolding b by auto
  show "{drop_slash (js_trim x) | x. x \<in> set ?xs} - {''''} \<subseteq> set (build_cors_origins parse extra web app)"
  proof
    fix y assume "y \<in> {drop_slash (js_trim x) | x. x \<in> set ?xs} - {''''}"
    then obtain x where x: "x \<in> set ?xs" "y = drop_slash (js_trim x)" "y \<noteq> ''''"
      by auto
    have "y \<in> set (add_extra acc x)" for acc
      using x by (simp add: add_extra_def Let_def)
    then show "y \<in> set (build_cors_origins parse extra web app)"
      unfolding b using foldl_member [of add_extra x ?xs y ?o2] add_extra_props(1) x by auto
  qed
qed

text \<open>
  for an API served from an IPv4 address the derived cookie domain is not empty: it is
  the tail of the address, which is no domain.
\<close>

theorem cookie_domain_of_ip:
  "derive_cookie_domain (\<lambda>_. Some \<lparr>url_protocol = ''http:'', url_hostname = dotted a b c d,
     url_port = '''', url_href = r\<rparr>) r =
   ''.'' @ show_nat b @ ''.'' @ show_nat c @ ''.'' @ show_nat d"
  by (simp add: derive_cookie_domain_def split_dotted)

end
