(* ===== verification/Notifications.thy ===== *)
theory Notifications
  imports Schema
begin

text \<open>
  apps/api/src/modules/notifications/notifications.service.ts (create, list, mark as read)
  and apps/api/src/modules/jobs/notification.processor.ts (the worker that mails a queued
  notification). The mail transport is the parameter \<open>mail\<close>: it returns whether SMTP is
  configured, or the error message it threw.
\<close>

section \<open>notifications.service.ts\<close>

record notification_input =
  ni_user :: id
  ni_org :: "id option"
  ni_type :: string
  ni_title :: string
  ni_body :: "string option"
  ni_channel :: "channel option"
  ni_meta :: "json option"
  ni_send_email :: bool

definition create_notification :: "notification_input \<Rightarrow> db \<Rightarrow> db" where
  "create_notification inp s =
     (let n = \<lparr>n_id = next_id s, n_user = ni_user inp, n_org = ni_org inp, n_type = ni_type inp,
               n_channel = coalesce (ni_channel inp) ChInApp, n_title = ni_title inp,
               n_body = ni_body inp, n_meta = ni_meta inp, n_status = NQueued, n_read = None,
               n_sent = None, n_delivered = None, n_error = None\<rparr>;
          s1 = s\<lparr>next_id := next_id s + 1, notifications := notifications s @ [n]\<rparr>
      in if ni_send_email inp
         then s1\<lparr>notification_queue := notification_queue s1 @ [n_id n]\<rparr> else s1)"

record notification_page =
  np_total :: nat
  np_unread :: nat
  np_items :: "notification_row list"

definition list_notifications ::
  "auth_user \<Rightarrow> bool \<Rightarrow> nat option \<Rightarrow> nat option \<Rightarrow> db \<Rightarrow> notification_page" where
  "list_notifications u unread_only limit offset s =
     (let mine = filter (\<lambda>n. Some (n_user n) = au_id u) (notifications s);
          unread = filter (\<lambda>n. n_read n = None) mine;
          sel = (if unread_only then unread else mine)
      in \<lparr>np_total = length sel, np_unread = length unread,
          np_items = page (coalesce offset 0) (min (coalesce limit 25) 100) (rev sel)\<rparr>)"

definition mark_read :: "env \<Rightarrow> auth_user \<Rightarrow> id \<Rightarrow> db \<Rightarrow> (unit, db) res" where
  "mark_read e u i s =
     (case find (\<lambda>n. n_id n = i \<and> Some (n_user n) = au_id u) (notifications s) of
        None \<Rightarrow> fail (Forbidden ''Notification not found'') s
      | Some n \<Rightarrow> ok () (s\<lparr>notifications :=
          update_row n_id i (\<lambda>n. n\<lparr>n_read := Some (e_now e)\<rparr>) (notifications s)\<rparr>))"

definition mark_all_read :: "env \<Rightarrow> auth_user \<Rightarrow> db \<Rightarrow> (unit, db) res" where
  "mark_all_read e u s =
     ok () (s\<lparr>notifications := update_many (\<lambda>n. Some (n_user n) = au_id u \<and> n_read n = None)
                (\<lambda>n. n\<lparr>n_read := Some (e_now e)\<rparr>) (notifications s)\<rparr>)"

section \<open>notification.processor.ts\<close>

datatype mail_result = MailSent | MailSkipped | MailError string

definition set_notification :: "id \<Rightarrow> (notification_row \<Rightarrow> notification_row) \<Rightarrow> db \<Rightarrow> db" where
  "set_notification i f s = s\<lparr>notifications := update_row n_id i f (notifications s)\<rparr>"

text \<open>
  \<open>process_notification e mail i to s\<close> is one run of the job. A thrown mail error is
  recorded and rethrown, so that the queue retries the job.
\<close>

definition process_notification ::
  "env \<Rightarrow> (string \<Rightarrow> string \<Rightarrow> string option \<Rightarrow> mail_result) \<Rightarrow> id \<Rightarrow> string option \<Rightarrow> db
   \<Rightarrow> (unit, db) res" where
  "process_notification e mail i to s =
     (case find_row n_id i (notifications s) of
        None \<Rightarrow> ok () s
      | Some n \<Rightarrow>
        (case coalesce_opt to (map_option u_email (find_row u_id (n_user n) (users s))) of
           None \<Rightarrow> ok () (set_notification i
             (\<lambda>n. n\<lparr>n_status := NFailed, n_error := Some ''No recipient email available''\<rparr>) s)
         | Some recipient \<Rightarrow>
           if recipient = '''' then ok () (set_notification i
             (\<lambda>n. n\<lparr>n_status := NFailed, n_error := Some ''No recipient email available''\<rparr>) s)
           else
             (let s1 = set_notification i
                         (\<lambda>n. n\<lparr>n_status := NSent, n_sent := Some (e_now e)\<rparr>) s
              in case mail recipient (n_title n) (n_body n) of
                   MailError msg \<Rightarrow> fail (InternalError msg) (set_notification i
                     (\<lambda>n. n\<lparr>n_status := NFailed, n_error := Some msg\<rparr>) s1)
                 | _ \<Rightarrow> ok () (set_notification i
                     (\<lambda>n. n\<lparr>n_status := NDelivered, n_delivered := Some (e_now e)\<rparr>) s1))))"

section \<open>Lemmas\<close>

lemma create_notification_frame [frame]:
  "users (create_notification i s) = users s"
  "orgs (create_notification i s) = orgs s"
  "memberships (create_notification i s) = memberships s"
  "roles (create_notification i s) = roles s"
  "endpoints (create_notification i s) = endpoints s"
  "deliveries (create_notification i s) = deliveries s"
  "webhook_queue (create_notification i s) = webhook_queue s"
  "requests (create_notification i s) = requests s"
  "signers (create_notification i s) = signers s"
  by (simp_all add: create_notification_def Let_def)

lemma notifications_create:
  "\<exists>n. notifications (create_notification i s) = notifications s @ [n] \<and>
       n_user n = ni_user i \<and> n_org n = ni_org i \<and> n_type n = ni_type i \<and> n_status n = NQueued"
  by (simp add: create_notification_def Let_def)

lemma set_notification_find:
  "(\<And>n. n_id (f n) = n_id n) \<Longrightarrow>
   find_row n_id j (notifications (set_notification i f s)) =
     (if i = j then map_option f (find_row n_id j (notifications s))
      else find_row n_id j (notifications s))"
  by (simp add: set_notification_def find_row_update_row)

text \<open>
  a run of the worker for an existing notification whose recipient is known ends in
  DELIVERED exactly when the transport did not throw; in particular it is DELIVERED when
  SMTP is not configured and no mail was sent. A thrown error leaves FAILED and rethrows.
\<close>

theorem process_notification_outcome:
  assumes "find_row n_id i (notifications s) = Some n"
    and "find_row u_id (n_user n) (users s) = Some usr" and "u_email usr \<noteq> ''''"
  shows "map_option n_status
           (find_row n_id i (notifications (snd (process_notification e mail i None s)))) =
         Some (case mail (u_email usr) (n_title n) (n_body n) of
                 MailError _ \<Rightarrow> NFailed | _ \<Rightarrow> NDelivered)
    \<and> (succeeds (process_notification e mail i None s) \<longleftrightarrow>
        (\<forall>msg. mail (u_email usr) (n_title n) (n_body n) \<noteq> MailError msg))"
  using assms
  by (auto simp: process_notification_def Let_def set_notification_find split: mail_result.splits)

definition sample_notification :: notification_row where
  "sample_notification = \<lparr>n_id = 7, n_user = 5, n_org = None, n_type = ''t'', n_channel = ChEmail,
     n_title = ''Hi'', n_body = None, n_meta = None, n_status = NQueued, n_read = None,
     n_sent = None, n_delivered = None, n_error = None\<rparr>"

theorem process_notification_outcome_witness:
  "map_option n_status (find_row n_id 7 (notifications (snd (process_notification
     sample_env (\<lambda>_ _ _. MailSkipped) 7 None
     (empty_db\<lparr>users := [sample_user], notifications := [sample_notification]\<rparr>))))) =
   Some NDelivered"
  using process_notification_outcome [of 7 "empty_db\<lparr>users := [sample_user],
      notifications := [sample_notification]\<rparr>" sample_notification sample_user
      "sample_env" "\<lambda>_ _ _. MailSkipped"]
  by (simp add: empty_db_def sample_user_def sample_notification_def)

end
