(* ===== verification/Webhooks.thy ===== *)
theory Webhooks
  imports Net Notifications
begin

text \<open>
  apps/api/src/modules/webhooks/webhooks.service.ts: registration of endpoints, fan-out of
  events to delivery rows and queue jobs, one delivery attempt, the health summary and the
  sweep that disables dead endpoints; webhook.processor.ts: the queue worker.
  The HTTP transport is the parameter \<open>http\<close> and \<open>JSON.stringify\<close> the parameter
  \<open>stringify\<close>.
\<close>

section \<open>Events\<close>

definition webhook_events :: "string list" where
  "webhook_events = [''request.created'', ''request.sent'', ''request.viewed'', ''request.signed'',
     ''request.completed'', ''request.declined'', ''request.cancelled'', ''request.expired'',
     ''request.reminded'', ''ping'']"

definition resolve_events :: "string list option \<Rightarrow> http_error + string list" where
  "resolve_events evs =
     (case evs of
        None \<Rightarrow> Inr [''*'']
      | Some es \<Rightarrow>
          if es = [] then Inr [''*'']
          else (let unknown = filter (\<lambda>x. x \<notin> set webhook_events) es
                in if unknown \<noteq> [] then Inl (BadRequest (''unknown event(s): '' @ js_join '', '' unknown))
                   else Inr (foldl (\<lambda>acc x. set_add x acc) [] es)))"

section \<open>Registration\<close>

definition create_endpoint ::
  "env \<Rightarrow> (string \<Rightarrow> url option) \<Rightarrow> auth_user \<Rightarrow> string \<Rightarrow> string list option \<Rightarrow> string option \<Rightarrow> db
   \<Rightarrow> (endpoint_row, db) res" where
  "create_endpoint e parse u raw evs descr s =
     (case org_of u of
        None \<Rightarrow> fail (Forbidden ''No active tenant'') s
      | Some org \<Rightarrow>
        (case assert_deliverable_url parse (e_allow_private e) raw of
           Inl err \<Rightarrow> fail err s
         | Inr url \<Rightarrow>
           (case resolve_events evs of
              Inl err \<Rightarrow> fail err s
            | Inr es \<Rightarrow>
              (let row = \<lparr>wh_id = next_id s, wh_org = org, wh_url = url_href url, wh_events = es,
                          wh_description = descr, wh_active = True, wh_disabled = None,
                          wh_secret = ''whsec_'' @ e_rand e 0, wh_created = e_now e\<rparr>
               in ok row (s\<lparr>next_id := next_id s + 1, endpoints := endpoints s @ [row]\<rparr>)))))"

section \<open>Health\<close>

datatype health_status = Healthy | Failing | Disabled

record health =
  he_status :: health_status
  he_failures :: nat
  he_last_success :: "time option"
  he_last_failure :: "time option"
  he_last_error :: "string option"
  he_reason :: "string option"

definition last_success :: "id \<Rightarrow> db \<Rightarrow> time option" where
  "last_success i s =
     (case find_max (\<lambda>d. desc_key (dl_delivered d))
             (filter (\<lambda>d. dl_endpoint d = i \<and> dl_status d = DlDelivered) (deliveries s)) of
        None \<Rightarrow> None | Some d \<Rightarrow> dl_delivered d)"

definition last_failure_row :: "id \<Rightarrow> db \<Rightarrow> delivery_row option" where
  "last_failure_row i s =
     find_max (\<lambda>d. desc_key (dl_last_attempt d))
       (filter (\<lambda>d. dl_endpoint d = i \<and> dl_status d = DlFailed) (deliveries s))"

definition failed_since :: "id \<Rightarrow> time \<Rightarrow> delivery_row \<Rightarrow> bool" where
  "failed_since i since d \<longleftrightarrow> dl_endpoint d = i \<and> dl_status d = DlFailed \<and>
     (case dl_last_attempt d of Some t \<Rightarrow> since < t | None \<Rightarrow> since < dl_created d)"

definition failures_since :: "id \<Rightarrow> time \<Rightarrow> db \<Rightarrow> nat" where
  "failures_since i since s = count_rows (failed_since i since) (deliveries s)"

text \<open>\<open>Math.round\<close> of a quotient of milliseconds by a day, at least 1.\<close>

definition whole_days :: "time \<Rightarrow> time \<Rightarrow> nat" where
  "whole_days now since = nat (max 1 ((2 * (now - since) + day_ms) div (2 * day_ms)))"

definition describe_disable_reason :: "time \<Rightarrow> nat \<Rightarrow> string option \<Rightarrow> time \<Rightarrow> string" where
  "describe_disable_reason since failures last_error now =
     (let days = whole_days now since;
          window = (if failures > 0
            then show_nat failures @ '' failed delivery attempt(s) in '' @ show_nat days @ '' day(s)''
            else ''no successful delivery in '' @ show_nat days @ '' day(s)'')
      in window
         @ (case last_error of None \<Rightarrow> ''''
            | Some m \<Rightarrow> if m = '''' then '''' else '' - last error: '' @ m)
         @ ''. Re-enable once the subscriber is fixed.'')"

definition describe_health :: "endpoint_row \<Rightarrow> time \<Rightarrow> db \<Rightarrow> health" where
  "describe_health ep now s =
     (let last_success_at = last_success (wh_id ep) s;
          since = coalesce last_success_at (wh_created ep);
          failures = failures_since (wh_id ep) since s;
          last_failure = last_failure_row (wh_id ep) s;
          last_failure_at = Option.bind last_failure dl_last_attempt;
          last_error = Option.bind last_failure dl_error;
          failing = (failures > 0 \<and>
            (case last_success_at of None \<Rightarrow> True
             | Some t \<Rightarrow> (case last_failure_at of None \<Rightarrow> False | Some f \<Rightarrow> t < f)));
          status = (if \<not> wh_active ep then Disabled else if failing then Failing else Healthy)
      in \<lparr>he_status = status, he_failures = failures, he_last_success = last_success_at,
          he_last_failure = last_failure_at, he_last_error = last_error,
          he_reason = (if status = Disabled
                       then Some (describe_disable_reason since failures last_error now) else None)\<rparr>)"

definition list_endpoints ::
  "env \<Rightarrow> auth_user \<Rightarrow> db \<Rightarrow> ((endpoint_row \<times> health) list, db) res" where
  "list_endpoints e u s =
     (case org_of u of
        None \<Rightarrow> fail (Forbidden ''No active tenant'') s
      | Some org \<Rightarrow>
          ok (map (\<lambda>ep. (ep, describe_health ep (e_now e) s))
                (rev (filter (\<lambda>ep. wh_org ep = org) (endpoints s)))) s)"

definition find_endpoint :: "id \<Rightarrow> id \<Rightarrow> db \<Rightarrow> endpoint_row option" where
  "find_endpoint org i s = find (\<lambda>ep. wh_id ep = i \<and> wh_org ep = org) (endpoints s)"

definition remove_endpoint :: "auth_user \<Rightarrow> id \<Rightarrow> db \<Rightarrow> (unit, db) res" where
  "remove_endpoint u i s =
     (case org_of u of
        None \<Rightarrow> fail (Forbidden ''No active tenant'') s
      | Some org \<Rightarrow>
        (case find_endpoint org i s of
           None \<Rightarrow> fail (NotFound ''Webhook endpoint not found'') s
         | Some ep \<Rightarrow>
             ok () (s\<lparr>endpoints := delete_many (\<lambda>ep. wh_id ep = i) (endpoints s),
                      deliveries := delete_many (\<lambda>d. dl_endpoint d = i) (deliveries s)\<rparr>)))"

definition list_deliveries :: "auth_user \<Rightarrow> id option \<Rightarrow> db \<Rightarrow> (delivery_row list, db) res" where
  "list_deliveries u endpoint s =
     (case org_of u of
        None \<Rightarrow> fail (Forbidden ''No active tenant'') s
      | Some org \<Rightarrow>
          ok (take 50 (rev (filter (\<lambda>d. dl_org d = org \<and>
                (case endpoint of None \<Rightarrow> True | Some i \<Rightarrow> dl_endpoint d = i)) (deliveries s)))) s)"

section \<open>Fan-out\<close>

text \<open>
  The job id \<open>delivery-<id>\<close> makes BullMQ ignore a second job for the same delivery row.
\<close>

definition enqueue_delivery :: "env \<Rightarrow> endpoint_row \<Rightarrow> string \<Rightarrow> json \<Rightarrow> db \<Rightarrow> delivery_row \<times> db" where
  "enqueue_delivery e ep event payload s =
     (let d = \<lparr>dl_id = next_id s, dl_endpoint = wh_id ep, dl_org = wh_org ep, dl_event = event,
               dl_payload = payload, dl_status = DlPending, dl_attempts = 0, dl_response = None,
               dl_error = None, dl_created = e_now e, dl_last_attempt = None, dl_delivered = None\<rparr>
      in (d, s\<lparr>next_id := next_id s + 1, deliveries := deliveries s @ [d],
               webhook_queue := (if dl_id d \<in> set (webhook_queue s) then webhook_queue s
                                 else webhook_queue s @ [dl_id d])\<rparr>))"

definition subscribed :: "id \<Rightarrow> string \<Rightarrow> endpoint_row \<Rightarrow> bool" where
  "subscribed org event ep \<longleftrightarrow>
     wh_org ep = org \<and> wh_active ep \<and> (event \<in> set (wh_events ep) \<or> ''*'' \<in> set (wh_events ep))"

definition emit_payload :: "env \<Rightarrow> string \<Rightarrow> id \<Rightarrow> id option \<Rightarrow> obj \<Rightarrow> json" where
  "emit_payload e event org request payload =
     JObj (spread ([(''event'', JStr event), (''organizationId'', JId org)]
                   @ (case request of None \<Rightarrow> [] | Some r \<Rightarrow> [(''requestId'', JId r)])
                   @ [(''createdAt'', JDate (e_now e))]) payload)"

fun enqueue_all :: "env \<Rightarrow> endpoint_row list \<Rightarrow> string \<Rightarrow> json \<Rightarrow> db \<Rightarrow> db" where
  "enqueue_all e [] event payload s = s"
| "enqueue_all e (ep # eps) event payload s =
     enqueue_all e eps event payload (snd (enqueue_delivery e ep event payload s))"

definition emit :: "env \<Rightarrow> string \<Rightarrow> id \<Rightarrow> id option \<Rightarrow> obj \<Rightarrow> db \<Rightarrow> nat \<times> db" where
  "emit e event org request payload s =
     (let eps = filter (subscribed org event) (endpoints s)
      in if eps = [] then (0, s)
         else (length eps, enqueue_all e eps event (emit_payload e event org request payload) s))"

definition ping :: "env \<Rightarrow> auth_user \<Rightarrow> id \<Rightarrow> db \<Rightarrow> (id, db) res" where
  "ping e u i s =
     (case org_of u of
        None \<Rightarrow> fail (Forbidden ''No active tenant'') s
      | Some org \<Rightarrow>
        (case find_endpoint org i s of
           None \<Rightarrow> fail (NotFound ''Webhook endpoint not found'') s
         | Some ep \<Rightarrow>
             (let (d, s') = enqueue_delivery e ep ''ping''
                    (JObj [(''event'', JStr ''ping''), (''organizationId'', JId org),
                           (''createdAt'', JDate (e_now e))]) s
              in ok (dl_id d) s')))"

section \<open>Enabling, disabling, the sweep\<close>

definition update_endpoint :: "id \<Rightarrow> (endpoint_row \<Rightarrow> endpoint_row) \<Rightarrow> db \<Rightarrow> db" where
  "update_endpoint i f s = s\<lparr>endpoints := update_row wh_id i f (endpoints s)\<rparr>"

definition set_active :: "env \<Rightarrow> auth_user \<Rightarrow> id \<Rightarrow> bool \<Rightarrow> db \<Rightarrow> (health, db) res" where
  "set_active e u i active s =
     (case org_of u of
        None \<Rightarrow> fail (Forbidden ''No active tenant'') s
      | Some org \<Rightarrow>
        (case find_endpoint org i s of
           None \<Rightarrow> fail (NotFound ''Webhook endpoint not found'') s
         | Some ep \<Rightarrow>
             (let upd = (\<lambda>ep. ep\<lparr>wh_active := active,
                                 wh_disabled := (if active then None else Some (e_now e))\<rparr>);
                  s' = update_endpoint i upd s
              in ok (describe_health (upd ep) (e_now e) s') s')))"

definition can_be_told :: "endpoint_row \<Rightarrow> db \<Rightarrow> membership_row \<Rightarrow> bool" where
  "can_be_told ep s m \<longleftrightarrow>
     m_org m = wh_org ep \<and>
     (case find_row u_id (m_user m) (users s) of
        None \<Rightarrow> False | Some usr \<Rightarrow> u_status usr = UserActive \<and> u_deleted usr = None) \<and>
     (m_role m \<in> {OWNER, ADMIN} \<or>
      (case m_role_id m of
         None \<Rightarrow> False
       | Some r \<Rightarrow> (case find_row ro_id r (roles s) of
           None \<Rightarrow> False | Some ro \<Rightarrow> ''webhooks.manage'' \<in> set (ro_permissions ro))))"

definition disabled_notice :: "endpoint_row \<Rightarrow> nat \<Rightarrow> nat \<Rightarrow> time \<Rightarrow> id \<Rightarrow> notification_input" where
  "disabled_notice ep failures days now user =
     \<lparr>ni_user = user, ni_org = Some (wh_org ep), ni_type = ''webhook.endpoint_disabled'',
      ni_title = ''Webhook endpoint disabled after repeated failures'',
      ni_body = Some (wh_url ep @ '' has not delivered successfully in '' @ show_nat days
        @ '' day(s) and failed '' @ show_nat failures
        @ '' time(s) since then, so it was disabled to stop the retries. ''
        @ ''Re-enable it from the webhooks settings once the subscriber is fixed.''),
      ni_channel = None,
      ni_meta = Some (JObj [(''endpointId'', JId (wh_id ep)), (''url'', JStr (wh_url ep)),
        (''failures'', JNum (int failures)), (''days'', JNum (int days)),
        (''disabledAt'', JDate now)]),
      ni_send_email = False\<rparr>"

definition notify_disabled :: "endpoint_row \<Rightarrow> nat \<Rightarrow> time \<Rightarrow> time \<Rightarrow> db \<Rightarrow> nat \<times> db" where
  "notify_disabled ep failures since now s =
     (let recipients = filter (can_be_told ep s) (memberships s);
          days = whole_days now since
      in (length recipients,
          foldl (\<lambda>st m. create_notification (disabled_notice ep failures days now (m_user m)) st)
            s recipients))"

record disabled_entry =
  de_id :: id
  de_org :: id
  de_url :: string
  de_failures :: nat
  de_since :: time
  de_notified :: nat

definition endpoint_since :: "endpoint_row \<Rightarrow> db \<Rightarrow> time" where
  "endpoint_since ep s = coalesce (last_success (wh_id ep) s) (wh_created ep)"

definition unhealthy :: "env \<Rightarrow> time \<Rightarrow> endpoint_row \<Rightarrow> db \<Rightarrow> bool" where
  "unhealthy e now ep s \<longleftrightarrow>
     \<not> now - endpoint_since ep s < coalesce (e_disable_after_days e) 14 * day_ms \<and>
     \<not> failures_since (wh_id ep) (endpoint_since ep s) s < coalesce (e_disable_min_failures e) 5"

definition sweep_one :: "env \<Rightarrow> time \<Rightarrow> endpoint_row \<Rightarrow> db \<Rightarrow> disabled_entry list \<times> db" where
  "sweep_one e now ep s =
     (if unhealthy e now ep s
      then (let since = endpoint_since ep s;
                failures = failures_since (wh_id ep) since s;
                s1 = update_endpoint (wh_id ep)
                       (\<lambda>r. r\<lparr>wh_active := False, wh_disabled := Some now\<rparr>) s;
                (notified, s2) = notify_disabled ep failures since now s1
            in ([\<lparr>de_id = wh_id ep, de_org = wh_org ep, de_url = wh_url ep, de_failures = failures,
                  de_since = since, de_notified = notified\<rparr>], s2))
      else ([], s))"

fun sweep_all :: "env \<Rightarrow> time \<Rightarrow> endpoint_row list \<Rightarrow> db \<Rightarrow> disabled_entry list \<times> db" where
  "sweep_all e now [] s = ([], s)"
| "sweep_all e now (ep # eps) s =
     (let (xs, s1) = sweep_one e now ep s; (ys, s2) = sweep_all e now eps s1 in (xs @ ys, s2))"

definition sweep_unhealthy_endpoints :: "env \<Rightarrow> time \<Rightarrow> db \<Rightarrow> (nat \<times> disabled_entry list) \<times> db" where
  "sweep_unhealthy_endpoints e now s =
     (let eps = filter wh_active (endpoints s); (ds, s') = sweep_all e now eps s
      in ((length eps, ds), s'))"

section \<open>One delivery attempt\<close>

record http_request =
  hr_url :: string
  hr_event :: string
  hr_delivery :: id
  hr_signature :: string
  hr_body :: string

datatype http_outcome = HttpResponse nat | HttpFailure string

definition response_ok :: "nat \<Rightarrow> bool" where
  "response_ok status \<longleftrightarrow> 200 \<le> status \<and> status \<le> 299"

definition update_delivery :: "id \<Rightarrow> (delivery_row \<Rightarrow> delivery_row) \<Rightarrow> db \<Rightarrow> db" where
  "update_delivery i f s = s\<lparr>deliveries := update_row dl_id i f (deliveries s)\<rparr>"

definition delivery_request ::
  "env \<Rightarrow> (string \<Rightarrow> string \<Rightarrow> string) \<Rightarrow> (json \<Rightarrow> string) \<Rightarrow> endpoint_row \<Rightarrow> delivery_row \<Rightarrow> http_request" where
  "delivery_request e hmac stringify ep d =
     (let body = stringify (dl_payload d); timestamp = nat (e_now e div 1000)
      in \<lparr>hr_url = wh_url ep, hr_event = dl_event d, hr_delivery = dl_id d,
          hr_signature = sign_webhook_payload hmac (wh_secret ep) timestamp body, hr_body = body\<rparr>)"

text \<open>
  \<open>deliver\<close> throws (so that the queue retries) after it has recorded a non-2xx response or a
  transport error. The first component says what was sent, if anything.
\<close>

definition deliver ::
  "env \<Rightarrow> (string \<Rightarrow> string \<Rightarrow> string) \<Rightarrow> (json \<Rightarrow> string) \<Rightarrow> (http_request \<Rightarrow> http_outcome) \<Rightarrow> id \<Rightarrow> db
   \<Rightarrow> http_request option \<times> (unit, db) res" where
  "deliver e hmac stringify http i s =
     (case find_row dl_id i (deliveries s) of
        None \<Rightarrow> (None, ok () s)
      | Some d \<Rightarrow>
        (case find_row wh_id (dl_endpoint d) (endpoints s) of
           None \<Rightarrow> (None, ok () s)
         | Some ep \<Rightarrow>
           (let attempts = dl_attempts d + 1 in
            if \<not> wh_active ep
            then (None, ok () (update_delivery i (\<lambda>d. d\<lparr>dl_status := DlFailed, dl_attempts := attempts,
                    dl_error := Some ''endpoint disabled'', dl_last_attempt := Some (e_now e)\<rparr>) s))
            else
              (let req = delivery_request e hmac stringify ep d in
               case http req of
                 HttpResponse status \<Rightarrow>
                   if response_ok status
                   then (Some req, ok () (update_delivery i (\<lambda>d. d\<lparr>dl_status := DlDelivered,
                           dl_attempts := attempts, dl_response := Some status, dl_error := None,
                           dl_last_attempt := Some (e_now e), dl_delivered := Some (e_now e)\<rparr>) s))
                   else (Some req, fail (InternalError (''Webhook endpoint returned HTTP '' @ show_nat status))
                           (update_delivery i (\<lambda>d. d\<lparr>dl_status := DlFailed, dl_attempts := attempts,
                              dl_response := Some status, dl_error := Some (''HTTP '' @ show_nat status),
                              dl_last_attempt := Some (e_now e)\<rparr>) s))
               | HttpFailure message \<Rightarrow>
                   if prefix ''Webhook endpoint returned HTTP'' message
                   then (Some req, fail (InternalError message) s)
                   else (Some req, fail (InternalError message)
                           (update_delivery i (\<lambda>d. d\<lparr>dl_status := DlFailed, dl_attempts := attempts,
                              dl_error := Some message, dl_last_attempt := Some (e_now e)\<rparr>) s))))))"

text \<open>
  webhook.processor.ts with the default job options of queue.module.ts: the queue runs a
  delivery job again while it throws, five attempts in all. Each attempt sees its own
  clock and its own answer of the subscriber.
\<close>

definition max_attempts :: nat where
  "max_attempts = 5"

fun run_delivery_job ::
  "nat \<Rightarrow> (nat \<Rightarrow> env) \<Rightarrow> (string \<Rightarrow> string \<Rightarrow> string) \<Rightarrow> (json \<Rightarrow> string)
   \<Rightarrow> (nat \<Rightarrow> http_request \<Rightarrow> http_outcome) \<Rightarrow> id \<Rightarrow> db \<Rightarrow> nat \<times> (unit, db) res" where
  "run_delivery_job 0 es hmac stringify http i s = (0, fail (InternalError ''attempts exhausted'') s)"
| "run_delivery_job (Suc n) es hmac stringify http i s =
     (case snd (deliver (es n) hmac stringify (http n) i s) of
        (Inr _, s') \<Rightarrow> (1, ok () s')
      | (Inl err, s') \<Rightarrow>
          if n = 0 then (1, fail err s')
          else (let (k, r) = run_delivery_job n es hmac stringify http i s' in (Suc k, r)))"

section \<open>Properties of the fan-out\<close>

lemma enqueue_delivery_frame [frame]:
  "endpoints (snd (enqueue_delivery e ep ev pl s)) = endpoints s"
  "requests (snd (enqueue_delivery e ep ev pl s)) = requests s"
  "signers (snd (enqueue_delivery e ep ev pl s)) = signers s"
  by (simp_all add: enqueue_delivery_def Let_def)

lemma enqueue_delivery_effect:
  "deliveries (snd (enqueue_delivery e ep ev pl s)) = deliveries s @ [fst (enqueue_delivery e ep ev pl s)]"
  "set (webhook_queue (snd (enqueue_delivery e ep ev pl s))) =
     insert (dl_id (fst (enqueue_delivery e ep ev pl s))) (set (webhook_queue s))"
  "dl_endpoint (fst (enqueue_delivery e ep ev pl s)) = wh_id ep"
  "dl_org (fst (enqueue_delivery e ep ev pl s)) = wh_org ep"
  "dl_event (fst (enqueue_delivery e ep ev pl s)) = ev"
  "dl_payload (fst (enqueue_delivery e ep ev pl s)) = pl"
  "dl_status (fst (enqueue_delivery e ep ev pl s)) = DlPending"
  by (auto simp: enqueue_delivery_def Let_def)

lemma enqueue_all_effect:
  "\<exists>ds. deliveries (enqueue_all e eps ev pl s) = deliveries s @ ds
     \<and> map dl_endpoint ds = map wh_id eps \<and> map dl_org ds = map wh_org eps
     \<and> list_all (\<lambda>d. dl_event d = ev \<and> dl_payload d = pl \<and> dl_status d = DlPending) ds
     \<and> set (webhook_queue (enqueue_all e eps ev pl s)) = set (webhook_queue s) \<union> set (map dl_id ds)"
proof (induction eps arbitrary: s)
  case (Cons ep eps)
  let ?d = "fst (enqueue_delivery e ep ev pl s)" and ?s = "snd (enqueue_delivery e ep ev pl s)"
  obtain ds where "deliveries (enqueue_all e eps ev pl ?s) = deliveries ?s @ ds"
    "map dl_endpoint ds = map wh_id eps" "map dl_org ds = map wh_org eps"
    "list_all (\<lambda>d. dl_event d = ev \<and> dl_payload d = pl \<and> dl_status d = DlPending) ds"
    "set (webhook_queue (enqueue_all e eps ev pl ?s)) = set (webhook_queue ?s) \<union> set (map dl_id ds)"
    using Cons [of ?s] by blast
  then show ?case
    by (intro exI [of _ "?d # ds"]) (simp add: enqueue_delivery_effect)
qed simp

text \<open>
  an event is fanned out to exactly the active endpoints of its organization that
  subscribe to it (or to everything), in order: one PENDING delivery row each, carrying the
  organization of the event, and a queue job for every new row. The number of endpoints is
  returned, and no endpoint of another organization receives a row.
\<close>

theorem emit_fan_out:
  "\<exists>ds. deliveries (snd (emit e ev org rq pl s)) = deliveries s @ ds
     \<and> map dl_endpoint ds = map wh_id (filter (subscribed org ev) (endpoints s))
     \<and> list_all (\<lambda>d. dl_org d = org \<and> dl_event d = ev \<and> dl_status d = DlPending) ds
     \<and> fst (emit e ev org rq pl s) = length ds
     \<and> set (webhook_queue (snd (emit e ev org rq pl s))) = set (webhook_queue s) \<union> set (map dl_id ds)
     \<and> endpoints (snd (emit e ev org rq pl s)) = endpoints s"
proof -
  let ?eps = "filter (subscribed org ev) (endpoints s)"
  let ?pl = "emit_payload e ev org rq pl"
  have ep: "endpoints (enqueue_all e eps ev q t) = endpoints t" for eps q t
    by (induction eps arbitrary: t) (simp_all add: frame)
  obtain ds where ds: "deliveries (enqueue_all e ?eps ev ?pl s) = deliveries s @ ds"
    "map dl_endpoint ds = map wh_id ?eps" "map dl_org ds = map wh_org ?eps"
    "list_all (\<lambda>d. dl_event d = ev \<and> dl_payload d = ?pl \<and> dl_status d = DlPending) ds"
    "set (webhook_queue (enqueue_all e ?eps ev ?pl s)) = set (webhook_queue s) \<union> set (map dl_id ds)"
    using enqueue_all_effect [of e ?eps ev ?pl s] by blast
  have len: "length ds = length ?eps"
    using ds(2) map_eq_imp_length_eq by blast
  have "set (map dl_org ds) \<subseteq> {org}"
    unfolding ds(3) by (auto simp: subscribed_def)
  then have "list_all (\<lambda>d. dl_org d = org \<and> dl_event d = ev \<and> dl_status d = DlPending) ds"
    using ds(4) by (auto simp: list_all_iff)
  with ds len show ?thesis
    by (intro exI [of _ ds]) (auto simp: emit_def Let_def ep)
qed

section \<open>Properties of the sweep\<close>

text \<open>A sweep only reads the delivery rows, so one endpoint's verdict does not change another's.\<close>

lemma health_depends_on_deliveries:
  assumes "deliveries t = deliveries s"
  shows "unhealthy e now ep t = unhealthy e now ep s"
    "describe_health ep now t = describe_health ep now s"
  using assms
  by (simp_all add: unhealthy_def endpoint_since_def last_success_def failures_since_def
      describe_health_def last_failure_row_def)

lemma notify_disabled_frame [frame]:
  "endpoints (snd (notify_disabled ep f since now s)) = endpoints s"
  "deliveries (snd (notify_disabled ep f since now s)) = deliveries s"
proof -
  have "endpoints (foldl (\<lambda>st m. create_notification (g m) st) s ms) = endpoints s"
    "deliveries (foldl (\<lambda>st m. create_notification (g m) st) s ms) = deliveries s" for g ms
    by (induction ms arbitrary: s) (simp_all add: frame)
  then show "endpoints (snd (notify_disabled ep f since now s)) = endpoints s"
    "deliveries (snd (notify_disabled ep f since now s)) = deliveries s"
    by (simp_all add: notify_disabled_def Let_def)
qed

lemma sweep_one_effect:
  "deliveries (snd (sweep_one e now ep s)) = deliveries s"
  "endpoints (snd (sweep_one e now ep s)) =
     (if unhealthy e now ep s
      then update_row wh_id (wh_id ep) (\<lambda>r. r\<lparr>wh_active := False, wh_disabled := Some now\<rparr>) (endpoints s)
      else endpoints s)"
  by (simp_all add: sweep_one_def update_endpoint_def notify_disabled_frame Let_def case_prod_beta)

definition sweep_row :: "env \<Rightarrow> time \<Rightarrow> db \<Rightarrow> endpoint_row list \<Rightarrow> endpoint_row \<Rightarrow> endpoint_row" where
  "sweep_row e now s eps r =
     (if \<exists>ep \<in> set eps. wh_id ep = wh_id r \<and> unhealthy e now ep s
      then r\<lparr>wh_active := False, wh_disabled := Some now\<rparr> else r)"

lemma sweep_all_effect:
  "deliveries (snd (sweep_all e now eps s)) = deliveries s \<and>
   endpoints (snd (sweep_all e now eps s)) = map (sweep_row e now s eps) (endpoints s)"
proof (induction eps arbitrary: s)
  case Nil
  then show ?case by (simp add: sweep_row_def)
next
  case (Cons ep eps)
  let ?s = "snd (sweep_one e now ep s)"
  have d: "deliveries ?s = deliveries s" by (rule sweep_one_effect)
  have IH: "endpoints (snd (sweep_all e now eps ?s)) = map (sweep_row e now ?s eps) (endpoints ?s)"
    "deliveries (snd (sweep_all e now eps ?s)) = deliveries s"
    using Cons.IH [of ?s] d by auto
  have row: "sweep_row e now ?s eps = sweep_row e now s eps"
    by (simp add: sweep_row_def fun_eq_iff health_depends_on_deliveries [OF d])
  have "map (sweep_row e now s eps) (endpoints ?s) = map (sweep_row e now s (ep # eps)) (endpoints s)"
    unfolding sweep_one_effect by (auto simp: update_row_def sweep_row_def)
  with IH row show ?case
    by (simp add: case_prod_beta)
qed

text \<open>
  the sweep and the console agree. After a sweep, the endpoint table is the old one with
  exactly those active endpoints disabled whose window since the last success (or since
  registration) has passed and whose failure count, the very number the health summary
  shows, has reached the limit. No delivery row is touched.
\<close>

theorem sweep_disables_exactly:
  assumes "distinct (map wh_id (endpoints s))"
  shows "endpoints (snd (sweep_unhealthy_endpoints e now s)) =
      map (\<lambda>ep. if wh_active ep
             \<and> now - coalesce (he_last_success (describe_health ep now s)) (wh_created ep)
                 \<ge> coalesce (e_disable_after_days e) 14 * day_ms
             \<and> he_failures (describe_health ep now s) \<ge> coalesce (e_disable_min_failures e) 5
           then ep\<lparr>wh_active := False, wh_disabled := Some now\<rparr> else ep) (endpoints s)
    \<and> deliveries (snd (sweep_unhealthy_endpoints e now s)) = deliveries s"
proof -
  let ?eps = "filter wh_active (endpoints s)"
  have u: "unhealthy e now ep s \<longleftrightarrow>
      now - coalesce (he_last_success (describe_health ep now s)) (wh_created ep)
        \<ge> coalesce (e_disable_after_days e) 14 * day_ms
      \<and> he_failures (describe_health ep now s) \<ge> coalesce (e_disable_min_failures e) 5" for ep
    by (auto simp: unhealthy_def endpoint_since_def describe_health_def Let_def not_less)
  have "(\<exists>ep \<in> set ?eps. wh_id ep = wh_id r \<and> unhealthy e now ep s) \<longleftrightarrow> wh_active r \<and> unhealthy e now r s"
    if "r \<in> set (endpoints s)" for r
    using that assms by (auto simp: distinct_map inj_on_def)
  then have rows: "map (sweep_row e now s ?eps) (endpoints s) =
      map (\<lambda>ep. if wh_active ep \<and> unhealthy e now ep s
            then ep\<lparr>wh_active := False, wh_disabled := Some now\<rparr> else ep) (endpoints s)"
    by (simp add: sweep_row_def)
  have "snd (sweep_unhealthy_endpoints e now s) = snd (sweep_all e now ?eps s)"
    by (simp add: sweep_unhealthy_endpoints_def Let_def case_prod_beta)
  then show ?thesis
    using sweep_all_effect [of e now ?eps s] by (simp only: rows u)
qed

definition sample_endpoint :: endpoint_row where
  "sample_endpoint = \<lparr>wh_id = 3, wh_org = 1, wh_url = ''https://a.test/h'', wh_events = [''*''],
     wh_description = None, wh_active = True, wh_disabled = None, wh_secret = ''whsec_x'',
     wh_created = 0\<rparr>"

definition sample_delivery :: delivery_row where
  "sample_delivery = \<lparr>dl_id = 9, dl_endpoint = 3, dl_org = 1, dl_event = ''ping'', dl_payload = JNull,
     dl_status = DlPending, dl_attempts = 0, dl_response = None, dl_error = None, dl_created = 0,
     dl_last_attempt = None, dl_delivered = None\<rparr>"

definition sample_env_strict :: env where
  "sample_env_strict = sample_env\<lparr>e_disable_after_days := Some 0, e_disable_min_failures := Some 0\<rparr>"

theorem sweep_disables_exactly_witness:
  "map wh_active (endpoints (snd (sweep_unhealthy_endpoints sample_env_strict 5
     (empty_db\<lparr>endpoints := [sample_endpoint]\<rparr>)))) = [False]"
  using sweep_disables_exactly [of "empty_db\<lparr>endpoints := [sample_endpoint]\<rparr>" sample_env_strict 5]
  by (simp add: sample_endpoint_def sample_env_strict_def sample_env_def empty_db_def
      describe_health_def last_success_def failures_since_def Let_def)

end
