(* ===== verification/Webhook_Api.thy ===== *)
theory Webhook_Api
  imports Webhooks
begin

text \<open>
  Properties of apps/api/src/modules/webhooks: what re-enabling an endpoint does to the next
  sweep, the bounds of the delivery worker, and the isolation of the tenants' endpoints (the
  interpretation of \<open>tenant_api\<close> on the webhook operations).
\<close>

section \<open>Re-enabling an endpoint\<close>

lemma unhealthy_later:
  "unhealthy e now ep s \<Longrightarrow> now \<le> now' \<Longrightarrow> unhealthy e now' ep s"
  by (auto simp: unhealthy_def)

text \<open>
  re-enabling does not restart the window. An endpoint that the sweep judged unhealthy
  and an operator switched on again is active, and the next sweep disables it again unless a
  delivery row changed in between.
\<close>

theorem reenabled_endpoint_disabled_again:
  assumes "distinct (map wh_id (endpoints s))"
    and "org_of u = Some org" "find_endpoint org i s = Some ep"
    and "unhealthy e now ep s" "now \<le> now'"
  shows "let s1 = snd (set_active e' u i True s)
    in map_option wh_active (find_row wh_id i (endpoints s1)) = Some True
    \<and> map_option wh_active (find_row wh_id i (endpoints (snd (sweep_unhealthy_endpoints e now' s1)))) =
      Some False"
proof -
  define s1 where "s1 = snd (set_active e' u i True s)"
  let ?on = "\<lambda>ep. ep\<lparr>wh_active := True, wh_disabled := None\<rparr>"
  have ep: "ep \<in> set (endpoints s)" "wh_id ep = i"
    using assms(3) find_Some_iff_filter by (fastforce simp: find_endpoint_def)+
  then have look: "find_row wh_id i (endpoints s) = Some ep"
    using find_row_distinct [OF assms(1)] by blast
  have s1: "endpoints s1 = update_row wh_id i ?on (endpoints s)" "deliveries s1 = deliveries s"
    using assms(2,3) by (simp_all add: s1_def set_active_def Let_def update_endpoint_def)
  have on: "find_row wh_id i (endpoints s1) = Some (?on ep)"
    using look by (simp add: s1 find_row_update_row)
  have "unhealthy e now' (?on ep) s1"
  proof -
    have "unhealthy e now' (?on ep) s1 = unhealthy e now' ep s"
      using health_depends_on_deliveries(1) [OF s1(2)]
      by (simp add: unhealthy_def endpoint_since_def)
    with assms(4,5) show ?thesis by (simp add: unhealthy_later)
  qed
  moreover have "?on ep \<in> set (filter wh_active (endpoints s1))"
    using on find_row_SomeD by fastforce
  ultimately have "\<exists>x \<in> set (filter wh_active (endpoints s1)). wh_id x = i \<and> unhealthy e now' x s1"
    using ep by (intro bexI [of _ "?on ep"]) auto
  then have "\<not> wh_active (sweep_row e now' s1 (filter wh_active (endpoints s1)) (?on ep))"
    using ep by (simp add: sweep_row_def)
  moreover have "find_row wh_id i (map (sweep_row e now' s1 eps) rows) =
      map_option (sweep_row e now' s1 eps) (find_row wh_id i rows)" for eps rows
    by (induction rows) (auto simp: sweep_row_def)
  moreover have "endpoints (snd (sweep_unhealthy_endpoints e now' s1)) =
      map (sweep_row e now' s1 (filter wh_active (endpoints s1))) (endpoints s1)"
    using sweep_all_effect [of e now' "filter wh_active (endpoints s1)" s1]
    by (simp add: sweep_unhealthy_endpoints_def Let_def case_prod_beta)
  ultimately show ?thesis by (simp add: on Let_def flip: s1_def)
qed

theorem reenabled_endpoint_disabled_again_witness:
  "map_option wh_active (find_row wh_id 3 (endpoints (snd (sweep_unhealthy_endpoints sample_env_strict 6
     (snd (set_active sample_env sample_principal 3 True
       (empty_db\<lparr>endpoints := [sample_endpoint\<lparr>wh_active := False\<rparr>]\<rparr>))))))) = Some False"
proof -
  let ?s = "empty_db\<lparr>endpoints := [sample_endpoint\<lparr>wh_active := False\<rparr>]\<rparr>"
  have "distinct (map wh_id (endpoints ?s))" "org_of sample_principal = Some 1"
    "find_endpoint 1 3 ?s = Some (sample_endpoint\<lparr>wh_active := False\<rparr>)"
    "unhealthy sample_env_strict 5 (sample_endpoint\<lparr>wh_active := False\<rparr>) ?s"
    by (simp_all add: sample_endpoint_def sample_env_strict_def sample_env_def empty_db_def org_of_def
        sample_principal_def find_endpoint_def unhealthy_def endpoint_since_def last_success_def
        failures_since_def)
  from reenabled_endpoint_disabled_again [OF this, of 6 sample_env] show ?thesis
    by (simp add: Let_def)
qed

section \<open>Properties of the delivery worker\<close>

definition ordinary_failures :: "(nat \<Rightarrow> http_request \<Rightarrow> http_outcome) \<Rightarrow> bool" where
  "ordinary_failures http \<longleftrightarrow>
     (\<forall>k req msg. http k req = HttpFailure msg \<longrightarrow> \<not> prefix ''Webhook endpoint returned HTTP'' msg)"

lemma deliver_active:
  fixes e hmac str http s
  assumes "find_row dl_id i (deliveries s) = Some d"
    and "find_row wh_id (dl_endpoint d) (endpoints s) = Some ep" "wh_active ep"
    and "\<And>req msg. http req = HttpFailure msg \<Longrightarrow> \<not> prefix ''Webhook endpoint returned HTTP'' msg"
  defines "r \<equiv> snd (deliver e hmac str http i s)"
  shows "\<exists>d'. find_row dl_id i (deliveries (snd r)) = Some d' \<and> dl_endpoint d' = dl_endpoint d
    \<and> dl_attempts d' = dl_attempts d + 1
    \<and> dl_status d' = (if succeeds r then DlDelivered else DlFailed)
    \<and> endpoints (snd r) = endpoints s"
proof (cases "http (delivery_request e hmac str ep d)")
  case (HttpResponse x)
  with assms show ?thesis
    by (auto simp: deliver_def Let_def update_delivery_def find_row_update_row)
next
  case (HttpFailure msg)
  with assms(4) have "\<not> prefix ''Webhook endpoint returned HTTP'' msg" by blast
  with HttpFailure assms(1-3) show ?thesis
    by (auto simp: r_def deliver_def Let_def update_delivery_def find_row_update_row)
qed

lemma run_delivery_job_effect:
  assumes "ordinary_failures http"
  shows "find_row dl_id i (deliveries s) = Some d \<Longrightarrow>
    find_row wh_id (dl_endpoint d) (endpoints s) = Some ep \<Longrightarrow> wh_active ep \<Longrightarrow> 0 < n \<Longrightarrow>
    \<exists>d'. find_row dl_id i (deliveries (snd (snd (run_delivery_job n es hmac str http i s)))) = Some d'
      \<and> 1 \<le> fst (run_delivery_job n es hmac str http i s) \<and> fst (run_delivery_job n es hmac str http i s) \<le> n
      \<and> dl_attempts d' = dl_attempts d + fst (run_delivery_job n es hmac str http i s)
      \<and> dl_status d' = (if succeeds (snd (run_delivery_job n es hmac str http i s)) then DlDelivered else DlFailed)
      \<and> (succeeds (snd (run_delivery_job n es hmac str http i s)) \<or> fst (run_delivery_job n es hmac str http i s) = n)"
proof (induction n arbitrary: s d)
  case (Suc n)
  let ?r = "snd (deliver (es n) hmac str (http n) i s)"
  obtain d1 where d1: "find_row dl_id i (deliveries (snd ?r)) = Some d1" "dl_endpoint d1 = dl_endpoint d"
    "dl_attempts d1 = dl_attempts d + 1" "dl_status d1 = (if succeeds ?r then DlDelivered else DlFailed)"
    "endpoints (snd ?r) = endpoints s"
    using deliver_active [OF Suc.prems(1-3), of "http n" "es n" hmac str] assms
    by (auto simp: ordinary_failures_def)
  show ?case
  proof (cases ?r)
    case (Pair x s')
    show ?thesis
    proof (cases x)
      case (Inr v)
      with Pair d1 show ?thesis by (auto split: sum.splits)
    next
      case (Inl err)
      show ?thesis
      proof (cases "n = 0")
        case True
        with Pair Inl d1 show ?thesis by auto
      next
        case False
        have "\<exists>d'. find_row dl_id i (deliveries (snd (snd (run_delivery_job n es hmac str http i s')))) = Some d'
          \<and> 1 \<le> fst (run_delivery_job n es hmac str http i s') \<and> fst (run_delivery_job n es hmac str http i s') \<le> n
          \<and> dl_attempts d' = dl_attempts d1 + fst (run_delivery_job n es hmac str http i s')
          \<and> dl_status d' = (if succeeds (snd (run_delivery_job n es hmac str http i s')) then DlDelivered else DlFailed)
          \<and> (succeeds (snd (run_delivery_job n es hmac str http i s')) \<or> fst (run_delivery_job n es hmac str http i s') = n)"
          using d1 Pair Suc.prems False by (intro Suc.IH) auto
        with Pair Inl False d1 show ?thesis by (auto simp: case_prod_beta)
      qed
    qed
  qed
qed simp



section \<open>Tenant isolation\<close>

datatype webhook_command =
    WcCreate env "string \<Rightarrow> url option" auth_user string "string list option" "string option"
  | WcRemove auth_user id
  | WcSetActive env auth_user id bool
  | WcPing env auth_user id

fun exec_webhook :: "webhook_command \<Rightarrow> id \<Rightarrow> db \<Rightarrow> db" where
  "exec_webhook (WcCreate e parse u raw evs descr) t s =
     snd (create_endpoint e parse (acting_for t u) raw evs descr s)"
| "exec_webhook (WcRemove u i) t s = snd (remove_endpoint (acting_for t u) i s)"
| "exec_webhook (WcSetActive e u i b) t s = snd (set_active e (acting_for t u) i b s)"
| "exec_webhook (WcPing e u i) t s = snd (ping e (acting_for t u) i s)"

definition endpoints_ok :: "db \<Rightarrow> bool" where
  "endpoints_ok s \<longleftrightarrow> distinct (map wh_id (endpoints s)) \<and> (\<forall>ep \<in> set (endpoints s). wh_id ep < next_id s)"

lemma find_endpointD:
  "find_endpoint t i s = Some ep \<Longrightarrow> ep \<in> set (endpoints s) \<and> wh_id ep = i \<and> wh_org ep = t"
  unfolding find_endpoint_def using find_Some_iff_filter by fastforce

lemma exec_webhook_ok: "endpoints_ok s \<Longrightarrow> endpoints_ok (exec_webhook c t s)"
  by (cases c)
    (auto simp: endpoints_ok_def create_endpoint_def remove_endpoint_def set_active_def ping_def Let_def
      enqueue_delivery_def update_endpoint_def set_update_row delete_many_def distinct_map_filter
      less_Suc_eq split: option.splits sum.splits)

lemma exec_webhook_isolated:
  assumes "endpoints_ok s" "t \<noteq> x"
  shows "filter (\<lambda>ep. wh_org ep = x) (endpoints (exec_webhook c t s)) =
    filter (\<lambda>ep. wh_org ep = x) (endpoints s)"
proof (cases c)
  case (WcSetActive e u i b)
  show ?thesis
  proof (cases "find_endpoint t i s")
    case (Some ep)
    with find_endpointD [OF Some] assms WcSetActive show ?thesis
      by (auto simp: set_active_def Let_def update_endpoint_def endpoints_ok_def
          intro!: filter_update_row_other)
  qed (simp add: WcSetActive set_active_def)
next
  case (WcRemove u i)
  show ?thesis
  proof (cases "find_endpoint t i s")
    case (Some ep)
    then show ?thesis
      using find_endpointD [OF Some] assms WcRemove filter_delete_other [of wh_id "endpoints s" ep wh_org x]
      by (auto simp: remove_endpoint_def endpoints_ok_def)
  qed (simp add: WcRemove remove_endpoint_def)
qed (use assms in \<open>auto simp: create_endpoint_def ping_def Let_def enqueue_delivery_def
      split: option.splits sum.splits\<close>)

interpretation webhook_api: tenant_api endpoints wh_org endpoints_ok exec_webhook
  by unfold_locales (auto simp: exec_webhook_ok exec_webhook_isolated)

text \<open>
  no sequence of webhook API calls (register, remove, enable, disable, ping) made by
  other tenants changes, adds or removes an endpoint of a tenant.
\<close>

theorem webhook_tenant_isolation:
  assumes "endpoints_ok s" "x \<notin> snd ` set cmds"
  shows "filter (\<lambda>ep. wh_org ep = x) (endpoints (foldl (\<lambda>s (c, t). exec_webhook c t s) s cmds)) =
    filter (\<lambda>ep. wh_org ep = x) (endpoints s)"
  using assms by (rule webhook_api.run_isolated)

theorem webhook_tenant_isolation_witness:
  "filter (\<lambda>ep. wh_org ep = 1) (endpoints (foldl (\<lambda>s (c, t). exec_webhook c t s)
     (empty_db\<lparr>next_id := 10, endpoints := [sample_endpoint]\<rparr>)
     [(WcRemove sample_principal 3, 2)])) = [sample_endpoint]"
  using webhook_tenant_isolation [of "empty_db\<lparr>next_id := 10, endpoints := [sample_endpoint]\<rparr>" 1
      "[(WcRemove sample_principal 3, 2)]"]
  by (simp add: endpoints_ok_def sample_endpoint_def)

end
