(* ===== verification/Dates.thy ===== *)
theory Dates
  imports Prelude
begin

text \<open>
  \<open>Date.prototype.toISOString\<close> for instants of the years 0 to 9999, as messages of the
  services use it.
\<close>

fun pad_left :: "nat \<Rightarrow> char \<Rightarrow> string \<Rightarrow> string" where
  "pad_left w c s = replicate (w - length s) c @ s"

text \<open>Days since 1970-01-01 to year, month and day in the proleptic Gregorian calendar.\<close>

definition civil :: "int \<Rightarrow> int \<times> int \<times> int" where
  "civil days =
     (let z = days + 719468;
          era = z div 146097;
          doe = z mod 146097;
          yoe = (doe - doe div 1460 + doe div 36524 - doe div 146096) div 365;
          doy = doe - (365 * yoe + yoe div 4 - yoe div 100);
          mp = (5 * doy + 2) div 153;
          d = doy - (153 * mp + 2) div 5 + 1;
          m = (if mp < 10 then mp + 3 else mp - 9);
          y = yoe + era * 400 + (if m \<le> 2 then 1 else 0)
      in (y, m, d))"

definition show_padded :: "nat \<Rightarrow> int \<Rightarrow> string" where
  "show_padded w n = pad_left w (CHR ''0'') (show_nat (nat n))"

definition to_iso :: "time \<Rightarrow> string" where
  "to_iso t =
     (let days = t div 86400000; ms = t mod 86400000; (y, m, d) = civil days
      in show_padded 4 y @ ''-'' @ show_padded 2 m @ ''-'' @ show_padded 2 d @ ''T''
         @ show_padded 2 (ms div 3600000) @ '':'' @ show_padded 2 (ms div 60000 mod 60) @ '':''
         @ show_padded 2 (ms div 1000 mod 60) @ ''.'' @ show_padded 3 (ms mod 1000) @ ''Z'')"

lemma civil_epoch: "civil 0 = (1970, 1, 1)"
  by code_simp

lemma civil_leap_day: "civil 11016 = (2000, 2, 29)"
  by code_simp

lemma length_pad_left: "w \<le> length (pad_left w c s)"
  by simp

end
