(* ===== verification/Crypto.thy ===== *)
theory Crypto
  imports Schema Dates
begin

text \<open>
  apps/api/src/common/crypto.ts: encryption of private keys at rest. The primitives of
  node:crypto and the codecs of \<open>Buffer\<close> are the fields of \<open>crypto\<close>; \<open>None\<close> stands for a
  call that throws. \<open>node_crypto_ok\<close> states the documented behaviour that the round trip
  relies on: base64url uses no colon and decodes what it encoded, and AES-GCM opens what it
  sealed under the same key and nonce.
\<close>

record forge_certificate =
  fc_serial :: "string option"
  fc_subject :: "(string option \<times> string \<times> string) list"
  fc_issuer :: "(string option \<times> string \<times> string) list"
  fc_alt_names :: "(nat \<times> string option) list option"
  fc_not_before :: "time option"
  fc_not_after :: "time option"

record crypto =
  cy_master :: "string option"
  cy_digest :: "string \<Rightarrow> string"
  cy_seal :: "string \<Rightarrow> string \<Rightarrow> string \<Rightarrow> string \<times> string"
  cy_open :: "string \<Rightarrow> string \<Rightarrow> string \<Rightarrow> string \<Rightarrow> string option"
  cy_to_b64url :: "string \<Rightarrow> string"
  cy_of_b64url :: "string \<Rightarrow> string"
  cy_to_b64 :: "string \<Rightarrow> string"
  cy_of_b64 :: "string \<Rightarrow> string"
  cy_of_hex :: "string \<Rightarrow> string"
  cy_public :: "string \<Rightarrow> string option option"
  cy_private :: "string \<Rightarrow> bool"
  cy_sign :: "string \<Rightarrow> string \<Rightarrow> string \<Rightarrow> string option"
  cy_verify :: "string \<Rightarrow> string \<Rightarrow> string \<Rightarrow> string \<Rightarrow> bool option"
  cy_parse :: "string \<Rightarrow> forge_certificate option"

definition derive_key :: "crypto \<Rightarrow> string \<Rightarrow> string" where
  "derive_key cy master = cy_digest cy master"

text \<open>\<open>iv\<close> is the output of \<open>randomBytes(12)\<close>.\<close>

definition encrypt_secret :: "crypto \<Rightarrow> string \<Rightarrow> string \<Rightarrow> string \<Rightarrow> http_error + string" where
  "encrypt_secret cy iv plaintext master =
     (if master = '''' then
        Inl (InternalError ''CRYPTO_MASTER_KEY is not configured - cannot persist private key material'')
      else
        (let (data, tag) = cy_seal cy (derive_key cy master) iv plaintext
         in Inr (js_join '':'' [''enc'', ''v1'', cy_to_b64url cy iv, cy_to_b64url cy tag,
                                cy_to_b64url cy data])))"

definition decrypt_secret :: "crypto \<Rightarrow> string \<Rightarrow> string \<Rightarrow> http_error + string" where
  "decrypt_secret cy payload master =
     (if master = '''' then
        Inl (InternalError ''CRYPTO_MASTER_KEY is not configured - cannot decrypt private key material'')
      else
        (let parts = js_split (CHR '':'') payload
         in if length parts \<noteq> 5 \<or> parts ! 0 \<noteq> ''enc'' \<or> parts ! 1 \<noteq> ''v1''
            then Inl (InternalError ''Unsupported secret payload format'')
            else (case cy_open cy (derive_key cy master) (cy_of_b64url cy (parts ! 2))
                        (cy_of_b64url cy (parts ! 3)) (cy_of_b64url cy (parts ! 4)) of
                    None \<Rightarrow> Inl (InternalError ''Unsupported state or unable to authenticate data'')
                  | Some plaintext \<Rightarrow> Inr plaintext)))"

definition node_crypto_ok :: "crypto \<Rightarrow> bool" where
  "node_crypto_ok cy \<longleftrightarrow>
     (\<forall>s. CHR '':'' \<notin> set (cy_to_b64url cy s) \<and> cy_of_b64url cy (cy_to_b64url cy s) = s) \<and>
     (\<forall>k iv p. cy_open cy k iv (snd (cy_seal cy k iv p)) (fst (cy_seal cy k iv p)) = Some p)"

lemma decrypt_encrypt:
  assumes "node_crypto_ok cy" "master \<noteq> ''''"
  shows "\<exists>payload. encrypt_secret cy iv plaintext master = Inr payload
    \<and> payload \<noteq> '''' \<and> decrypt_secret cy payload master = Inr plaintext"
proof -
  obtain data tag where seal: "cy_seal cy (derive_key cy master) iv plaintext = (data, tag)"
    by fastforce
  have "cy_open cy (derive_key cy master) iv tag data = Some plaintext"
    using assms(1) seal unfolding node_crypto_ok_def by (metis fst_conv snd_conv)
  moreover have "js_split (CHR '':'') (js_join '':'' [''enc'', ''v1'', cy_to_b64url cy iv,
      cy_to_b64url cy tag, cy_to_b64url cy data]) =
      [''enc'', ''v1'', cy_to_b64url cy iv, cy_to_b64url cy tag, cy_to_b64url cy data]"
    using assms(1) by (intro js_split_join) (auto simp: node_crypto_ok_def)
  ultimately show ?thesis
    using assms seal by (simp add: encrypt_secret_def decrypt_secret_def node_crypto_ok_def)
qed

text \<open>
  C30: a private key encrypted at rest is recovered by \<open>decryptSecret\<close> under the same master
  key, whatever the key material and the random nonce.
\<close>

theorem decrypt_encrypt_secret:
  assumes "node_crypto_ok cy" "master \<noteq> ''''"
  shows "\<exists>payload. encrypt_secret cy iv plaintext master = Inr payload
    \<and> payload \<noteq> '''' \<and> decrypt_secret cy payload master = Inr plaintext"
  using assms by (rule decrypt_encrypt)

text \<open>
  A concrete instance of the primitives: characters are encoded by two letters, the cipher is
  the identity and every PEM is its own key.
\<close>

definition nibbles :: "string \<Rightarrow> string" where
  "nibbles s = concat (map (\<lambda>c. [char_of (65 + of_char c div 16 :: nat), char_of (65 + of_char c mod 16 :: nat)]) s)"

fun of_nibbles :: "string \<Rightarrow> string" where
  "of_nibbles (a # b # s) = char_of (16 * (of_char a - 65) + (of_char b - 65) :: nat) # of_nibbles s"
| "of_nibbles _ = []"

definition sample_crypto :: crypto where
  "sample_crypto = \<lparr>cy_master = Some ''master'', cy_digest = id,
     cy_seal = (\<lambda>k iv p. (p, k @ iv)),
     cy_open = (\<lambda>k iv tag data. if tag = k @ iv then Some data else None),
     cy_to_b64url = nibbles, cy_of_b64url = of_nibbles, cy_to_b64 = nibbles, cy_of_b64 = of_nibbles,
     cy_of_hex = id, cy_public = (\<lambda>pem. Some (Some ''rsa'')), cy_private = (\<lambda>pem. True),
     cy_sign = (\<lambda>alg data key. Some (key @ '':'' @ data)),
     cy_verify = (\<lambda>alg data key sig. Some (sig = key @ '':'' @ data)),
     cy_parse = (\<lambda>pem. Some \<lparr>fc_serial = Some pem,
        fc_subject = [(Some ''commonName'', ''2.5.4.3'', ''ada@acme.test'')],
        fc_issuer = [(Some ''commonName'', ''2.5.4.3'', ''Test CA'')], fc_alt_names = None,
        fc_not_before = Some 0, fc_not_after = Some 2000\<rparr>)\<rparr>"

lemma of_nibbles_nibbles: "of_nibbles (nibbles s) = s"
proof (induction s)
  case (Cons c s)
  have "of_char c < (256 :: nat)" by simp
  then have "of_char c div 16 < (16 :: nat)" by (simp add: less_mult_imp_div_less)
  have "16 * (of_char c div 16) + of_char c mod 16 = (of_char c :: nat)" by simp
  with Cons \<open>of_char c div 16 < (16 :: nat)\<close> show ?case by (simp add: nibbles_def)
qed (simp add: nibbles_def)

lemma nibble_no_colon: "n < 16 \<Longrightarrow> CHR '':'' \<noteq> char_of (65 + n :: nat)"
proof
  assume "n < 16" "CHR '':'' = char_of (65 + n :: nat)"
  then have "(of_char (CHR '':'') :: nat) = of_char (char_of (65 + n :: nat) :: char)" by simp
  with \<open>n < 16\<close> show False by simp
qed

lemma nibbles_no_colon: "CHR '':'' \<notin> set (nibbles s)"
proof (induction s)
  case (Cons c s)
  have "of_char c < (256 :: nat)" by simp
  then have "of_char c div 16 < (16 :: nat)" by (simp add: less_mult_imp_div_less)
  then have "CHR '':'' \<noteq> char_of (65 + of_char c div 16 :: nat)"
    "CHR '':'' \<noteq> char_of (65 + of_char c mod 16 :: nat)"
    by (rule nibble_no_colon) (rule nibble_no_colon, simp)
  with Cons show ?case by (simp only: nibbles_def) simp
qed (simp add: nibbles_def)

lemma sample_crypto_ok: "node_crypto_ok sample_crypto"
  by (simp add: node_crypto_ok_def sample_crypto_def nibbles_no_colon of_nibbles_nibbles)

theorem decrypt_encrypt_secret_witness:
  "\<exists>payload. encrypt_secret sample_crypto ''nonce'' ''key'' ''master'' = Inr payload
    \<and> payload \<noteq> '''' \<and> decrypt_secret sample_crypto payload ''master'' = Inr ''key''"
  by (rule decrypt_encrypt_secret [OF sample_crypto_ok]) simp

end
