(* ===== verification/Assurance.thy ===== *)
theory Assurance
  imports Prelude
begin

text \<open>
  apps/api/src/modules/certificates/identity-assurance.ts: the score and level that
  evidence reports attach to a signature.
\<close>

datatype assurance_level = LvNone | LvBasic | LvAdvanced | LvHigh
datatype provider_validation = DV | OV | EV

record factors =
  fa_cert_valid :: bool
  fa_identity_match :: bool
  fa_account_verified :: bool
  fa_mfa :: bool
  fa_revocation :: bool
  fa_validation :: "provider_validation option"

record assurance =
  as_score :: nat
  as_level :: assurance_level
  as_factors :: factors

fun validation_weight :: "provider_validation \<Rightarrow> nat" where
  "validation_weight DV = 5"
| "validation_weight OV = 10"
| "validation_weight EV = 20"

definition assurance_sum :: "factors \<Rightarrow> nat" where
  "assurance_sum f =
     (if fa_cert_valid f then 30 else 0)
     + (if fa_identity_match f then 20 else 0)
     + (if fa_account_verified f then 15 else 0)
     + (if fa_mfa f then 15 else 0)
     + (if fa_revocation f then 10 else 0)
     + (case fa_validation f of
          None \<Rightarrow> 0 | Some v \<Rightarrow> if fa_cert_valid f then validation_weight v else 0)"

definition level_of_score :: "nat \<Rightarrow> assurance_level" where
  "level_of_score n =
     (if 80 \<le> n then LvHigh else if 50 \<le> n then LvAdvanced else if 25 \<le> n then LvBasic else LvNone)"

definition compute_identity_assurance :: "factors \<Rightarrow> assurance" where
  "compute_identity_assurance f =
     (let clamped = min 100 (assurance_sum f)
      in \<lparr>as_score = clamped, as_level = level_of_score clamped, as_factors = f\<rparr>)"

definition unsigned_assurance :: "bool \<Rightarrow> bool \<Rightarrow> assurance" where
  "unsigned_assurance mfa verified =
     compute_identity_assurance \<lparr>fa_cert_valid = False, fa_identity_match = False,
       fa_account_verified = verified, fa_mfa = mfa, fa_revocation = False, fa_validation = None\<rparr>"

definition level_json :: "assurance_level \<Rightarrow> json" where
  "level_json l = JStr (case l of LvNone \<Rightarrow> ''NONE'' | LvBasic \<Rightarrow> ''BASIC''
     | LvAdvanced \<Rightarrow> ''ADVANCED'' | LvHigh \<Rightarrow> ''HIGH'')"

section \<open>Levels are ordered\<close>

primrec level_rank :: "assurance_level \<Rightarrow> nat" where
  "level_rank LvNone = 0"
| "level_rank LvBasic = 1"
| "level_rank LvAdvanced = 2"
| "level_rank LvHigh = 3"

lemma level_rank_inject: "level_rank a = level_rank b \<Longrightarrow> a = b"
  by (cases a; cases b) auto

instantiation assurance_level :: linorder
begin

definition less_eq_assurance_level :: "assurance_level \<Rightarrow> assurance_level \<Rightarrow> bool" where
  "less_eq_assurance_level a b \<longleftrightarrow> level_rank a \<le> level_rank b"

definition less_assurance_level :: "assurance_level \<Rightarrow> assurance_level \<Rightarrow> bool" where
  "less_assurance_level a b \<longleftrightarrow> level_rank a < level_rank b"

instance
  by standard
    (auto simp: less_eq_assurance_level_def less_assurance_level_def dest: level_rank_inject)

end

lemma level_of_score_mono: "m \<le> n \<Longrightarrow> level_of_score m \<le> level_of_score n"
  by (auto simp: level_of_score_def less_eq_assurance_level_def)

section \<open>Properties\<close>

text \<open>One set of factors is at least as strong as another.\<close>

definition validation_le :: "provider_validation option \<Rightarrow> provider_validation option \<Rightarrow> bool" where
  "validation_le a b =
     (case a of None \<Rightarrow> True
      | Some x \<Rightarrow> (case b of None \<Rightarrow> False | Some y \<Rightarrow> validation_weight x \<le> validation_weight y))"

definition factors_le :: "factors \<Rightarrow> factors \<Rightarrow> bool" where
  "factors_le f g \<longleftrightarrow>
     (fa_cert_valid f \<longrightarrow> fa_cert_valid g) \<and> (fa_identity_match f \<longrightarrow> fa_identity_match g) \<and>
     (fa_account_verified f \<longrightarrow> fa_account_verified g) \<and> (fa_mfa f \<longrightarrow> fa_mfa g) \<and>
     (fa_revocation f \<longrightarrow> fa_revocation g) \<and> validation_le (fa_validation f) (fa_validation g)"

lemma assurance_sum_mono:
  assumes "factors_le f g"
  shows "assurance_sum f \<le> assurance_sum g"
proof -
  have v: "(case fa_validation f of None \<Rightarrow> 0
        | Some v \<Rightarrow> if fa_cert_valid f then validation_weight v else 0)
      \<le> (case fa_validation g of None \<Rightarrow> 0
        | Some v \<Rightarrow> if fa_cert_valid g then validation_weight v else 0)"
    using assms by (auto simp: factors_le_def validation_le_def split: option.splits)
  have b: "(if fa_cert_valid f then 30 else 0) \<le> (if fa_cert_valid g then 30 else (0::nat))"
    "(if fa_identity_match f then 20 else 0) \<le> (if fa_identity_match g then 20 else (0::nat))"
    "(if fa_account_verified f then 15 else 0) \<le> (if fa_account_verified g then 15 else (0::nat))"
    "(if fa_mfa f then 15 else 0) \<le> (if fa_mfa g then 15 else (0::nat))"
    "(if fa_revocation f then 10 else 0) \<le> (if fa_revocation g then 10 else (0::nat))"
    using assms by (auto simp: factors_le_def)
  show ?thesis
    unfolding assurance_sum_def by (intro add_mono b v)
qed

text \<open>
  the score is between 0 and 100 and the level is the documented band of the score;
  adding evidence never lowers either of them.
\<close>

theorem assurance_monotone:
  assumes "factors_le f g"
  shows "as_score (compute_identity_assurance f) \<le> as_score (compute_identity_assurance g)
    \<and> as_level (compute_identity_assurance f) \<le> as_level (compute_identity_assurance g)
    \<and> as_score (compute_identity_assurance g) \<le> 100"
proof -
  have "min 100 (assurance_sum f) \<le> min 100 (assurance_sum g)"
    using assurance_sum_mono [OF assms] by auto
  then show ?thesis
    by (simp add: compute_identity_assurance_def Let_def level_of_score_mono)
qed

theorem assurance_monotone_witness:
  "as_score (unsigned_assurance False True) \<le> as_score (unsigned_assurance True True)
   \<and> as_level (unsigned_assurance False True) = LvNone
   \<and> as_level (unsigned_assurance True True) = LvBasic"
  using assurance_monotone [of
      "\<lparr>fa_cert_valid = False, fa_identity_match = False, fa_account_verified = True,
        fa_mfa = False, fa_revocation = False, fa_validation = None\<rparr>"
      "\<lparr>fa_cert_valid = False, fa_identity_match = False, fa_account_verified = True,
        fa_mfa = True, fa_revocation = False, fa_validation = None\<rparr>"]
  by (simp add: factors_le_def validation_le_def unsigned_assurance_def
      compute_identity_assurance_def assurance_sum_def level_of_score_def)

lemma certificate_assurance_advanced:
  "fa_cert_valid f \<Longrightarrow> fa_identity_match f \<Longrightarrow> LvAdvanced \<le> as_level (compute_identity_assurance f)"
  by (auto simp: compute_identity_assurance_def Let_def assurance_sum_def level_of_score_def
      less_eq_assurance_level_def)

lemma unsigned_assurance_below_advanced:
  "as_level (unsigned_assurance mfa verified) < LvAdvanced"
  by (auto simp: unsigned_assurance_def compute_identity_assurance_def Let_def assurance_sum_def
      level_of_score_def less_assurance_level_def)

end
