(* ===== verification/Certificates.thy ===== *)
theory Certificates
  imports Crypto Assurance
begin

text \<open>
  apps/api/src/modules/certificates: the provider registry, import and provisioning of signing
  certificates, revocation, certificate-backed signatures and the verification endpoint
  (certificates.service.ts, providers/*.ts). X.509 parsing, key objects and the signature
  primitives are the fields of \<open>crypto\<close>; a provider's remote issuance is a field of
  \<open>provider\<close>.
\<close>

section \<open>Providers\<close>

record issued =
  is_pem :: string
  is_chain :: "string option"
  is_key :: "string option"
  is_algorithm :: "string option"
  is_validation :: "string option"
  is_source :: "string option"

record provision_input =
  pi_org :: id
  pi_common_name :: string
  pi_email :: "string option"
  pi_options :: obj

record provider =
  pv_kind :: certificate_provider
  pv_configured :: bool
  pv_provision :: "provision_input \<Rightarrow> http_error + issued"

definition provider_name :: "certificate_provider \<Rightarrow> string" where
  "provider_name k = (case k of CERULEAN \<Rightarrow> ''CERULEAN'' | ACME \<Rightarrow> ''ACME''
     | INTERNAL_PKI \<Rightarrow> ''INTERNAL_PKI'' | WEB \<Rightarrow> ''WEB'')"

definition registry_get :: "provider list \<Rightarrow> string \<Rightarrow> http_error + provider" where
  "registry_get ps kind =
     (case find (\<lambda>p. provider_name (pv_kind p) = kind) ps of
        None \<Rightarrow> Inl (InternalError (''Unknown certificate provider: '' @ kind))
      | Some p \<Rightarrow> Inr p)"

definition registry_configured :: "provider list \<Rightarrow> provider list" where
  "registry_configured ps = filter pv_configured ps"

definition registry_status :: "provider list \<Rightarrow> (string \<times> bool) list" where
  "registry_status ps = map (\<lambda>p. (provider_name (pv_kind p), pv_configured p)) ps"

text \<open>The internal CA: \<open>script\<close> is the run of the provisioning script and its JSON.\<close>

definition has_certificate_marker :: "string \<Rightarrow> bool" where
  "has_certificate_marker pem = js_includes pem ''BEGIN CERTIFICATE''"

definition internal_pki_provision ::
  "(provision_input \<Rightarrow> http_error + issued option) option \<Rightarrow> provision_input \<Rightarrow> http_error + issued" where
  "internal_pki_provision script inp =
     (case script of
        None \<Rightarrow> Inl (InternalError ''No internal CA provisioner configured (INTERNAL_PKI_PROVISION_SCRIPT). Import an existing certificate via POST /certificates/import instead.'')
      | Some run \<Rightarrow>
        (case run inp of
           Inl err \<Rightarrow> Inl err
         | Inr None \<Rightarrow> Inl (InternalError ''Internal PKI script did not return valid JSON on stdout'')
         | Inr (Some r) \<Rightarrow>
             if \<not> has_certificate_marker (is_pem r)
             then Inl (InternalError ''Internal PKI script response missing certificatePem'')
             else Inr \<lparr>is_pem = is_pem r, is_chain = is_chain r, is_key = is_key r,
                       is_algorithm = is_algorithm r,
                       is_validation = Some (coalesce (is_validation r) ''OV''),
                       is_source = Some (coalesce (is_source r) (''internal-pki:'' @ pi_common_name inp))\<rparr>))"

text \<open>Cerulean: the answer to the k-th poll is \<open>call k\<close>.\<close>

datatype cerulean_state = CQueued | CProcessing | CComplete | CFailed

record cerulean_status =
  cs_state :: cerulean_state
  cs_certificate :: "(string \<times> string option) option"
  cs_error :: "string option"

fun cerulean_poll ::
  "(nat \<Rightarrow> http_error + cerulean_status) \<Rightarrow> string \<Rightarrow> nat \<Rightarrow> nat \<Rightarrow> nat \<Rightarrow> http_error + cerulean_status" where
  "cerulean_poll call i attempts k 0 =
     Inl (InternalError (''Cerulean signature '' @ i @ '' did not complete within ''
       @ show_nat attempts @ '' polls''))"
| "cerulean_poll call i attempts k (Suc n) =
     (case call k of
        Inl err \<Rightarrow> Inl err
      | Inr st \<Rightarrow> if cs_state st = CComplete \<or> cs_state st = CFailed then Inr st
                  else cerulean_poll call i attempts (k + 1) n)"

definition cerulean_state_name :: "cerulean_state \<Rightarrow> string" where
  "cerulean_state_name st = (case st of CQueued \<Rightarrow> ''queued'' | CProcessing \<Rightarrow> ''processing''
     | CComplete \<Rightarrow> ''complete'' | CFailed \<Rightarrow> ''failed'')"

definition cerulean_provision ::
  "string option \<Rightarrow> (provision_input \<Rightarrow> http_error + string) \<Rightarrow> (string \<Rightarrow> nat \<Rightarrow> http_error + cerulean_status)
   \<Rightarrow> provision_input \<Rightarrow> http_error + issued" where
  "cerulean_provision api_key post get inp =
     (case api_key of
        None \<Rightarrow> Inl (InternalError ''CERULEAN_API_KEY is not configured'')
      | Some key \<Rightarrow>
        if key = '''' then Inl (InternalError ''CERULEAN_API_KEY is not configured'')
        else (case post inp of
          Inl err \<Rightarrow> Inl err
        | Inr i \<Rightarrow>
          (case cerulean_poll (get i) i 30 0 30 of
             Inl err \<Rightarrow> Inl err
           | Inr st \<Rightarrow>
             (case (cs_state st, cs_certificate st) of
                (CComplete, Some (pem, level)) \<Rightarrow>
                  Inr \<lparr>is_pem = pem, is_chain = None, is_key = None, is_algorithm = Some ''RSA-2048'',
                       is_validation = Some (coalesce level ''OV''),
                       is_source = Some (''cerulean:'' @ i)\<rparr>
              | _ \<Rightarrow> Inl (InternalError (''Cerulean signing failed: ''
                         @ coalesce (cs_error st) (cerulean_state_name (cs_state st))))))))"

section \<open>Parsing\<close>

record normalized =
  nz_serial :: string
  nz_subject :: string
  nz_issuer :: string
  nz_not_before :: time
  nz_not_after :: time
  nz_email :: "string option"

definition format_dn :: "(string option \<times> string \<times> string) list \<Rightarrow> string" where
  "format_dn attrs = js_join '', '' (map (\<lambda>(name, oid, v). coalesce name oid @ ''='' @ v) attrs)"

text \<open>\<open>split(', ')\<close>.\<close>

fun split_comma :: "string \<Rightarrow> string list" where
  "split_comma [] = [[]]"
| "split_comma (c # s) =
     (if c = CHR '','' \<and> s \<noteq> [] \<and> hd s = CHR '' '' then [] # split_comma (tl s)
      else (case split_comma s of [] \<Rightarrow> [[c]] | p # ps \<Rightarrow> (c # p) # ps))"

definition cn_from_subject :: "string \<Rightarrow> string option" where
  "cn_from_subject dn = map_option (drop 3) (find (\<lambda>part. prefix ''CN='' part) (split_comma dn))"

definition extract_email :: "forge_certificate \<Rightarrow> string option" where
  "extract_email c =
     (let cn = cn_from_subject (format_dn (fc_subject c));
          from_cn = (case cn of None \<Rightarrow> None
                     | Some x \<Rightarrow> if x \<noteq> '''' \<and> CHR ''@'' \<in> set x then Some (js_lower x) else None)
      in (case fc_alt_names c of
            None \<Rightarrow> from_cn
          | Some entries \<Rightarrow>
            (case find (\<lambda>(ty, v). ty = 1 \<and> v \<noteq> None) entries of
               Some (_, Some v) \<Rightarrow> if v = '''' then from_cn else Some (js_lower v)
             | _ \<Rightarrow> from_cn)))"

definition parse_certificate :: "crypto \<Rightarrow> time \<Rightarrow> string \<Rightarrow> http_error + normalized" where
  "parse_certificate cy now pem =
     (case cy_parse cy pem of
        None \<Rightarrow> Inl (BadRequest ''Invalid certificate PEM'')
      | Some c \<Rightarrow>
        (case (fc_not_before c, fc_not_after c) of
           (Some nb, Some na) \<Rightarrow>
             if na < now then Inl (BadRequest ''Cannot import an expired certificate'')
             else Inr \<lparr>nz_serial = coalesce (fc_serial c) ''unknown'', nz_subject = format_dn (fc_subject c),
                       nz_issuer = format_dn (fc_issuer c), nz_not_before = nb, nz_not_after = na,
                       nz_email = extract_email c\<rparr>
         | _ \<Rightarrow> Inl (InternalError ''Invalid time value'')))"

definition format_label :: "string \<Rightarrow> string" where
  "format_label key_type = (if key_type = ''ec'' then ''ECDSA-SHA256''
     else if key_type = ''ed25519'' then ''Ed25519'' else ''RSA-SHA256'')"

definition hash_name :: "string \<Rightarrow> string" where
  "hash_name key_type = (if key_type = ''ed25519'' then ''ed25519'' else ''sha256'')"

definition validation_level :: "string option \<Rightarrow> provider_validation option" where
  "validation_level raw =
     (case map_option js_upper raw of
        None \<Rightarrow> None
      | Some l \<Rightarrow> if l = ''DV'' then Some DV else if l = ''OV'' then Some OV
                  else if l = ''EV'' then Some EV else None)"

definition signer_has_mfa :: "id option \<Rightarrow> db \<Rightarrow> bool" where
  "signer_has_mfa i s =
     (case i of None \<Rightarrow> False
      | Some x \<Rightarrow> (case find_row u_id x (users s) of None \<Rightarrow> False | Some usr \<Rightarrow> u_mfa usr))"

definition master_key :: "crypto \<Rightarrow> http_error + string" where
  "master_key cy =
     (case cy_master cy of
        None \<Rightarrow> Inl (InternalError ''CRYPTO_MASTER_KEY is not configured - required for private key material'')
      | Some k \<Rightarrow> if k = '''' then Inl (InternalError ''CRYPTO_MASTER_KEY is not configured - required for private key material'')
                  else Inr k)"

definition sanitize :: "certificate_row \<Rightarrow> certificate_row" where
  "sanitize c = c\<lparr>c_key_enc := None\<rparr>"

text \<open>\<open>assertPrivateKeyMatches\<close>: \<open>nonce\<close> is the SHA-256 digest of the current time.\<close>

definition private_key_matches :: "crypto \<Rightarrow> string \<Rightarrow> string \<Rightarrow> string \<Rightarrow> bool" where
  "private_key_matches cy nonce key pem =
     (cy_private cy key \<and> cy_public cy pem \<noteq> None \<and>
      (case cy_sign cy ''sha256'' nonce key of
         None \<Rightarrow> False | Some sg \<Rightarrow> cy_verify cy ''sha256'' nonce pem sg = Some True))"

section \<open>Queries\<close>

definition list_certificates ::
  "auth_user \<Rightarrow> certificate_status option \<Rightarrow> nat option \<Rightarrow> nat option \<Rightarrow> db
   \<Rightarrow> (nat \<times> certificate_row list, db) res" where
  "list_certificates u st limit offset s =
     (case org_of u of
        None \<Rightarrow> fail (Forbidden ''No active tenant'') s
      | Some org \<Rightarrow>
          (let rows = filter (\<lambda>c. c_org c = org \<and> (case st of None \<Rightarrow> True | Some x \<Rightarrow> c_status c = x))
                        (certificates s)
           in ok (length rows, map sanitize (page (coalesce offset 0) (min (coalesce limit 25) 100) (rev rows))) s))"

definition find_certificate :: "auth_user \<Rightarrow> id \<Rightarrow> db \<Rightarrow> certificate_row option" where
  "find_certificate u i s = find (\<lambda>c. c_id c = i \<and> in_tenant u (c_org c)) (certificates s)"

definition get_certificate :: "auth_user \<Rightarrow> id \<Rightarrow> db \<Rightarrow> (certificate_row, db) res" where
  "get_certificate u i s =
     (case find_certificate u i s of
        None \<Rightarrow> fail (NotFound ''Certificate not found'') s
      | Some c \<Rightarrow> ok (sanitize c) s)"

section \<open>Import, provisioning, revocation\<close>

text \<open>The upsert under the unique key \<open>[organizationId, serialNumber]\<close>.\<close>

definition by_serial :: "id \<Rightarrow> string \<Rightarrow> db \<Rightarrow> certificate_row option" where
  "by_serial org serial s = find (\<lambda>c. c_org c = org \<and> c_serial c = serial) (certificates s)"

definition upsert_certificate ::
  "id \<Rightarrow> string \<Rightarrow> (certificate_row \<Rightarrow> certificate_row) \<Rightarrow> (id \<Rightarrow> certificate_row) \<Rightarrow> db
   \<Rightarrow> certificate_row \<times> db" where
  "upsert_certificate org serial upd mk s =
     (case by_serial org serial s of
        Some c \<Rightarrow> (upd c, s\<lparr>certificates := update_row c_id (c_id c) upd (certificates s)\<rparr>)
      | None \<Rightarrow> (mk (next_id s), s\<lparr>next_id := next_id s + 1,
                                    certificates := certificates s @ [mk (next_id s)]\<rparr>))"

record import_input =
  im_pem :: string
  im_chain :: "string option"
  im_key :: "string option"
  im_provider :: "certificate_provider option"
  im_validation :: "string option"
  im_common_name :: "string option"

definition blank_certificate :: "id \<Rightarrow> id \<Rightarrow> certificate_row" where
  "blank_certificate org i = \<lparr>c_id = i, c_org = org, c_user = None, c_provider = INTERNAL_PKI,
     c_status = CertActive, c_common_name = [], c_email = None, c_serial = [], c_subject = [],
     c_issuer = None, c_not_before = 0, c_not_after = 0, c_pem = [], c_chain = None, c_key_enc = None,
     c_key_algorithm = None, c_validation = None, c_source_ref = None, c_created_by = None,
     c_revoked_at = None, c_revoked_reason = None\<rparr>"

definition imported_row ::
  "import_input \<Rightarrow> normalized \<Rightarrow> string option \<Rightarrow> id \<Rightarrow> certificate_row \<Rightarrow> certificate_row" where
  "imported_row inp nz key_enc owner c = c\<lparr>c_user := Some owner,
     c_provider := coalesce (im_provider inp) INTERNAL_PKI, c_status := CertActive,
     c_common_name := coalesce (coalesce_opt (im_common_name inp) (cn_from_subject (nz_subject nz)))
                        (take 24 (im_pem inp)),
     c_email := nz_email nz, c_serial := nz_serial nz, c_subject := nz_subject nz,
     c_issuer := Some (nz_issuer nz), c_not_before := nz_not_before nz, c_not_after := nz_not_after nz,
     c_pem := im_pem inp, c_chain := coalesce_opt (im_chain inp) (c_chain c), c_key_enc := key_enc,
     c_key_algorithm := Some (if js_includes (im_pem inp) ''BEGIN EC'' then ''ECDSA'' else ''RSA''),
     c_validation := Some (coalesce (im_validation inp) ''OV''), c_created_by := Some owner,
     c_revoked_at := None, c_revoked_reason := None\<rparr>"

definition encrypt_optional ::
  "crypto \<Rightarrow> string \<Rightarrow> string option \<Rightarrow> http_error + string option" where
  "encrypt_optional cy iv key =
     (case key of
        None \<Rightarrow> Inr None
      | Some k \<Rightarrow>
        if k = '''' then Inr None
        else (case master_key cy of
                Inl err \<Rightarrow> Inl err
              | Inr mk \<Rightarrow> (case encrypt_secret cy iv k mk of Inl err \<Rightarrow> Inl err | Inr x \<Rightarrow> Inr (Some x))))"

definition import_certificate ::
  "env \<Rightarrow> crypto \<Rightarrow> auth_user \<Rightarrow> import_input \<Rightarrow> db \<Rightarrow> (certificate_row, db) res" where
  "import_certificate e cy u inp s =
     (case parse_certificate cy (e_now e) (im_pem inp) of
        Inl err \<Rightarrow> fail err s
      | Inr nz \<Rightarrow>
        if (case im_key inp of None \<Rightarrow> False | Some k \<Rightarrow>
              k \<noteq> '''' \<and> \<not> private_key_matches cy (e_sha256 e (show_nat (nat (e_now e)) @ '':signara'')) k (im_pem inp))
        then fail (BadRequest ''Private key does not match the certificate public key'') s
        else (case encrypt_optional cy (e_rand e 0) (im_key inp) of
           Inl err \<Rightarrow> fail err s
         | Inr key_enc \<Rightarrow>
           (case (org_of u, au_id u) of
              (Some org, Some owner) \<Rightarrow>
                (let upd = imported_row inp nz key_enc owner;
                     (c, s') = upsert_certificate org (nz_serial nz) upd (\<lambda>i. upd (blank_certificate org i)) s
                 in ok (sanitize c) s')
            | (None, _) \<Rightarrow> fail missing_org_error s
            | (_, None) \<Rightarrow> fail fk_error s)))"

definition issued_row ::
  "certificate_provider \<Rightarrow> issued \<Rightarrow> normalized \<Rightarrow> string option \<Rightarrow> string option \<Rightarrow> id
   \<Rightarrow> certificate_row \<Rightarrow> certificate_row" where
  "issued_row kind iss nz email_hint key_enc owner c = c\<lparr>c_user := Some owner, c_provider := kind,
     c_status := CertActive,
     c_common_name := coalesce (coalesce_opt (coalesce_opt (nz_email nz) (cn_from_subject (nz_subject nz)))
                        email_hint) ''signer'',
     c_email := coalesce_opt (coalesce_opt (nz_email nz) email_hint) (c_email c),
     c_serial := nz_serial nz, c_subject := nz_subject nz, c_issuer := Some (nz_issuer nz),
     c_not_before := nz_not_before nz, c_not_after := nz_not_after nz, c_pem := is_pem iss,
     c_chain := coalesce_opt (is_chain iss) (c_chain c),
     c_key_enc := coalesce_opt key_enc (c_key_enc c),
     c_key_algorithm := Some (coalesce (is_algorithm iss) (if nz_email nz \<noteq> None then ''RSA'' else ''ECDSA'')),
     c_validation := Some (coalesce (is_validation iss) ''OV''),
     c_source_ref := coalesce_opt (is_source iss) (c_source_ref c), c_created_by := Some owner\<rparr>"

definition persist_issued ::
  "env \<Rightarrow> crypto \<Rightarrow> id \<Rightarrow> id \<Rightarrow> certificate_provider \<Rightarrow> issued \<Rightarrow> normalized \<Rightarrow> string option \<Rightarrow> db
   \<Rightarrow> (certificate_row, db) res" where
  "persist_issued e cy org owner kind iss nz email_hint s =
     (case encrypt_optional cy (e_rand e 0) (is_key iss) of
        Inl err \<Rightarrow> fail err s
      | Inr key_enc \<Rightarrow>
          (let upd = issued_row kind iss nz email_hint key_enc owner;
               (c, s') = upsert_certificate org (nz_serial nz) upd (\<lambda>i. upd (blank_certificate org i)) s
           in ok c s'))"

definition provision_certificate ::
  "env \<Rightarrow> crypto \<Rightarrow> provider list \<Rightarrow> auth_user \<Rightarrow> string \<Rightarrow> string \<Rightarrow> string option \<Rightarrow> obj \<Rightarrow> db
   \<Rightarrow> (certificate_row, db) res" where
  "provision_certificate e cy ps u kind common_name email options s =
     (case registry_get ps (js_upper kind) of
        Inl err \<Rightarrow> fail err s
      | Inr p \<Rightarrow>
        if \<not> pv_configured p
        then fail (BadRequest (''Certificate provider '' @ kind
               @ '' is not configured for this deployment (see Deployment.md)'')) s
        else (case (org_of u, au_id u) of
           (Some org, Some owner) \<Rightarrow>
             (case pv_provision p \<lparr>pi_org = org, pi_common_name = common_name, pi_email = email,
                                   pi_options = options\<rparr> of
                Inl err \<Rightarrow> fail err s
              | Inr iss \<Rightarrow>
                (case parse_certificate cy (e_now e) (is_pem iss) of
                   Inl err \<Rightarrow> fail err s
                 | Inr nz \<Rightarrow>
                   and_then (persist_issued e cy org owner (pv_kind p) iss nz email s)
                     (\<lambda>c s'. ok (sanitize c) s')))
         | (None, _) \<Rightarrow> fail missing_org_error s
         | (_, None) \<Rightarrow> fail fk_error s))"

definition revoke_certificate ::
  "env \<Rightarrow> auth_user \<Rightarrow> id \<Rightarrow> string option \<Rightarrow> db \<Rightarrow> (certificate_row, db) res" where
  "revoke_certificate e u i reason s =
     (case find_certificate u i s of
        None \<Rightarrow> fail (NotFound ''Certificate not found'') s
      | Some c \<Rightarrow>
          (let upd = (\<lambda>c. c\<lparr>c_status := CertRevoked, c_revoked_at := Some (e_now e),
                             c_revoked_reason := coalesce_opt reason (c_revoked_reason c)\<rparr>)
           in ok (sanitize (upd c)) (s\<lparr>certificates := update_row c_id i upd (certificates s)\<rparr>)))"

section \<open>Signing and verifying\<close>

record evidence =
  ce_certificate :: id
  ce_serial :: string
  ce_common_name :: string
  ce_email :: "string option"
  ce_issuer :: "string option"
  ce_provider :: certificate_provider
  ce_validation :: "string option"
  ce_not_after :: time
  ce_value :: string
  ce_format :: string
  ce_algorithm :: string
  ce_score :: nat
  ce_level :: assurance_level

definition matches_signer :: "certificate_row \<Rightarrow> id option \<Rightarrow> string \<Rightarrow> bool" where
  "matches_signer c user email \<longleftrightarrow>
     (case c_email c of None \<Rightarrow> False | Some m \<Rightarrow> js_lower m = js_lower email) \<or>
     (c_user c \<noteq> None \<and> c_user c = user)"

text \<open>\<open>Buffer.from(contentHash, 'hex')\<close> is signed with the decrypted private key.\<close>

definition held_by_provider :: http_error where
  "held_by_provider = BadRequest ''This certificate is held by the provider - the signature must be supplied (signatureValue)''"

definition server_signature ::
  "crypto \<Rightarrow> certificate_row \<Rightarrow> string \<Rightarrow> string \<Rightarrow> http_error + string" where
  "server_signature cy c key_type hash =
     (case c_key_enc c of
        None \<Rightarrow> Inl held_by_provider
      | Some enc \<Rightarrow>
        if enc = '''' then Inl held_by_provider
        else (case master_key cy of
           Inl err \<Rightarrow> Inl err
         | Inr mk \<Rightarrow>
           (case decrypt_secret cy enc mk of
              Inl err \<Rightarrow> Inl err
            | Inr key \<Rightarrow>
                if \<not> cy_private cy key then Inl (InternalError ''createPrivateKey'')
                else (case cy_sign cy (hash_name key_type) (cy_of_hex cy hash) key of
                        None \<Rightarrow> Inl (InternalError ''sign'')
                      | Some payload \<Rightarrow> Inr (cy_to_b64 cy payload)))))"

definition provided_signature ::
  "crypto \<Rightarrow> certificate_row \<Rightarrow> string \<Rightarrow> string \<Rightarrow> string \<Rightarrow> http_error + string" where
  "provided_signature cy c key_type hash p =
     (case cy_verify cy (hash_name key_type) (cy_of_hex cy hash) (c_pem c) (cy_of_b64 cy p) of
        None \<Rightarrow> Inl (InternalError ''verify'')
      | Some valid \<Rightarrow> if valid then Inr p
          else Inl (Forbidden ''Provided signature does not verify against the certificate''))"

definition signature_value ::
  "crypto \<Rightarrow> certificate_row \<Rightarrow> string \<Rightarrow> string \<Rightarrow> string option \<Rightarrow> http_error + string" where
  "signature_value cy c key_type hash provided =
     (case provided of
        None \<Rightarrow> server_signature cy c key_type hash
      | Some p \<Rightarrow> if p = '''' then server_signature cy c key_type hash
                  else provided_signature cy c key_type hash p)"

definition signing_factors :: "certificate_row \<Rightarrow> id option \<Rightarrow> db \<Rightarrow> factors" where
  "signing_factors c user s = \<lparr>fa_cert_valid = True, fa_identity_match = True,
     fa_account_verified = (user \<noteq> None), fa_mfa = signer_has_mfa user s, fa_revocation = False,
     fa_validation = validation_level (c_validation c)\<rparr>"

definition sign_with_certificate ::
  "env \<Rightarrow> crypto \<Rightarrow> id \<Rightarrow> id \<Rightarrow> id option \<Rightarrow> string \<Rightarrow> string \<Rightarrow> string option \<Rightarrow> db \<Rightarrow> http_error + evidence" where
  "sign_with_certificate e cy org i user email hash provided s =
     (case find (\<lambda>c. c_id c = i \<and> c_org c = org) (certificates s) of
        None \<Rightarrow> Inl (NotFound ''Certificate not found'')
      | Some c \<Rightarrow>
        if c_status c \<noteq> CertActive \<or> c_revoked_at c \<noteq> None
        then Inl (Forbidden ''Certificate is not active'')
        else if c_not_after c < e_now e
        then Inl (Forbidden (''Certificate expired '' @ to_iso (c_not_after c)))
        else if \<not> matches_signer c user email
        then Inl (Forbidden ''Certificate identity does not match the signer'')
        else (case cy_public cy (c_pem c) of
           None \<Rightarrow> Inl (InternalError ''createPublicKey'')
         | Some kt \<Rightarrow>
           (let key_type = coalesce kt ''rsa''
            in (case signature_value cy c key_type hash provided of
              Inl err \<Rightarrow> Inl err
            | Inr v \<Rightarrow>
                (let a = compute_identity_assurance (signing_factors c user s)
                 in Inr \<lparr>ce_certificate = c_id c, ce_serial = c_serial c, ce_common_name = c_common_name c,
                         ce_email = c_email c, ce_issuer = c_issuer c, ce_provider = c_provider c,
                         ce_validation = c_validation c, ce_not_after = c_not_after c, ce_value = v,
                         ce_format = format_label key_type,
                         ce_algorithm = hash_name key_type @ '' (detached - signed over content digest)'',
                         ce_score = as_score a, ce_level = as_level a\<rparr>)))))"

record verification =
  ve_valid :: bool
  ve_cert :: normalized
  ve_signature :: "bool option"
  ve_assurance :: assurance
  ve_reasons :: "string list"

definition verify_reasons_dates :: "time \<Rightarrow> normalized \<Rightarrow> string list" where
  "verify_reasons_dates now nz =
     (if now < nz_not_before nz
      then [''Certificate is not yet valid (notBefore '' @ to_iso (nz_not_before nz) @ '')''] else [])
     @ (if nz_not_after nz < now
        then [''Certificate expired at '' @ to_iso (nz_not_after nz)] else [])"

definition verify_signature ::
  "crypto \<Rightarrow> string \<Rightarrow> string option \<Rightarrow> string option \<Rightarrow> bool option \<times> string list" where
  "verify_signature cy pem sig hash =
     (case (sig, hash) of
        (Some sg, Some h) \<Rightarrow>
          if sg = '''' \<or> h = '''' then (None, [])
          else if cy_public cy pem = None
          then (None, [''Signature verification failed (malformed value or unsupported key type)''])
          else (case cy_verify cy ''sha256'' (cy_of_hex cy h) pem (cy_of_b64 cy sg) of
             None \<Rightarrow> (None, [''Signature verification failed (malformed value or unsupported key type)''])
           | Some b \<Rightarrow> (Some b, if b then [] else [''Signature does not verify against the certificate public key'']))
      | _ \<Rightarrow> (None, []))"

definition certificate_to_verify :: "string option \<Rightarrow> id option \<Rightarrow> db \<Rightarrow> http_error + string" where
  "certificate_to_verify pem cert s =
     (case (case cert of
              None \<Rightarrow> Inr pem
            | Some i \<Rightarrow> (case find_row c_id i (certificates s) of
                None \<Rightarrow> Inl (NotFound ''Certificate not found'') | Some c \<Rightarrow> Inr (Some (c_pem c)))) of
        Inl err \<Rightarrow> Inl err
      | Inr None \<Rightarrow> Inl (BadRequest ''certificatePem or certificateId is required'')
      | Inr (Some p) \<Rightarrow> if p = '''' then Inl (BadRequest ''certificatePem or certificateId is required'')
                       else Inr p)"

definition verify_certificate ::
  "env \<Rightarrow> crypto \<Rightarrow> string option \<Rightarrow> id option \<Rightarrow> string option \<Rightarrow> string option \<Rightarrow> db
   \<Rightarrow> http_error + verification" where
  "verify_certificate e cy pem0 cert sig hash s =
     (case certificate_to_verify pem0 cert s of
        Inl err \<Rightarrow> Inl err
      | Inr pem \<Rightarrow>
        (case parse_certificate cy (e_now e) pem of
           Inl err \<Rightarrow> Inl err
         | Inr nz \<Rightarrow>
             (let (verified, sig_reasons) = verify_signature cy pem sig hash;
                  reasons = verify_reasons_dates (e_now e) nz @ sig_reasons
              in Inr \<lparr>ve_valid = (reasons = []), ve_cert = nz, ve_signature = verified,
                      ve_assurance = compute_identity_assurance \<lparr>fa_cert_valid = (reasons = []),
                        fa_identity_match = True, fa_account_verified = False, fa_mfa = False,
                        fa_revocation = False, fa_validation = None\<rparr>,
                      ve_reasons = reasons\<rparr>)))"

end
