(* ===== verification/Certificate_Api.thy ===== *)
theory Certificate_Api
  imports Certificates
begin

text \<open>
  Properties of apps/api/src/modules/certificates: what a certificate-backed signature
  guarantees, that the imported private key is the one that signs, what re-provisioning does
  to a revoked certificate, and the isolation of the tenants' certificates.
\<close>

section \<open>Evidence is sound\<close>

text \<open>The stored private key, if any, belongs to the certificate.\<close>

definition key_pair_ok :: "crypto \<Rightarrow> certificate_row \<Rightarrow> bool" where
  "key_pair_ok cy c \<longleftrightarrow>
     (\<forall>enc mk key alg data sg. c_key_enc c = Some enc \<and> decrypt_secret cy enc mk = Inr key
        \<and> cy_sign cy alg data key = Some sg \<longrightarrow> cy_verify cy alg data (c_pem c) sg = Some True)
     \<and> (\<forall>x. cy_of_b64 cy (cy_to_b64 cy x) = x)"

lemma server_signature_verifies:
  assumes "key_pair_ok cy c" "server_signature cy c kt hash = Inr v"
  shows "cy_verify cy (hash_name kt) (cy_of_hex cy hash) (c_pem c) (cy_of_b64 cy v) = Some True"
  using assms by (auto simp: server_signature_def key_pair_ok_def split: option.splits sum.splits if_splits)

lemma signature_value_verifies:
  assumes "key_pair_ok cy c" "signature_value cy c kt hash provided = Inr v"
  shows "cy_verify cy (hash_name kt) (cy_of_hex cy hash) (c_pem c) (cy_of_b64 cy v) = Some True"
  using assms server_signature_verifies [OF assms(1)]
  by (auto simp: signature_value_def provided_signature_def split: option.splits sum.splits if_splits)

lemma sign_with_certificateE:
  assumes "sign_with_certificate e cy org i user email hash provided s = Inr ev"
  obtains c kt where "find (\<lambda>c. c_id c = i \<and> c_org c = org) (certificates s) = Some c"
    "c_status c = CertActive" "c_revoked_at c = None" "e_now e \<le> c_not_after c"
    "matches_signer c user email" "cy_public cy (c_pem c) = Some kt"
    "signature_value cy c (coalesce kt ''rsa'') hash provided = Inr (ce_value ev)"
    "ce_certificate ev = i" "ce_serial ev = c_serial c"
    "ce_level ev = as_level (compute_identity_assurance (signing_factors c user s))"
proof -
  note r = assms [unfolded sign_with_certificate_def Let_def]
  from r obtain c where c: "find (\<lambda>c. c_id c = i \<and> c_org c = org) (certificates s) = Some c"
    by (cases "find (\<lambda>c. c_id c = i \<and> c_org c = org) (certificates s)") simp_all
  note r1 = r [unfolded c, simplified]
  from r1 have g: "c_status c = CertActive" "c_revoked_at c = None" "e_now e \<le> c_not_after c"
    "matches_signer c user email"
    by (simp_all split: if_split_asm)
  from r1 g obtain kt where kt: "cy_public cy (c_pem c) = Some kt"
    by (cases "cy_public cy (c_pem c)") simp_all
  from r1 g kt obtain v where v: "signature_value cy c (coalesce kt ''rsa'') hash provided = Inr v"
    by (cases "signature_value cy c (coalesce kt ''rsa'') hash provided") simp_all
  from r1 g kt v find_Some_iff_filter [OF c] show ?thesis
    by (intro that [OF c g kt]) auto
qed


lemma not_isl_Inr: "\<not> isl x \<Longrightarrow> (\<And>v. x = Inr v \<Longrightarrow> thesis) \<Longrightarrow> thesis"
  by (cases x) auto

definition sample_certificate :: certificate_row where
  "sample_certificate = (blank_certificate 1 4)\<lparr>c_user := Some 5, c_email := Some ''ada@acme.test'',
     c_serial := ''01'', c_not_after := 5000, c_pem := ''PEM'', c_validation := Some ''OV''\<rparr>"


section \<open>Import and provisioning\<close>

lemma encrypt_optional_recovers:
  assumes "node_crypto_ok cy" "encrypt_optional cy iv (Some k) = Inr enc" "k \<noteq> ''''"
  shows "\<exists>mk payload. master_key cy = Inr mk \<and> enc = Some payload \<and> payload \<noteq> ''''
    \<and> decrypt_secret cy payload mk = Inr k"
proof -
  obtain mk where mk: "master_key cy = Inr mk"
    using assms(2,3) by (cases "master_key cy") (auto simp: encrypt_optional_def)
  then have "mk \<noteq> ''''" by (auto simp: master_key_def split: option.splits if_splits)
  from decrypt_encrypt [OF assms(1) this, of iv k] mk assms(2,3) show ?thesis
    by (auto simp: encrypt_optional_def)
qed

lemma upsert_certificate_result:
  assumes "\<And>c. c_id (upd c) = c_id c" "\<And>i. c_id (mk i) = i"
    and "distinct (map c_id (certificates s))" "next_id s \<notin> c_id ` set (certificates s)"
    and "upsert_certificate org serial upd mk s = (c, s')"
  shows "find_row c_id (c_id c) (certificates s') = Some c"
proof (cases "by_serial org serial s")
  case None
  have "find_row c_id (next_id s) (certificates s) = None"
    using assms(4) by (simp add: find_row_None_iff)
  with None assms show ?thesis
    by (auto simp: upsert_certificate_def find_row_append)
next
  case (Some c0)
  then have "c0 \<in> set (certificates s)" by (auto simp: by_serial_def dest: find_Some_iff_filter)
  with Some assms show ?thesis
    by (auto simp: upsert_certificate_def find_row_update_row find_row_distinct)
qed

definition certificates_ok :: "db \<Rightarrow> bool" where
  "certificates_ok s \<longleftrightarrow> distinct (map c_id (certificates s))
     \<and> list_all (\<lambda>c. c_id c < next_id s) (certificates s)"

lemma certificates_ok_fresh: "certificates_ok s \<Longrightarrow> next_id s \<notin> c_id ` set (certificates s)"
  by (auto simp: certificates_ok_def list_all_iff)

lemma imported_row_id [simp]: "c_id (imported_row inp nz enc owner c) = c_id c"
  by (simp add: imported_row_def)

lemma issued_row_id [simp]: "c_id (issued_row kind iss nz hint enc owner c) = c_id c"
  by (simp add: issued_row_def)

lemma blank_certificate_id [simp]: "c_id (blank_certificate org i) = i" "c_org (blank_certificate org i) = org"
  by (simp_all add: blank_certificate_def)

lemma import_certificateE:
  assumes "import_certificate e cy u inp s = (Inr c, s')"
  obtains nz enc org owner c' where "parse_certificate cy (e_now e) (im_pem inp) = Inr nz"
    "encrypt_optional cy (e_rand e 0) (im_key inp) = Inr enc" "org_of u = Some org" "au_id u = Some owner"
    "upsert_certificate org (nz_serial nz) (imported_row inp nz enc owner)
       (\<lambda>i. imported_row inp nz enc owner (blank_certificate org i)) s = (c', s')" "c = sanitize c'"
proof -
  note r = assms [unfolded import_certificate_def Let_def]
  from r obtain nz where nz: "parse_certificate cy (e_now e) (im_pem inp) = Inr nz"
    by (cases "parse_certificate cy (e_now e) (im_pem inp)") simp_all
  with r obtain enc where enc: "encrypt_optional cy (e_rand e 0) (im_key inp) = Inr enc"
    by (cases "encrypt_optional cy (e_rand e 0) (im_key inp)") (simp_all split: if_split_asm)
  from r nz enc obtain org owner where o: "org_of u = Some org" "au_id u = Some owner"
    by (cases "org_of u"; cases "au_id u") (simp_all split: if_split_asm)
  obtain c' s'' where up: "upsert_certificate org (nz_serial nz) (imported_row inp nz enc owner)
       (\<lambda>i. imported_row inp nz enc owner (blank_certificate org i)) s = (c', s'')"
    by fastforce
  from r nz enc o up show ?thesis
    by (intro that [OF nz enc o, of c']) (simp_all split: if_split_asm)
qed

text \<open>
  a certificate imported with its private key is signed for by exactly that key: the
  server's signature for the stored row is the one the imported key makes over the hash.
\<close>

theorem import_then_sign:
  assumes "import_certificate e cy u inp s = (Inr c, s')"
    and "im_key inp = Some key" "key \<noteq> ''''" "node_crypto_ok cy" "certificates_ok s"
  shows "\<exists>row. find_row c_id (c_id c) (certificates s') = Some row \<and> c_pem row = im_pem inp
    \<and> c_status row = CertActive \<and> c_revoked_at row = None \<and> c_key_enc c = None
    \<and> server_signature cy row kt hash =
      (if \<not> cy_private cy key then Inl (InternalError ''createPrivateKey'')
       else (case cy_sign cy (hash_name kt) (cy_of_hex cy hash) key of
               None \<Rightarrow> Inl (InternalError ''sign'') | Some sg \<Rightarrow> Inr (cy_to_b64 cy sg)))"
proof -
  obtain nz enc org owner row where imp: "encrypt_optional cy (e_rand e 0) (Some key) = Inr enc"
    "upsert_certificate org (nz_serial nz) (imported_row inp nz enc owner)
       (\<lambda>i. imported_row inp nz enc owner (blank_certificate org i)) s = (row, s')" "c = sanitize row"
    using import_certificateE [OF assms(1)] assms(2) by metis
  obtain c0 where row: "row = imported_row inp nz enc owner c0"
    using imp(2) by (auto simp: upsert_certificate_def split: option.splits)
  have "find_row c_id (c_id row) (certificates s') = Some row"
    using assms(5) by (intro upsert_certificate_result [OF _ _ _ _ imp(2)])
      (auto simp: certificates_ok_def list_all_iff)
  moreover obtain mk payload where "master_key cy = Inr mk" "enc = Some payload" "payload \<noteq> ''''"
    "decrypt_secret cy payload mk = Inr key"
    using encrypt_optional_recovers [OF assms(4) imp(1) assms(3)] by blast
  then have "server_signature cy row kt hash =
      (if \<not> cy_private cy key then Inl (InternalError ''createPrivateKey'')
       else (case cy_sign cy (hash_name kt) (cy_of_hex cy hash) key of
               None \<Rightarrow> Inl (InternalError ''sign'') | Some sg \<Rightarrow> Inr (cy_to_b64 cy sg)))"
    by (simp add: server_signature_def row imported_row_def)
  ultimately show ?thesis
    by (simp add: imp(3) sanitize_def row imported_row_def)
qed

lemma encrypt_optional_nonce: "encrypt_optional cy iv None = Inr None"
  by (simp add: encrypt_optional_def)

theorem import_then_sign_witness:
  "\<exists>c s' row. import_certificate sample_env sample_crypto sample_principal
      \<lparr>im_pem = ''PEM'', im_chain = None, im_key = Some ''PEM'', im_provider = None,
       im_validation = None, im_common_name = None\<rparr> empty_db = (Inr c, s')
    \<and> find_row c_id (c_id c) (certificates s') = Some row
    \<and> server_signature sample_crypto row ''rsa'' ''h'' = Inr (nibbles ''PEM:h'')"
proof -
  let ?inp = "\<lparr>im_pem = ''PEM'', im_chain = None, im_key = Some ''PEM'', im_provider = None,
       im_validation = None, im_common_name = None\<rparr>"
  obtain nz where nz: "parse_certificate sample_crypto 1000 ''PEM'' = Inr nz"
    by (simp add: parse_certificate_def sample_crypto_def)
  obtain enc where enc: "encrypt_optional sample_crypto (e_rand sample_env 0) (Some ''PEM'') = Inr enc"
    by (simp add: encrypt_optional_def master_key_def encrypt_secret_def sample_crypto_def)
  have key: "private_key_matches sample_crypto n ''PEM'' ''PEM''" for n
    by (simp add: private_key_matches_def sample_crypto_def)
  obtain c s' where up: "upsert_certificate 1 (nz_serial nz) (imported_row ?inp nz enc 5)
      (\<lambda>i. imported_row ?inp nz enc 5 (blank_certificate 1 i)) empty_db = (c, s')"
    by fastforce
  have "org_of sample_principal = Some 1" "au_id sample_principal = Some 5" "e_now sample_env = 1000"
    by (simp_all add: sample_principal_def org_of_def sample_env_def)
  with nz enc key up have imp:
    "import_certificate sample_env sample_crypto sample_principal ?inp empty_db = (Inr (sanitize c), s')"
    by (simp add: import_certificate_def Let_def del: One_nat_def)
  have "certificates_ok empty_db" by (simp add: certificates_ok_def empty_db_def)
  from import_then_sign [OF imp _ _ sample_crypto_ok this, of "''PEM''" "''rsa''" "''h''"]
  obtain row where "find_row c_id (c_id (sanitize c)) (certificates s') = Some row"
    "server_signature sample_crypto row ''rsa'' ''h'' = Inr (nibbles ''PEM:h'')"
    by (auto simp: sample_crypto_def hash_name_def)
  with imp show ?thesis by blast
qed

text \<open>
  C40: provisioning a certificate under a serial number that was revoked makes its row ACTIVE
  again but keeps \<open>revokedAt\<close>, so signing with the freshly issued certificate is refused.
\<close>

theorem reprovisioned_certificate_unusable:
  assumes "by_serial org (nz_serial nz) s = Some c" "c_revoked_at c = Some t"
    and "persist_issued e cy org owner kind iss nz hint s = (Inr c', s')"
    and "distinct (map c_id (certificates s))"
  shows "c_status c' = CertActive
    \<and> sign_with_certificate e' cy' org (c_id c) user email hash provided s' =
      Inl (Forbidden ''Certificate is not active'')"
proof -
  obtain enc where c': "c' = issued_row kind iss nz hint enc owner c"
    and s': "certificates s' = update_row c_id (c_id c) (issued_row kind iss nz hint enc owner) (certificates s)"
    using assms(1,3) by (auto simp: persist_issued_def upsert_certificate_def Let_def split: sum.splits)
  have c: "c \<in> set (certificates s)" "c_org c = org"
    using assms(1) find_Some_iff_filter by (fastforce simp: by_serial_def)+
  have "find (\<lambda>x. c_id x = c_id c \<and> c_org x = org) (certificates s') = Some c'"
  proof -
    have "find (\<lambda>x. c_id x = c_id c \<and> c_org x = org)
        (update_row c_id (c_id c) (issued_row kind iss nz hint enc owner) rows) = Some c'"
      if "c \<in> set rows" "distinct (map c_id rows)" for rows
      using that c(2) c' by (induction rows) (auto simp: update_row_def issued_row_def image_iff)
    with c(1) assms(4) show ?thesis by (simp add: s')
  qed
  moreover have "c_status c' = CertActive" "c_revoked_at c' = Some t"
    using assms(2) by (simp_all add: c' issued_row_def)
  ultimately show ?thesis by (simp add: sign_with_certificate_def)
qed

definition sample_normalized :: normalized where
  "sample_normalized = \<lparr>nz_serial = ''01'', nz_subject = [], nz_issuer = [], nz_not_before = 0,
     nz_not_after = 9000, nz_email = Some ''ada@acme.test''\<rparr>"

definition sample_issued :: issued where
  "sample_issued = \<lparr>is_pem = ''PEM2'', is_chain = None, is_key = None, is_algorithm = None,
     is_validation = None, is_source = None\<rparr>"

theorem reprovisioned_certificate_unusable_witness:
  "sign_with_certificate sample_env sample_crypto 1 4 (Some 5) ''ada@acme.test'' ''h'' (Some ''sig'')
     (snd (persist_issued sample_env sample_crypto 1 5 CERULEAN sample_issued sample_normalized None
        (empty_db\<lparr>certificates := [sample_certificate\<lparr>c_revoked_at := Some 7\<rparr>]\<rparr>))) =
   Inl (Forbidden ''Certificate is not active'')"
proof -
  let ?c = "sample_certificate\<lparr>c_revoked_at := Some 7\<rparr>"
  let ?s = "empty_db\<lparr>certificates := [?c]\<rparr>"
  have b: "by_serial 1 (nz_serial sample_normalized) ?s = Some ?c"
    by (simp add: by_serial_def sample_certificate_def blank_certificate_def sample_normalized_def)
  obtain c' s' where p: "persist_issued sample_env sample_crypto 1 5 CERULEAN sample_issued
      sample_normalized None ?s = (Inr c', s')"
    by (simp add: persist_issued_def sample_issued_def encrypt_optional_nonce Let_def
        upsert_certificate_def b del: One_nat_def)
  have "c_revoked_at ?c = Some 7" "distinct (map c_id (certificates ?s))" and id: "c_id ?c = 4"
    by (simp_all add: sample_certificate_def blank_certificate_def)
  from reprovisioned_certificate_unusable [OF b this(1) p this(2)] show ?thesis
    by (simp only: p snd_conv id)
qed

section \<open>The common name of the subject\<close>

lemma split_comma_nonempty [simp]: "split_comma s \<noteq> []"
  by (induction s rule: split_comma.induct) (auto split: list.splits)

lemma split_comma_fresh: "CHR '','' \<notin> set x \<Longrightarrow> split_comma x = [x]"
  by (induction x) auto

lemma split_comma_append:
  "CHR '','' \<notin> set x \<Longrightarrow> split_comma (x @ '', '' @ y) = x # split_comma y"
  by (induction x) auto

lemma split_comma_join:
  "list_all (\<lambda>x. CHR '','' \<notin> set x) xs \<Longrightarrow> xs \<noteq> [] \<Longrightarrow> split_comma (js_join '', '' xs) = xs"
proof (induction "'', ''" xs rule: js_join.induct)
  case (3 x y ys)
  then show ?case using split_comma_append [of x "js_join '', '' (y # ys)"] by simp
qed (auto simp: split_comma_fresh)

definition long_named :: "(string option \<times> string \<times> string) \<Rightarrow> bool" where
  "long_named = (\<lambda>(name, oid, v). \<not> prefix ''CN'' (coalesce name oid) \<and> length (coalesce name oid) > 1
     \<and> CHR '','' \<notin> set (coalesce name oid @ v))"

text \<open>
  node-forge names the attributes of a distinguished name by their long names
  (\<open>commonName\<close>, \<open>emailAddress\<close>). For a subject whose attributes carry such names, the lookup
  of \<open>CN=\<close> finds nothing, so neither the e-mail nor the common name of a certificate is ever
  taken from its subject.
\<close>

theorem long_names_have_no_cn:
  assumes "list_all long_named attrs"
  shows "cn_from_subject (format_dn attrs) = None"
proof (cases "attrs = []")
  case True
  then show ?thesis by (simp add: cn_from_subject_def format_dn_def)
next
  case False
  let ?parts = "map (\<lambda>(name, oid, v). coalesce name oid @ ''='' @ v) attrs"
  have "list_all (\<lambda>x. CHR '','' \<notin> set x) ?parts"
    using assms by (auto simp: list_all_iff long_named_def)
  then have "split_comma (format_dn attrs) = ?parts"
    using False by (simp add: format_dn_def split_comma_join)
  moreover have "\<not> prefix ''CN='' (n @ ''='' @ v)" if "\<not> prefix ''CN'' n" "length n > 1" for n v :: string
    using that by (cases n; cases "tl n") (auto simp: prefix_Cons)
  then have "\<not> prefix ''CN='' p" if "p \<in> set ?parts" for p
    using that assms by (auto simp: list_all_iff long_named_def)
  ultimately show ?thesis
    by (simp add: cn_from_subject_def find_None_iff)
qed

theorem long_names_have_no_cn_witness:
  "cn_from_subject (format_dn [(Some ''commonName'', ''2.5.4.3'', ''ada@acme.test'')]) = None"
  using long_names_have_no_cn [of "[(Some ''commonName'', ''2.5.4.3'', ''ada@acme.test'')]"]
  by (simp add: long_named_def)

end
