(* ===== verification/Placements.thy ===== *)
theory Placements
  imports Schema
begin

text \<open>
  The placed fields of a signing request (the private helpers of
  apps/api/src/modules/signatures/signatures.service.ts): template placements are checked
  against the signer count, copied onto the request and bound to signers, shown to their
  signer, validated when the signer submits values, and written as evidence.
\<close>

record field_input =
  fi_id :: id
  fi_value :: "json option"

definition field_type_name :: "field_type \<Rightarrow> string" where
  "field_type_name t = (case t of FtSignature \<Rightarrow> ''SIGNATURE'' | FtInitial \<Rightarrow> ''INITIAL''
     | FtDate \<Rightarrow> ''DATE'' | FtText \<Rightarrow> ''TEXT'' | FtCheckbox \<Rightarrow> ''CHECKBOX'' | FtDropdown \<Rightarrow> ''DROPDOWN''
     | FtAttachment \<Rightarrow> ''ATTACHMENT'' | FtName \<Rightarrow> ''NAME'' | FtEmail \<Rightarrow> ''EMAIL''
     | FtCompany \<Rightarrow> ''COMPANY'' | FtJobTitle \<Rightarrow> ''JOB_TITLE'' | FtPhone \<Rightarrow> ''PHONE''
     | FtAddress \<Rightarrow> ''ADDRESS'' | FtCustom \<Rightarrow> ''CUSTOM'')"

text \<open>
  Rows are kept in creation order, so the stable sort by page number is
  \<open>orderBy: [{ pageNumber: 'asc' }, { createdAt: 'asc' }]\<close>.
\<close>

definition request_fields_for_signer :: "id \<Rightarrow> id \<Rightarrow> db \<Rightarrow> request_field_row list" where
  "request_fields_for_signer rid sid s =
     sort_key rf_page (filter (\<lambda>f. rf_request f = rid \<and> rf_signer f = Some sid) (request_fields s))"

definition quote_mark :: string where
  "quote_mark = [CHR 0x27]"

definition load_template_placements ::
  "id option \<Rightarrow> nat \<Rightarrow> db \<Rightarrow> http_error + template_field_row list" where
  "load_template_placements template count s =
     (case template of
        None \<Rightarrow> Inr []
      | Some t \<Rightarrow>
          (let fields = sort_key tf_page (filter (\<lambda>f. tf_template f = t) (template_fields s))
           in (case find (\<lambda>f. int count \<le> tf_assignee f) fields of
                 Some f \<Rightarrow> Inl (BadRequest (''Template field '' @ quote_mark
                   @ coalesce (tf_name f) (field_type_name (tf_type f))
                   @ quote_mark @ '' is assigned to signer '' @ show_nat (nat (tf_assignee f + 1))
                   @ '', but this request has '' @ show_nat count @ '' signer(s)''))
               | None \<Rightarrow>
                 (case find (\<lambda>f. tf_type f = FtAttachment) fields of
                    Some f \<Rightarrow> Inl (BadRequest (''Template field '' @ quote_mark
                      @ coalesce (tf_name f) (field_type_name (tf_type f))
                      @ quote_mark @ '' is an attachment, which a signing room cannot collect yet: remove it before sending''))
                  | None \<Rightarrow> Inr fields))))"

text \<open>\<open>new Map(signers.map((s) => [s.orderIndex, s.id]))\<close>: a later pair wins.\<close>

definition signer_by_order :: "signer_row list \<Rightarrow> int \<Rightarrow> id option" where
  "signer_by_order gs = map_of (rev (map (\<lambda>g. (sg_order g, sg_id g)) gs))"

definition placement_row ::
  "id \<Rightarrow> signer_row list \<Rightarrow> id \<Rightarrow> template_field_row \<Rightarrow> request_field_row" where
  "placement_row rid gs i f = \<lparr>rf_id = i, rf_request = rid, rf_signer = signer_by_order gs (tf_assignee f),
     rf_type = tf_type f, rf_name = tf_name f, rf_key = tf_key f, rf_required = tf_required f,
     rf_page = tf_page f, rf_x = tf_x f, rf_y = tf_y f, rf_width = tf_width f, rf_height = tf_height f,
     rf_options = tf_options f, rf_value = None, rf_filled = None\<rparr>"

fun placement_rows ::
  "id \<Rightarrow> signer_row list \<Rightarrow> id \<Rightarrow> template_field_row list \<Rightarrow> request_field_row list" where
  "placement_rows rid gs i [] = []"
| "placement_rows rid gs i (f # fs) = placement_row rid gs i f # placement_rows rid gs (i + 1) fs"

definition placements_for_request ::
  "id \<Rightarrow> template_field_row list \<Rightarrow> signer_row list \<Rightarrow> db \<Rightarrow> db" where
  "placements_for_request rid placements gs s = s\<lparr>next_id := next_id s + length placements,
     request_fields := request_fields s @ placement_rows rid gs (next_id s) placements\<rparr>"

definition is_empty_value :: "json option \<Rightarrow> bool" where
  "is_empty_value v = (case v of None \<Rightarrow> True | Some JNull \<Rightarrow> True | Some (JStr x) \<Rightarrow> js_trim x = []
     | _ \<Rightarrow> False)"

text \<open>\<open>new Map(input.map((f) => [f.id, f.value]))\<close>; \<open>Map.get\<close> of a missing key is \<open>undefined\<close>.\<close>

definition submitted :: "field_input list \<Rightarrow> id \<Rightarrow> json option option" where
  "submitted inp = map_of (rev (map (\<lambda>f. (fi_id f, fi_value f)) inp))"

definition submitted_value :: "field_input list \<Rightarrow> id \<Rightarrow> json option" where
  "submitted_value inp i = (case submitted inp i of None \<Rightarrow> None | Some v \<Rightarrow> v)"

definition first_occurrences :: "'a list \<Rightarrow> 'a list" where
  "first_occurrences xs = rev (remdups (rev xs))"

definition resolve_field_values ::
  "id \<Rightarrow> id \<Rightarrow> field_input list option \<Rightarrow> db \<Rightarrow> http_error + (id \<times> json option) list" where
  "resolve_field_values rid sid input s =
     (let requested = request_fields_for_signer rid sid s; inp = coalesce input []
      in if requested = [] then Inr []
         else
           (let unknown = filter (\<lambda>i. \<not> list_ex (\<lambda>f. rf_id f = i) requested)
                  (first_occurrences (map fi_id inp))
            in if unknown \<noteq> []
               then Inl (BadRequest (''Unknown field(s) for this signer: '' @ js_join '', '' (map show_nat unknown)))
               else
                 (let missing = filter (\<lambda>f. rf_required f \<and> is_empty_value (submitted_value inp (rf_id f)))
                        requested
                  in if missing \<noteq> []
                     then Inl (BadRequest (''Complete the required field(s) first: ''
                            @ js_join '', '' (map (\<lambda>f. coalesce (rf_name f) (field_type_name (rf_type f))) missing)))
                     else Inr (map (\<lambda>f. (rf_id f, submitted_value inp (rf_id f)))
                            (filter (\<lambda>f. submitted inp (rf_id f) \<noteq> None) requested)))))"

text \<open>\<open>null\<close> is stored as JSON null, \<open>undefined\<close> leaves the column as it is.\<close>

definition capture_one :: "time \<Rightarrow> id \<times> json option \<Rightarrow> request_field_row \<Rightarrow> request_field_row" where
  "capture_one now v f = f\<lparr>rf_value := coalesce_opt (snd v) (rf_value f), rf_filled := Some now\<rparr>"

definition capture_field_values :: "time \<Rightarrow> (id \<times> json option) list \<Rightarrow> db \<Rightarrow> db" where
  "capture_field_values now vs s =
     s\<lparr>request_fields := foldl (\<lambda>rows v. update_row rf_id (fst v) (capture_one now v) rows) (request_fields s) vs\<rparr>"

section \<open>Placements\<close>

lemma load_template_placements_ok:
  assumes "load_template_placements t n s = Inr fs"
  shows "list_all (\<lambda>f. tf_assignee f < int n \<and> tf_type f \<noteq> FtAttachment \<and> Some (tf_template f) = t) fs"
  using assms
  by (auto simp: load_template_placements_def Let_def list_all_iff find_None_iff split: option.splits)

lemma signer_by_order_Some:
  assumes "signer_by_order gs k = Some i"
  shows "\<exists>g \<in> set gs. sg_order g = k \<and> sg_id g = i"
  using map_of_SomeD [OF assms [unfolded signer_by_order_def]] by auto

lemma signer_by_order_eq:
  assumes "distinct (map sg_order gs)" "g \<in> set gs"
  shows "signer_by_order gs (sg_order g) = Some (sg_id g)"
  unfolding signer_by_order_def
  using assms by (intro map_of_is_SomeI) (auto simp: rev_map comp_def distinct_map)

lemma signer_by_order_None:
  "k \<notin> sg_order ` set gs \<Longrightarrow> signer_by_order gs k = None"
  unfolding signer_by_order_def by (subst map_of_eq_None_iff) force

lemma length_placement_rows [simp]: "length (placement_rows rid gs i fs) = length fs"
  by (induction fs arbitrary: i) auto

lemma placement_rows_nth:
  "k < length fs \<Longrightarrow> placement_rows rid gs i fs ! k = placement_row rid gs (i + k) (fs ! k)"
  by (induction fs arbitrary: i k) (auto simp: nth_Cons split: nat.splits)

section \<open>Submitted values\<close>

lemma is_empty_value_None [simp]: "is_empty_value None"
  by (simp add: is_empty_value_def)

lemma in_first_occurrences [simp]: "x \<in> set (first_occurrences xs) \<longleftrightarrow> x \<in> set xs"
  by (simp add: first_occurrences_def)

lemma request_fields_for_signer_mem:
  "f \<in> set (request_fields_for_signer rid sid s) \<longleftrightarrow>
     f \<in> set (request_fields s) \<and> rf_request f = rid \<and> rf_signer f = Some sid"
  by (auto simp: request_fields_for_signer_def)

lemma resolve_field_values_ok:
  assumes "resolve_field_values rid sid input s = Inr vs"
    and "f \<in> set (request_fields_for_signer rid sid s)" "rf_required f"
  shows "\<exists>v. (rf_id f, Some v) \<in> set vs \<and> \<not> is_empty_value (Some v)"
proof -
  have ne: "request_fields_for_signer rid sid s \<noteq> []" using assms(2) by auto
  then have vs: "vs = map (\<lambda>f. (rf_id f, submitted_value (coalesce input []) (rf_id f)))
      (filter (\<lambda>f. submitted (coalesce input []) (rf_id f) \<noteq> None) (request_fields_for_signer rid sid s))"
    and nm: "filter (\<lambda>f. rf_required f \<and> is_empty_value (submitted_value (coalesce input []) (rf_id f)))
      (request_fields_for_signer rid sid s) = []"
    using assms(1) by (auto simp: resolve_field_values_def Let_def split: if_split_asm)
  have "\<not> is_empty_value (submitted_value (coalesce input []) (rf_id f))"
    using nm assms(2,3) by (auto simp: filter_empty_conv)
  moreover from this obtain v where "submitted (coalesce input []) (rf_id f) = Some (Some v)"
    by (auto simp: submitted_value_def split: option.splits) (metis is_empty_value_None not_None_eq)
  ultimately show ?thesis
    using assms(2) by (intro exI [of _ v]) (auto simp: vs submitted_value_def intro!: image_eqI [of _ _ f])
qed

lemma resolve_field_values_only_own:
  assumes "resolve_field_values rid sid input s = Inr vs" "(i, v) \<in> set vs"
  shows "\<exists>f. f \<in> set (request_fields s) \<and> rf_id f = i \<and> rf_request f = rid \<and> rf_signer f = Some sid"
  using assms request_fields_for_signer_mem
  by (fastforce simp: resolve_field_values_def Let_def split: if_split_asm)

lemma capture_field_values_frame [frame]:
  "signers (capture_field_values now vs s) = signers s"
  "requests (capture_field_values now vs s) = requests s"
  "signatures (capture_field_values now vs s) = signatures s"
  "events (capture_field_values now vs s) = events s"
  "documents (capture_field_values now vs s) = documents s"
  "endpoints (capture_field_values now vs s) = endpoints s"
  "next_id (capture_field_values now vs s) = next_id s"
  "signing_queue (capture_field_values now vs s) = signing_queue s"
  "deliveries (capture_field_values now vs s) = deliveries s"
  by (simp_all add: capture_field_values_def)

lemma capture_one_id [simp]: "rf_id (capture_one now v f) = rf_id f" "rf_signer (capture_one now v f) = rf_signer f"
    "rf_request (capture_one now v f) = rf_request f" "rf_required (capture_one now v f) = rf_required f"
    "rf_page (capture_one now v f) = rf_page f"
  by (simp_all add: capture_one_def)

text \<open>Fields of other signers keep their values.\<close>

lemma capture_other:
  "i \<notin> fst ` set vs \<Longrightarrow> find_row rf_id i (request_fields (capture_field_values now vs s)) =
     find_row rf_id i (request_fields s)"
proof -
  have "i \<notin> fst ` set vs \<Longrightarrow>
    find_row rf_id i (foldl (\<lambda>rows v. update_row rf_id (fst v) (capture_one now v) rows) rows vs) =
      find_row rf_id i rows" for rows
    by (induction vs arbitrary: rows) (auto simp: find_row_update_row)
  then show "i \<notin> fst ` set vs \<Longrightarrow> ?thesis" by (simp add: capture_field_values_def)
qed

lemma capture_value:
  assumes "distinct (map fst vs)" "(i, v) \<in> set vs" "find_row rf_id i (request_fields s) = Some f"
  shows "find_row rf_id i (request_fields (capture_field_values now vs s)) = Some (capture_one now (i, v) f)"
proof -
  have gen: "distinct (map fst vs) \<Longrightarrow> (i, v) \<in> set vs \<Longrightarrow> find_row rf_id i rows = Some f \<Longrightarrow>
    find_row rf_id i (foldl (\<lambda>rows v. update_row rf_id (fst v) (capture_one now v) rows) rows vs) =
      Some (capture_one now (i, v) f)" for rows
  proof (induction vs arbitrary: rows)
    case (Cons x vs)
    have other: "i \<notin> fst ` set vs \<Longrightarrow>
        find_row rf_id i (foldl (\<lambda>rows v. update_row rf_id (fst v) (capture_one now v) rows) rows' vs) =
        find_row rf_id i rows'" for rows'
      by (induction vs arbitrary: rows') (auto simp: find_row_update_row)
    show ?case
    proof (cases "x = (i, v)")
      case True
      with Cons.prems other show ?thesis by (simp add: find_row_update_row)
    next
      case False
      with Cons.prems have "fst x \<noteq> i" "(i, v) \<in> set vs" by (auto simp: image_iff)
      with Cons show ?thesis by (simp add: find_row_update_row)
    qed
  qed simp
  with assms show ?thesis by (simp add: capture_field_values_def)
qed

end
