(* ===== verification/Branding.thy ===== *)
theory Branding
  imports Net
begin

text \<open>
  apps/api/src/modules/branding: the normalizer of \<open>Organization.branding\<close> and its lookup.
  The em dash of the platform footer is written as a hyphen.
\<close>

record branding =
  br_name :: string
  br_tagline :: string
  br_logo :: "string option"
  br_color :: string
  br_footer :: string

definition platform_branding :: branding where
  "platform_branding = \<lparr>br_name = ''Signara'', br_tagline = ''Secure Every Signature'',
     br_logo = None, br_color = ''#0F62FE'',
     br_footer = ''You received this email because you're participating in a signing workflow on Signara. If this wasn't expected, contact the sender - do not forward signing links.''\<rparr>"

definition is_hex :: "char \<Rightarrow> bool" where
  "is_hex c = (let n = of_char c :: nat in
     (48 \<le> n \<and> n \<le> 57) \<or> (97 \<le> n \<and> n \<le> 102) \<or> (65 \<le> n \<and> n \<le> 70))"

definition hex_color :: "string \<Rightarrow> bool" where
  "hex_color s = (case s of [] \<Rightarrow> False
     | c # ds \<Rightarrow> c = CHR ''#'' \<and> (length ds = 3 \<or> length ds = 6) \<and> list_all is_hex ds)"

definition trimmed :: "json option \<Rightarrow> string option" where
  "trimmed v = (case v of Some (JStr x) \<Rightarrow> (if js_trim x = '''' then None else Some (js_trim x))
     | _ \<Rightarrow> None)"

definition safe_logo_url :: "(string \<Rightarrow> url option) \<Rightarrow> json option \<Rightarrow> string option" where
  "safe_logo_url parse v =
     (case v of
        Some (JStr x) \<Rightarrow>
          (if js_trim x = '''' then None
           else (case parse (js_trim x) of
                   None \<Rightarrow> None
                 | Some u \<Rightarrow> if url_protocol u = ''https:'' \<or> url_protocol u = ''http:''
                             then Some (url_href u) else None))
      | _ \<Rightarrow> None)"

definition normalize_branding ::
  "(string \<Rightarrow> url option) \<Rightarrow> json option \<Rightarrow> string option \<Rightarrow> branding" where
  "normalize_branding parse raw org_name =
     (case raw of
        Some (JObj source) \<Rightarrow>
          (let explicit_name = trimmed (map_of source ''displayName'');
               name = trimmed (map_option JStr org_name);
               color = trimmed (map_of source ''primaryColor'')
           in \<lparr>br_name = coalesce (coalesce_opt explicit_name name) (br_name platform_branding),
               br_tagline = coalesce (trimmed (map_of source ''tagline'')) '''',
               br_logo = safe_logo_url parse (map_of source ''logoUrl''),
               br_color = (case color of
                   Some c \<Rightarrow> if hex_color c then c else br_color platform_branding
                 | None \<Rightarrow> br_color platform_branding),
               br_footer = coalesce (trimmed (map_of source ''footerNote'')) (br_footer platform_branding)\<rparr>)
      | _ \<Rightarrow> platform_branding)"

definition branding_for_organization ::
  "(string \<Rightarrow> url option) \<Rightarrow> id option \<Rightarrow> db \<Rightarrow> branding" where
  "branding_for_organization parse org s =
     (case org of
        None \<Rightarrow> platform_branding
      | Some i \<Rightarrow>
        (case find_row o_id i (orgs s) of
           None \<Rightarrow> platform_branding
         | Some r \<Rightarrow> normalize_branding parse (o_branding r) (Some (o_name r))))"

definition safe_branding :: "(string \<Rightarrow> url option) \<Rightarrow> branding \<Rightarrow> bool" where
  "safe_branding parse b =
     (br_name b \<noteq> '''' \<and> br_footer b \<noteq> '''' \<and> hex_color (br_color b) \<and>
      pred_option (\<lambda>href. \<exists>x u. parse x = Some u \<and> url_href u = href \<and>
         (url_protocol u = ''https:'' \<or> url_protocol u = ''http:'')) (br_logo b))"

lemma trimmed_nonempty: "trimmed v = Some x \<Longrightarrow> x \<noteq> ''''"
  by (auto simp: trimmed_def split: option.splits json.splits if_splits)

lemma safe_platform: "safe_branding parse platform_branding"
  by (simp add: safe_branding_def platform_branding_def hex_color_def is_hex_def Let_def)

lemma coalesce_trimmed: "d \<noteq> '''' \<Longrightarrow> coalesce (trimmed v) d \<noteq> ''''"
  by (cases "trimmed v") (auto dest: trimmed_nonempty)

text \<open>
  whatever JSON an organization stored, the resolved branding has a name and a footer,
  its colour is a hex colour, and its logo, if any, is the normal form of an absolute http or
  https URL.
\<close>

theorem branding_safe: "safe_branding parse (branding_for_organization parse org s)"
proof -
  have "safe_branding parse (normalize_branding parse raw name)" for raw name
  proof (cases "\<exists>source. raw = Some (JObj source)")
    case True
    then obtain source where raw: "raw = Some (JObj source)" by blast
    let ?b = "normalize_branding parse raw name"
    have "br_name ?b \<noteq> ''''" "br_footer ?b \<noteq> ''''"
      using trimmed_nonempty coalesce_trimmed
      by (auto simp: raw normalize_branding_def Let_def platform_branding_def coalesce_def
          coalesce_opt_def split: option.splits)
    moreover have "hex_color (br_color ?b)"
      using safe_platform by (auto simp: raw normalize_branding_def Let_def safe_branding_def
          split: option.splits)
    moreover have "br_logo ?b = safe_logo_url parse (map_of source ''logoUrl'')"
      by (simp add: raw normalize_branding_def Let_def)
    ultimately show ?thesis
      by (auto simp: safe_branding_def safe_logo_url_def split: option.splits json.splits if_splits)
  qed (auto simp: normalize_branding_def safe_platform split: option.splits json.splits)
  then show ?thesis
    by (auto simp: branding_for_organization_def safe_platform split: option.splits)
qed

end
