(* ===== verification/Signing.thy ===== *)
theory Signing
  imports Placements Webhooks Branding Certificates
begin

text \<open>
  apps/api/src/modules/signatures/signatures.service.ts: the signing workflow. A handler
  returns the error or the value together with the database it leaves behind. Events are
  recorded through \<open>record_event\<close>, which also emits the tenant's webhooks. The typographic
  dashes of messages are hyphens, ids in messages are decimal numbers.
\<close>

section \<open>Events\<close>

definition webhook_event_for :: "event_type \<Rightarrow> obj \<Rightarrow> string option" where
  "webhook_event_for ty meta =
     (case ty of
        EvCreated \<Rightarrow> Some ''request.created''
      | EvViewed \<Rightarrow> Some ''request.viewed''
      | EvSigned \<Rightarrow> Some (if map_of meta ''completed'' = Some (JBool True) then ''request.completed''
                          else ''request.signed'')
      | EvDeclined \<Rightarrow> Some ''request.declined''
      | EvCancelled \<Rightarrow> Some ''request.cancelled''
      | EvExpired \<Rightarrow> Some ''request.expired''
      | EvReminded \<Rightarrow> Some ''request.reminded''
      | _ \<Rightarrow> None)"

definition emit_webhook_for_request :: "env \<Rightarrow> string \<Rightarrow> id \<Rightarrow> obj \<Rightarrow> db \<Rightarrow> db" where
  "emit_webhook_for_request e event rid payload s =
     (case find_row rq_id rid (requests s) of
        None \<Rightarrow> s
      | Some r \<Rightarrow> snd (emit e event (rq_org r) (Some rid) payload s))"

definition meta_string :: "obj \<Rightarrow> string \<Rightarrow> string option" where
  "meta_string meta k = (case map_of meta k of Some (JStr x) \<Rightarrow> Some x | _ \<Rightarrow> None)"

definition append_event :: "env \<Rightarrow> id \<Rightarrow> event_type \<Rightarrow> id option \<Rightarrow> obj \<Rightarrow> db \<Rightarrow> db" where
  "append_event e rid ty signer meta s = s\<lparr>next_id := next_id s + 1,
     events := events s @ [\<lparr>ev_id = next_id s, ev_request = rid, ev_signer = signer, ev_type = ty,
        ev_meta = meta, ev_ip = meta_string meta ''ipAddress'',
        ev_agent = map_option (take 500) (meta_string meta ''userAgent''), ev_at = e_now e\<rparr>]\<rparr>"

definition opt_id :: "id option \<Rightarrow> json" where
  "opt_id i = (case i of None \<Rightarrow> JNull | Some x \<Rightarrow> JId x)"

definition opt_string :: "string option \<Rightarrow> json" where
  "opt_string i = (case i of None \<Rightarrow> JNull | Some x \<Rightarrow> JStr x)"

text \<open>A property whose value may be \<open>undefined\<close>: JSON drops it.\<close>

definition js_prop :: "string \<Rightarrow> json option \<Rightarrow> obj" where
  "js_prop k v = (case v of None \<Rightarrow> [] | Some x \<Rightarrow> [(k, x)])"

definition record_event :: "env \<Rightarrow> id \<Rightarrow> event_type \<Rightarrow> id option \<Rightarrow> obj \<Rightarrow> db \<Rightarrow> db" where
  "record_event e rid ty signer meta s =
     (let s1 = append_event e rid ty signer meta s
      in (case webhook_event_for ty meta of
            None \<Rightarrow> s1
          | Some event \<Rightarrow>
              emit_webhook_for_request e event rid (spread [(''signerId'', opt_id signer)] meta) s1))"

definition update_signer :: "id \<Rightarrow> (signer_row \<Rightarrow> signer_row) \<Rightarrow> db \<Rightarrow> db" where
  "update_signer i f s = s\<lparr>signers := update_row sg_id i f (signers s)\<rparr>"

definition update_request :: "id \<Rightarrow> (request_row \<Rightarrow> request_row) \<Rightarrow> db \<Rightarrow> db" where
  "update_request i f s = s\<lparr>requests := update_row rq_id i f (requests s)\<rparr>"

definition update_document :: "id \<Rightarrow> (document_row \<Rightarrow> document_row) \<Rightarrow> db \<Rightarrow> db" where
  "update_document i f s = s\<lparr>documents := update_row d_id i f (documents s)\<rparr>"

definition mark_request_expired :: "env \<Rightarrow> id \<Rightarrow> db \<Rightarrow> db" where
  "mark_request_expired e rid s =
     record_event e rid EvExpired None [] (update_request rid (\<lambda>r. r\<lparr>rq_status := EXPIRED\<rparr>) s)"

section \<open>Queue\<close>

definition enqueue_invites :: "id \<Rightarrow> id list \<Rightarrow> db \<Rightarrow> db" where
  "enqueue_invites rid sids s =
     s\<lparr>signing_queue := signing_queue s @ map (SendSigningInvite rid) sids\<rparr>"

text \<open>The stable \<open>jobId\<close> makes BullMQ ignore a second completion mail of a request.\<close>

definition enqueue_completion_mail :: "id \<Rightarrow> db \<Rightarrow> db" where
  "enqueue_completion_mail rid s =
     s\<lparr>signing_queue := (if SendCompletionMail rid \<in> set (signing_queue s) then signing_queue s
                         else signing_queue s @ [SendCompletionMail rid])\<rparr>"

section \<open>Whose turn it is\<close>

definition signers_of :: "id \<Rightarrow> db \<Rightarrow> signer_row list" where
  "signers_of rid s = filter (\<lambda>g. sg_request g = rid) (signers s)"

definition can_signer_act :: "signing_mode \<Rightarrow> signer_row \<Rightarrow> db \<Rightarrow> bool" where
  "can_signer_act mode g s =
     (if sg_role g = CC then False
      else if mode = PARALLEL then True
      else list_all (\<lambda>c. sg_status c = SIGNED)
             (filter (\<lambda>c. sg_order c < sg_order g \<and> sg_role c \<noteq> CC) (signers_of (sg_request g) s)))"

definition can_sign_now :: "signing_mode \<Rightarrow> signer_row \<Rightarrow> bool" where
  "can_sign_now mode g =
     (if sg_role g = APPROVER then True else if mode = PARALLEL then True
      else sg_status g = INVITED \<or> sg_status g = VIEWED)"

definition active_status :: "document_status \<Rightarrow> bool" where
  "active_status st \<longleftrightarrow> st = AWAITING_SIGNATURE \<or> st = IN_PROGRESS"

definition past_deadline :: "env \<Rightarrow> request_row \<Rightarrow> bool" where
  "past_deadline e r = (case rq_deadline r of None \<Rightarrow> False | Some d \<Rightarrow> d < e_now e)"

definition advance_workflow :: "env \<Rightarrow> id \<Rightarrow> signing_mode \<Rightarrow> db \<Rightarrow> db" where
  "advance_workflow e rid mode s =
     (case find_row rq_id rid (requests s) of
        None \<Rightarrow> s
      | Some r \<Rightarrow>
        (let gs = sort_key sg_order (signers_of rid s)
         in if list_all (\<lambda>g. sg_role g = CC \<or> sg_status g = SIGNED) gs
            then enqueue_completion_mail rid
                   (record_event e rid EvSigned None [(''completed'', JBool True)]
                     (update_document (rq_document r) (\<lambda>d. d\<lparr>d_status := COMPLETED\<rparr>)
                       (update_request rid (\<lambda>r. r\<lparr>rq_status := COMPLETED, rq_completed := Some (e_now e)\<rparr>) s)))
            else if mode = SEQUENTIAL
            then (case find (\<lambda>g. sg_role g \<noteq> CC \<and> sg_status g = PENDING) gs of
                    None \<Rightarrow> s
                  | Some g \<Rightarrow> enqueue_invites rid [sg_id g]
                      (update_signer (sg_id g) (\<lambda>g. g\<lparr>sg_status := INVITED\<rparr>) s))
            else s))"

section \<open>Creating a request\<close>

record signer_input =
  in_email :: string
  in_name :: "string option"
  in_role :: "signer_role option"
  in_order :: "int option"

record rule_input =
  ru_order :: int
  ru_condition :: json
  ru_action :: rule_action
  ru_target :: "id option"

record create_input =
  cr_document :: id
  cr_template :: "id option"
  cr_title :: "string option"
  cr_message :: "string option"
  cr_deadline :: "time option"
  cr_mode :: "signing_mode option"
  cr_signers :: "signer_input list"
  cr_rules :: "rule_input list"
  cr_send_invites :: "bool option"

definition generate_token :: "env \<Rightarrow> nat \<Rightarrow> string" where
  "generate_token e k = ''sgn_'' @ e_rand e k"

definition signer_email :: "signer_input \<Rightarrow> string" where
  "signer_email i = js_trim (js_lower (in_email i))"

text \<open>\<open>input.signers.map(...).sort(...)\<close>: the inputs with their order index, sorted stably.\<close>

definition ordered_signers :: "signer_input list \<Rightarrow> (signer_input \<times> int) list" where
  "ordered_signers inp =
     sort_key snd (map (\<lambda>(k, i). (i, coalesce (in_order i) (int k))) (enumerate 0 inp))"

definition check_create ::
  "auth_user \<Rightarrow> create_input \<Rightarrow> db
   \<Rightarrow> http_error + (id \<times> document_row \<times> (signer_input \<times> int) list \<times> template_field_row list)" where
  "check_create u inp s =
     (case org_of u of
        None \<Rightarrow> Inl (Forbidden ''No active tenant'')
      | Some org \<Rightarrow>
        (case find (\<lambda>d. d_id d = cr_document inp \<and> d_org d = org \<and> d_deleted d = None) (documents s) of
           None \<Rightarrow> Inl (NotFound ''Document not found'')
         | Some d \<Rightarrow>
           if d_status d = COMPLETED then Inl (Conflict ''Document is already completed'')
           else if cr_signers inp = [] then Inl (BadRequest ''At least one signer is required'')
           else if length (cr_signers inp) > 50
           then Inl (BadRequest ''A signing request supports at most 50 signers'')
           else
             (let ordered = ordered_signers (cr_signers inp)
              in if length (remdups (map (\<lambda>(i, k). signer_email i) ordered)) \<noteq> length ordered
                 then Inl (BadRequest ''Duplicate signer emails are not allowed'')
                 else if length (remdups (map snd ordered)) \<noteq> length ordered
                 then Inl (BadRequest ''Signer orderIndex values must be unique'')
                 else if list_ex (\<lambda>r. ru_target r \<noteq> None) (cr_rules inp)
                 then Inl (BadRequest ''workflowRules.targetSignerId cannot be set while creating a new signing request'')
                 else (case load_template_placements (coalesce_opt (cr_template inp) (d_template d))
                              (length ordered) s of
                         Inl err \<Rightarrow> Inl err
                       | Inr placements \<Rightarrow> Inr (org, d, ordered, placements)))))"

definition new_signer ::
  "env \<Rightarrow> id \<Rightarrow> signing_mode \<Rightarrow> id \<Rightarrow> nat \<times> signer_input \<times> int \<Rightarrow> signer_row" where
  "new_signer e rid mode base = (\<lambda>(k, i, ord).
     \<lparr>sg_id = base + k, sg_request = rid, sg_user = None, sg_email = signer_email i, sg_name = in_name i,
      sg_role = coalesce (in_role i) SIGNER, sg_order = ord,
      sg_status = (if mode = SEQUENTIAL \<and> k > 0 then PENDING else INVITED),
      sg_token = generate_token e k, sg_viewed = None, sg_signed = None, sg_reminders = 0,
      sg_auth = None\<rparr>)"

definition new_signers ::
  "env \<Rightarrow> id \<Rightarrow> signing_mode \<Rightarrow> id \<Rightarrow> (signer_input \<times> int) list \<Rightarrow> signer_row list" where
  "new_signers e rid mode base ordered = map (new_signer e rid mode base) (enumerate 0 ordered)"

definition new_rules :: "id \<Rightarrow> id \<Rightarrow> rule_input list \<Rightarrow> rule_row list" where
  "new_rules rid base rs = map (\<lambda>(k, r). \<lparr>wr_id = base + k, wr_request = rid, wr_order = ru_order r,
     wr_condition = ru_condition r, wr_action = ru_action r, wr_target = ru_target r\<rparr>) (enumerate 0 rs)"

definition new_request ::
  "auth_user \<Rightarrow> create_input \<Rightarrow> id \<Rightarrow> document_row \<Rightarrow> id \<Rightarrow> request_row" where
  "new_request u inp org d rid = \<lparr>rq_id = rid, rq_org = org, rq_document = d_id d,
     rq_title = Some (coalesce (cr_title inp) (d_title d)), rq_message = cr_message inp,
     rq_status = AWAITING_SIGNATURE, rq_mode = coalesce (cr_mode inp) SEQUENTIAL,
     rq_deadline = cr_deadline inp, rq_completed = None, rq_created_by = au_id u\<rparr>"

text \<open>The nested create of the request, its signers and its rules.\<close>

definition insert_request :: "request_row \<Rightarrow> signer_row list \<Rightarrow> rule_row list \<Rightarrow> db \<Rightarrow> db" where
  "insert_request r gs rs s = s\<lparr>next_id := next_id s + 1 + length gs + length rs,
     requests := requests s @ [r], signers := signers s @ gs, rules := rules s @ rs\<rparr>"

definition tokens_unique :: "signer_row list \<Rightarrow> db \<Rightarrow> bool" where
  "tokens_unique gs s \<longleftrightarrow> distinct (map sg_token (signers s @ gs))"

definition invited_ids :: "signer_row list \<Rightarrow> id list" where
  "invited_ids gs = map sg_id (filter (\<lambda>g. sg_status g = INVITED) gs)"

text \<open>The writes that follow the insert: document, placements, event, invitations.\<close>

definition after_insert ::
  "env \<Rightarrow> auth_user \<Rightarrow> create_input \<Rightarrow> id \<Rightarrow> document_row \<Rightarrow> signer_row list \<Rightarrow> template_field_row list
   \<Rightarrow> db \<Rightarrow> db" where
  "after_insert e u inp rid d gs placements s =
     (let s1 = update_document (d_id d) (\<lambda>d. d\<lparr>d_status := AWAITING_SIGNATURE,
                 d_template := coalesce_opt (cr_template inp) (d_template d)\<rparr>) s;
          s2 = (if placements = [] then s1 else placements_for_request rid placements gs s1);
          s3 = record_event e rid EvCreated None ([(''createdBy'', JStr (au_email u))]
                 @ (if placements = [] then [] else [(''fieldsPlaced'', JNum (int (length placements)))])) s2
      in if cr_send_invites inp = Some False then s3
         else emit_webhook_for_request e ''request.sent'' rid
                [(''signerIds'', JArr (map JId (invited_ids gs)))] (enqueue_invites rid (invited_ids gs) s3))"

definition create_request ::
  "env \<Rightarrow> auth_user \<Rightarrow> create_input \<Rightarrow> db \<Rightarrow> (request_row \<times> signer_row list, db) res" where
  "create_request e u inp s =
     (case check_create u inp s of
        Inl err \<Rightarrow> fail err s
      | Inr (org, d, ordered, placements) \<Rightarrow>
        (let rid = next_id s;
             r = new_request u inp org d rid;
             gs = new_signers e rid (rq_mode r) (rid + 1) ordered;
             rs = new_rules rid (rid + 1 + length gs) (cr_rules inp)
         in if au_id u = None then fail fk_error s
            else if \<not> tokens_unique gs s then fail (InternalError ''Unique constraint failed: token'') s
            else ok (r, gs) (after_insert e u inp rid d gs placements (insert_request r gs rs s))))"

section \<open>Tenant reads\<close>

definition list_requests ::
  "auth_user \<Rightarrow> document_status option \<Rightarrow> nat option \<Rightarrow> nat option \<Rightarrow> db \<Rightarrow> nat \<times> request_row list" where
  "list_requests u st limit offset s =
     (let rows = filter (\<lambda>r. in_tenant u (rq_org r) \<and> (case st of None \<Rightarrow> True | Some x \<Rightarrow> rq_status r = x))
                   (requests s)
      in (length rows, page (coalesce offset 0) (min (coalesce limit 25) 100) (rev rows)))"

definition find_request :: "auth_user \<Rightarrow> id \<Rightarrow> db \<Rightarrow> request_row option" where
  "find_request u i s = find (\<lambda>r. rq_id r = i \<and> in_tenant u (rq_org r)) (requests s)"

record request_view =
  rv_request :: request_row
  rv_signers :: "signer_row list"
  rv_events :: "event_row list"
  rv_signatures :: "signature_row list"
  rv_rules :: "rule_row list"

definition get_request :: "auth_user \<Rightarrow> id \<Rightarrow> db \<Rightarrow> (request_view, db) res" where
  "get_request u i s =
     (case find_request u i s of
        None \<Rightarrow> fail (NotFound ''Signing request not found'') s
      | Some r \<Rightarrow> ok \<lparr>rv_request = r, rv_signers = sort_key sg_order (signers_of i s),
          rv_events = filter (\<lambda>ev. ev_request ev = i) (events s),
          rv_signatures = filter (\<lambda>x. si_request x = i) (signatures s),
          rv_rules = sort_key wr_order (filter (\<lambda>x. wr_request x = i) (rules s))\<rparr> s)"

section \<open>The public session\<close>

record client =
  cx_ip :: "string option"
  cx_agent :: "string option"

definition client_meta :: "client \<Rightarrow> obj" where
  "client_meta cx = js_prop ''ipAddress'' (map_option JStr (cx_ip cx))
     @ js_prop ''userAgent'' (map_option JStr (cx_agent cx))"

definition find_token :: "string \<Rightarrow> db \<Rightarrow> (signer_row \<times> request_row) option" where
  "find_token token s =
     (case find (\<lambda>g. sg_token g = token) (signers s) of
        None \<Rightarrow> None
      | Some g \<Rightarrow> map_option (Pair g) (find_row rq_id (sg_request g) (requests s)))"

record session_view =
  sv_request :: id
  sv_title :: string
  sv_document :: "id \<times> string \<times> string"
  sv_signer :: signer_row
  sv_message :: "string option"
  sv_deadline :: "time option"
  sv_mode :: signing_mode
  sv_allows :: bool
  sv_branding :: branding
  sv_auth :: string
  sv_fields :: "request_field_row list"

definition open_session ::
  "env \<Rightarrow> (string \<Rightarrow> url option) \<Rightarrow> (string \<Rightarrow> string) \<Rightarrow> string \<Rightarrow> client \<Rightarrow> db \<Rightarrow> (session_view, db) res" where
  "open_session e parse presign token cx s =
     (case find_token token s of
        None \<Rightarrow> fail (NotFound ''Signing session not found or no longer active'') s
      | Some (g, r) \<Rightarrow>
        if \<not> active_status (rq_status r) \<or> sg_status g = DECLINED \<or> sg_status g = SignerExpired
        then fail (NotFound ''Signing session not found or no longer active'') s
        else if past_deadline e r
        then fail (NotFound ''Signing session has expired'') (mark_request_expired e (rq_id r) s)
        else (case find_row d_id (rq_document r) (documents s) of
           None \<Rightarrow> fail (InternalError ''document'') s
         | Some d \<Rightarrow>
           (let can = (sg_status g \<in> {PENDING, INVITED, VIEWED} \<and> can_signer_act (rq_mode r) g s);
                (g1, s1) = (if sg_status g = PENDING \<and> can
                  then (g\<lparr>sg_status := INVITED\<rparr>,
                        update_signer (sg_id g) (\<lambda>g. g\<lparr>sg_status := INVITED\<rparr>) s)
                  else (g, s));
                (g2, s2) = (if sg_status g1 = INVITED \<and> can
                  then (g1\<lparr>sg_status := VIEWED\<rparr>,
                        record_event e (rq_id r) EvViewed (Some (sg_id g)) (client_meta cx)
                          (update_signer (sg_id g)
                            (\<lambda>g. g\<lparr>sg_status := VIEWED, sg_viewed := Some (e_now e)\<rparr>) s1))
                  else (g1, s1))
            in ok \<lparr>sv_request = rq_id r, sv_title = coalesce (rq_title r) (d_title d),
                   sv_document = (d_id d, d_file_name d, presign (d_file_key d)), sv_signer = g2,
                   sv_message = rq_message r, sv_deadline = rq_deadline r, sv_mode = rq_mode r,
                   sv_allows = can, sv_branding = branding_for_organization parse (Some (rq_org r)) s2,
                   sv_auth = (if sg_role g = SIGNER then (if sg_user g \<noteq> None then ''oidc'' else ''email'')
                              else ''email''),
                   sv_fields = request_fields_for_signer (rq_id r) (sg_id g) s2\<rparr> s2)))"

section \<open>Signing\<close>

record sign_input =
  sn_type :: "signature_type option"
  sn_serial :: "string option"
  sn_hash :: "string option"
  sn_algorithm :: "string option"
  sn_certificate :: "id option"
  sn_value :: "string option"
  sn_fields :: "field_input list option"

definition compute_content_hash :: "env \<Rightarrow> string \<Rightarrow> string \<Rightarrow> id \<Rightarrow> string option" where
  "compute_content_hash e key email rid =
     map_option (\<lambda>blob. e_sha256 e (blob @ ''|signer='' @ email @ ''|request='' @ show_nat rid @ ''|''))
       (e_blob e key)"

definition truthy :: "string option \<Rightarrow> bool" where
  "truthy x = (case x of None \<Rightarrow> False | Some v \<Rightarrow> v \<noteq> [])"

definition assurance_json :: "nat \<Rightarrow> assurance_level \<Rightarrow> json" where
  "assurance_json score level = JObj [(''score'', JNum (int score)), (''level'', level_json level)]"

definition certificate_step ::
  "env \<Rightarrow> crypto \<Rightarrow> sign_input \<Rightarrow> signer_row \<Rightarrow> request_row \<Rightarrow> string \<Rightarrow> db
   \<Rightarrow> http_error + evidence option" where
  "certificate_step e cy inp g r hash s =
     (if sn_type inp = Some CERTIFICATE \<or> sn_certificate inp \<noteq> None then
        (case sn_certificate inp of
           None \<Rightarrow> Inl (BadRequest ''certificateId is required for certificate signatures'')
         | Some c \<Rightarrow>
           (case sign_with_certificate e cy (rq_org r) c (sg_user g) (sg_email g) hash (sn_value inp) s of
              Inl err \<Rightarrow> Inl err | Inr ev \<Rightarrow> Inr (Some ev)))
      else if truthy (sn_value inp)
      then Inl (BadRequest ''signatureValue requires certificateId (certificate-backed signing)'')
      else Inr None)"

text \<open>The guards of \<open>sign\<close> in the order of the code; \<open>None\<close> when the signer may sign.\<close>

definition sign_guard :: "signer_row \<Rightarrow> request_row \<Rightarrow> db \<Rightarrow> http_error option" where
  "sign_guard g r s =
     (if sg_role g = CC then Some (BadRequest ''Carbon-copy recipients cannot sign'')
      else if sg_status g = SIGNED then Some (Conflict ''Already signed'')
      else if sg_status g = DECLINED then Some (Conflict ''Signing session was declined'')
      else if sg_status g \<noteq> INVITED \<and> sg_status g \<noteq> VIEWED \<or> \<not> can_signer_act (rq_mode r) g s
      then Some (Conflict ''Not your turn - this request is in sequential order'')
      else None)"

text \<open>What \<open>sign\<close> computes before it writes: the hash, the field values, the evidence.\<close>

definition prepare_signature ::
  "env \<Rightarrow> crypto \<Rightarrow> sign_input \<Rightarrow> signer_row \<Rightarrow> request_row \<Rightarrow> db
   \<Rightarrow> http_error + (string \<times> (id \<times> json option) list \<times> evidence option)" where
  "prepare_signature e cy inp g r s =
     (case find_row d_id (rq_document r) (documents s) of
        None \<Rightarrow> Inl (InternalError ''document'')
      | Some d \<Rightarrow>
        (case compute_content_hash e (d_file_key d) (sg_email g) (rq_id r) of
           None \<Rightarrow> Inl (InternalError ''storage'')
         | Some content_hash \<Rightarrow>
           if truthy (sn_hash inp) \<and> sn_hash inp \<noteq> Some content_hash
           then Inl (BadRequest ''signedHash does not match the current document contents'')
           else
             (let final_hash = coalesce (sn_hash inp) content_hash
              in (case resolve_field_values (rq_id r) (sg_id g) (sn_fields inp) s of
                    Inl err \<Rightarrow> Inl err
                  | Inr vs \<Rightarrow>
                    (case certificate_step e cy inp g r final_hash s of
                       Inl err \<Rightarrow> Inl err
                     | Inr ev \<Rightarrow> Inr (final_hash, vs, ev))))))"

definition signature_of ::
  "env \<Rightarrow> client \<Rightarrow> sign_input \<Rightarrow> signer_row \<Rightarrow> request_row \<Rightarrow> string \<Rightarrow> evidence option \<Rightarrow> id
   \<Rightarrow> signature_row" where
  "signature_of e cx inp g r hash ev i = \<lparr>si_id = i, si_request = rq_id r, si_document = rq_document r,
     si_signer = sg_id g, si_type = coalesce (sn_type inp) TYPED,
     si_certificate = map_option ce_certificate ev,
     si_serial = coalesce_opt (sn_serial inp) (map_option ce_serial ev), si_hash = hash,
     si_value = map_option ce_value ev, si_format = map_option ce_format ev,
     si_algorithm = coalesce (coalesce_opt (sn_algorithm inp) (map_option ce_algorithm ev)) ''SHA-256'',
     si_assurance = (case ev of
         Some x \<Rightarrow> assurance_json (ce_score x) (ce_level x)
       | None \<Rightarrow> (let a = unsigned_assurance False (sg_user g \<noteq> None)
                  in assurance_json (as_score a) (as_level a))),
     si_ip = cx_ip cx, si_agent = cx_agent cx, si_at = e_now e\<rparr>"

definition signature_type_name :: "signature_type \<Rightarrow> string" where
  "signature_type_name t = (case t of TYPED \<Rightarrow> ''TYPED'' | DRAWN \<Rightarrow> ''DRAWN'' | UPLOADED \<Rightarrow> ''UPLOADED''
     | CERTIFICATE \<Rightarrow> ''CERTIFICATE'')"

definition signed_meta ::
  "client \<Rightarrow> signer_row \<Rightarrow> signature_row \<Rightarrow> (id \<times> json option) list \<Rightarrow> evidence option \<Rightarrow> obj" where
  "signed_meta cx g x vs ev = client_meta cx
     @ [(''signatureId'', JId (si_id x)), (''type'', JStr (signature_type_name (si_type x)))]
     @ (if vs = [] then [] else [(''fieldsCaptured'', JNum (int (length vs)))])
     @ [(''certificateSerial'', opt_string (si_serial x)), (''certificateId'', opt_id (si_certificate x))]
     @ js_prop ''identityAssurance'' (map_option (\<lambda>v. assurance_json (ce_score v) (ce_level v)) ev)
     @ (if sg_auth g = Some ''in_person'' then [(''inPerson'', JBool True)] else [])"

definition insert_signature :: "signature_row \<Rightarrow> db \<Rightarrow> db" where
  "insert_signature x s = s\<lparr>next_id := next_id s + 1, signatures := signatures s @ [x]\<rparr>"

definition mark_signed :: "env \<Rightarrow> evidence option \<Rightarrow> signer_row \<Rightarrow> signer_row" where
  "mark_signed e ev g = g\<lparr>sg_status := SIGNED, sg_signed := Some (e_now e),
     sg_auth := (if ev \<noteq> None then Some ''certificate'' else sg_auth g)\<rparr>"

text \<open>
  The writes of \<open>sign\<close>. The update of the signer row writes the \<open>authMethod\<close> that was read
  with the session, which is the row's own because nothing else is interleaved.
\<close>

definition perform_sign ::
  "env \<Rightarrow> client \<Rightarrow> sign_input \<Rightarrow> signer_row \<Rightarrow> request_row \<Rightarrow> string \<Rightarrow> (id \<times> json option) list
   \<Rightarrow> evidence option \<Rightarrow> db \<Rightarrow> db" where
  "perform_sign e cx inp g r hash vs ev s =
     (let x = signature_of e cx inp g r hash ev (next_id s);
          s1 = insert_signature x s;
          s2 = capture_field_values (e_now e) vs s1;
          s3 = update_signer (sg_id g) (mark_signed e ev) s2;
          s4 = record_event e (rq_id r) EvSigned (Some (sg_id g)) (signed_meta cx g x vs ev) s3
      in advance_workflow e (rq_id r) (rq_mode r) s4)"

definition sign ::
  "env \<Rightarrow> crypto \<Rightarrow> string \<Rightarrow> sign_input \<Rightarrow> client \<Rightarrow> db \<Rightarrow> (id \<times> (nat \<times> assurance_level) option, db) res" where
  "sign e cy token inp cx s =
     (case find_token token s of
        None \<Rightarrow> fail (NotFound ''Signing session not found'') s
      | Some (g, r) \<Rightarrow>
        if \<not> active_status (rq_status r) then fail (Conflict ''This signing request is no longer active'') s
        else if past_deadline e r
        then fail (Conflict ''This signing request has expired'') (mark_request_expired e (rq_id r) s)
        else (case sign_guard g r s of
           Some err \<Rightarrow> fail err s
         | None \<Rightarrow>
           (case prepare_signature e cy inp g r s of
              Inl err \<Rightarrow> fail err s
            | Inr (hash, vs, ev) \<Rightarrow>
              if list_ex (\<lambda>x. si_request x = rq_id r \<and> si_signer x = sg_id g) (signatures s)
              then fail (Conflict ''Already signed'') s
              else ok (next_id s, map_option (\<lambda>v. (ce_score v, ce_level v)) ev)
                     (perform_sign e cx inp g r hash vs ev s))))"

section \<open>Declining\<close>

definition decline_guard :: "signer_row \<Rightarrow> request_row \<Rightarrow> db \<Rightarrow> http_error option" where
  "decline_guard g r s =
     (if sg_role g = CC then Some (BadRequest ''Carbon-copy recipients cannot decline'')
      else if sg_status g = SIGNED then Some (Conflict ''Already signed'')
      else if sg_status g = DECLINED then Some (Conflict ''Signing session was declined'')
      else if sg_status g \<noteq> INVITED \<and> sg_status g \<noteq> VIEWED
      then Some (Conflict ''Signing session is not ready for a response'')
      else if \<not> can_signer_act (rq_mode r) g s
      then Some (Conflict ''Not your turn - this request is in sequential order'')
      else None)"

definition perform_decline ::
  "env \<Rightarrow> signer_row \<Rightarrow> request_row \<Rightarrow> string option \<Rightarrow> client \<Rightarrow> db \<Rightarrow> db" where
  "perform_decline e g r reason cx s =
     (let s1 = update_signer (sg_id g) (\<lambda>g. g\<lparr>sg_status := DECLINED\<rparr>) s;
          s2 = record_event e (rq_id r) EvDeclined (Some (sg_id g))
                 (client_meta cx @ js_prop ''reason'' (map_option JStr reason)) s1
      in if rq_mode r = SEQUENTIAL
         then update_request (rq_id r) (\<lambda>r. r\<lparr>rq_status := IN_PROGRESS\<rparr>) s2 else s2)"

definition decline ::
  "env \<Rightarrow> string \<Rightarrow> string option \<Rightarrow> client \<Rightarrow> db \<Rightarrow> (unit, db) res" where
  "decline e token reason cx s =
     (case find_token token s of
        None \<Rightarrow> fail (NotFound ''Signing session not found'') s
      | Some (g, r) \<Rightarrow>
        if \<not> active_status (rq_status r) then fail (Conflict ''This signing request is no longer active'') s
        else if past_deadline e r
        then fail (Conflict ''This signing request has expired'') (mark_request_expired e (rq_id r) s)
        else (case decline_guard g r s of
           Some err \<Rightarrow> fail err s
         | None \<Rightarrow> ok () (perform_decline e g r reason cx s)))"

section \<open>Control\<close>

definition public_event_metadata :: "event_type \<Rightarrow> obj \<Rightarrow> bool option" where
  "public_event_metadata ty meta =
     (if ty \<noteq> EvSigned then None else Some (map_of meta ''completed'' = Some (JBool True)))"

definition public_events ::
  "string \<Rightarrow> db \<Rightarrow> (id \<times> id \<times> (id \<times> event_type \<times> time \<times> bool option) list, db) res" where
  "public_events token s =
     (case find_token token s of
        None \<Rightarrow> fail (NotFound ''Session not found'') s
      | Some (g, r) \<Rightarrow>
        if \<not> active_status (rq_status r) then fail (NotFound ''Session not found'') s
        else ok (rq_id r, sg_id g,
               map (\<lambda>ev. (ev_id ev, ev_type ev, ev_at ev, public_event_metadata (ev_type ev) (ev_meta ev)))
                 (filter (\<lambda>ev. ev_request ev = rq_id r) (events s))) s)"

definition cancel :: "env \<Rightarrow> auth_user \<Rightarrow> id \<Rightarrow> string option \<Rightarrow> db \<Rightarrow> (unit, db) res" where
  "cancel e u i reason s =
     (case find_request u i s of
        None \<Rightarrow> fail (NotFound ''Signing request not found'') s
      | Some r \<Rightarrow>
        if rq_status r = COMPLETED then fail (Conflict ''Cannot cancel a completed request'') s
        else ok () (record_event e i EvCancelled None
               (js_prop ''reason'' (map_option JStr reason) @ [(''cancelledBy'', JStr (au_email u))])
               (update_document (rq_document r) (\<lambda>d. d\<lparr>d_status := CANCELLED\<rparr>)
                 (update_request i (\<lambda>r. r\<lparr>rq_status := CANCELLED\<rparr>) s))))"

text \<open>\<open>max_reminders = None\<close> is \<open>Number.POSITIVE_INFINITY\<close>.\<close>

definition recently_reminded :: "id \<Rightarrow> time \<Rightarrow> db \<Rightarrow> id \<Rightarrow> bool" where
  "recently_reminded rid since s i =
     list_ex (\<lambda>ev. ev_request ev = rid \<and> ev_type ev = EvReminded \<and> since < ev_at ev \<and> ev_signer ev = Some i)
       (events s)"

definition eligible_reminder_targets ::
  "env \<Rightarrow> id \<Rightarrow> signing_mode \<Rightarrow> time \<Rightarrow> nat option \<Rightarrow> id option \<Rightarrow> db \<Rightarrow> (id \<times> nat) list" where
  "eligible_reminder_targets e rid mode min_interval max_reminders only s =
     map (\<lambda>g. (sg_id g, sg_reminders g))
       (filter (\<lambda>g. (sg_status g = INVITED \<or> sg_status g = VIEWED)
            \<and> (case only of None \<Rightarrow> True | Some i \<Rightarrow> sg_id g = i)
            \<and> \<not> recently_reminded rid (e_now e - min_interval) s (sg_id g)
            \<and> (case max_reminders of None \<Rightarrow> True | Some m \<Rightarrow> sg_reminders g < m)
            \<and> can_signer_act mode g s)
          (signers_of rid s))"

definition dispatch_one :: "env \<Rightarrow> id \<Rightarrow> obj \<Rightarrow> id \<times> nat \<Rightarrow> db \<Rightarrow> db" where
  "dispatch_one e rid meta t s =
     record_event e rid EvReminded (Some (fst t)) meta
       (update_signer (fst t) (\<lambda>g. g\<lparr>sg_reminders := sg_reminders g + 1\<rparr>)
         (s\<lparr>signing_queue := signing_queue s @ [SendSigningReminder rid (fst t) (snd t + 1)]\<rparr>))"

fun dispatch_reminders :: "env \<Rightarrow> id \<Rightarrow> (id \<times> nat) list \<Rightarrow> obj \<Rightarrow> db \<Rightarrow> db" where
  "dispatch_reminders e rid [] meta s = s"
| "dispatch_reminders e rid (t # ts) meta s = dispatch_reminders e rid ts meta (dispatch_one e rid meta t s)"

definition remind :: "env \<Rightarrow> auth_user \<Rightarrow> id \<Rightarrow> id option \<Rightarrow> db \<Rightarrow> (nat, db) res" where
  "remind e u i only s =
     (case find_request u i s of
        None \<Rightarrow> fail (NotFound ''Signing request not found'') s
      | Some r \<Rightarrow>
        if \<not> active_status (rq_status r)
        then fail (Conflict ''This request is no longer awaiting signatures'') s
        else (let ts = eligible_reminder_targets e i (rq_mode r) day_ms None only s
              in ok (length ts) (dispatch_reminders e i ts [(''requestedBy'', JStr (au_email u))] s)))"

definition sweep_candidate :: "env \<Rightarrow> db \<Rightarrow> request_row \<Rightarrow> bool" where
  "sweep_candidate e s r \<longleftrightarrow> active_status (rq_status r)
     \<and> (case rq_deadline r of None \<Rightarrow> True | Some d \<Rightarrow> e_now e < d)
     \<and> list_ex (\<lambda>g. sg_status g = INVITED \<or> sg_status g = VIEWED) (signers_of (rq_id r) s)"

fun sweep_requests :: "env \<Rightarrow> request_row list \<Rightarrow> db \<Rightarrow> nat \<times> db" where
  "sweep_requests e [] s = (0, s)"
| "sweep_requests e (r # rs) s =
     (let ts = eligible_reminder_targets e (rq_id r) (rq_mode r)
                 (coalesce (e_reminder_after_days e) 3 * day_ms) (Some (coalesce (e_reminder_max e) 3)) None s;
          (n, s') = sweep_requests e rs
                      (dispatch_reminders e (rq_id r) ts [(''automatic'', JBool True)] s)
      in (length ts + n, s'))"

definition sweep_due_reminders :: "env \<Rightarrow> db \<Rightarrow> (nat \<times> nat) \<times> db" where
  "sweep_due_reminders e s =
     (if coalesce (e_smtp_host e) [] = [] then ((0, 0), s)
      else (let rs = filter (sweep_candidate e s) (requests s);
                (n, s') = sweep_requests e rs s
            in ((length rs, n), s')))"

end
