(* ===== verification/Signing_Room.thy ===== *)
theory Signing_Room
  imports Signing
begin

text \<open>
  The rest of apps/api/src/modules/signatures/signatures.service.ts: the evidence report,
  in-person handover, self-signing, the demo room behind /sign/demo with its generated PDF,
  and the public session that resets it.
\<close>

section \<open>Evidence report\<close>

record signer_evidence =
  se_signer :: signer_row
  se_fields :: "request_field_row list"
  se_signatures :: "signature_row list"

record evidence_report =
  er_request :: id
  er_document :: "id \<times> string \<times> string"
  er_mode :: signing_mode
  er_status :: document_status
  er_completed :: "time option"
  er_signer_count :: nat
  er_originator :: "(string option \<times> string) option"
  er_document_hash :: string
  er_branding :: branding
  er_signers :: "signer_evidence list"
  er_trail :: "event_row list"
  er_statement :: string

definition build_compliance_statement :: "event_row list \<Rightarrow> string" where
  "build_compliance_statement evs =
     ''This document was processed through Signara's signing workflow. ''
     @ show_nat (length (filter (\<lambda>ev. ev_type ev = EvSigned) evs))
     @ '' signature event(s) were recorded with timestamped, audit-trail evidence. ''
     @ ''See eIDAS Article 25 and ESIGN (15 U.S.C. 7001) for legal acceptance of electronic signatures.''"

definition evidence_report ::
  "(string \<Rightarrow> url option) \<Rightarrow> auth_user \<Rightarrow> id \<Rightarrow> db \<Rightarrow> (evidence_report, db) res" where
  "evidence_report parse u i s =
     (case find_request u i s of
        None \<Rightarrow> fail (NotFound ''Signing request not found'') s
      | Some r \<Rightarrow>
        (case find_row d_id (rq_document r) (documents s) of
           None \<Rightarrow> fail (InternalError ''document'') s
         | Some d \<Rightarrow>
           (let fields = sort_key rf_page (filter (\<lambda>f. rf_request f = i) (request_fields s));
                evs = filter (\<lambda>ev. ev_request ev = i) (events s)
            in ok \<lparr>er_request = i, er_document = (d_id d, d_title d, d_file_name d), er_mode = rq_mode r,
                   er_status = rq_status r, er_completed = rq_completed r,
                   er_signer_count = length (filter (\<lambda>g. sg_role g \<noteq> CC) (signers_of i s)),
                   er_originator = map_option (\<lambda>usr. (u_display_name usr, u_email usr))
                     (Option.bind (rq_created_by r) (\<lambda>c. find_row u_id c (users s))),
                   er_document_hash = d_checksum d,
                   er_branding = branding_for_organization parse (Some (rq_org r)) s,
                   er_signers = map (\<lambda>g. \<lparr>se_signer = g,
                       se_fields = filter (\<lambda>f. rf_signer f = Some (sg_id g)) fields,
                       se_signatures = filter (\<lambda>x. si_signer x = sg_id g) (signatures s)\<rparr>) (signers_of i s),
                   er_trail = evs, er_statement = build_compliance_statement evs\<rparr> s)))"

section \<open>In-person and self-signing\<close>

definition web_url :: "env \<Rightarrow> string" where
  "web_url e = coalesce (e_web_url e) ''https://app.signara.innotel.us''"

definition sign_link :: "env \<Rightarrow> signer_row \<Rightarrow> string" where
  "sign_link e g = drop_slash (web_url e) @ ''/sign/'' @ sg_token g"

definition choose_in_person :: "id option \<Rightarrow> signer_row list \<Rightarrow> http_error + signer_row" where
  "choose_in_person only candidates =
     (let waiting = filter (\<lambda>g. sg_status g = INVITED \<or> sg_status g = VIEWED) candidates
      in case only of
           Some i \<Rightarrow>
             (case find (\<lambda>g. sg_id g = i) candidates of
                None \<Rightarrow> Inl (NotFound ''That signer is not on this request'') | Some g \<Rightarrow> Inr g)
         | None \<Rightarrow>
             (case waiting of
                [] \<Rightarrow> Inl (NotFound ''No signer is waiting to sign on this request'')
              | [g] \<Rightarrow> Inr g
              | _ \<Rightarrow> Inl (BadRequest ''signerId is required: more than one signer may sign on this request at once'')))"

record handover =
  ho_request :: id
  ho_signer :: id
  ho_email :: string
  ho_url :: string

definition in_person_session ::
  "env \<Rightarrow> auth_user \<Rightarrow> id \<Rightarrow> id option \<Rightarrow> db \<Rightarrow> (handover, db) res" where
  "in_person_session e u i only s =
     (case org_of u of
        None \<Rightarrow> fail (Forbidden ''No active tenant'') s
      | Some org \<Rightarrow>
        (case find_request u i s of
           None \<Rightarrow> fail (NotFound ''Signing request not found'') s
         | Some r \<Rightarrow>
           if \<not> active_status (rq_status r) then fail (Conflict ''This signing request is no longer active'') s
           else if past_deadline e r
           then fail (Conflict ''This signing request has expired'') (mark_request_expired e i s)
           else
             (case choose_in_person only (filter (\<lambda>g. sg_role g \<noteq> CC) (sort_key sg_order (signers_of i s))) of
                Inl err \<Rightarrow> fail err s
              | Inr g \<Rightarrow>
                if sg_status g = SIGNED then fail (Conflict ''That signer has already signed'') s
                else if sg_status g = DECLINED then fail (Conflict ''That signer declined this request'') s
                else if \<not> can_sign_now (rq_mode r) g \<or> \<not> can_signer_act (rq_mode r) g s
                then fail (Conflict ''It is not that signer's turn yet'') s
                else ok \<lparr>ho_request = i, ho_signer = sg_id g, ho_email = sg_email g, ho_url = sign_link e g\<rparr>
                       (record_event e i EvHandedOver (Some (sg_id g))
                         [(''handedOverBy'', JStr (au_email u)), (''inPerson'', JBool True)]
                         (update_signer (sg_id g) (\<lambda>g. g\<lparr>sg_auth := Some ''in_person''\<rparr>) s)))))"

definition self_sign_input :: "auth_user \<Rightarrow> id \<Rightarrow> id option \<Rightarrow> create_input" where
  "self_sign_input u document template = \<lparr>cr_document = document, cr_template = template,
     cr_title = None, cr_message = None, cr_deadline = None, cr_mode = Some PARALLEL,
     cr_signers = [\<lparr>in_email = au_email u, in_name = au_display_name u, in_role = Some SIGNER,
                    in_order = Some 0\<rparr>],
     cr_rules = [], cr_send_invites = Some False\<rparr>"

definition self_sign ::
  "env \<Rightarrow> auth_user \<Rightarrow> id \<Rightarrow> id option \<Rightarrow> db \<Rightarrow> (id \<times> id \<times> nat \<times> string, db) res" where
  "self_sign e u document template s =
     (case org_of u of
        None \<Rightarrow> fail (Forbidden ''No active tenant'') s
      | Some org \<Rightarrow>
        if (case template of None \<Rightarrow> False
            | Some t \<Rightarrow> \<not> list_ex (\<lambda>tp. tp_id tp = t \<and> tp_org tp = org) (templates s))
        then fail (NotFound ''Template not found'') s
        else (case create_request e u (self_sign_input u document template) s of
           (Inl err, s1) \<Rightarrow> fail err s1
         | (Inr (r, gs), s1) \<Rightarrow>
             (let g = hd gs;
                  s2 = update_signer (sg_id g) (\<lambda>g. g\<lparr>sg_user := au_id u\<rparr>) s1
              in ok (rq_id r, sg_id g,
                     count_rows (\<lambda>f. rf_request f = rq_id r \<and> rf_signer f = Some (sg_id g)) (request_fields s2),
                     sign_link e g) s2)))"

section \<open>The demo room\<close>

definition demo_token :: string where "demo_token = ''demo''"
definition demo_org_slug :: string where "demo_org_slug = ''signara-demo''"
definition demo_doc_title :: string where "demo_doc_title = ''Signara Demo Agreement''"
definition demo_signer_email :: string where "demo_signer_email = ''demo@signara.local''"

text \<open>The PDF: each object is preceded by its recorded offset.\<close>

definition newline :: string where "newline = [CHR 0x0A]"

definition demo_stream :: string where
  "demo_stream =
     ''BT /F1 18 Tf 72 730 Td (Signara Demo Agreement) Tj ET'' @ newline
     @ ''BT /F1 11 Tf 72 700 Td (This is a sample agreement for the Signara demo signing room.) Tj ET'' @ newline
     @ ''BT /F1 11 Tf 72 684 Td (Sign it to see how an electronic signature is recorded with a full audit trail.) Tj ET'' @ newline"

definition demo_objects :: "string list" where
  "demo_objects =
     [''<< /Type /Catalog /Pages 2 0 R >>'',
      ''<< /Type /Pages /Kids [3 0 R] /Count 1 >>'',
      ''<< /Type /Page /Parent 2 0 R /MediaBox [0 0 612 792] /Resources << /Font << /F1 5 0 R >> >> /Contents 4 0 R >>'',
      ''<< /Length '' @ show_nat (length demo_stream) @ '' >>'' @ newline @ ''stream'' @ newline @ demo_stream
        @ ''endstream'',
      ''<< /Type /Font /Subtype /Type1 /BaseFont /Helvetica >>'']"

text \<open>The first loop: the text so far and the offsets of the objects written.\<close>

fun pdf_body :: "nat \<Rightarrow> string list \<Rightarrow> string \<Rightarrow> string \<times> nat list" where
  "pdf_body i [] out = (out, [])"
| "pdf_body i (b # bs) out =
     (let (out', offs) = pdf_body (i + 1) bs (out @ show_nat i @ '' 0 obj'' @ newline @ b @ newline @ ''endobj'' @ newline)
      in (out', length out # offs))"

definition xref_entry :: "nat \<Rightarrow> string" where
  "xref_entry off = pad_left 10 (CHR ''0'') (show_nat off) @ '' 00000 n '' @ newline"

definition pdf_of_objects :: "string list \<Rightarrow> string" where
  "pdf_of_objects objs =
     (let (body, offs) = pdf_body 1 objs (''%PDF-1.4'' @ newline)
      in body @ ''xref'' @ newline @ ''0 6'' @ newline @ ''0000000000 65535 f '' @ newline
         @ concat (map xref_entry offs)
         @ ''trailer'' @ newline @ ''<< /Size 6 /Root 1 0 R >>'' @ newline @ ''startxref'' @ newline
         @ show_nat (length body) @ newline @ ''%%EOF'' @ newline)"

definition demo_pdf :: string where
  "demo_pdf = pdf_of_objects demo_objects"

text \<open>
  Deletions with the cascades of the schema: a signer takes its signatures with it and is
  cleared from events and fields; a document takes its versions, requests and signatures, and
  a request its signers, events, fields and rules.
\<close>

definition delete_signers :: "(signer_row \<Rightarrow> bool) \<Rightarrow> db \<Rightarrow> db" where
  "delete_signers p s =
     (let gone = (\<lambda>i. list_ex (\<lambda>g. p g \<and> sg_id g = i) (signers s));
          clear = (\<lambda>o'. case o' of None \<Rightarrow> None | Some i \<Rightarrow> if gone i then None else Some i)
      in s\<lparr>signers := delete_many p (signers s),
           signatures := delete_many (\<lambda>x. gone (si_signer x)) (signatures s),
           events := map (\<lambda>ev. ev\<lparr>ev_signer := clear (ev_signer ev)\<rparr>) (events s),
           request_fields := map (\<lambda>f. f\<lparr>rf_signer := clear (rf_signer f)\<rparr>) (request_fields s)\<rparr>)"

definition delete_documents :: "(document_row \<Rightarrow> bool) \<Rightarrow> db \<Rightarrow> db" where
  "delete_documents p s =
     (let doc_gone = (\<lambda>i. list_ex (\<lambda>d. p d \<and> d_id d = i) (documents s));
          gone = (\<lambda>i. list_ex (\<lambda>r. doc_gone (rq_document r) \<and> rq_id r = i) (requests s))
      in s\<lparr>documents := delete_many p (documents s),
           versions := delete_many (\<lambda>v. doc_gone (v_document v)) (versions s),
           requests := delete_many (\<lambda>r. doc_gone (rq_document r)) (requests s),
           signers := delete_many (\<lambda>g. gone (sg_request g)) (signers s),
           signatures := delete_many (\<lambda>x. gone (si_request x) \<or> doc_gone (si_document x)) (signatures s),
           events := delete_many (\<lambda>ev. gone (ev_request ev)) (events s),
           request_fields := delete_many (\<lambda>f. gone (rf_request f)) (request_fields s),
           rules := delete_many (\<lambda>x. gone (wr_request x)) (rules s)\<rparr>)"

definition demo_field ::
  "id \<Rightarrow> id \<Rightarrow> id \<Rightarrow> field_type \<Rightarrow> string \<Rightarrow> string \<Rightarrow> bool \<Rightarrow> int \<Rightarrow> int \<Rightarrow> int \<Rightarrow> int \<Rightarrow> request_field_row" where
  "demo_field i rid sid ty name key required x y w h = \<lparr>rf_id = i, rf_request = rid, rf_signer = Some sid,
     rf_type = ty, rf_name = Some name, rf_key = Some key, rf_required = required, rf_page = 1,
     rf_x = Some x, rf_y = Some y, rf_width = Some w, rf_height = Some h, rf_options = None,
     rf_value = None, rf_filled = None\<rparr>"

definition demo_fields :: "id \<Rightarrow> id \<Rightarrow> id \<Rightarrow> request_field_row list" where
  "demo_fields i rid sid =
     [demo_field i rid sid FtName ''Full name'' ''full_name'' True 10 62 34 6,
      demo_field (i + 1) rid sid FtDate ''Date'' ''date'' True 50 62 22 6,
      demo_field (i + 2) rid sid FtCompany ''Company'' ''company'' False 10 70 34 6,
      demo_field (i + 3) rid sid FtSignature ''Signature'' ''signature'' True 10 80 34 8,
      demo_field (i + 4) rid sid FtCheckbox ''I agree to the terms'' ''agree'' True 50 80 6 6]"

definition upsert_demo_org :: "db \<Rightarrow> id \<times> db" where
  "upsert_demo_org s =
     (case find (\<lambda>o'. o_slug o' = demo_org_slug) (orgs s) of
        Some r \<Rightarrow> (o_id r, s\<lparr>orgs := update_row o_id (o_id r) (\<lambda>r. r\<lparr>o_status := OrgActive\<rparr>) (orgs s)\<rparr>)
      | None \<Rightarrow> (next_id s, s\<lparr>next_id := next_id s + 1, orgs := orgs s @
          [\<lparr>o_id = next_id s, o_name = ''Signara Demo'', o_slug = demo_org_slug, o_legal_name = None,
            o_tax_id = None, o_status = OrgActive, o_branding = None, o_deleted = None\<rparr>]\<rparr>))"

definition demo_document :: "env \<Rightarrow> id \<Rightarrow> id \<Rightarrow> document_row" where
  "demo_document e org i = \<lparr>d_id = i, d_org = org, d_workspace = None, d_template = None,
     d_title = demo_doc_title,
     d_description = Some ''A sample agreement used by the Signara demo signing room.'', d_status = DRAFT,
     d_file_name = ''signara-demo-agreement.pdf'',
     d_file_key = show_nat org @ ''/documents/signara-demo-agreement.pdf'',
     d_content_type = ''application/pdf'', d_size = length demo_pdf, d_checksum = e_sha256 e demo_pdf,
     d_version = 1, d_tags = [], d_created_by = None, d_deleted = None\<rparr>"

definition demo_request :: "id \<Rightarrow> id \<Rightarrow> id \<Rightarrow> request_row" where
  "demo_request org doc i = \<lparr>rq_id = i, rq_org = org, rq_document = doc,
     rq_title = Some ''Signara Demo Agreement'',
     rq_message = Some ''This is a self-serve demo. Sign it to see how Signara records the signature, timestamps it, and keeps an audit trail.'',
     rq_status = AWAITING_SIGNATURE, rq_mode = PARALLEL, rq_deadline = None, rq_completed = None,
     rq_created_by = None\<rparr>"

definition demo_signer :: "id \<Rightarrow> id \<Rightarrow> signer_row" where
  "demo_signer rid i = \<lparr>sg_id = i, sg_request = rid, sg_user = None, sg_email = demo_signer_email,
     sg_name = Some ''Demo Signer'', sg_role = SIGNER, sg_order = 0, sg_status = INVITED,
     sg_token = demo_token, sg_viewed = None, sg_signed = None, sg_reminders = 0, sg_auth = Some ''email''\<rparr>"

text \<open>
  \<open>minio.put\<close> stores the PDF under its key; the object store is read through \<open>e_blob\<close>, so the
  model writes the rows only.
\<close>

definition ensure_demo_session :: "env \<Rightarrow> db \<Rightarrow> db" where
  "ensure_demo_session e s =
     (let (org, s1) = upsert_demo_org s;
          s2 = delete_signers (\<lambda>g. sg_token g = demo_token) s1;
          s3 = delete_documents (\<lambda>d. d_org d = org \<and> d_title d = demo_doc_title) s2;
          n = next_id s3
      in record_event e (n + 1) EvCreated None [(''createdBy'', JStr ''demo'')]
           (s3\<lparr>next_id := n + 8, documents := documents s3 @ [demo_document e org n],
               requests := requests s3 @ [demo_request org n (n + 1)],
               signers := signers s3 @ [demo_signer (n + 1) (n + 2)],
               request_fields := request_fields s3 @ demo_fields (n + 3) (n + 1) (n + 2)\<rparr>))"

definition demo_active :: "db \<Rightarrow> bool" where
  "demo_active s =
     (case find_token demo_token s of
        None \<Rightarrow> False
      | Some (g, r) \<Rightarrow> active_status (rq_status r) \<and> sg_status g \<noteq> DECLINED \<and> sg_status g \<noteq> SignerExpired)"

definition public_session ::
  "env \<Rightarrow> (string \<Rightarrow> url option) \<Rightarrow> (string \<Rightarrow> string) \<Rightarrow> string \<Rightarrow> client \<Rightarrow> db \<Rightarrow> (session_view, db) res" where
  "public_session e parse presign token cx s =
     open_session e parse presign token cx
       (if token = demo_token \<and> \<not> demo_active s then ensure_demo_session e s else s)"

end
