(* ===== verification/Signing_Inv.thy ===== *)
theory Signing_Inv
  imports Signing_Room
begin

text \<open>
  The invariant of the signing tables. \<open>rows_ok\<close> is stated on the keys of the rows (identity,
  mode, completion; role, order, signed or not; request and signer of a signature), so an
  operation that only touches other columns keeps it by congruence, and each operation that
  changes a key has one lemma on lists.
\<close>

section \<open>Frames\<close>

lemma enqueue_all_frame [simp]:
  "requests (enqueue_all e eps ev p s) = requests s"
  "signers (enqueue_all e eps ev p s) = signers s"
  "signatures (enqueue_all e eps ev p s) = signatures s"
  "events (enqueue_all e eps ev p s) = events s"
  "documents (enqueue_all e eps ev p s) = documents s"
  "request_fields (enqueue_all e eps ev p s) = request_fields s"
  "signing_queue (enqueue_all e eps ev p s) = signing_queue s"
  "certificates (enqueue_all e eps ev p s) = certificates s"
  "templates (enqueue_all e eps ev p s) = templates s"
  "orgs (enqueue_all e eps ev p s) = orgs s"
  "users (enqueue_all e eps ev p s) = users s"
  "rules (enqueue_all e eps ev p s) = rules s"
  by (induction e eps ev p s rule: enqueue_all.induct) (simp_all add: enqueue_delivery_def Let_def)

lemma enqueue_all_next_id: "next_id (enqueue_all e eps ev p s) = next_id s + length eps"
  by (induction e eps ev p s rule: enqueue_all.induct) (simp_all add: enqueue_delivery_def Let_def)

lemma emit_webhook_frame [simp]:
  "requests (emit_webhook_for_request e ev rid p s) = requests s"
  "signers (emit_webhook_for_request e ev rid p s) = signers s"
  "signatures (emit_webhook_for_request e ev rid p s) = signatures s"
  "events (emit_webhook_for_request e ev rid p s) = events s"
  "documents (emit_webhook_for_request e ev rid p s) = documents s"
  "request_fields (emit_webhook_for_request e ev rid p s) = request_fields s"
  "signing_queue (emit_webhook_for_request e ev rid p s) = signing_queue s"
  "certificates (emit_webhook_for_request e ev rid p s) = certificates s"
  "templates (emit_webhook_for_request e ev rid p s) = templates s"
  "orgs (emit_webhook_for_request e ev rid p s) = orgs s"
  "users (emit_webhook_for_request e ev rid p s) = users s"
  "rules (emit_webhook_for_request e ev rid p s) = rules s"
  by (simp_all add: emit_webhook_for_request_def emit_def Let_def split: option.splits)

lemma emit_webhook_next_id [simp]: "next_id s \<le> next_id (emit_webhook_for_request e ev rid p s)"
  by (simp add: emit_webhook_for_request_def emit_def Let_def enqueue_all_next_id split: option.splits)

definition new_event :: "env \<Rightarrow> id \<Rightarrow> event_type \<Rightarrow> id option \<Rightarrow> obj \<Rightarrow> id \<Rightarrow> event_row" where
  "new_event e rid ty signer meta i = \<lparr>ev_id = i, ev_request = rid, ev_signer = signer, ev_type = ty,
     ev_meta = meta, ev_ip = meta_string meta ''ipAddress'',
     ev_agent = map_option (take 500) (meta_string meta ''userAgent''), ev_at = e_now e\<rparr>"

lemma record_event_frame [simp]:
  "requests (record_event e rid ty g meta s) = requests s"
  "signers (record_event e rid ty g meta s) = signers s"
  "signatures (record_event e rid ty g meta s) = signatures s"
  "documents (record_event e rid ty g meta s) = documents s"
  "request_fields (record_event e rid ty g meta s) = request_fields s"
  "signing_queue (record_event e rid ty g meta s) = signing_queue s"
  "certificates (record_event e rid ty g meta s) = certificates s"
  "templates (record_event e rid ty g meta s) = templates s"
  "orgs (record_event e rid ty g meta s) = orgs s"
  "users (record_event e rid ty g meta s) = users s"
  "rules (record_event e rid ty g meta s) = rules s"
  by (simp_all add: record_event_def append_event_def Let_def split: option.splits)

lemma record_event_events [simp]:
  "events (record_event e rid ty g meta s) = events s @ [new_event e rid ty g meta (next_id s)]"
  by (simp add: record_event_def append_event_def new_event_def Let_def split: option.splits)

lemma record_event_next_id [simp]: "next_id s \<le> next_id (record_event e rid ty g meta s)"
proof -
  have "next_id s \<le> next_id (append_event e rid ty g meta s)" by (simp add: append_event_def)
  then show ?thesis
    by (auto simp: record_event_def Let_def split: option.splits intro: order_trans [OF _ emit_webhook_next_id])
qed

lemma record_event_next_id_less [simp]: "i < next_id s \<Longrightarrow> i < next_id (record_event e rid ty g meta s)"
  by (rule less_le_trans [OF _ record_event_next_id])

lemma update_frame [simp]:
  "requests (update_signer i f s) = requests s" "signatures (update_signer i f s) = signatures s"
  "events (update_signer i f s) = events s" "documents (update_signer i f s) = documents s"
  "next_id (update_signer i f s) = next_id s" "signing_queue (update_signer i f s) = signing_queue s"
  "request_fields (update_signer i f s) = request_fields s" "signers (update_request i h s) = signers s"
  "signatures (update_request i h s) = signatures s" "events (update_request i h s) = events s"
  "documents (update_request i h s) = documents s" "next_id (update_request i h s) = next_id s"
  "signing_queue (update_request i h s) = signing_queue s"
  "request_fields (update_request i h s) = request_fields s"
  "requests (update_document i k s) = requests s" "signers (update_document i k s) = signers s"
  "signatures (update_document i k s) = signatures s" "events (update_document i k s) = events s"
  "next_id (update_document i k s) = next_id s" "signing_queue (update_document i k s) = signing_queue s"
  "request_fields (update_document i k s) = request_fields s"
  "signers (update_signer i f s) = update_row sg_id i f (signers s)"
  "requests (update_request i h s) = update_row rq_id i h (requests s)"
  "documents (update_document i k s) = update_row d_id i k (documents s)"
  "templates (update_signer i f s) = templates s" "templates (update_request i h s) = templates s"
  "templates (update_document i k s) = templates s"
  by (simp_all add: update_signer_def update_request_def update_document_def)

lemma queue_frame [simp]:
  "requests (enqueue_invites rid gs s) = requests s" "signers (enqueue_invites rid gs s) = signers s"
  "signatures (enqueue_invites rid gs s) = signatures s" "events (enqueue_invites rid gs s) = events s"
  "documents (enqueue_invites rid gs s) = documents s" "next_id (enqueue_invites rid gs s) = next_id s"
  "request_fields (enqueue_invites rid gs s) = request_fields s"
  "requests (enqueue_completion_mail rid s) = requests s"
  "signers (enqueue_completion_mail rid s) = signers s"
  "signatures (enqueue_completion_mail rid s) = signatures s"
  "events (enqueue_completion_mail rid s) = events s"
  "documents (enqueue_completion_mail rid s) = documents s"
  "next_id (enqueue_completion_mail rid s) = next_id s"
  "request_fields (enqueue_completion_mail rid s) = request_fields s"
  by (simp_all add: enqueue_invites_def enqueue_completion_mail_def)

lemma placements_frame [simp]:
  "requests (placements_for_request rid fs gs s) = requests s"
  "signers (placements_for_request rid fs gs s) = signers s"
  "signatures (placements_for_request rid fs gs s) = signatures s"
  "events (placements_for_request rid fs gs s) = events s"
  "documents (placements_for_request rid fs gs s) = documents s"
  "signing_queue (placements_for_request rid fs gs s) = signing_queue s"
  "next_id (placements_for_request rid fs gs s) = next_id s + length fs"
  by (simp_all add: placements_for_request_def)

declare capture_field_values_frame [simp]

section \<open>The invariant\<close>

definition request_key :: "request_row \<Rightarrow> id \<times> signing_mode \<times> bool \<times> id" where
  "request_key r = (rq_id r, rq_mode r, rq_status r = COMPLETED, rq_document r)"

definition signer_key :: "signer_row \<Rightarrow> id \<times> id \<times> string \<times> signer_role \<times> int \<times> bool" where
  "signer_key g = (sg_id g, sg_request g, sg_token g, sg_role g, sg_order g, sg_status g = SIGNED)"

definition keys_ok :: "nat \<Rightarrow> (id \<times> signing_mode \<times> bool \<times> id) list
    \<Rightarrow> (id \<times> id \<times> string \<times> signer_role \<times> int \<times> bool) list \<Rightarrow> (id \<times> id \<times> id) list \<Rightarrow> bool" where
  "keys_ok n R G X \<longleftrightarrow>
     distinct (map fst R) \<and> distinct (map fst G) \<and> distinct (map (\<lambda>(i, q, t, _). t) G) \<and> distinct (map (\<lambda>(q, i, d). (q, i)) X)
     \<and> (\<forall>(i, m, c, d) \<in> set R. i < n)
     \<and> (\<forall>(i, q, t, ro, k, b) \<in> set G. i < n \<and> q \<in> fst ` set R)
     \<and> (\<forall>(i, q, t, ro, k, b) \<in> set G. \<forall>(i', q', t', ro', k', b') \<in> set G. q = q' \<and> k = k' \<longrightarrow> i = i')
     \<and> (\<forall>(q, i, d) \<in> set X. \<exists>(i', q', t, ro, k, b) \<in> set G. i' = i \<and> q' = q \<and> b)
     \<and> (\<forall>(i, q, t, ro, k, b) \<in> set G. b \<longrightarrow> (\<exists>(q', i', d) \<in> set X. q' = q \<and> i' = i))
     \<and> (\<forall>(q, m, c, d) \<in> set R. m = SEQUENTIAL \<longrightarrow>
         (\<forall>(i, q1, t, ro, k, b) \<in> set G. \<forall>(i', q2, t', ro', k', b') \<in> set G.
            q1 = q \<and> q2 = q \<and> b \<and> k' < k \<and> ro' \<noteq> CC \<longrightarrow> b'))
     \<and> (\<forall>(q, m, c, d) \<in> set R. c \<longrightarrow> (\<forall>(i, q1, t, ro, k, b) \<in> set G. q1 = q \<and> ro \<noteq> CC \<longrightarrow> b))
     \<and> (\<forall>(q, m, c, d) \<in> set R. \<forall>(q', i, d') \<in> set X. q' = q \<longrightarrow> d' = d)"

definition rows_ok :: "nat \<Rightarrow> request_row list \<Rightarrow> signer_row list \<Rightarrow> signature_row list \<Rightarrow> bool" where
  "rows_ok n R G X = keys_ok n (map request_key R) (map signer_key G)
     (map (\<lambda>x. (si_request x, si_signer x, si_document x)) X)"

definition signing_ok :: "db \<Rightarrow> bool" where
  "signing_ok s = rows_ok (next_id s) (requests s) (signers s) (signatures s)"

lemma rows_ok_cong:
  "map request_key R = map request_key R' \<Longrightarrow> map signer_key G = map signer_key G' \<Longrightarrow>
   rows_ok n R G X = rows_ok n R' G' X"
  by (simp add: rows_ok_def)

lemma rows_ok_iff:
  "rows_ok n R G X \<longleftrightarrow>
     distinct (map rq_id R) \<and> distinct (map sg_id G) \<and> distinct (map sg_token G)
     \<and> distinct (map (\<lambda>x. (si_request x, si_signer x)) X)
     \<and> (\<forall>r \<in> set R. rq_id r < n)
     \<and> (\<forall>g \<in> set G. sg_id g < n \<and> sg_request g \<in> rq_id ` set R)
     \<and> (\<forall>g \<in> set G. \<forall>g' \<in> set G. sg_request g = sg_request g' \<and> sg_order g = sg_order g' \<longrightarrow> sg_id g = sg_id g')
     \<and> (\<forall>x \<in> set X. \<exists>g \<in> set G. sg_id g = si_signer x \<and> sg_request g = si_request x \<and> sg_status g = SIGNED)
     \<and> (\<forall>g \<in> set G. sg_status g = SIGNED \<longrightarrow> (\<exists>x \<in> set X. si_request x = sg_request g \<and> si_signer x = sg_id g))
     \<and> (\<forall>r \<in> set R. rq_mode r = SEQUENTIAL \<longrightarrow> (\<forall>g \<in> set G. \<forall>g' \<in> set G.
          sg_request g = rq_id r \<and> sg_request g' = rq_id r \<and> sg_status g = SIGNED \<and> sg_order g' < sg_order g
          \<and> sg_role g' \<noteq> CC \<longrightarrow> sg_status g' = SIGNED))
     \<and> (\<forall>r \<in> set R. rq_status r = COMPLETED \<longrightarrow>
          (\<forall>g \<in> set G. sg_request g = rq_id r \<and> sg_role g \<noteq> CC \<longrightarrow> sg_status g = SIGNED))
     \<and> (\<forall>r \<in> set R. \<forall>x \<in> set X. si_request x = rq_id r \<longrightarrow> si_document x = rq_document r)"
proof -
  have m: "map fst (map request_key R) = map rq_id R" "map fst (map signer_key G) = map sg_id G"
    "map (\<lambda>(i, q, t, _). t) (map signer_key G) = map sg_token G"
    "fst ` set (map request_key R) = rq_id ` set R"
    "map (\<lambda>(q, i, d). (q, i)) (map (\<lambda>x. (si_request x, si_signer x, si_document x)) X) =
       map (\<lambda>x. (si_request x, si_signer x)) X"
    by (auto simp: request_key_def signer_key_def image_image)
  show ?thesis
    unfolding rows_ok_def keys_ok_def m
    by (simp only: set_map ball_simps bex_simps request_key_def signer_key_def prod.case simp_thms conj_assoc)
qed

lemma rows_okD:
  assumes "rows_ok n R G X"
  shows rows_ok_requests_distinct: "distinct (map rq_id R)"
    and rows_ok_signers_distinct: "distinct (map sg_id G)"
    and rows_ok_tokens_distinct: "distinct (map sg_token G)"
    and rows_ok_signatures_distinct: "distinct (map (\<lambda>x. (si_request x, si_signer x)) X)"
    and rows_ok_request_id: "\<And>r. r \<in> set R \<Longrightarrow> rq_id r < n"
    and rows_ok_signer_id: "\<And>g. g \<in> set G \<Longrightarrow> sg_id g < n"
    and rows_ok_signer_request: "\<And>g. g \<in> set G \<Longrightarrow> sg_request g \<in> rq_id ` set R"
    and rows_ok_order_unique: "\<And>g g'. g \<in> set G \<Longrightarrow> g' \<in> set G \<Longrightarrow> sg_request g = sg_request g' \<Longrightarrow>
      sg_order g = sg_order g' \<Longrightarrow> sg_id g = sg_id g'"
    and rows_ok_signature_signer: "\<And>x. x \<in> set X \<Longrightarrow>
      \<exists>g \<in> set G. sg_id g = si_signer x \<and> sg_request g = si_request x \<and> sg_status g = SIGNED"
    and rows_ok_signed_signature: "\<And>g. g \<in> set G \<Longrightarrow> sg_status g = SIGNED \<Longrightarrow>
      \<exists>x \<in> set X. si_request x = sg_request g \<and> si_signer x = sg_id g"
    and rows_ok_sequential: "\<And>r g g'. r \<in> set R \<Longrightarrow> rq_mode r = SEQUENTIAL \<Longrightarrow> g \<in> set G \<Longrightarrow> g' \<in> set G \<Longrightarrow>
      sg_request g = rq_id r \<Longrightarrow> sg_request g' = rq_id r \<Longrightarrow> sg_status g = SIGNED \<Longrightarrow>
      sg_order g' < sg_order g \<Longrightarrow> sg_role g' \<noteq> CC \<Longrightarrow> sg_status g' = SIGNED"
    and rows_ok_completed: "\<And>r g. r \<in> set R \<Longrightarrow> rq_status r = COMPLETED \<Longrightarrow> g \<in> set G \<Longrightarrow>
      sg_request g = rq_id r \<Longrightarrow> sg_role g \<noteq> CC \<Longrightarrow> sg_status g = SIGNED"
    and rows_ok_document: "\<And>r x. r \<in> set R \<Longrightarrow> x \<in> set X \<Longrightarrow> si_request x = rq_id r \<Longrightarrow>
      si_document x = rq_document r"
proof -
  note c = assms [unfolded rows_ok_iff]
  note c1 = c [THEN conjunct1] and d1 = c [THEN conjunct2]
  note c2 = d1 [THEN conjunct1] and d2 = d1 [THEN conjunct2]
  note c3 = d2 [THEN conjunct1] and d3 = d2 [THEN conjunct2]
  note c4 = d3 [THEN conjunct1] and d4 = d3 [THEN conjunct2]
  note c5 = d4 [THEN conjunct1] and d5 = d4 [THEN conjunct2]
  note c6 = d5 [THEN conjunct1] and d6 = d5 [THEN conjunct2]
  note c7 = d6 [THEN conjunct1] and d7 = d6 [THEN conjunct2]
  note c8 = d7 [THEN conjunct1] and d8 = d7 [THEN conjunct2]
  note c9 = d8 [THEN conjunct1] and d9 = d8 [THEN conjunct2]
  note c10 = d9 [THEN conjunct1] and d10 = d9 [THEN conjunct2]
  note c11 = d10 [THEN conjunct1] and c12 = d10 [THEN conjunct2]
  show "distinct (map rq_id R)" "distinct (map sg_id G)" "distinct (map sg_token G)"
    "distinct (map (\<lambda>x. (si_request x, si_signer x)) X)"
    by (rule c1 c2 c3 c4)+
  show "\<And>r. r \<in> set R \<Longrightarrow> rq_id r < n" using c5 by blast
  show "\<And>g. g \<in> set G \<Longrightarrow> sg_id g < n" "\<And>g. g \<in> set G \<Longrightarrow> sg_request g \<in> rq_id ` set R"
    using c6 by blast+
  show "\<And>g g'. g \<in> set G \<Longrightarrow> g' \<in> set G \<Longrightarrow> sg_request g = sg_request g' \<Longrightarrow>
      sg_order g = sg_order g' \<Longrightarrow> sg_id g = sg_id g'" using c7 by blast
  show "\<And>x. x \<in> set X \<Longrightarrow>
      \<exists>g \<in> set G. sg_id g = si_signer x \<and> sg_request g = si_request x \<and> sg_status g = SIGNED"
    using c8 by blast
  show "\<And>g. g \<in> set G \<Longrightarrow> sg_status g = SIGNED \<Longrightarrow>
      \<exists>x \<in> set X. si_request x = sg_request g \<and> si_signer x = sg_id g" using c9 by blast
  show "\<And>r g g'. r \<in> set R \<Longrightarrow> rq_mode r = SEQUENTIAL \<Longrightarrow> g \<in> set G \<Longrightarrow> g' \<in> set G \<Longrightarrow>
      sg_request g = rq_id r \<Longrightarrow> sg_request g' = rq_id r \<Longrightarrow> sg_status g = SIGNED \<Longrightarrow>
      sg_order g' < sg_order g \<Longrightarrow> sg_role g' \<noteq> CC \<Longrightarrow> sg_status g' = SIGNED" using c10 by blast
  show "\<And>r g. r \<in> set R \<Longrightarrow> rq_status r = COMPLETED \<Longrightarrow> g \<in> set G \<Longrightarrow>
      sg_request g = rq_id r \<Longrightarrow> sg_role g \<noteq> CC \<Longrightarrow> sg_status g = SIGNED" using c11 by blast
  show "\<And>r x. r \<in> set R \<Longrightarrow> x \<in> set X \<Longrightarrow> si_request x = rq_id r \<Longrightarrow> si_document x = rq_document r"
    using c12 by blast
qed

lemma rows_okI:
  assumes "distinct (map rq_id R)" "distinct (map sg_id G)" "distinct (map sg_token G)"
    "distinct (map (\<lambda>x. (si_request x, si_signer x)) X)"
    "\<And>r. r \<in> set R \<Longrightarrow> rq_id r < n"
    "\<And>g. g \<in> set G \<Longrightarrow> sg_id g < n \<and> sg_request g \<in> rq_id ` set R"
    "\<And>g g'. g \<in> set G \<Longrightarrow> g' \<in> set G \<Longrightarrow> sg_request g = sg_request g' \<Longrightarrow> sg_order g = sg_order g' \<Longrightarrow>
      sg_id g = sg_id g'"
    "\<And>x. x \<in> set X \<Longrightarrow>
      \<exists>g \<in> set G. sg_id g = si_signer x \<and> sg_request g = si_request x \<and> sg_status g = SIGNED"
    "\<And>g. g \<in> set G \<Longrightarrow> sg_status g = SIGNED \<Longrightarrow> \<exists>x \<in> set X. si_request x = sg_request g \<and> si_signer x = sg_id g"
    "\<And>r g g'. r \<in> set R \<Longrightarrow> rq_mode r = SEQUENTIAL \<Longrightarrow> g \<in> set G \<Longrightarrow> g' \<in> set G \<Longrightarrow> sg_request g = rq_id r \<Longrightarrow>
      sg_request g' = rq_id r \<Longrightarrow> sg_status g = SIGNED \<Longrightarrow> sg_order g' < sg_order g \<Longrightarrow> sg_role g' \<noteq> CC \<Longrightarrow>
      sg_status g' = SIGNED"
    "\<And>r g. r \<in> set R \<Longrightarrow> rq_status r = COMPLETED \<Longrightarrow> g \<in> set G \<Longrightarrow> sg_request g = rq_id r \<Longrightarrow>
      sg_role g \<noteq> CC \<Longrightarrow> sg_status g = SIGNED"
    "\<And>r x. r \<in> set R \<Longrightarrow> x \<in> set X \<Longrightarrow> si_request x = rq_id r \<Longrightarrow> si_document x = rq_document r"
  shows "rows_ok n R G X"
  unfolding rows_ok_iff using assms by (intro conjI ballI impI) blast+

section \<open>Operations on the rows\<close>

lemma rows_ok_mono:
  assumes "rows_ok n R G X" "n \<le> n'"
  shows "rows_ok n' R G X"
proof (rule rows_okI)
  show "rq_id r < n'" if "r \<in> set R" for r
    using rows_ok_request_id [OF assms(1) that] assms(2) by simp
  show "sg_id g < n' \<and> sg_request g \<in> rq_id ` set R" if "g \<in> set G" for g
    using rows_ok_signer_id [OF assms(1) that] rows_ok_signer_request [OF assms(1) that] assms(2) by simp
qed (rule rows_okD [OF assms(1)]; assumption)+

lemma map_signer_key_update:
  assumes "\<And>g. g \<in> set G \<Longrightarrow> sg_id g = i \<Longrightarrow> signer_key (f g) = signer_key g"
  shows "map signer_key (update_row sg_id i f G) = map signer_key G"
  using assms by (induction G) (auto simp: update_row_def)

lemma map_request_key_update:
  assumes "\<And>r. r \<in> set R \<Longrightarrow> rq_id r = i \<Longrightarrow> request_key (f r) = request_key r"
  shows "map request_key (update_row rq_id i f R) = map request_key R"
  using assms by (induction R) (auto simp: update_row_def)

lemma rows_ok_update_signer:
  assumes "rows_ok n R G X" "\<And>g. g \<in> set G \<Longrightarrow> sg_id g = i \<Longrightarrow> signer_key (f g) = signer_key g"
  shows "rows_ok n R (update_row sg_id i f G) X"
  using rows_ok_cong [OF refl map_signer_key_update, of G i f] assms by blast

lemma rows_ok_update_request:
  assumes "rows_ok n R G X" "\<And>r. r \<in> set R \<Longrightarrow> rq_id r = i \<Longrightarrow> request_key (f r) = request_key r"
  shows "rows_ok n (update_row rq_id i f R) G X"
  using rows_ok_cong [OF map_request_key_update refl, of R i f] assms by blast

text \<open>Recording a signature for a signer whose predecessors have all signed.\<close>

lemma rows_ok_sign:
  assumes ok: "rows_ok n R G X" and g: "g \<in> set G" "sg_status g \<noteq> SIGNED"
    and f: "\<And>h. sg_id (f h) = sg_id h \<and> sg_request (f h) = sg_request h \<and> sg_token (f h) = sg_token h
      \<and> sg_role (f h) = sg_role h \<and> sg_order (f h) = sg_order h \<and> sg_status (f h) = SIGNED"
    and x: "si_request x = sg_request g" "si_signer x = sg_id g"
      "\<And>r. r \<in> set R \<Longrightarrow> rq_id r = sg_request g \<Longrightarrow> si_document x = rq_document r"
    and turn: "\<And>r c. r \<in> set R \<Longrightarrow> rq_id r = sg_request g \<Longrightarrow> rq_mode r = SEQUENTIAL \<Longrightarrow> c \<in> set G \<Longrightarrow>
      sg_request c = sg_request g \<Longrightarrow> sg_order c < sg_order g \<Longrightarrow> sg_role c \<noteq> CC \<Longrightarrow> sg_status c = SIGNED"
  shows "rows_ok n R (update_row sg_id (sg_id g) f G) (X @ [x])"
proof -
  let ?G = "update_row sg_id (sg_id g) f G"
  have same: "g' = g" if "g' \<in> set G" "sg_id g' = sg_id g" for g'
    using rows_ok_signers_distinct [OF ok] that g(1) by (metis distinct_map inj_onD)
  have "\<exists>h0. h0 \<in> set G \<and> sg_id h = sg_id h0 \<and> sg_request h = sg_request h0 \<and> sg_token h = sg_token h0
      \<and> sg_role h = sg_role h0 \<and> sg_order h = sg_order h0
      \<and> (sg_status h = SIGNED \<longleftrightarrow> h0 = g \<or> sg_status h0 = SIGNED)" if "h \<in> set ?G" for h
    using that f same by (fastforce simp: update_row_def split: if_splits)
  then obtain o' where o': "\<And>h. h \<in> set ?G \<Longrightarrow> o' h \<in> set G \<and> sg_id h = sg_id (o' h)
      \<and> sg_request h = sg_request (o' h) \<and> sg_token h = sg_token (o' h) \<and> sg_role h = sg_role (o' h)
      \<and> sg_order h = sg_order (o' h) \<and> (sg_status h = SIGNED \<longleftrightarrow> o' h = g \<or> sg_status (o' h) = SIGNED)"
    by metis
  have new: "\<exists>h \<in> set ?G. sg_id h = sg_id h0 \<and> sg_request h = sg_request h0
      \<and> (sg_status h = SIGNED \<longleftrightarrow> h0 = g \<or> sg_status h0 = SIGNED)" if "h0 \<in> set G" for h0
    using that f same
    by (intro bexI [of _ "if sg_id h0 = sg_id g then f h0 else h0"]) (auto simp: update_row_def)
  have fresh: "(sg_request g, sg_id g) \<notin> (\<lambda>x. (si_request x, si_signer x)) ` set X"
    using rows_ok_signature_signer [OF ok] same g(2) by fastforce
  show ?thesis
  proof (rule rows_okI)
    show "distinct (map sg_id ?G)"
      using f rows_ok_signers_distinct [OF ok] by simp
    show "distinct (map sg_token ?G)"
      using f rows_ok_tokens_distinct [OF ok] by (simp add: update_row_def if_distrib comp_def cong: if_cong)
    show "distinct (map (\<lambda>x. (si_request x, si_signer x)) (X @ [x]))"
      using rows_ok_signatures_distinct [OF ok] fresh x by (simp add: image_iff)
    show "\<exists>h \<in> set ?G. sg_id h = si_signer y \<and> sg_request h = si_request y \<and> sg_status h = SIGNED"
      if "y \<in> set (X @ [x])" for y
    proof (cases "y = x")
      case True
      with new [OF g(1)] x show ?thesis by auto
    next
      case False
      with that rows_ok_signature_signer [OF ok, of y] obtain h0 where
        "h0 \<in> set G" "sg_id h0 = si_signer y" "sg_request h0 = si_request y" "sg_status h0 = SIGNED" by auto
      with new [of h0] show ?thesis by auto
    qed
    show "\<exists>y \<in> set (X @ [x]). si_request y = sg_request h \<and> si_signer y = sg_id h"
      if "h \<in> set ?G" "sg_status h = SIGNED" for h
      using o' [OF that(1)] that(2) rows_ok_signed_signature [OF ok, of "o' h"] x by auto
    show "sg_status h' = SIGNED"
      if "r \<in> set R" "rq_mode r = SEQUENTIAL" "h \<in> set ?G" "h' \<in> set ?G" "sg_request h = rq_id r"
        "sg_request h' = rq_id r" "sg_status h = SIGNED" "sg_order h' < sg_order h" "sg_role h' \<noteq> CC" for r h h'
      using that o' [OF that(3)] o' [OF that(4)] turn [OF that(1), of "o' h'"]
        rows_ok_sequential [OF ok that(1,2), of "o' h" "o' h'"] by auto
    show "sg_status h = SIGNED"
      if "r \<in> set R" "rq_status r = COMPLETED" "h \<in> set ?G" "sg_request h = rq_id r" "sg_role h \<noteq> CC" for r h
      using that o' [OF that(3)] rows_ok_completed [OF ok that(1,2), of "o' h"] by auto
    show "sg_id h < n \<and> sg_request h \<in> rq_id ` set R" if "h \<in> set ?G" for h
      using o' [OF that] rows_ok_signer_id [OF ok] rows_ok_signer_request [OF ok] by metis
    show "sg_id h = sg_id h'" if "h \<in> set ?G" "h' \<in> set ?G" "sg_request h = sg_request h'"
      "sg_order h = sg_order h'" for h h'
      using o' [OF that(1)] o' [OF that(2)] that(3,4) rows_ok_order_unique [OF ok, of "o' h" "o' h'"] by metis
    show "si_document y = rq_document r" if "r \<in> set R" "y \<in> set (X @ [x])" "si_request y = rq_id r" for r y
      using that x rows_ok_document [OF ok] by auto
  qed (use ok in \<open>simp_all add: rows_ok_requests_distinct rows_ok_request_id\<close>)
qed

text \<open>Completing a request all of whose signers have signed.\<close>

lemma rows_ok_complete:
  assumes ok: "rows_ok n R G X"
    and f: "\<And>r. rq_id (f r) = rq_id r \<and> rq_mode (f r) = rq_mode r \<and> rq_document (f r) = rq_document r"
    and all: "\<And>g. g \<in> set G \<Longrightarrow> sg_request g = i \<Longrightarrow> sg_role g \<noteq> CC \<Longrightarrow> sg_status g = SIGNED"
  shows "rows_ok n (update_row rq_id i f R) G X"
proof -
  let ?R = "update_row rq_id i f R"
  have "\<exists>r0. r0 \<in> set R \<and> rq_id r = rq_id r0 \<and> rq_mode r = rq_mode r0
      \<and> rq_document r = rq_document r0
      \<and> (rq_id r = i \<or> rq_status r = rq_status r0)" if "r \<in> set ?R" for r
    using that f by (fastforce simp: update_row_def split: if_splits)
  then obtain o' where o': "\<And>r. r \<in> set ?R \<Longrightarrow> o' r \<in> set R \<and> rq_id r = rq_id (o' r) \<and> rq_mode r = rq_mode (o' r)
      \<and> rq_document r = rq_document (o' r)
      \<and> (rq_id r = i \<or> rq_status r = rq_status (o' r))"
    by metis
  have "(\<lambda>r. rq_id (if rq_id r = i then f r else r)) = rq_id" using f by (auto simp: fun_eq_iff)
  then have ids: "rq_id ` set ?R = rq_id ` set R" by (simp only: update_row_def set_map image_image)
  show ?thesis
  proof (rule rows_okI)
    show "distinct (map rq_id ?R)" using f rows_ok_requests_distinct [OF ok] by simp
    show "rq_id r < n" if "r \<in> set ?R" for r using o' [OF that] rows_ok_request_id [OF ok] by auto
    show "sg_id g < n \<and> sg_request g \<in> rq_id ` set ?R" if "g \<in> set G" for g
      using that rows_ok_signer_id [OF ok] rows_ok_signer_request [OF ok] by (simp add: ids)
    show "sg_status g' = SIGNED"
      if "r \<in> set ?R" "rq_mode r = SEQUENTIAL" "g \<in> set G" "g' \<in> set G" "sg_request g = rq_id r"
        "sg_request g' = rq_id r" "sg_status g = SIGNED" "sg_order g' < sg_order g" "sg_role g' \<noteq> CC" for r g g'
      using that o' [OF that(1)] rows_ok_sequential [OF ok, of "o' r" g g'] by auto
    show "sg_status g = SIGNED"
      if "r \<in> set ?R" "rq_status r = COMPLETED" "g \<in> set G" "sg_request g = rq_id r" "sg_role g \<noteq> CC" for r g
      using that o' [OF that(1)] rows_ok_completed [OF ok, of "o' r" g] all [OF that(3)] by auto
    show "si_document y = rq_document r" if "r \<in> set ?R" "y \<in> set X" "si_request y = rq_id r" for r y
      using that o' [OF that(1)] rows_ok_document [OF ok, of "o' r" y] by auto
  qed (rule rows_okD [OF ok]; assumption)+
qed

text \<open>A new request with its signers.\<close>

lemma rows_ok_insert:
  assumes ok: "rows_ok n R G X"
    and r: "n \<le> rq_id r" "rq_id r < n'" "rq_status r \<noteq> COMPLETED"
    and gs: "\<And>g. g \<in> set gs \<Longrightarrow> sg_request g = rq_id r \<and> n \<le> sg_id g \<and> sg_id g < n' \<and> sg_status g \<noteq> SIGNED"
    and d: "distinct (map sg_id gs)" "distinct (map sg_order gs)" "distinct (map sg_token (G @ gs))"
  shows "rows_ok n' (R @ [r]) (G @ gs) X"
proof -
  have nn: "n \<le> n'" using r by simp
  have old_r: "rq_id r' < n" if "r' \<in> set R" for r' using rows_ok_request_id [OF ok that] .
  have old_g: "sg_id g < n" "sg_request g < n" if "g \<in> set G" for g
    using rows_ok_signer_id [OF ok that] rows_ok_signer_request [OF ok that] old_r by auto
  have old_x: "si_signer x < n" "si_request x < n" if "x \<in> set X" for x
    using rows_ok_signature_signer [OF ok that] old_g by metis+
  show ?thesis
  proof (rule rows_okI)
    show "distinct (map rq_id (R @ [r]))"
      using rows_ok_requests_distinct [OF ok] old_r r(1) by fastforce
    show "distinct (map sg_id (G @ gs))"
      using rows_ok_signers_distinct [OF ok] old_g gs d(1) by fastforce
    show "distinct (map sg_token (G @ gs))" by (rule d(3))
    show "distinct (map (\<lambda>x. (si_request x, si_signer x)) X)" by (rule rows_ok_signatures_distinct [OF ok])
    show "rq_id r' < n'" if "r' \<in> set (R @ [r])" for r'
      using that old_r nn r(2) by fastforce
    show "sg_id g < n' \<and> sg_request g \<in> rq_id ` set (R @ [r])" if "g \<in> set (G @ gs)" for g
      using that old_g(1) gs nn rows_ok_signer_request [OF ok] by fastforce
    show "sg_id g = sg_id g'" if "g \<in> set (G @ gs)" "g' \<in> set (G @ gs)" "sg_request g = sg_request g'"
      "sg_order g = sg_order g'" for g g'
    proof -
      consider "g \<in> set G" "g' \<in> set G" | "g \<in> set gs" "g' \<in> set gs" | "g \<in> set G" "g' \<in> set gs"
        | "g \<in> set gs" "g' \<in> set G" using \<open>g \<in> set (G @ gs)\<close> \<open>g' \<in> set (G @ gs)\<close> by auto
      then show ?thesis
      proof cases
        case 1
        then show ?thesis using rows_ok_order_unique [OF ok] that(3,4) by blast
      next
        case 2
        then show ?thesis using d(2) that(4) by (metis distinct_map inj_onD)
      next
        case 3
        then show ?thesis using old_g(2) gs r(1) that(3) by fastforce
      next
        case 4
        then show ?thesis using old_g(2) gs r(1) that(3) by fastforce
      qed
    qed
    show "\<exists>g \<in> set (G @ gs). sg_id g = si_signer x \<and> sg_request g = si_request x \<and> sg_status g = SIGNED"
      if "x \<in> set X" for x using rows_ok_signature_signer [OF ok that] by auto
    show "\<exists>x \<in> set X. si_request x = sg_request g \<and> si_signer x = sg_id g"
      if "g \<in> set (G @ gs)" "sg_status g = SIGNED" for g
      using that gs rows_ok_signed_signature [OF ok, of g] by auto
    show "sg_status g' = SIGNED"
      if "r' \<in> set (R @ [r])" "rq_mode r' = SEQUENTIAL" "g \<in> set (G @ gs)" "g' \<in> set (G @ gs)"
        "sg_request g = rq_id r'" "sg_request g' = rq_id r'" "sg_status g = SIGNED"
        "sg_order g' < sg_order g" "sg_role g' \<noteq> CC" for r' g g'
    proof -
      have g: "g \<in> set G" using that(3,7) gs by auto
      then have "rq_id r' < n" using old_g(2) that(5) by fastforce
      with that(1) r(1) have r': "r' \<in> set R" by auto
      have "g' \<in> set G" using that(4,6) gs r(1) \<open>rq_id r' < n\<close> by fastforce
      with rows_ok_sequential [OF ok r' that(2) g] that show ?thesis by blast
    qed
    show "sg_status g = SIGNED"
      if "r' \<in> set (R @ [r])" "rq_status r' = COMPLETED" "g \<in> set (G @ gs)" "sg_request g = rq_id r'"
        "sg_role g \<noteq> CC" for r' g
    proof -
      have r': "r' \<in> set R" using that(1,2) r(3) by auto
      have "g \<in> set G" using that(3,4) gs r(1) old_r [OF r'] by fastforce
      with rows_ok_completed [OF ok r' that(2)] that show ?thesis by blast
    qed
    show "si_document x = rq_document r'" if "r' \<in> set (R @ [r])" "x \<in> set X" "si_request x = rq_id r'" for r' x
      using that old_x(2) [OF that(2)] r(1) rows_ok_document [OF ok, of r' x] by auto
  qed
qed

text \<open>Deleting rows together with what hangs on them.\<close>

lemma rows_ok_filter:
  assumes ok: "rows_ok n R G X"
    and a: "\<And>g. g \<in> set G \<Longrightarrow> pg g \<Longrightarrow> \<exists>r \<in> set R. pr r \<and> rq_id r = sg_request g"
    and b: "\<And>x g. x \<in> set X \<Longrightarrow> px x \<Longrightarrow> g \<in> set G \<Longrightarrow> sg_id g = si_signer x \<Longrightarrow> sg_request g = si_request x \<Longrightarrow> pg g"
    and c: "\<And>x g. x \<in> set X \<Longrightarrow> g \<in> set G \<Longrightarrow> pg g \<Longrightarrow> sg_id g = si_signer x \<Longrightarrow> sg_request g = si_request x \<Longrightarrow> px x"
  shows "rows_ok n (filter pr R) (filter pg G) (filter px X)"
proof (rule rows_okI)
  show "distinct (map rq_id (filter pr R))" "distinct (map sg_id (filter pg G))"
    "distinct (map sg_token (filter pg G))" "distinct (map (\<lambda>x. (si_request x, si_signer x)) (filter px X))"
    using rows_ok_requests_distinct [OF ok] rows_ok_signers_distinct [OF ok] rows_ok_tokens_distinct [OF ok]
      rows_ok_signatures_distinct [OF ok] by (simp_all only: distinct_map_filter)
  show "rq_id r < n" if "r \<in> set (filter pr R)" for r using that rows_ok_request_id [OF ok] by simp
  show "sg_id g < n \<and> sg_request g \<in> rq_id ` set (filter pr R)" if "g \<in> set (filter pg G)" for g
  proof -
    have g: "g \<in> set G" "pg g" using that by simp_all
    from a [OF g] obtain r where "r \<in> set (filter pr R)" "sg_request g = rq_id r" by auto
    with rows_ok_signer_id [OF ok g(1)] show ?thesis by simp
  qed
  show "sg_id g = sg_id g'" if "g \<in> set (filter pg G)" "g' \<in> set (filter pg G)"
    "sg_request g = sg_request g'" "sg_order g = sg_order g'" for g g'
    using that rows_ok_order_unique [OF ok, of g g'] by simp
  show "\<exists>g \<in> set (filter pg G). sg_id g = si_signer x \<and> sg_request g = si_request x \<and> sg_status g = SIGNED"
    if "x \<in> set (filter px X)" for x
  proof -
    have x: "x \<in> set X" "px x" using that by simp_all
    from rows_ok_signature_signer [OF ok x(1)] obtain g where
      "g \<in> set G" "sg_id g = si_signer x" "sg_request g = si_request x" "sg_status g = SIGNED" by blast
    with b [OF x] show ?thesis by (intro bexI [of _ g]) simp_all
  qed
  show "\<exists>x \<in> set (filter px X). si_request x = sg_request g \<and> si_signer x = sg_id g"
    if "g \<in> set (filter pg G)" "sg_status g = SIGNED" for g
  proof -
    have g: "g \<in> set G" "pg g" using that by simp_all
    from rows_ok_signed_signature [OF ok g(1) that(2)] obtain x where
      "x \<in> set X" "si_request x = sg_request g" "si_signer x = sg_id g" by blast
    with c [of x g] g show ?thesis by (intro bexI [of _ x]) simp_all
  qed
  show "sg_status g' = SIGNED"
    if "r \<in> set (filter pr R)" "rq_mode r = SEQUENTIAL" "g \<in> set (filter pg G)" "g' \<in> set (filter pg G)"
      "sg_request g = rq_id r" "sg_request g' = rq_id r" "sg_status g = SIGNED" "sg_order g' < sg_order g"
      "sg_role g' \<noteq> CC" for r g g'
    using that rows_ok_sequential [OF ok, of r g g'] by simp
  show "sg_status g = SIGNED" if "r \<in> set (filter pr R)" "rq_status r = COMPLETED" "g \<in> set (filter pg G)"
    "sg_request g = rq_id r" "sg_role g \<noteq> CC" for r g
    using that rows_ok_completed [OF ok, of r g] by simp
  show "si_document x = rq_document r" if "r \<in> set (filter pr R)" "x \<in> set (filter px X)"
    "si_request x = rq_id r" for r x
    using that rows_ok_document [OF ok, of r x] by simp
qed

end
