(* ===== verification/Signing_Steps.thy ===== *)
theory Signing_Steps
  imports Signing_Inv
begin

text \<open>
  Every operation of the signing service keeps \<open>signing_ok\<close>; the step relation of the whole
  service and its reachable states.
\<close>

section \<open>Operations keep the invariant\<close>

lemma signing_okI:
  assumes "rows_ok n R G X" "n \<le> next_id s" "requests s = R" "signers s = G" "signatures s = X"
  shows "signing_ok s"
  using assms rows_ok_mono by (auto simp: signing_ok_def)

lemma signing_ok_cong:
  assumes "signing_ok s" "next_id s \<le> next_id t" "requests t = requests s" "signers t = signers s"
    "signatures t = signatures s"
  shows "signing_ok t"
  using assms rows_ok_mono by (auto simp: signing_ok_def)

lemma record_event_ok [simp]: "signing_ok s \<Longrightarrow> signing_ok (record_event e rid ty g meta s)"
  by (erule signing_ok_cong) simp_all

lemma emit_webhook_ok [simp]: "signing_ok s \<Longrightarrow> signing_ok (emit_webhook_for_request e ev rid p s)"
  by (erule signing_ok_cong) simp_all

lemma enqueue_ok [simp]: "signing_ok s \<Longrightarrow> signing_ok (enqueue_invites rid gs s)"
  "signing_ok s \<Longrightarrow> signing_ok (enqueue_completion_mail rid s)"
  by (erule signing_ok_cong; simp)+

lemma update_document_ok [simp]: "signing_ok s \<Longrightarrow> signing_ok (update_document i f s)"
  by (erule signing_ok_cong) simp_all

lemma capture_ok [simp]: "signing_ok s \<Longrightarrow> signing_ok (capture_field_values now vs s)"
  by (erule signing_ok_cong) simp_all

lemma placements_ok [simp]: "signing_ok s \<Longrightarrow> signing_ok (placements_for_request rid fs gs s)"
  by (erule signing_ok_cong) simp_all

lemma update_signer_ok:
  assumes "signing_ok s" "\<And>g. g \<in> set (signers s) \<Longrightarrow> sg_id g = i \<Longrightarrow> signer_key (f g) = signer_key g"
  shows "signing_ok (update_signer i f s)"
  using rows_ok_update_signer assms by (simp add: signing_ok_def)

lemma update_request_ok:
  assumes "signing_ok s" "\<And>r. r \<in> set (requests s) \<Longrightarrow> rq_id r = i \<Longrightarrow> request_key (f r) = request_key r"
  shows "signing_ok (update_request i f s)"
  using rows_ok_update_request assms by (simp add: signing_ok_def)

lemma signer_by_id:
  "signing_ok s \<Longrightarrow> g \<in> set (signers s) \<Longrightarrow> h \<in> set (signers s) \<Longrightarrow> sg_id h = sg_id g \<Longrightarrow> h = g"
  unfolding signing_ok_def using rows_ok_signers_distinct by (metis distinct_map inj_onD)

lemma request_by_id:
  "signing_ok s \<Longrightarrow> r \<in> set (requests s) \<Longrightarrow> q \<in> set (requests s) \<Longrightarrow> rq_id q = rq_id r \<Longrightarrow> q = r"
  unfolding signing_ok_def using rows_ok_requests_distinct by (metis distinct_map inj_onD)

lemma update_signer_ok1:
  assumes "signing_ok s" "g \<in> set (signers s)" "signer_key (f g) = signer_key g"
  shows "signing_ok (update_signer (sg_id g) f s)"
  using assms signer_by_id [OF assms(1,2)] by (intro update_signer_ok) blast+

lemma update_request_ok1:
  assumes "signing_ok s" "r \<in> set (requests s)" "request_key (f r) = request_key r"
  shows "signing_ok (update_request (rq_id r) f s)"
  using assms request_by_id [OF assms(1,2)] by (intro update_request_ok) blast+

lemma find_tokenD:
  assumes "find_token t s = Some (g, r)"
  shows "g \<in> set (signers s)" "sg_token g = t" "r \<in> set (requests s)" "rq_id r = sg_request g"
  using assms find_Some_iff_filter [of "\<lambda>g. sg_token g = t" "signers s" g]
  by (auto simp: find_token_def split: option.splits dest!: find_row_SomeD)

lemma find_requestD:
  "find_request u i s = Some r \<Longrightarrow> r \<in> set (requests s) \<and> rq_id r = i \<and> in_tenant u (rq_org r)"
  unfolding find_request_def using find_Some_iff_filter by fastforce

lemma find_row_request:
  "signing_ok s \<Longrightarrow> r \<in> set (requests s) \<Longrightarrow> find_row rq_id (rq_id r) (requests s) = Some r"
  unfolding signing_ok_def by (rule find_row_distinct [OF rows_ok_requests_distinct])

lemma not_completed: "active_status (rq_status r) \<Longrightarrow> rq_status r \<noteq> COMPLETED"
  by (auto simp: active_status_def)

lemma mark_request_expired_ok:
  assumes "signing_ok s" "r \<in> set (requests s)" "active_status (rq_status r)"
  shows "signing_ok (mark_request_expired e (rq_id r) s)"
  unfolding mark_request_expired_def
  using assms not_completed
  by (intro record_event_ok update_request_ok1) (auto simp: request_key_def)

lemma can_signer_actD:
  assumes "can_signer_act (rq_mode r) g s" "rq_mode r = SEQUENTIAL" "c \<in> set (signers s)"
    "sg_request c = sg_request g" "sg_order c < sg_order g" "sg_role c \<noteq> CC"
  shows "sg_status c = SIGNED"
  using assms by (auto simp: can_signer_act_def signers_of_def list_all_iff split: if_splits)

text \<open>The workflow step after a signature.\<close>

lemma advance_workflow_ok:
  assumes "signing_ok s"
  shows "signing_ok (advance_workflow e rid mode s)"
proof (cases "find_row rq_id rid (requests s)")
  case None
  with assms show ?thesis by (simp add: advance_workflow_def)
next
  case (Some r)
  let ?gs = "sort_key sg_order (signers_of rid s)"
  show ?thesis
  proof (cases "list_all (\<lambda>g. sg_role g = CC \<or> sg_status g = SIGNED) ?gs")
    case True
    then have "sg_status g = SIGNED" if "g \<in> set (signers s)" "sg_request g = rid" "sg_role g \<noteq> CC" for g
      using that by (auto simp: list_all_iff signers_of_def)
    then have "signing_ok (update_request rid (\<lambda>r. r\<lparr>rq_status := COMPLETED, rq_completed := Some (e_now e)\<rparr>) s)"
      using assms by (simp add: signing_ok_def rows_ok_complete)
    with Some True show ?thesis by (simp add: advance_workflow_def Let_def)
  next
    case False
    have pend: "sg_status g = PENDING \<and> g \<in> set (signers s)"
      if "find (\<lambda>g. sg_role g \<noteq> CC \<and> sg_status g = PENDING) ?gs = Some g" for g
      using find_Some_iff_filter [OF that] by (auto simp: signers_of_def)
    have "signing_ok (update_signer (sg_id g) (\<lambda>g. g\<lparr>sg_status := INVITED\<rparr>) s)"
      if "find (\<lambda>g. sg_role g \<noteq> CC \<and> sg_status g = PENDING) ?gs = Some g" for g
      using assms pend [OF that] by (intro update_signer_ok1) (simp_all add: signer_key_def)
    with Some False assms show ?thesis by (simp add: advance_workflow_def Let_def split: option.splits)
  qed
qed

lemma sign_guard_None:
  assumes "sign_guard g r s = None"
  shows "sg_role g \<noteq> CC" "sg_status g = INVITED \<or> sg_status g = VIEWED" "can_signer_act (rq_mode r) g s"
  using assms by (auto simp: sign_guard_def split: if_splits)

lemma mark_signed_fields [simp]:
  "sg_id (mark_signed e ev g) = sg_id g" "sg_request (mark_signed e ev g) = sg_request g"
  "sg_token (mark_signed e ev g) = sg_token g" "sg_role (mark_signed e ev g) = sg_role g"
  "sg_order (mark_signed e ev g) = sg_order g" "sg_status (mark_signed e ev g) = SIGNED"
  by (simp_all add: mark_signed_def)

lemma signature_of_fields [simp]:
  "si_request (signature_of e cx inp g r hash ev i) = rq_id r"
  "si_signer (signature_of e cx inp g r hash ev i) = sg_id g"
  "si_document (signature_of e cx inp g r hash ev i) = rq_document r"
  "si_id (signature_of e cx inp g r hash ev i) = i"
  "si_hash (signature_of e cx inp g r hash ev i) = hash"
  by (simp_all add: signature_of_def)

lemma insert_signature_frame [simp]:
  "requests (insert_signature x s) = requests s" "signers (insert_signature x s) = signers s"
  "signatures (insert_signature x s) = signatures s @ [x]" "next_id (insert_signature x s) = next_id s + 1"
  "events (insert_signature x s) = events s" "documents (insert_signature x s) = documents s"
  "request_fields (insert_signature x s) = request_fields s"
  "signing_queue (insert_signature x s) = signing_queue s"
  by (simp_all add: insert_signature_def)

lemma signed_rows_ok:
  assumes ok: "signing_ok s" and g: "g \<in> set (signers s)" and r: "r \<in> set (requests s)" "rq_id r = sg_request g"
    and guard: "sign_guard g r s = None"
  shows "rows_ok (next_id s) (requests s) (update_row sg_id (sg_id g) (mark_signed e ev) (signers s))
      (signatures s @ [signature_of e cx inp g r hash ev (next_id s)])"
proof (rule rows_ok_sign)
  note grd = sign_guard_None [OF guard]
  let ?x = "signature_of e cx inp g r hash ev (next_id s)"
  show "rows_ok (next_id s) (requests s) (signers s) (signatures s)" using ok by (simp add: signing_ok_def)
  show "sg_status g \<noteq> SIGNED" using grd(2) by auto
  show "si_document ?x = rq_document q" if "q \<in> set (requests s)" "rq_id q = sg_request g" for q
    using request_by_id [OF ok r(1) that(1)] that(2) r(2) by simp
  show "sg_status c = SIGNED" if "q \<in> set (requests s)" "rq_id q = sg_request g" "rq_mode q = SEQUENTIAL"
    "c \<in> set (signers s)" "sg_request c = sg_request g" "sg_order c < sg_order g" "sg_role c \<noteq> CC" for q c
    using request_by_id [OF ok r(1) that(1)] that r(2) can_signer_actD [OF grd(3)] by simp
qed (use g r in simp_all)

text \<open>The state before the workflow advances.\<close>

lemma signed_state_ok:
  assumes "signing_ok s" "g \<in> set (signers s)" "r \<in> set (requests s)" "rq_id r = sg_request g"
    and "sign_guard g r s = None"
  shows "signing_ok (update_signer (sg_id g) (mark_signed e ev) (capture_field_values (e_now e) vs
    (insert_signature (signature_of e cx inp g r hash ev (next_id s)) s)))"
  by (rule signing_okI [OF signed_rows_ok [OF assms]]) simp_all

lemma perform_sign_ok:
  assumes "signing_ok s" "g \<in> set (signers s)" "r \<in> set (requests s)" "rq_id r = sg_request g"
    and "sign_guard g r s = None"
  shows "signing_ok (perform_sign e cx inp g r hash vs ev s)"
  unfolding perform_sign_def Let_def
  by (intro advance_workflow_ok record_event_ok signed_state_ok [OF assms])

lemma sign_ok:
  assumes "signing_ok s"
  shows "signing_ok (snd (sign e cy token inp cx s))"
proof (cases "find_token token s")
  case None
  with assms show ?thesis by (simp add: sign_def)
next
  case (Some gr)
  then obtain g r where gr: "find_token token s = Some (g, r)" by (cases gr) auto
  note d = find_tokenD [OF gr]
  show ?thesis
    using gr assms d mark_request_expired_ok [OF assms d(3)] perform_sign_ok [OF assms d(1,3,4)]
    by (auto simp: sign_def split: option.splits sum.splits)
qed

lemma decline_ok:
  assumes "signing_ok s"
  shows "signing_ok (snd (decline e token reason cx s))"
proof (cases "find_token token s")
  case None
  with assms show ?thesis by (simp add: decline_def)
next
  case (Some gr)
  then obtain g r where gr: "find_token token s = Some (g, r)" by (cases gr) auto
  note d = find_tokenD [OF gr]
  have "signing_ok (perform_decline e g r reason cx s)"
    if "decline_guard g r s = None" "active_status (rq_status r)"
  proof -
    have "sg_status g \<noteq> SIGNED" using that(1) by (auto simp: decline_guard_def split: if_splits)
    then have "signing_ok (update_signer (sg_id g) (\<lambda>g. g\<lparr>sg_status := DECLINED\<rparr>) s)"
      using assms d(1) by (intro update_signer_ok1) (simp_all add: signer_key_def)
    then show ?thesis
      using d(3) not_completed [OF that(2)]
      by (auto simp: perform_decline_def Let_def request_key_def intro!: update_request_ok1)
  qed
  with gr assms d mark_request_expired_ok [OF assms d(3)] show ?thesis
    by (auto simp: decline_def split: option.splits)
qed

lemma cancel_ok:
  assumes "signing_ok s"
  shows "signing_ok (snd (cancel e u i reason s))"
proof (cases "find_request u i s")
  case (Some r)
  note d = find_requestD [OF Some]
  have "signing_ok (update_request i (\<lambda>r. r\<lparr>rq_status := CANCELLED\<rparr>) s)" if "rq_status r \<noteq> COMPLETED"
    using update_request_ok1 [OF assms, of r "\<lambda>r. r\<lparr>rq_status := CANCELLED\<rparr>"] d that
    by (simp add: request_key_def)
  with Some assms show ?thesis by (simp add: cancel_def)
qed (use assms in \<open>simp add: cancel_def\<close>)

lemma dispatch_reminders_ok:
  "signing_ok s \<Longrightarrow> signing_ok (dispatch_reminders e rid ts meta s)"
proof (induction e rid ts meta s rule: dispatch_reminders.induct)
  case (2 e rid t ts meta s)
  have "signing_ok (s\<lparr>signing_queue := signing_queue s @ [SendSigningReminder rid (fst t) (snd t + 1)]\<rparr>)"
    using "2.prems" by (rule signing_ok_cong) simp_all
  then have "signing_ok (dispatch_one e rid meta t s)"
    unfolding dispatch_one_def by (intro record_event_ok update_signer_ok) (simp_all add: signer_key_def)
  then show ?case using "2.IH" by simp
qed simp

lemma remind_ok: "signing_ok s \<Longrightarrow> signing_ok (snd (remind e u i only s))"
  by (simp add: remind_def Let_def dispatch_reminders_ok split: option.splits)

lemma sweep_requests_ok: "signing_ok s \<Longrightarrow> signing_ok (snd (sweep_requests e rs s))"
  by (induction e rs s rule: sweep_requests.induct) (simp_all add: Let_def dispatch_reminders_ok case_prod_beta)

lemma sweep_ok: "signing_ok s \<Longrightarrow> signing_ok (snd (sweep_due_reminders e s))"
  by (simp add: sweep_due_reminders_def Let_def case_prod_beta sweep_requests_ok)

lemma in_person_ok:
  assumes "signing_ok s"
  shows "signing_ok (snd (in_person_session e u i only s))"
proof (cases "find_request u i s")
  case None
  with assms show ?thesis by (simp add: in_person_session_def split: option.splits)
next
  case (Some r)
  note d = find_requestD [OF Some]
  have "signing_ok (update_signer j (\<lambda>g. g\<lparr>sg_auth := Some ''in_person''\<rparr>) s)" for j
    using assms by (intro update_signer_ok) (simp_all add: signer_key_def)
  with Some assms d mark_request_expired_ok [OF assms, of r] show ?thesis
    by (auto simp: in_person_session_def split: option.splits sum.splits)
qed

subsection \<open>Creation\<close>

lemma length_ordered_signers [simp]: "length (ordered_signers inp) = length inp"
  by (simp add: ordered_signers_def)

lemma new_signers_fields:
  "map sg_id (new_signers e rid mode base ordered) = [base..<base + length ordered]"
  "map sg_order (new_signers e rid mode base ordered) = map snd ordered"
  "length (new_signers e rid mode base ordered) = length ordered"
proof -
  show "map sg_id (new_signers e rid mode base ordered) = [base..<base + length ordered]"
    by (rule nth_equalityI) (simp_all add: new_signers_def new_signer_def nth_enumerate_eq case_prod_beta)
  show "map sg_order (new_signers e rid mode base ordered) = map snd ordered"
    by (rule nth_equalityI) (simp_all add: new_signers_def new_signer_def nth_enumerate_eq case_prod_beta)
qed (simp add: new_signers_def)

lemma new_signers_mem:
  "g \<in> set (new_signers e rid mode base ordered) \<Longrightarrow>
     sg_request g = rid \<and> base \<le> sg_id g \<and> sg_id g < base + length ordered
     \<and> (sg_status g = INVITED \<or> sg_status g = PENDING)"
  by (auto simp: new_signers_def new_signer_def in_set_enumerate_eq split: if_splits)

lemma check_createD:
  assumes "check_create u inp s = Inr (org, d, ordered, placements)"
  shows "org_of u = Some org" "d \<in> set (documents s)" "d_id d = cr_document inp" "d_org d = org"
    "d_deleted d = None" "d_status d \<noteq> COMPLETED" "ordered = ordered_signers (cr_signers inp)"
    "ordered \<noteq> []" "length ordered \<le> 50" "distinct (map snd ordered)"
    "distinct (map (\<lambda>(i, k). signer_email i) ordered)"
    "load_template_placements (coalesce_opt (cr_template inp) (d_template d)) (length ordered) s = Inr placements"
proof -
  note c = assms [unfolded check_create_def Let_def]
  from c obtain o' where o': "org_of u = Some o'" by (cases "org_of u") simp_all
  let ?p = "\<lambda>d. d_id d = cr_document inp \<and> d_org d = o' \<and> d_deleted d = None"
  note c1 = c [unfolded o' option.case]
  from c1 obtain d' where d': "find ?p (documents s) = Some d'" by (cases "find ?p (documents s)") simp_all
  note c2 = c1 [unfolded d' option.case]
  have eq: "o' = org" "d' = d" and ord: "ordered_signers (cr_signers inp) = ordered"
    and pl: "load_template_placements (coalesce_opt (cr_template inp) (d_template d))
      (length (cr_signers inp)) s = Inr placements"
    and st: "d_status d \<noteq> COMPLETED" "cr_signers inp \<noteq> []" "length (cr_signers inp) \<le> 50"
    and re: "length (remdups (map snd ordered)) = length (cr_signers inp)"
      "length (remdups (map (\<lambda>(i, k). signer_email i) ordered)) = length (cr_signers inp)"
    using c2 by (simp_all split: if_split_asm sum.split_asm)
  have len: "length (cr_signers inp) = length ordered" using ord by (simp flip: ord)
  note eqs = eq ord [symmetric] pl [unfolded len] st re [unfolded len]
  with o' d' find_Some_iff_filter [OF d'] show "org_of u = Some org" "d \<in> set (documents s)"
    "d_id d = cr_document inp" "d_org d = org" "d_deleted d = None" "d_status d \<noteq> COMPLETED"
    "ordered = ordered_signers (cr_signers inp)"
    "load_template_placements (coalesce_opt (cr_template inp) (d_template d)) (length ordered) s = Inr placements"
    by simp_all
  show "ordered \<noteq> []" "length ordered \<le> 50" using st len by (auto simp flip: length_greater_0_conv)
  show "distinct (map snd ordered)" "distinct (map (\<lambda>(i, k). signer_email i) ordered)"
    using eqs(8,9) length_remdups_eq [of "map snd ordered"]
      length_remdups_eq [of "map (\<lambda>(i, k). signer_email i) ordered"] by simp_all
qed

lemma insert_request_frame [simp]:
  "requests (insert_request r gs rs s) = requests s @ [r]"
  "signers (insert_request r gs rs s) = signers s @ gs"
  "signatures (insert_request r gs rs s) = signatures s" "events (insert_request r gs rs s) = events s"
  "documents (insert_request r gs rs s) = documents s"
  "request_fields (insert_request r gs rs s) = request_fields s"
  "signing_queue (insert_request r gs rs s) = signing_queue s"
  "templates (insert_request r gs rs s) = templates s"
  "next_id (insert_request r gs rs s) = next_id s + 1 + length gs + length rs"
  by (simp_all add: insert_request_def)

lemma after_insert_frame [simp]:
  "requests (after_insert e u inp rid d gs ps s) = requests s"
  "signers (after_insert e u inp rid d gs ps s) = signers s"
  "signatures (after_insert e u inp rid d gs ps s) = signatures s"
  "next_id s \<le> next_id (after_insert e u inp rid d gs ps s)"
  by (auto simp: after_insert_def Let_def intro!: order_trans [OF _ record_event_next_id]
      order_trans [OF _ emit_webhook_next_id])

lemma create_requestE:
  assumes "create_request e u inp s = (Inr (r, gs), s')"
  obtains org d ordered placements where "check_create u inp s = Inr (org, d, ordered, placements)"
    "r = new_request u inp org d (next_id s)"
    "gs = new_signers e (next_id s) (rq_mode r) (next_id s + 1) ordered"
    "tokens_unique gs s" "au_id u \<noteq> None"
    "s' = after_insert e u inp (next_id s) d gs placements
       (insert_request r gs (new_rules (next_id s) (next_id s + 1 + length gs) (cr_rules inp)) s)"
proof -
  note c = assms [unfolded create_request_def Let_def]
  from c obtain org d ordered placements where chk: "check_create u inp s = Inr (org, d, ordered, placements)"
    by (cases "check_create u inp s") (auto split: prod.splits)
  show ?thesis
    using c by (intro that [OF chk]) (auto simp: chk split: if_split_asm)
qed

lemma create_request_error:
  "create_request e u inp s = (Inl err, s') \<Longrightarrow> s' = s"
  by (auto simp: create_request_def Let_def split: sum.splits prod.splits if_splits)

lemma create_request_ok:
  assumes "signing_ok s"
  shows "signing_ok (snd (create_request e u inp s))"
proof (cases "create_request e u inp s")
  case (Pair x s')
  show ?thesis
  proof (cases x)
    case (Inl err)
    with Pair create_request_error [of e u inp s err s'] assms show ?thesis by simp
  next
    case (Inr rg)
    then obtain r gs where "create_request e u inp s = (Inr (r, gs), s')" using Pair by (cases rg) auto
    then obtain org d ordered placements where chk: "check_create u inp s = Inr (org, d, ordered, placements)"
      and r: "r = new_request u inp org d (next_id s)"
      and gs: "gs = new_signers e (next_id s) (rq_mode r) (next_id s + 1) ordered"
      and t: "tokens_unique gs s"
      and s': "s' = after_insert e u inp (next_id s) d gs placements
         (insert_request r gs (new_rules (next_id s) (next_id s + 1 + length gs) (cr_rules inp)) s)"
      by (rule create_requestE)
    note d = check_createD [OF chk]
    have "rows_ok (next_id s + 1 + length gs) (requests s @ [r]) (signers s @ gs) (signatures s)"
    proof (rule rows_ok_insert)
      show "rows_ok (next_id s) (requests s) (signers s) (signatures s)" using assms by (simp add: signing_ok_def)
      show "distinct (map sg_id gs)" "distinct (map sg_order gs)"
        by (simp_all add: gs new_signers_fields d(10))
      show "distinct (map sg_token (signers s @ gs))" using t by (simp only: tokens_unique_def)
      show "sg_request g = rq_id r \<and> next_id s \<le> sg_id g \<and> sg_id g < next_id s + 1 + length gs
          \<and> sg_status g \<noteq> SIGNED" if "g \<in> set gs" for g
        using new_signers_mem [OF that [unfolded gs]] by (auto simp: r new_request_def gs new_signers_fields)
    qed (simp_all add: r new_request_def)
    moreover have "next_id s + 1 + length gs \<le> next_id s'"
      unfolding s' by (rule order_trans [OF _ after_insert_frame(4)]) simp
    ultimately have "signing_ok s'" by (rule signing_okI) (simp_all add: s')
    with Pair show ?thesis by simp
  qed
qed

subsection \<open>Sessions, self-signing and the demo room\<close>

lemma unsigned_rows:
  assumes "signing_ok s" "g \<in> set (signers s)" "sg_status g \<noteq> SIGNED" "h \<in> set (signers s)" "sg_id h = sg_id g"
  shows "sg_status h \<noteq> SIGNED"
  using signer_by_id [OF assms(1,2,4,5)] assms(3) by simp

lemma open_session_ok:
  assumes "signing_ok s"
  shows "signing_ok (snd (open_session e parse presign token cx s))"
proof (cases "find_token token s")
  case None
  with assms show ?thesis by (simp add: open_session_def)
next
  case (Some gr)
  then obtain g r where gr: "find_token token s = Some (g, r)" by (cases gr) auto
  note d = find_tokenD [OF gr]
  let ?inv = "\<lambda>g::signer_row. g\<lparr>sg_status := INVITED\<rparr>"
  let ?view = "\<lambda>g::signer_row. g\<lparr>sg_status := VIEWED, sg_viewed := Some (e_now e)\<rparr>"
  have view: "signing_ok (update_signer (sg_id g) ?view s)" if "sg_status g \<noteq> SIGNED"
    using assms d(1) that by (intro update_signer_ok1) (simp_all add: signer_key_def)
  have inv: "signing_ok (update_signer (sg_id g) ?inv s)" if "sg_status g = PENDING"
    using assms d(1) that by (intro update_signer_ok1) (simp_all add: signer_key_def)
  have both: "signing_ok (update_signer (sg_id g) ?view (update_signer (sg_id g) ?inv s))" if "sg_status g = PENDING"
    using inv [OF that] by (rule update_signer_ok) (auto simp: signer_key_def update_row_def split: if_splits)
  show ?thesis
    using gr assms d mark_request_expired_ok [OF assms d(3)] view inv both
    by (auto simp: open_session_def Let_def split: option.splits)
qed

lemma self_sign_ok:
  assumes "signing_ok s"
  shows "signing_ok (snd (self_sign e u document template s))"
proof -
  have upd: "signing_ok (update_signer i (\<lambda>g. g\<lparr>sg_user := x\<rparr>) t)" if "signing_ok t" for i x t
    using that by (intro update_signer_ok) (simp_all add: signer_key_def)
  obtain x t where "create_request e u (self_sign_input u document template) s = (x, t)"
    by (cases "create_request e u (self_sign_input u document template) s") auto
  with create_request_ok [OF assms, of e u "self_sign_input u document template"] assms upd show ?thesis
    by (auto simp: self_sign_def Let_def split: option.splits sum.splits)
qed

lemma delete_signers_ok:
  assumes "signing_ok s"
  shows "signing_ok (delete_signers p s)"
proof -
  have "rows_ok (next_id s) (filter (\<lambda>_. True) (requests s)) (filter (\<lambda>g. \<not> p g) (signers s))
      (filter (\<lambda>x. \<not> list_ex (\<lambda>g. p g \<and> sg_id g = si_signer x) (signers s)) (signatures s))"
  proof (rule rows_ok_filter [OF assms [unfolded signing_ok_def]])
    show "\<exists>r \<in> set (requests s). True \<and> rq_id r = sg_request g" if "g \<in> set (signers s)" for g
      using rows_ok_signer_request [OF assms [unfolded signing_ok_def] that] by auto
    show "\<not> p g" if "\<not> list_ex (\<lambda>g. p g \<and> sg_id g = si_signer x) (signers s)" "g \<in> set (signers s)"
      "sg_id g = si_signer x" for x g using that by (auto simp: list_ex_iff)
    show "\<not> list_ex (\<lambda>h. p h \<and> sg_id h = si_signer x) (signers s)" if "g \<in> set (signers s)" "\<not> p g"
      "sg_id g = si_signer x" for x g
      proof -
      have "\<not> p h" if "h \<in> set (signers s)" "sg_id h = sg_id g" for h
        using signer_by_id [OF assms \<open>g \<in> set (signers s)\<close> that] \<open>\<not> p g\<close> by simp
      with that(3) show ?thesis unfolding list_ex_iff by metis
    qed
  qed
  then show ?thesis by (simp add: signing_ok_def delete_signers_def delete_many_def Let_def)
qed

lemma delete_documents_ok:
  assumes "signing_ok s"
  shows "signing_ok (delete_documents p s)"
proof -
  note ok = assms [unfolded signing_ok_def]
  let ?dg = "\<lambda>i. list_ex (\<lambda>d. p d \<and> d_id d = i) (documents s)"
  let ?gone = "\<lambda>i. list_ex (\<lambda>r. ?dg (rq_document r) \<and> rq_id r = i) (requests s)"
  have "rows_ok (next_id s) (filter (\<lambda>r. \<not> ?dg (rq_document r)) (requests s))
      (filter (\<lambda>g. \<not> ?gone (sg_request g)) (signers s))
      (filter (\<lambda>x. \<not> (?gone (si_request x) \<or> ?dg (si_document x))) (signatures s))"
  proof (rule rows_ok_filter [OF ok])
    show "\<exists>r \<in> set (requests s). \<not> ?dg (rq_document r) \<and> rq_id r = sg_request g"
      if "g \<in> set (signers s)" "\<not> ?gone (sg_request g)" for g
    proof -
      from rows_ok_signer_request [OF ok that(1)] obtain r where
        r: "r \<in> set (requests s)" "rq_id r = sg_request g" by auto
      with that(2) have "\<not> ?dg (rq_document r)" unfolding list_ex_iff by blast
      with r show ?thesis by blast
    qed
    show "\<not> (?gone (si_request x) \<or> ?dg (si_document x))"
      if x: "x \<in> set (signatures s)" and g: "g \<in> set (signers s)" "\<not> ?gone (sg_request g)"
        "sg_id g = si_signer x" "sg_request g = si_request x" for x g
    proof -
      obtain r where r: "r \<in> set (requests s)" "rq_id r = si_request x"
        using rows_ok_signer_request [OF ok g(1)] g(4) by auto
      then have "si_document x = rq_document r" using rows_ok_document [OF ok _ x] by simp
      moreover have "\<not> ?dg (rq_document r)" using g(2,4) r unfolding list_ex_iff by metis
      ultimately show ?thesis using g(2,4) by simp
    qed
  qed simp
  then show ?thesis by (simp add: signing_ok_def delete_documents_def delete_many_def Let_def)
qed

lemma upsert_demo_org_frame:
  "requests (snd (upsert_demo_org s)) = requests s" "signers (snd (upsert_demo_org s)) = signers s"
  "signatures (snd (upsert_demo_org s)) = signatures s" "next_id s \<le> next_id (snd (upsert_demo_org s))"
  "documents (snd (upsert_demo_org s)) = documents s"
  by (auto simp: upsert_demo_org_def split: option.splits)

lemma delete_next_id [simp]: "next_id (delete_signers p s) = next_id s" "next_id (delete_documents q s) = next_id s"
  by (simp_all add: delete_signers_def delete_documents_def Let_def)

lemma delete_tokens:
  "g \<in> set (signers (delete_documents q (delete_signers p s))) \<Longrightarrow> g \<in> set (signers s) \<and> \<not> p g"
  by (auto simp: delete_signers_def delete_documents_def Let_def)

lemma ensure_demo_session_ok:
  assumes "signing_ok s"
  shows "signing_ok (ensure_demo_session e s)"
proof -
  obtain org s1 where s1: "upsert_demo_org s = (org, s1)" by fastforce
  define s2 where "s2 = delete_signers (\<lambda>g. sg_token g = demo_token) s1"
  define s3 where "s3 = delete_documents (\<lambda>d. d_org d = org \<and> d_title d = demo_doc_title) s2"
  have "signing_ok s1"
    using assms upsert_demo_org_frame [of s] s1 by (intro signing_ok_cong [OF assms]) simp_all
  then have s3: "signing_ok s3" unfolding s3_def s2_def by (intro delete_documents_ok delete_signers_ok)
  have tok: "demo_token \<notin> sg_token ` set (signers s3)"
    using delete_tokens unfolding s3_def s2_def by fastforce
  have "rows_ok (next_id s3 + 8) (requests s3 @ [demo_request org (next_id s3) (next_id s3 + 1)])
      (signers s3 @ [demo_signer (next_id s3 + 1) (next_id s3 + 2)]) (signatures s3)"
    using s3 [unfolded signing_ok_def] tok rows_ok_tokens_distinct [OF s3 [unfolded signing_ok_def]]
    by (intro rows_ok_insert) (auto simp: demo_request_def demo_signer_def)
  then have "signing_ok (s3\<lparr>next_id := next_id s3 + 8, documents := documents s3 @ [demo_document e org (next_id s3)],
               requests := requests s3 @ [demo_request org (next_id s3) (next_id s3 + 1)],
               signers := signers s3 @ [demo_signer (next_id s3 + 1) (next_id s3 + 2)],
               request_fields := request_fields s3
                 @ demo_fields (next_id s3 + 3) (next_id s3 + 1) (next_id s3 + 2)\<rparr>)"
    by (rule signing_okI) simp_all
  then show ?thesis
    unfolding ensure_demo_session_def Let_def s1 prod.case s2_def [symmetric] s3_def [symmetric]
    by (rule record_event_ok)
qed

lemma public_session_ok: "signing_ok s \<Longrightarrow> signing_ok (snd (public_session e parse presign token cx s))"
  by (simp add: public_session_def open_session_ok ensure_demo_session_ok)

section \<open>The service as a state machine\<close>

text \<open>
  One step is one call of the API, one public request or one queue job; \<open>Other\<close> is a step of
  another component, which does not write the three tables of the invariant.
\<close>

inductive step :: "db \<Rightarrow> db \<Rightarrow> bool" where
  Create: "step s (snd (create_request e u inp s))"
| Self_sign: "step s (snd (self_sign e u document template s))"
| Session: "step s (snd (public_session e parse presign token cx s))"
| Sign: "step s (snd (sign e cy token sinp cx s))"
| Decline: "step s (snd (decline e token reason cx s))"
| Cancel: "step s (snd (cancel e u i reason s))"
| Remind: "step s (snd (remind e u i only s))"
| Sweep: "step s (snd (sweep_due_reminders e s))"
| In_person: "step s (snd (in_person_session e u i only s))"
| Other: "requests t = requests s \<Longrightarrow> signers t = signers s \<Longrightarrow> signatures t = signatures s \<Longrightarrow>
    next_id s \<le> next_id t \<Longrightarrow> step s t"

inductive reachable :: "db \<Rightarrow> bool" where
  Init: "requests s = [] \<Longrightarrow> signers s = [] \<Longrightarrow> signatures s = [] \<Longrightarrow> reachable s"
| Step: "reachable s \<Longrightarrow> step s t \<Longrightarrow> reachable t"

inductive steps :: "db \<Rightarrow> db \<Rightarrow> bool" where
  Refl: "steps s s"
| Trans: "steps s t \<Longrightarrow> step t w \<Longrightarrow> steps s w"

inductive_cases stepE: "step s t"

lemma step_ok: "step s t \<Longrightarrow> signing_ok s \<Longrightarrow> signing_ok t"
  by (erule step.cases)
    (simp_all add: create_request_ok self_sign_ok public_session_ok sign_ok decline_ok cancel_ok remind_ok
      sweep_ok in_person_ok signing_ok_cong)

lemma reachable_ok: "reachable s \<Longrightarrow> signing_ok s"
proof (induction rule: reachable.induct)
  case (Init s)
  then show ?case by (simp add: signing_ok_def rows_ok_iff)
qed (rule step_ok)

lemma steps_ok: "steps s t \<Longrightarrow> signing_ok s \<Longrightarrow> signing_ok t"
  by (induction rule: steps.induct) (auto dest: step_ok)

lemma reachable_steps: "steps s t \<Longrightarrow> reachable s \<Longrightarrow> reachable t"
  by (induction rule: steps.induct) (auto intro: reachable.Step)

end
