(* ===== verification/Signing_Flow.thy ===== *)
theory Signing_Flow
  imports Signing_Steps
begin

text \<open>
  How the rows evolve along any sequence of steps: identities and roles never change, a signed
  or declined signer stays so, a completed request stays completed.
\<close>

definition final :: "signer_status \<Rightarrow> bool" where
  "final st \<longleftrightarrow> st = SIGNED \<or> st = DECLINED"

definition signer_next :: "signer_row \<Rightarrow> signer_row \<Rightarrow> bool" where
  "signer_next g h \<longleftrightarrow> sg_id h = sg_id g \<and> sg_request h = sg_request g \<and> sg_token h = sg_token g
     \<and> sg_role h = sg_role g \<and> sg_order h = sg_order g \<and> sg_email h = sg_email g
     \<and> (final (sg_status g) \<longrightarrow> sg_status h = sg_status g)"

definition request_next :: "request_row \<Rightarrow> request_row \<Rightarrow> bool" where
  "request_next r q \<longleftrightarrow> rq_id q = rq_id r \<and> rq_org q = rq_org r \<and> rq_document q = rq_document r
     \<and> rq_mode q = rq_mode r \<and> (rq_status r = COMPLETED \<longrightarrow> rq_status q = COMPLETED)"

definition evolves :: "db \<Rightarrow> db \<Rightarrow> bool" where
  "evolves s t \<longleftrightarrow> next_id s \<le> next_id t
     \<and> (\<forall>h \<in> set (signers t). sg_id h < next_id s \<longrightarrow> (\<exists>g \<in> set (signers s). signer_next g h))
     \<and> (\<forall>q \<in> set (requests t). rq_id q < next_id s \<longrightarrow> (\<exists>r \<in> set (requests s). request_next r q))"

lemma signer_next_refl [simp]: "signer_next g g"
  by (simp add: signer_next_def)

lemma request_next_refl [simp]: "request_next r r"
  by (simp add: request_next_def)

lemma signer_next_trans: "signer_next f g \<Longrightarrow> signer_next g h \<Longrightarrow> signer_next f h"
  by (auto simp: signer_next_def)

lemma request_next_trans: "request_next f g \<Longrightarrow> request_next g h \<Longrightarrow> request_next f h"
  by (auto simp: request_next_def)

lemma evolves_refl [simp]: "evolves s s"
  unfolding evolves_def using signer_next_refl request_next_refl by blast

lemma evolves_trans:
  assumes "evolves s t" "evolves t w"
  shows "evolves s w"
  unfolding evolves_def
proof (intro conjI ballI impI)
  show "next_id s \<le> next_id w" using assms by (auto simp: evolves_def)
  show "\<exists>g \<in> set (signers s). signer_next g h" if h: "h \<in> set (signers w)" "sg_id h < next_id s" for h
  proof -
    obtain g where g: "g \<in> set (signers t)" "signer_next g h"
      using assms h less_le_trans unfolding evolves_def by blast
    then have "sg_id g < next_id s" using h(2) by (simp add: signer_next_def)
    with g obtain f where "f \<in> set (signers s)" "signer_next f g" using assms(1) unfolding evolves_def by blast
    with g(2) show ?thesis using signer_next_trans by blast
  qed
  show "\<exists>r \<in> set (requests s). request_next r q" if q: "q \<in> set (requests w)" "rq_id q < next_id s" for q
  proof -
    obtain g where g: "g \<in> set (requests t)" "request_next g q"
      using assms q less_le_trans unfolding evolves_def by blast
    then have "rq_id g < next_id s" using q(2) by (simp add: request_next_def)
    with g obtain f where "f \<in> set (requests s)" "request_next f g" using assms(1) unfolding evolves_def by blast
    with g(2) show ?thesis using request_next_trans by blast
  qed
qed

text \<open>Operations that leave both tables alone can be appended.\<close>

lemma evolves_frame:
  assumes "evolves s t" "signers w = signers t" "requests w = requests t" "next_id t \<le> next_id w"
  shows "evolves s w"
  using assms by (auto simp: evolves_def)

lemma evolves_append [simp]:
  "evolves s t \<Longrightarrow> evolves s (record_event e rid ty g meta t)"
  "evolves s t \<Longrightarrow> evolves s (emit_webhook_for_request e ev rid p t)"
  "evolves s t \<Longrightarrow> evolves s (enqueue_invites rid is t)"
  "evolves s t \<Longrightarrow> evolves s (enqueue_completion_mail rid t)"
  "evolves s t \<Longrightarrow> evolves s (update_document i f t)"
  "evolves s t \<Longrightarrow> evolves s (capture_field_values now vs t)"
  "evolves s t \<Longrightarrow> evolves s (placements_for_request rid fs gs t)"
  "evolves s t \<Longrightarrow> evolves s (insert_signature x t)"
  by (erule evolves_frame; simp)+

lemma evolves_update_signer:
  assumes "evolves s t" "\<And>g. g \<in> set (signers t) \<Longrightarrow> sg_id g = i \<Longrightarrow> signer_next g (f g)"
  shows "evolves s (update_signer i f t)"
proof (rule evolves_trans [OF assms(1)])
  have "\<exists>g \<in> set (signers t). signer_next g h" if "h \<in> set (update_row sg_id i f (signers t))" for h
  proof -
    from that obtain g where g: "g \<in> set (signers t)" "h = (if sg_id g = i then f g else g)"
      unfolding update_row_def set_map by (rule imageE)
    with assms(2) [of g] show ?thesis by (intro bexI [of _ g]) simp_all
  qed
  then show "evolves t (update_signer i f t)"
    unfolding evolves_def update_frame using request_next_refl by blast
qed

lemma evolves_update_request:
  assumes "evolves s t" "\<And>r. r \<in> set (requests t) \<Longrightarrow> rq_id r = i \<Longrightarrow> request_next r (f r)"
  shows "evolves s (update_request i f t)"
proof (rule evolves_trans [OF assms(1)])
  have "\<exists>r \<in> set (requests t). request_next r q" if "q \<in> set (update_row rq_id i f (requests t))" for q
  proof -
    from that obtain r where r: "r \<in> set (requests t)" "q = (if rq_id r = i then f r else r)"
      unfolding update_row_def set_map by (rule imageE)
    with assms(2) [of r] show ?thesis by (intro bexI [of _ r]) simp_all
  qed
  then show "evolves t (update_request i f t)"
    unfolding evolves_def update_frame using signer_next_refl by blast
qed

lemma evolves_expire:
  assumes "signing_ok s" "r \<in> set (requests s)" "active_status (rq_status r)"
  shows "evolves s (mark_request_expired e (rq_id r) s)"
  unfolding mark_request_expired_def
proof (intro evolves_append evolves_update_request evolves_refl)
  fix q assume "q \<in> set (requests s)" "rq_id q = rq_id r"
  then have "q = r" by (rule request_by_id [OF assms(1,2)])
  then show "request_next q (q\<lparr>rq_status := EXPIRED\<rparr>)"
    using not_completed [OF assms(3)] by (simp add: request_next_def)
qed

lemma evolves_update_signer1:
  assumes "evolves s t" "signing_ok t" "g \<in> set (signers t)" "signer_next g (f g)"
  shows "evolves s (update_signer (sg_id g) f t)"
  using signer_by_id [OF assms(2,3)] assms by (intro evolves_update_signer) blast+

lemma evolves_advance:
  assumes "signing_ok t" "evolves s t"
  shows "evolves s (advance_workflow e rid mode t)"
proof -
  have inv: "evolves s (update_signer (sg_id g) (\<lambda>g. g\<lparr>sg_status := INVITED\<rparr>) t)"
    if "find (\<lambda>g. sg_role g \<noteq> CC \<and> sg_status g = PENDING) (sort_key sg_order (signers_of rid t)) = Some g" for g
    using find_Some_iff_filter [OF that] assms
    by (intro evolves_update_signer1) (auto simp: signer_next_def signers_of_def final_def)
  have comp: "evolves s (update_request rid (\<lambda>r. r\<lparr>rq_status := COMPLETED, rq_completed := Some (e_now e)\<rparr>) t)"
    using assms(2) by (rule evolves_update_request) (simp add: request_next_def)
  show ?thesis
    using inv comp assms(2) by (simp add: advance_workflow_def Let_def split: option.splits)
qed

lemma evolves_sign:
  assumes "signing_ok s"
  shows "evolves s (snd (sign e cy token inp cx s))"
proof (cases "find_token token s")
  case None
  then show ?thesis by (simp add: sign_def)
next
  case (Some gr)
  then obtain g r where gr: "find_token token s = Some (g, r)" by (cases gr) auto
  note d = find_tokenD [OF gr]
  have "evolves s (perform_sign e cx inp g r hash vs ev s)" if guard: "sign_guard g r s = None" for hash vs ev
  proof -
    note grd = sign_guard_None [OF guard]
    let ?x = "signature_of e cx inp g r hash ev (next_id s)"
    let ?t = "record_event e (rq_id r) EvSigned (Some (sg_id g)) (signed_meta cx g ?x vs ev)
      (update_signer (sg_id g) (mark_signed e ev) (capture_field_values (e_now e) vs (insert_signature ?x s)))"
    have "evolves s ?t"
    proof (intro evolves_append evolves_update_signer evolves_refl)
      fix h assume "h \<in> set (signers (capture_field_values (e_now e) vs (insert_signature ?x s)))"
        "sg_id h = sg_id g"
      then have "h = g" using signer_by_id [OF assms d(1)] by simp
      then show "signer_next h (mark_signed e ev h)"
        using grd(2) by (auto simp: signer_next_def final_def mark_signed_def)
    qed
    moreover have "signing_ok ?t"
      by (intro record_event_ok signed_state_ok [OF assms d(1,3,4) guard])
    ultimately show ?thesis unfolding perform_sign_def Let_def by (intro evolves_advance)
  qed
  with gr d evolves_expire [OF assms d(3)] show ?thesis
    by (auto simp: sign_def split: option.splits sum.splits)
qed

lemma evolves_decline:
  assumes "signing_ok s"
  shows "evolves s (snd (decline e token reason cx s))"
proof (cases "find_token token s")
  case None
  then show ?thesis by (simp add: decline_def)
next
  case (Some gr)
  then obtain g r where gr: "find_token token s = Some (g, r)" by (cases gr) auto
  note d = find_tokenD [OF gr]
  have "evolves s (perform_decline e g r reason cx s)"
    if "decline_guard g r s = None" "active_status (rq_status r)"
  proof -
    have "\<not> final (sg_status g)" using that(1) by (auto simp: decline_guard_def final_def split: if_splits)
    then have "evolves s (update_signer (sg_id g) (\<lambda>g. g\<lparr>sg_status := DECLINED\<rparr>) s)"
      using assms d(1) by (intro evolves_update_signer1) (simp_all add: signer_next_def)
    moreover have "request_next q (q\<lparr>rq_status := IN_PROGRESS\<rparr>)" if "q \<in> set (requests s)" "rq_id q = rq_id r" for q
      using request_by_id [OF assms d(3) that] not_completed [OF \<open>active_status (rq_status r)\<close>]
      by (simp add: request_next_def)
    ultimately show ?thesis by (auto simp: perform_decline_def Let_def intro!: evolves_update_request)
  qed
  with gr d evolves_expire [OF assms d(3)] show ?thesis by (auto simp: decline_def split: option.splits)
qed

lemma evolves_cancel:
  assumes "signing_ok s"
  shows "evolves s (snd (cancel e u i reason s))"
proof (cases "find_request u i s")
  case (Some r)
  note d = find_requestD [OF Some]
  have "request_next q (q\<lparr>rq_status := CANCELLED\<rparr>)"
    if "rq_status r \<noteq> COMPLETED" "q \<in> set (requests s)" "rq_id q = i" for q
    using request_by_id [OF assms, of r q] d that by (simp add: request_next_def)
  then show ?thesis
    using Some by (auto simp: cancel_def intro!: evolves_append evolves_update_request)
qed (simp add: cancel_def)

lemma evolves_dispatch: "evolves s t \<Longrightarrow> evolves s (dispatch_reminders e rid ts meta t)"
proof (induction e rid ts meta t rule: dispatch_reminders.induct)
  case (2 e rid x ts meta t)
  have "evolves s (t\<lparr>signing_queue := signing_queue t @ [SendSigningReminder rid (fst x) (snd x + 1)]\<rparr>)"
    using "2.prems" by (rule evolves_frame) simp_all
  then have "evolves s (dispatch_one e rid meta x t)"
    unfolding dispatch_one_def by (intro evolves_append evolves_update_signer) (simp_all add: signer_next_def)
  then show ?case using "2.IH" by simp
qed simp

lemma evolves_sweep_requests: "evolves s t \<Longrightarrow> evolves s (snd (sweep_requests e rs t))"
  by (induction e rs t rule: sweep_requests.induct) (simp_all add: Let_def evolves_dispatch case_prod_beta)

lemma evolves_in_person:
  assumes "signing_ok s"
  shows "evolves s (snd (in_person_session e u i only s))"
proof (cases "find_request u i s")
  case None
  then show ?thesis by (simp add: in_person_session_def split: option.splits)
next
  case (Some r)
  note d = find_requestD [OF Some]
  have "evolves s (update_signer j (\<lambda>g. g\<lparr>sg_auth := Some ''in_person''\<rparr>) s)" for j
    by (intro evolves_update_signer evolves_refl) (simp add: signer_next_def)
  with Some d evolves_expire [OF assms, of r] show ?thesis
    by (auto simp: in_person_session_def split: option.splits sum.splits)
qed

lemma evolves_open_session:
  assumes "signing_ok t" "evolves s t"
  shows "evolves s (snd (open_session e parse presign token cx t))"
proof (cases "find_token token t")
  case None
  with assms show ?thesis by (simp add: open_session_def)
next
  case (Some gr)
  then obtain g r where gr: "find_token token t = Some (g, r)" by (cases gr) auto
  note d = find_tokenD [OF gr]
  let ?inv = "\<lambda>g::signer_row. g\<lparr>sg_status := INVITED\<rparr>"
  let ?view = "\<lambda>g::signer_row. g\<lparr>sg_status := VIEWED, sg_viewed := Some (e_now e)\<rparr>"
  have ex: "evolves s (mark_request_expired e (rq_id r) t)" if "active_status (rq_status r)"
    using evolves_trans [OF assms(2) evolves_expire [OF assms(1) d(3) that]] .
  have one: "evolves s (update_signer (sg_id g) ?inv t)" if "sg_status g = PENDING"
    using assms d(1) that by (intro evolves_update_signer1) (simp_all add: signer_next_def final_def)
  have two: "evolves s (update_signer (sg_id g) ?view t)" if "\<not> final (sg_status g)"
    using assms d(1) that by (intro evolves_update_signer1) (simp_all add: signer_next_def)
  have both: "evolves s (update_signer (sg_id g) ?view (update_signer (sg_id g) ?inv t))" if "sg_status g = PENDING"
    using one [OF that] by (rule evolves_update_signer)
      (auto simp: signer_next_def final_def update_row_def split: if_splits)
  show ?thesis
    unfolding open_session_def gr option.case prod.case Let_def
    using assms ex one two both by (simp add: final_def split: option.split)
qed

lemma evolves_create:
  "evolves s (snd (create_request e u inp s))"
proof (cases "create_request e u inp s")
  case (Pair x s')
  show ?thesis
  proof (cases x)
    case (Inl err)
    with Pair create_request_error [of e u inp s err s'] show ?thesis by simp
  next
    case (Inr rg)
    then obtain r gs where "create_request e u inp s = (Inr (r, gs), s')" using Pair by (cases rg) auto
    then obtain org d ordered placements where
      r: "r = new_request u inp org d (next_id s)"
      and gs: "gs = new_signers e (next_id s) (rq_mode r) (next_id s + 1) ordered"
      and s': "s' = after_insert e u inp (next_id s) d gs placements
         (insert_request r gs (new_rules (next_id s) (next_id s + 1 + length gs) (cr_rules inp)) s)"
      by (rule create_requestE)
    have "next_id s \<le> next_id s'" unfolding s' by (rule order_trans [OF _ after_insert_frame(4)]) simp
    moreover have "h \<in> set (signers s)" if "h \<in> set (signers s')" "sg_id h < next_id s" for h
      using that new_signers_mem [of h e "next_id s" "rq_mode r" "next_id s + 1" ordered]
      by (auto simp: s' gs)
    moreover have "q \<in> set (requests s)" if "q \<in> set (requests s')" "rq_id q < next_id s" for q
      using that by (auto simp: s' r new_request_def)
    ultimately have "evolves s s'"
      unfolding evolves_def using signer_next_refl request_next_refl by blast
    with Pair show ?thesis by simp
  qed
qed

lemma evolves_self_sign: "evolves s (snd (self_sign e u document template s))"
proof -
  obtain x t where c: "create_request e u (self_sign_input u document template) s = (x, t)"
    by (cases "create_request e u (self_sign_input u document template) s") auto
  then have "evolves s t" using evolves_create [of s e u "self_sign_input u document template"] by simp
  moreover have "evolves s (update_signer i (\<lambda>g. g\<lparr>sg_user := y\<rparr>) t)" for i y
    using \<open>evolves s t\<close> by (intro evolves_update_signer) (simp_all add: signer_next_def)
  ultimately show ?thesis
    using c by (auto simp: self_sign_def Let_def split: option.splits sum.splits)
qed

lemma evolves_demo: "evolves s (ensure_demo_session e s)"
proof -
  obtain org s1 where s1: "upsert_demo_org s = (org, s1)" by fastforce
  define s3 where "s3 = delete_documents (\<lambda>d. d_org d = org \<and> d_title d = demo_doc_title)
    (delete_signers (\<lambda>g. sg_token g = demo_token) s1)"
  have n: "next_id s \<le> next_id s3" and G: "set (signers s3) \<subseteq> set (signers s)"
    and R: "set (requests s3) \<subseteq> set (requests s)"
    using upsert_demo_org_frame [of s] s1
    by (auto simp: s3_def delete_signers_def delete_documents_def Let_def)
  let ?w = "s3\<lparr>next_id := next_id s3 + 8, documents := documents s3 @ [demo_document e org (next_id s3)],
      requests := requests s3 @ [demo_request org (next_id s3) (next_id s3 + 1)],
      signers := signers s3 @ [demo_signer (next_id s3 + 1) (next_id s3 + 2)],
      request_fields := request_fields s3 @ demo_fields (next_id s3 + 3) (next_id s3 + 1) (next_id s3 + 2)\<rparr>"
  have "evolves s ?w"
    unfolding evolves_def
  proof (intro conjI ballI impI)
    show "next_id s \<le> next_id ?w" using n by simp
    show "\<exists>g \<in> set (signers s). signer_next g h" if "h \<in> set (signers ?w)" "sg_id h < next_id s" for h
    proof -
      have "h \<in> set (signers s)" using that n G by (auto simp: demo_signer_def)
      then show ?thesis using signer_next_refl by blast
    qed
    show "\<exists>r \<in> set (requests s). request_next r q" if "q \<in> set (requests ?w)" "rq_id q < next_id s" for q
    proof -
      have "q \<in> set (requests s)" using that n R by (auto simp: demo_request_def)
      then show ?thesis using request_next_refl by blast
    qed
  qed
  then show ?thesis
    unfolding ensure_demo_session_def Let_def s1 prod.case s3_def [symmetric] by (rule evolves_append)
qed

lemma evolves_public_session:
  "signing_ok s \<Longrightarrow> evolves s (snd (public_session e parse presign token cx s))"
  by (simp add: public_session_def evolves_open_session evolves_demo ensure_demo_session_ok)

lemma evolves_other:
  "requests t = requests s \<Longrightarrow> signers t = signers s \<Longrightarrow> signatures t = signatures s \<Longrightarrow>
    next_id s \<le> next_id t \<Longrightarrow> evolves s t"
  using evolves_frame [OF evolves_refl] by blast

lemma step_evolves:
  assumes "step s t" "signing_ok s"
  shows "evolves s t"
  using assms
proof (cases rule: step.cases)
  case (Remind e u i only)
  then show ?thesis by (simp add: remind_def Let_def evolves_dispatch split: option.splits)
next
  case (Sweep e)
  then show ?thesis by (simp add: sweep_due_reminders_def Let_def case_prod_beta evolves_sweep_requests)
qed (simp_all add: evolves_create evolves_self_sign evolves_public_session evolves_sign evolves_decline
    evolves_cancel evolves_in_person evolves_other)

lemma steps_evolve: "steps s t \<Longrightarrow> signing_ok s \<Longrightarrow> evolves s t"
proof (induction rule: steps.induct)
  case (Trans s t w)
  then show ?case using evolves_trans step_evolves steps_ok by blast
qed simp

end
