(* ===== verification/Signing_Samples.thy ===== *)
theory Signing_Samples
  imports Signing_Flow
begin

text \<open>
  A concrete run of the signing workflow for the witnesses: a document, a sequential request
  with two signers, the first signature, the second signature.
\<close>

definition sample_document :: document_row where
  "sample_document = \<lparr>d_id = 2, d_org = 1, d_workspace = None, d_template = None, d_title = ''Lease'',
     d_description = None, d_status = DRAFT, d_file_name = ''lease.pdf'', d_file_key = ''k'',
     d_content_type = ''application/pdf'', d_size = 1, d_checksum = ''c'', d_version = 1, d_tags = [],
     d_created_by = Some 5, d_deleted = None\<rparr>"

definition sample_signer :: "string \<Rightarrow> signer_input" where
  "sample_signer m = \<lparr>in_email = m, in_name = None, in_role = None, in_order = None\<rparr>"

definition sample_create :: create_input where
  "sample_create = \<lparr>cr_document = 2, cr_template = None, cr_title = None, cr_message = None,
     cr_deadline = None, cr_mode = None, cr_signers = [sample_signer ''a@x'', sample_signer ''b@x''],
     cr_rules = [], cr_send_invites = None\<rparr>"

definition sample_db :: db where
  "sample_db = empty_db\<lparr>next_id := 10, users := [sample_user], documents := [sample_document]\<rparr>"

definition sample_client :: client where
  "sample_client = \<lparr>cx_ip = Some ''10.0.0.1'', cx_agent = None\<rparr>"

definition sample_sign :: sign_input where
  "sample_sign = \<lparr>sn_type = None, sn_serial = None, sn_hash = None, sn_algorithm = None,
     sn_certificate = None, sn_value = None, sn_fields = None\<rparr>"

definition run_created :: db where
  "run_created = snd (create_request sample_env sample_principal sample_create sample_db)"

definition run_signed :: db where
  "run_signed = snd (sign sample_env sample_crypto ''sgn_0'' sample_sign sample_client run_created)"

definition run_declined :: db where
  "run_declined = snd (decline sample_env ''sgn_0'' None sample_client run_created)"

definition run_completed :: db where
  "run_completed = snd (sign sample_env sample_crypto ''sgn_1'' sample_sign sample_client run_signed)"

lemma run_reachable:
  "reachable sample_db" "reachable run_created" "reachable run_signed" "reachable run_declined"
  "reachable run_completed"
proof -
  show d: "reachable sample_db" by (rule reachable.Init) (simp_all add: sample_db_def empty_db_def)
  show c: "reachable run_created" unfolding run_created_def by (rule reachable.Step [OF d Create])
  show s: "reachable run_signed" unfolding run_signed_def by (rule reachable.Step [OF c Sign])
  show "reachable run_declined" unfolding run_declined_def by (rule reachable.Step [OF c Decline])
  show "reachable run_completed" unfolding run_completed_def by (rule reachable.Step [OF s Sign])
qed

lemma run_created_rows:
  "map (\<lambda>g. (sg_id g, sg_request g, sg_order g, sg_role g, sg_status g)) (signers run_created) =
    [(11, 10, 0, SIGNER, INVITED), (12, 10, 1, SIGNER, PENDING)]
   \<and> map (\<lambda>r. (rq_id r, rq_mode r, rq_status r)) (requests run_created) =
    [(10, SEQUENTIAL, AWAITING_SIGNATURE)]"
  by code_simp

lemma run_completed_rows:
  "map (\<lambda>g. (sg_id g, sg_request g, sg_order g, sg_role g, sg_status g)) (signers run_completed) =
    [(11, 10, 0, SIGNER, SIGNED), (12, 10, 1, SIGNER, SIGNED)]
   \<and> map (\<lambda>r. (rq_id r, rq_mode r, rq_status r)) (requests run_completed) =
    [(10, SEQUENTIAL, COMPLETED)]"
  by code_simp

lemma run_declined_rows:
  "map (\<lambda>g. (sg_id g, sg_request g, sg_order g, sg_role g, sg_status g)) (signers run_declined) =
    [(11, 10, 0, SIGNER, DECLINED), (12, 10, 1, SIGNER, PENDING)]
   \<and> map (\<lambda>r. (rq_id r, rq_mode r, rq_status r)) (requests run_declined) =
    [(10, SEQUENTIAL, IN_PROGRESS)]"
  by code_simp

lemma two_rows: "map f xs = [a, b] \<Longrightarrow> \<exists>x y. xs = [x, y] \<and> f x = a \<and> f y = b"
  by (cases xs; cases "tl xs"; cases "tl (tl xs)") auto

lemma one_row: "map f xs = [a] \<Longrightarrow> \<exists>x. xs = [x] \<and> f x = a"
  by (cases xs) auto

end
