(* ===== verification/Signing_Props.thy ===== *)
theory Signing_Props
  imports Signing_Samples
begin

text \<open>
  What holds in every reachable state of the signing service: sequential order, completion,
  one signature per signer, and what can never happen again after a signature or a refusal.
\<close>

text \<open>
  C2: in a sequential request nobody signs before everyone ahead of them (carbon copies
  apart) has signed, whatever calls were made in whatever order.
\<close>

theorem sequential_order_kept:
  assumes "reachable s" "r \<in> set (requests s)" "rq_mode r = SEQUENTIAL"
    and "g \<in> set (signers s)" "sg_request g = rq_id r" "sg_status g = SIGNED"
    and "h \<in> set (signers s)" "sg_request h = rq_id r" "sg_order h < sg_order g" "sg_role h \<noteq> CC"
  shows "sg_status h = SIGNED"
  using rows_ok_sequential [OF reachable_ok [OF assms(1), unfolded signing_ok_def]] assms(2-) by blast

theorem sequential_order_kept_witness:
  "\<exists>g h. signers run_completed = [h, g] \<and> sg_order h < sg_order g \<and> sg_status h = SIGNED"
proof -
  obtain h g where gs: "signers run_completed = [h, g]"
    "(sg_id h, sg_request h, sg_order h, sg_role h, sg_status h) = (11, 10, 0, SIGNER, SIGNED)"
    "(sg_id g, sg_request g, sg_order g, sg_role g, sg_status g) = (12, 10, 1, SIGNER, SIGNED)"
    using two_rows [OF run_completed_rows [THEN conjunct1]] by auto
  obtain r where r: "requests run_completed = [r]" "(rq_id r, rq_mode r, rq_status r) = (10, SEQUENTIAL, COMPLETED)"
    using one_row [OF run_completed_rows [THEN conjunct2]] by auto
  have "sg_status h = SIGNED"
    by (rule sequential_order_kept [OF run_reachable(5), of r g h]) (use gs r in simp_all)
  with gs show ?thesis by auto
qed

text \<open>
  C3: a COMPLETED request carries the signature of every signer and approver.
\<close>

theorem completed_all_signed:
  assumes "reachable s" "r \<in> set (requests s)" "rq_status r = COMPLETED"
    and "g \<in> set (signers s)" "sg_request g = rq_id r" "sg_role g \<noteq> CC"
  shows "sg_status g = SIGNED
    \<and> (\<exists>x \<in> set (signatures s). si_signer x = sg_id g \<and> si_request x = rq_id r \<and> si_document x = rq_document r)"
proof -
  note ok = reachable_ok [OF assms(1), unfolded signing_ok_def]
  have s: "sg_status g = SIGNED" using rows_ok_completed [OF ok] assms(2-) by blast
  then obtain x where "x \<in> set (signatures s)" "si_request x = sg_request g" "si_signer x = sg_id g"
    using rows_ok_signed_signature [OF ok assms(4)] by blast
  with s rows_ok_document [OF ok assms(2), of x] assms(5) show ?thesis by auto
qed

theorem completed_all_signed_witness:
  "\<exists>g h. signers run_completed = [h, g] \<and> (\<exists>x \<in> set (signatures run_completed). si_signer x = sg_id g)"
proof -
  obtain h g where gs: "signers run_completed = [h, g]"
    "(sg_id g, sg_request g, sg_order g, sg_role g, sg_status g) = (12, 10, 1, SIGNER, SIGNED)"
    using two_rows [OF run_completed_rows [THEN conjunct1]] by auto
  obtain r where r: "requests run_completed = [r]" "(rq_id r, rq_mode r, rq_status r) = (10, SEQUENTIAL, COMPLETED)"
    using one_row [OF run_completed_rows [THEN conjunct2]] by auto
  have "sg_status g = SIGNED \<and> (\<exists>x \<in> set (signatures run_completed). si_signer x = sg_id g \<and>
      si_request x = rq_id r \<and> si_document x = rq_document r)"
    by (rule completed_all_signed [OF run_reachable(5)]) (use gs r in simp_all)
  with gs show ?thesis by auto
qed

lemma filter_unique:
  "distinct (map f xs) \<Longrightarrow> x \<in> set xs \<Longrightarrow> length (filter (\<lambda>y. f y = f x) xs) = 1"
proof (induction xs)
  case (Cons y ys)
  show ?case
  proof (cases "x = y")
    case True
    then have "f z \<noteq> f x" if "z \<in> set ys" for z using Cons.prems(1) that by (auto simp: image_iff)
    then have "filter (\<lambda>z. f z = f x) ys = []" by (simp add: filter_empty_conv)
    with True show ?thesis by simp
  next
    case False
    with Cons show ?thesis by (auto simp: image_iff)
  qed
qed simp

text \<open>
  C5: a signer row is SIGNED exactly when there is a signature of that signer, and then there is
  exactly one, so a signature is never counted twice and never lost.
\<close>

theorem one_signature_per_signer:
  assumes "reachable s" "g \<in> set (signers s)"
  shows "length (filter (\<lambda>x. si_request x = sg_request g \<and> si_signer x = sg_id g) (signatures s)) =
    (if sg_status g = SIGNED then 1 else 0)"
proof (cases "sg_status g = SIGNED")
  case True
  note ok = reachable_ok [OF assms(1), unfolded signing_ok_def]
  obtain x where x: "x \<in> set (signatures s)" "si_request x = sg_request g" "si_signer x = sg_id g"
    using rows_ok_signed_signature [OF ok assms(2) True] by blast
  from filter_unique [OF rows_ok_signatures_distinct [OF ok] x(1)] x(2,3) True show ?thesis by simp
next
  case False
  note ok = reachable_ok [OF assms(1)]
  have "\<not> (si_request x = sg_request g \<and> si_signer x = sg_id g)" if x: "x \<in> set (signatures s)" for x
  proof
    assume eq: "si_request x = sg_request g \<and> si_signer x = sg_id g"
    obtain h where "h \<in> set (signers s)" "sg_id h = si_signer x" "sg_status h = SIGNED"
      using rows_ok_signature_signer [OF ok [unfolded signing_ok_def] x] by blast
    with signer_by_id [OF ok assms(2), of h] eq False show False by simp
  qed
  then show ?thesis using False by (simp add: filter_empty_conv)
qed

theorem one_signature_per_signer_witness:
  "\<exists>g h. signers run_completed = [h, g] \<and> length (filter (\<lambda>x. si_request x = sg_request g \<and> si_signer x = sg_id g)
     (signatures run_completed)) = 1"
proof -
  obtain h g where gs: "signers run_completed = [h, g]"
    "(sg_id g, sg_request g, sg_order g, sg_role g, sg_status g) = (12, 10, 1, SIGNER, SIGNED)"
    using two_rows [OF run_completed_rows [THEN conjunct1]] by auto
  have "length (filter (\<lambda>x. si_request x = sg_request g \<and> si_signer x = sg_id g) (signatures run_completed)) =
    (if sg_status g = SIGNED then 1 else 0)"
    by (rule one_signature_per_signer [OF run_reachable(5)]) (use gs in simp)
  with gs show ?thesis by auto
qed

section \<open>Finality\<close>

lemma signer_next_final:
  "signer_next g h \<Longrightarrow> final (sg_status g) \<Longrightarrow>
    sg_status h = sg_status g \<and> sg_request h = sg_request g \<and> sg_role h = sg_role g \<and> sg_order h = sg_order g"
  by (simp add: signer_next_def)

lemma request_next_same:
  "request_next r q \<Longrightarrow> rq_mode q = rq_mode r \<and> rq_org q = rq_org r \<and> rq_document q = rq_document r
    \<and> (rq_status r = COMPLETED \<longrightarrow> rq_status q = COMPLETED)"
  by (simp add: request_next_def)

lemma final_stays:
  assumes "signing_ok s" "steps s t" "g \<in> set (signers s)" "final (sg_status g)"
    and "h \<in> set (signers t)" "sg_id h = sg_id g"
  shows "sg_status h = sg_status g \<and> sg_request h = sg_request g \<and> sg_role h = sg_role g \<and> sg_order h = sg_order g"
proof -
  have "sg_id h < next_id s"
    using rows_ok_signer_id [OF assms(1) [unfolded signing_ok_def] assms(3)] assms(6) by simp
  then obtain f where f: "f \<in> set (signers s)" "signer_next f h"
    using steps_evolve [OF assms(2,1)] assms(5) unfolding evolves_def by blast
  have "sg_id f = sg_id g" using f(2) assms(6) unfolding signer_next_def by simp
  from signer_by_id [OF assms(1,3) f(1) this] f(2) have "signer_next g h" by simp
  then show ?thesis by (rule signer_next_final [OF _ assms(4)])
qed

lemma mode_stays:
  assumes "signing_ok s" "steps s t" "r \<in> set (requests s)" "q \<in> set (requests t)" "rq_id q = rq_id r"
  shows "rq_mode q = rq_mode r \<and> rq_org q = rq_org r \<and> rq_document q = rq_document r
    \<and> (rq_status r = COMPLETED \<longrightarrow> rq_status q = COMPLETED)"
proof -
  have "rq_id q < next_id s"
    using rows_ok_request_id [OF assms(1) [unfolded signing_ok_def] assms(3)] assms(5) by simp
  then obtain p where p: "p \<in> set (requests s)" "request_next p q"
    using steps_evolve [OF assms(2,1)] assms(4) unfolding evolves_def by blast
  have "rq_id p = rq_id r" using p(2) assms(5) unfolding request_next_def by simp
  from request_by_id [OF assms(1,3) p(1) this] p(2) have "request_next r q" by simp
  then show ?thesis by (rule request_next_same)
qed



lemma find_token_unique:
  assumes "signing_ok s" "g \<in> set (signers s)" "find_token (sg_token g) s = Some (h, r)"
  shows "h = g"
  using find_tokenD [OF assms(3)] rows_ok_tokens_distinct [OF assms(1) [unfolded signing_ok_def]] assms(2)
  by (metis distinct_map inj_onD)

text \<open>
  C8: a signer who signed, or declined, can never sign again with their link: every later
  attempt is refused.
\<close>

theorem no_second_signature:
  assumes "reachable s" "g \<in> set (signers s)" "sg_status g = SIGNED \<or> sg_status g = DECLINED"
    and "steps s t" "h \<in> set (signers t)" "sg_id h = sg_id g"
  shows "\<not> succeeds (sign e cy (sg_token h) inp cx t)"
proof (cases "find_token (sg_token h) t")
  case None
  then show ?thesis by (simp add: sign_def)
next
  case (Some gr)
  then obtain f r where fr: "find_token (sg_token h) t = Some (f, r)" by (cases gr) auto
  note ok = reachable_ok [OF assms(1)]
  have "f = h" by (rule find_token_unique [OF steps_ok [OF assms(4) ok] assms(5) fr])
  moreover have "sg_status h = sg_status g"
    using final_stays [OF ok assms(4,2) _ assms(5,6)] assms(3) by (auto simp: final_def)
  ultimately have "sign_guard f r t \<noteq> None" using assms(3) by (auto simp: sign_guard_def)
  with fr show ?thesis by (auto simp: sign_def split: option.splits)
qed

theorem no_second_signature_witness:
  "\<exists>h g. signers run_completed = [h, g] \<and>
     \<not> succeeds (sign sample_env sample_crypto (sg_token h) sample_sign sample_client run_completed)"
proof -
  obtain h g where gs: "signers run_completed = [h, g]"
    "(sg_id h, sg_request h, sg_order h, sg_role h, sg_status h) = (11, 10, 0, SIGNER, SIGNED)"
    using two_rows [OF run_completed_rows [THEN conjunct1]] by auto
  have "\<not> succeeds (sign sample_env sample_crypto (sg_token h) sample_sign sample_client run_completed)"
    by (rule no_second_signature [OF run_reachable(5) _ _ steps.Refl, of h]) (use gs in simp_all)
  with gs show ?thesis by blast
qed

end
