(* ===== verification/Signing_Refine.thy ===== *)
theory Signing_Refine
  imports Signing_Samples
begin

text \<open>
  The signing workflow against an abstract protocol. An envelope forgets links, hashes, evidence,
  events, invitations and documents: it is a list of parties who accept or refuse, in order or
  in any order. Signing and declining are its two moves, creating a request opens an envelope,
  and every other call of the workflow leaves all envelopes as they are.
\<close>

section \<open>The protocol\<close>

datatype vote = Waiting | Accepted | Refused

record party =
  pa_signer :: id
  pa_order :: int
  pa_vote :: vote

record envelope =
  en_mode :: signing_mode
  en_parties :: "party list"
  en_complete :: bool

definition has_turn :: "id \<Rightarrow> envelope \<Rightarrow> bool" where
  "has_turn i en \<longleftrightarrow> \<not> en_complete en \<and>
     list_ex (\<lambda>p. pa_signer p = i \<and> pa_vote p = Waiting \<and> (en_mode en = PARALLEL
        \<or> list_all (\<lambda>q. pa_order q < pa_order p \<longrightarrow> pa_vote q = Accepted) (en_parties en))) (en_parties en)"

definition cast_vote :: "vote \<Rightarrow> id \<Rightarrow> party list \<Rightarrow> party list" where
  "cast_vote v i ps = map (\<lambda>p. if pa_signer p = i then p\<lparr>pa_vote := v\<rparr> else p) ps"

definition accept :: "id \<Rightarrow> envelope \<Rightarrow> envelope" where
  "accept i en = (let ps = cast_vote Accepted i (en_parties en)
     in en\<lparr>en_parties := ps, en_complete := list_all (\<lambda>p. pa_vote p = Accepted) ps\<rparr>)"

definition refuse :: "id \<Rightarrow> envelope \<Rightarrow> envelope" where
  "refuse i en = en\<lparr>en_parties := cast_vote Refused i (en_parties en)\<rparr>"

section \<open>The abstraction\<close>

definition vote_of :: "signer_status \<Rightarrow> vote" where
  "vote_of st = (if st = SIGNED then Accepted else if st = DECLINED then Refused else Waiting)"

definition party_of :: "signer_row \<Rightarrow> party" where
  "party_of g = \<lparr>pa_signer = sg_id g, pa_order = sg_order g, pa_vote = vote_of (sg_status g)\<rparr>"

definition parties :: "id \<Rightarrow> signer_row list \<Rightarrow> party list" where
  "parties rid gs = map party_of (filter (\<lambda>g. sg_request g = rid \<and> sg_role g \<noteq> CC) gs)"

definition envelope_with :: "party list \<Rightarrow> request_row \<Rightarrow> envelope" where
  "envelope_with ps r = \<lparr>en_mode = rq_mode r, en_parties = ps, en_complete = (rq_status r = COMPLETED)\<rparr>"

definition envelopes :: "db \<Rightarrow> id \<Rightarrow> envelope option" where
  "envelopes s rid = map_option (envelope_with (parties rid (signers s))) (find_row rq_id rid (requests s))"

text \<open>The columns an envelope depends on.\<close>

definition vote_key :: "signer_row \<Rightarrow> id \<times> bool \<times> party" where
  "vote_key g = (sg_request g, sg_role g = CC, party_of g)"

definition mode_key :: "request_row \<Rightarrow> id \<times> signing_mode \<times> bool" where
  "mode_key r = (rq_id r, rq_mode r, rq_status r = COMPLETED)"

lemma parties_keys:
  "parties rid gs = map (\<lambda>(q, c, p). p) (filter (\<lambda>(q, c, p). q = rid \<and> \<not> c) (map vote_key gs))"
  by (induction gs) (simp_all add: parties_def vote_key_def)

lemma envelope_keys:
  "map_option (envelope_with ps) (find_row rq_id rid rs) =
    map_option (\<lambda>(q, m, c). \<lparr>en_mode = m, en_parties = ps, en_complete = c\<rparr>)
      (find (\<lambda>(q, m, c). q = rid) (map mode_key rs))"
  by (induction rs) (simp_all add: find_row_def mode_key_def envelope_with_def)

lemma envelopes_cong:
  assumes "map mode_key (requests t) = map mode_key (requests s)"
    "map vote_key (signers t) = map vote_key (signers s)"
  shows "envelopes t = envelopes s"
  by (rule ext) (simp add: envelopes_def envelope_keys parties_keys assms)

lemma map_update_row:
  assumes "\<And>x. x \<in> set xs \<Longrightarrow> k x = i \<Longrightarrow> h (f x) = h x"
  shows "map h (update_row k i f xs) = map h xs"
  using assms by (induction xs) (auto simp: update_row_def)

lemma envelopes_frame:
  assumes "requests t = requests s" "signers t = signers s"
  shows "envelopes t = envelopes s"
  by (rule envelopes_cong) (simp_all add: assms)

lemma envelopes_record_event [simp]: "envelopes (record_event e rid ty g meta s) = envelopes s"
  and envelopes_update_document [simp]: "envelopes (update_document i f s) = envelopes s"
  and envelopes_emit [simp]: "envelopes (emit_webhook_for_request e ev rid p s) = envelopes s"
  and envelopes_invites [simp]: "envelopes (enqueue_invites rid gs s) = envelopes s"
  and envelopes_completion [simp]: "envelopes (enqueue_completion_mail rid s) = envelopes s"
  and envelopes_capture [simp]: "envelopes (capture_field_values now vs s) = envelopes s"
  and envelopes_insert [simp]: "envelopes (insert_signature x s) = envelopes s"
  by (rule envelopes_frame; simp)+

lemma envelopes_update_signer:
  assumes "\<And>g. g \<in> set (signers s) \<Longrightarrow> sg_id g = i \<Longrightarrow> vote_key (f g) = vote_key g"
  shows "envelopes (update_signer i f s) = envelopes s"
  using assms by (intro envelopes_cong) (simp_all add: map_update_row)

lemma envelopes_update_request:
  assumes "\<And>r. r \<in> set (requests s) \<Longrightarrow> rq_id r = i \<Longrightarrow> mode_key (f r) = mode_key r"
  shows "envelopes (update_request i f s) = envelopes s"
  using assms by (intro envelopes_cong) (simp_all add: map_update_row)

lemma vote_key_status:
  "\<not> final (sg_status g) \<Longrightarrow> \<not> final st \<Longrightarrow> vote_key (g\<lparr>sg_status := st\<rparr>) = vote_key g"
  by (simp add: vote_key_def party_of_def vote_of_def final_def)

section \<open>Votes\<close>

lemma parties_vote:
  assumes "\<And>g. sg_id (f g) = sg_id g \<and> sg_request (f g) = sg_request g \<and> sg_role (f g) = sg_role g
      \<and> sg_order (f g) = sg_order g \<and> vote_of (sg_status (f g)) = v"
  shows "parties rid (update_row sg_id i f gs) = cast_vote v i (parties rid gs)"
  by (induction gs) (simp_all add: parties_def update_row_def cast_vote_def party_of_def assms)

lemma cast_vote_absent: "i \<notin> pa_signer ` set ps \<Longrightarrow> cast_vote v i ps = ps"
  by (induction ps) (auto simp: cast_vote_def)

lemma parties_signer: "i \<in> pa_signer ` set (parties rid gs) \<longleftrightarrow> (\<exists>g \<in> set gs. sg_id g = i \<and> sg_request g = rid \<and> sg_role g \<noteq> CC)"
  by (force simp: parties_def party_of_def)

lemma envelopes_vote:
  assumes ok: "signing_ok s" and g: "g \<in> set (signers s)"
    and f: "\<And>g. sg_id (f g) = sg_id g \<and> sg_request (f g) = sg_request g \<and> sg_role (f g) = sg_role g
      \<and> sg_order (f g) = sg_order g \<and> vote_of (sg_status (f g)) = v"
  shows "envelopes (update_signer (sg_id g) f s) =
    (envelopes s)(sg_request g := map_option (\<lambda>en. en\<lparr>en_parties := cast_vote v (sg_id g) (en_parties en)\<rparr>)
       (envelopes s (sg_request g)))"
proof (rule ext)
  fix rid
  have "cast_vote v (sg_id g) (parties rid (signers s)) = parties rid (signers s)" if "rid \<noteq> sg_request g"
    using that signer_by_id [OF ok g] by (intro cast_vote_absent) (auto simp: parties_signer)
  then show "envelopes (update_signer (sg_id g) f s) rid =
    ((envelopes s)(sg_request g := map_option (\<lambda>en. en\<lparr>en_parties := cast_vote v (sg_id g) (en_parties en)\<rparr>)
       (envelopes s (sg_request g)))) rid"
    by (cases "find_row rq_id rid (requests s)")
      (auto simp: envelopes_def parties_vote [OF f] envelope_with_def)
qed

lemma all_accepted:
  "list_all (\<lambda>g. sg_role g = CC \<or> sg_status g = SIGNED) (sort_key sg_order (signers_of rid s)) \<longleftrightarrow>
    list_all (\<lambda>p. pa_vote p = Accepted) (parties rid (signers s))"
  by (auto simp: list_all_iff parties_def signers_of_def party_of_def vote_of_def)

lemma envelope_turn:
  assumes ok: "signing_ok s" and g: "g \<in> set (signers s)" "sg_role g \<noteq> CC" "\<not> final (sg_status g)"
    and r: "r \<in> set (requests s)" "rq_id r = sg_request g" "rq_status r \<noteq> COMPLETED"
    and turn: "can_signer_act (rq_mode r) g s"
  shows "\<exists>en. envelopes s (sg_request g) = Some en \<and> has_turn (sg_id g) en \<and> \<not> en_complete en"
proof -
  have en: "envelopes s (sg_request g) = Some (envelope_with (parties (sg_request g) (signers s)) r)"
    using find_row_request [OF ok r(1)] r(2) by (simp add: envelopes_def)
  have p: "party_of g \<in> set (parties (sg_request g) (signers s))" using g by (simp add: parties_def)
  have "rq_mode r = PARALLEL \<or> list_all (\<lambda>q. pa_order q < sg_order g \<longrightarrow> pa_vote q = Accepted)
      (parties (sg_request g) (signers s))"
    using turn g(2) by (auto simp: can_signer_act_def parties_def list_all_iff signers_of_def party_of_def vote_of_def
        split: if_splits)
  with p g(3) r(3) have "has_turn (sg_id g) (envelope_with (parties (sg_request g) (signers s)) r)"
    unfolding has_turn_def list_ex_iff
    by (auto simp: envelope_with_def party_of_def vote_of_def final_def intro!: bexI [of _ "party_of g"])
  with en r(3) show ?thesis by (simp add: envelope_with_def)
qed

section \<open>The moves\<close>

lemma envelopes_complete:
  "envelopes (update_request rid (\<lambda>r. r\<lparr>rq_status := COMPLETED, rq_completed := now\<rparr>) s) =
    (envelopes s)(rid := map_option (\<lambda>en. en\<lparr>en_complete := True\<rparr>) (envelopes s rid))"
proof (rule ext)
  fix q
  have "find_row rq_id q (update_row rq_id rid (\<lambda>r. r\<lparr>rq_status := COMPLETED, rq_completed := now\<rparr>) rs) =
    map_option (\<lambda>r. if q = rid then r\<lparr>rq_status := COMPLETED, rq_completed := now\<rparr> else r) (find_row rq_id q rs)" for rs :: "request_row list"
    by (induction rs) (auto simp: update_row_def)
  then show "envelopes (update_request rid (\<lambda>r. r\<lparr>rq_status := COMPLETED, rq_completed := now\<rparr>) s) q =
    ((envelopes s)(rid := map_option (\<lambda>en. en\<lparr>en_complete := True\<rparr>) (envelopes s rid))) q"
    by (cases "find_row rq_id q (requests s)") (auto simp: envelopes_def envelope_with_def)
qed

definition settle :: "envelope \<Rightarrow> envelope" where
  "settle en = (if list_all (\<lambda>p. pa_vote p = Accepted) (en_parties en) then en\<lparr>en_complete := True\<rparr> else en)"

lemma envelopes_advance:
  assumes ok: "signing_ok s"
  shows "envelopes (advance_workflow e rid mode s) = (envelopes s)(rid := map_option settle (envelopes s rid))"
proof (cases "find_row rq_id rid (requests s)")
  case None
  then show ?thesis by (simp add: advance_workflow_def envelopes_def fun_upd_idem)
next
  case (Some r)
  let ?all = "list_all (\<lambda>p. pa_vote p = Accepted) (parties rid (signers s))"
  have en: "envelopes s rid = Some (envelope_with (parties rid (signers s)) r)" using Some by (simp add: envelopes_def)
  show ?thesis
  proof (cases ?all)
    case True
    then have "envelopes (advance_workflow e rid mode s) =
      (envelopes s)(rid := map_option (\<lambda>en. en\<lparr>en_complete := True\<rparr>) (envelopes s rid))"
      using Some by (simp add: advance_workflow_def all_accepted envelopes_complete)
    with True en show ?thesis by (simp add: settle_def envelope_with_def)
  next
    case False
    have inv: "envelopes (update_signer (sg_id g) (\<lambda>g. g\<lparr>sg_status := INVITED\<rparr>) s) = envelopes s"
      if "find (\<lambda>g. sg_role g \<noteq> CC \<and> sg_status g = PENDING) (sort_key sg_order (signers_of rid s)) = Some g" for g
    proof (rule envelopes_update_signer)
      from find_Some_iff_filter [OF that] have g: "sg_status g = PENDING" "g \<in> set (signers s)"
        by (auto simp: signers_of_def)
      fix h assume "h \<in> set (signers s)" "sg_id h = sg_id g"
      then have "h = g" by (rule signer_by_id [OF ok g(2)])
      with g(1) show "vote_key (h\<lparr>sg_status := INVITED\<rparr>) = vote_key h" by (simp add: vote_key_status final_def)
    qed
    have "envelopes (advance_workflow e rid mode s) = envelopes s"
      using Some False inv by (simp add: advance_workflow_def Let_def all_accepted split: option.split)
    with False en show ?thesis by (simp add: settle_def envelope_with_def fun_upd_idem)
  qed
qed

lemma envelopes_expired:
  assumes "signing_ok s" "r \<in> set (requests s)" "active_status (rq_status r)"
  shows "envelopes (mark_request_expired e (rq_id r) s) = envelopes s"
proof -
  have "mode_key (q\<lparr>rq_status := EXPIRED\<rparr>) = mode_key q" if "q \<in> set (requests s)" "rq_id q = rq_id r" for q
    using request_by_id [OF assms(1,2) that] not_completed [OF assms(3)] by (simp add: mode_key_def)
  then show ?thesis by (simp add: mark_request_expired_def envelopes_update_request)
qed

lemma settle_cast:
  "\<not> en_complete en \<Longrightarrow> settle (en\<lparr>en_parties := cast_vote Accepted i (en_parties en)\<rparr>) = accept i en"
  by (simp add: settle_def accept_def)

lemma perform_sign_accepts:
  assumes ok: "signing_ok s" and g: "g \<in> set (signers s)" and r: "r \<in> set (requests s)" "rq_id r = sg_request g"
    and guard: "sign_guard g r s = None" and act: "rq_status r \<noteq> COMPLETED"
  shows "envelopes (perform_sign e cx inp g r hash vs ev s) =
      (envelopes s)(sg_request g := map_option (accept (sg_id g)) (envelopes s (sg_request g)))
    \<and> (\<exists>en. envelopes s (sg_request g) = Some en \<and> has_turn (sg_id g) en)"
proof -
  note grd = sign_guard_None [OF guard]
  let ?x = "signature_of e cx inp g r hash ev (next_id s)"
  let ?c = "capture_field_values (e_now e) vs (insert_signature ?x s)"
  let ?t = "record_event e (rq_id r) EvSigned (Some (sg_id g)) (signed_meta cx g ?x vs ev)
      (update_signer (sg_id g) (mark_signed e ev) ?c)"
  have "\<not> final (sg_status g)" using grd(2) by (auto simp: final_def)
  with grd obtain en where en: "envelopes s (sg_request g) = Some en" "has_turn (sg_id g) en" "\<not> en_complete en"
    using envelope_turn [OF ok g _ _ r act] by blast
  have same: "envelopes ?t = envelopes (update_signer (sg_id g) (mark_signed e ev) s)"
    unfolding envelopes_record_event by (rule envelopes_frame) simp_all
  have "envelopes ?t = (envelopes s)(sg_request g := Some (en\<lparr>en_parties := cast_vote Accepted (sg_id g) (en_parties en)\<rparr>))"
    unfolding same using envelopes_vote [OF ok g, of "mark_signed e ev" Accepted] en(1) by (simp add: vote_of_def)
  moreover have "signing_ok ?t" by (intro record_event_ok signed_state_ok [OF ok g r guard])
  ultimately have "envelopes (advance_workflow e (rq_id r) (rq_mode r) ?t) =
      (envelopes s)(sg_request g := map_option (accept (sg_id g)) (envelopes s (sg_request g)))"
    using en by (simp add: envelopes_advance r(2) settle_cast)
  with en show ?thesis unfolding perform_sign_def Let_def by blast
qed

text \<open>How a call of \<open>sign\<close> or \<open>decline\<close> ends.\<close>

lemma sign_cases:
  obtains (Refused) err where "sign e cy token inp cx s = (Inl err, s)"
  | (Expired) err g r where "sign e cy token inp cx s = (Inl err, mark_request_expired e (rq_id r) s)"
      "find_token token s = Some (g, r)" "active_status (rq_status r)"
  | (Signed) v g r hash vs ev where "sign e cy token inp cx s = (Inr v, perform_sign e cx inp g r hash vs ev s)"
      "find_token token s = Some (g, r)" "active_status (rq_status r)" "\<not> past_deadline e r" "sign_guard g r s = None"
proof (cases "find_token token s")
  case None
  then show thesis by (intro Refused) (simp add: sign_def)
next
  case (Some gr)
  then obtain g r where gr: "find_token token s = Some (g, r)" by (cases gr) auto
  show thesis
  proof (cases "active_status (rq_status r) \<and> \<not> past_deadline e r \<and> sign_guard g r s = None")
    case False
    then show thesis
      using gr Refused Expired by (cases "active_status (rq_status r)"; cases "past_deadline e r") (auto simp: sign_def)
  next
    case True
    show thesis
    proof (cases "prepare_signature e cy inp g r s")
      case (Inl err)
      with gr True show thesis by (intro Refused [of err]) (simp add: sign_def)
    next
      case (Inr y)
      then obtain hash vs ev where p: "prepare_signature e cy inp g r s = Inr (hash, vs, ev)" by (cases y) auto
      show thesis
      proof (cases "list_ex (\<lambda>x. si_request x = rq_id r \<and> si_signer x = sg_id g) (signatures s)")
        case True
        with gr p \<open>_ \<and> _ \<and> _\<close> show thesis
          by (intro Refused [of "Conflict ''Already signed''"]) (simp add: sign_def)
      next
        case False
        with gr p \<open>_ \<and> _ \<and> _\<close> show thesis
          by (intro Signed [of "(next_id s, map_option (\<lambda>v. (ce_score v, ce_level v)) ev)" g r hash vs ev])
            (simp_all add: sign_def)
      qed
    qed
  qed
qed

lemma decline_cases:
  obtains (Refused) err where "decline e token reason cx s = (Inl err, s)"
  | (Expired) err g r where "decline e token reason cx s = (Inl err, mark_request_expired e (rq_id r) s)"
      "find_token token s = Some (g, r)" "active_status (rq_status r)"
  | (Declined) g r where "decline e token reason cx s = (Inr (), perform_decline e g r reason cx s)"
      "find_token token s = Some (g, r)" "active_status (rq_status r)" "\<not> past_deadline e r" "decline_guard g r s = None"
proof (cases "find_token token s")
  case None
  then show thesis by (intro Refused) (simp add: decline_def)
next
  case (Some gr)
  then obtain g r where gr: "find_token token s = Some (g, r)" by (cases gr) auto
  show thesis
    using gr Refused Expired Declined [OF _ gr]
    by (cases "active_status (rq_status r)"; cases "past_deadline e r"; cases "decline_guard g r s")
      (auto simp: decline_def)
qed

text \<open>
  C4: signing refines the protocol: a successful call accepts the envelope on behalf of the signer
  whose link it is, who had the turn, and touches no other envelope; a refused call leaves every
  envelope as it was.
\<close>

theorem sign_refines_accept:
  assumes "reachable s"
  shows "case sign e cy token inp cx s of
      (Inl err, t) \<Rightarrow> envelopes t = envelopes s
    | (Inr v, t) \<Rightarrow> (\<exists>g \<in> set (signers s). sg_token g = token
        \<and> envelopes t = (envelopes s)(sg_request g := map_option (accept (sg_id g)) (envelopes s (sg_request g)))
        \<and> (\<exists>en. envelopes s (sg_request g) = Some en \<and> has_turn (sg_id g) en))"
  using reachable_ok [OF assms]
proof (cases e cy token inp cx s rule: sign_cases)
  case (Expired err g r)
  with envelopes_expired [OF reachable_ok [OF assms] find_tokenD(3) [OF Expired(2)]] show ?thesis by simp
next
  case (Signed v g r hash vs ev)
  note d = find_tokenD [OF Signed(2)]
  show ?thesis
    unfolding Signed(1) prod.case sum.case
    using perform_sign_accepts [OF reachable_ok [OF assms] d(1,3,4) Signed(5) not_completed [OF Signed(3)]] d(1,2)
    by (intro bexI [of _ g]) simp_all
qed simp

theorem sign_refines_accept_witness:
  "envelopes run_signed 10 = map_option (accept 11) (envelopes run_created 10)"
proof -
  have "isl (fst (sign sample_env sample_crypto ''sgn_0'' sample_sign sample_client run_created)) = False" by code_simp
  then obtain v where v: "sign sample_env sample_crypto ''sgn_0'' sample_sign sample_client run_created = (Inr v, run_signed)"
    unfolding run_signed_def by (cases "sign sample_env sample_crypto ''sgn_0'' sample_sign sample_client run_created"; cases "fst (sign sample_env sample_crypto ''sgn_0'' sample_sign sample_client run_created)") auto
  have "map (\<lambda>g. (sg_token g, sg_id g, sg_request g)) (signers run_created) = [(''sgn_0'', 11, 10), (''sgn_1'', 12, 10)]"
    by code_simp
  then have "sg_id g = 11 \<and> sg_request g = 10" if "g \<in> set (signers run_created)" "sg_token g = ''sgn_0''" for g
    using that by auto
  with sign_refines_accept [OF run_reachable(2), where e = sample_env and cy = sample_crypto
      and token = "''sgn_0''" and inp = sample_sign and cx = sample_client]
  show ?thesis unfolding v prod.case sum.case by auto
qed

lemma perform_decline_refuses:
  assumes ok: "signing_ok s" and g: "g \<in> set (signers s)" and r: "r \<in> set (requests s)" "rq_id r = sg_request g"
    and guard: "decline_guard g r s = None" and act: "rq_status r \<noteq> COMPLETED"
  shows "envelopes (perform_decline e g r reason cx s) =
      (envelopes s)(sg_request g := map_option (refuse (sg_id g)) (envelopes s (sg_request g)))
    \<and> (\<exists>en. envelopes s (sg_request g) = Some en \<and> has_turn (sg_id g) en)"
proof -
  have grd: "sg_role g \<noteq> CC" "\<not> final (sg_status g)" "can_signer_act (rq_mode r) g s"
    using guard by (auto simp: decline_guard_def final_def split: if_splits)
  let ?u = "update_signer (sg_id g) (\<lambda>g. g\<lparr>sg_status := DECLINED\<rparr>) s"
  have u: "envelopes ?u = (envelopes s)(sg_request g := map_option (refuse (sg_id g)) (envelopes s (sg_request g)))"
    using envelopes_vote [OF ok g, of "\<lambda>g. g\<lparr>sg_status := DECLINED\<rparr>" Refused]
    by (simp add: vote_of_def refuse_def [abs_def])
  have "mode_key (q\<lparr>rq_status := IN_PROGRESS\<rparr>) = mode_key q" if "q \<in> set (requests s)" "rq_id q = rq_id r" for q
    using request_by_id [OF ok r(1) that] act by (simp add: mode_key_def)
  then have "envelopes (perform_decline e g r reason cx s) = envelopes ?u"
    by (auto simp: perform_decline_def Let_def intro!: trans [OF envelopes_update_request])
  with u envelope_turn [OF ok g grd(1,2) r act grd(3)] show ?thesis by auto
qed

text \<open>
  C10: declining refines the protocol: a successful call refuses the envelope on behalf of the
  signer whose link it is, who had the turn, and touches no other envelope; a refused call leaves
  every envelope as it was.
\<close>

theorem decline_refines_refuse:
  assumes "reachable s"
  shows "case decline e token reason cx s of
      (Inl err, t) \<Rightarrow> envelopes t = envelopes s
    | (Inr v, t) \<Rightarrow> (\<exists>g \<in> set (signers s). sg_token g = token
        \<and> envelopes t = (envelopes s)(sg_request g := map_option (refuse (sg_id g)) (envelopes s (sg_request g)))
        \<and> (\<exists>en. envelopes s (sg_request g) = Some en \<and> has_turn (sg_id g) en))"
  using reachable_ok [OF assms]
proof (cases e token reason cx s rule: decline_cases)
  case (Expired err g r)
  with envelopes_expired [OF reachable_ok [OF assms] find_tokenD(3) [OF Expired(2)]] show ?thesis by simp
next
  case (Declined g r)
  note d = find_tokenD [OF Declined(2)]
  show ?thesis
    unfolding Declined(1) prod.case sum.case
    using perform_decline_refuses [OF reachable_ok [OF assms] d(1,3,4) Declined(5) not_completed [OF Declined(3)]] d(1,2)
    by (intro bexI [of _ g]) simp_all
qed simp

theorem decline_refines_refuse_witness:
  "envelopes run_declined 10 = map_option (refuse 11) (envelopes run_created 10)"
proof -
  have "isl (fst (decline sample_env ''sgn_0'' None sample_client run_created)) = False" by code_simp
  then obtain v where v: "decline sample_env ''sgn_0'' None sample_client run_created = (Inr v, run_declined)"
    unfolding run_declined_def by (cases "decline sample_env ''sgn_0'' None sample_client run_created";
      cases "fst (decline sample_env ''sgn_0'' None sample_client run_created)") auto
  have "map (\<lambda>g. (sg_token g, sg_id g, sg_request g)) (signers run_created) = [(''sgn_0'', 11, 10), (''sgn_1'', 12, 10)]"
    by code_simp
  then have "sg_id g = 11 \<and> sg_request g = 10" if "g \<in> set (signers run_created)" "sg_token g = ''sgn_0''" for g
    using that by auto
  with decline_refines_refuse [OF run_reachable(2), where e = sample_env and token = "''sgn_0''"
      and reason = None and cx = sample_client]
  show ?thesis unfolding v prod.case sum.case by auto
qed

section \<open>The other calls\<close>

lemma envelopes_dispatch: "envelopes (dispatch_reminders e rid ts meta s) = envelopes s"
proof (induction e rid ts meta s rule: dispatch_reminders.induct)
  case (2 e rid t ts meta s)
  have "envelopes (dispatch_one e rid meta t s) = envelopes (s\<lparr>signing_queue := signing_queue s @ [SendSigningReminder rid (fst t) (snd t + 1)]\<rparr>)"
    unfolding dispatch_one_def envelopes_record_event
    by (rule envelopes_update_signer) (simp add: vote_key_def party_of_def)
  also have "\<dots> = envelopes s" by (rule envelopes_frame) simp_all
  finally show ?case using 2 by simp
qed simp

lemma envelopes_sweep: "envelopes (snd (sweep_requests e rs s)) = envelopes s"
  by (induction e rs s rule: sweep_requests.induct) (simp_all add: Let_def case_prod_beta envelopes_dispatch)

lemma envelopes_cancel:
  assumes "signing_ok s"
  shows "envelopes (snd (cancel e u i reason s)) = envelopes s"
proof (cases "find_request u i s")
  case (Some r)
  note d = find_requestD [OF Some]
  have "mode_key (q\<lparr>rq_status := CANCELLED\<rparr>) = mode_key q"
    if "rq_status r \<noteq> COMPLETED" "q \<in> set (requests s)" "rq_id q = i" for q
    using request_by_id [OF assms, of r q] d that by (simp add: mode_key_def)
  with Some show ?thesis by (simp add: cancel_def envelopes_update_request)
qed (simp add: cancel_def)

lemma envelopes_status1:
  assumes "signing_ok s" "g \<in> set (signers s)" "\<not> final (sg_status g)" "\<not> final st"
    and f: "\<And>h. vote_key (f h) = vote_key (h\<lparr>sg_status := st\<rparr>)"
  shows "envelopes (update_signer (sg_id g) f s) = envelopes s"
proof (rule envelopes_update_signer)
  fix h assume "h \<in> set (signers s)" "sg_id h = sg_id g"
  then have "h = g" by (rule signer_by_id [OF assms(1,2)])
  then show "vote_key (f h) = vote_key h" using assms(3,4) f vote_key_status by simp
qed

lemma envelopes_in_person:
  assumes "signing_ok s"
  shows "envelopes (snd (in_person_session e u i only s)) = envelopes s"
proof (cases "find_request u i s")
  case None
  then show ?thesis by (simp add: in_person_session_def split: option.splits)
next
  case (Some r)
  have "envelopes (update_signer j (\<lambda>g. g\<lparr>sg_auth := Some ''in_person''\<rparr>) s) = envelopes s" for j
    by (rule envelopes_update_signer) (simp add: vote_key_def party_of_def)
  with Some find_requestD [OF Some] envelopes_expired [OF assms, of r] show ?thesis
    by (auto simp: in_person_session_def split: option.splits sum.splits)
qed

lemma envelopes_open_session:
  assumes ok: "signing_ok s"
  shows "envelopes (snd (open_session e parse presign token cx s)) = envelopes s"
proof (cases "find_token token s")
  case None
  then show ?thesis by (simp add: open_session_def)
next
  case (Some gr)
  then obtain g r where gr: "find_token token s = Some (g, r)" by (cases gr) auto
  note d = find_tokenD [OF gr]
  let ?inv = "\<lambda>g::signer_row. g\<lparr>sg_status := INVITED\<rparr>"
  let ?view = "\<lambda>g::signer_row. g\<lparr>sg_status := VIEWED, sg_viewed := Some (e_now e)\<rparr>"
  have vw: "vote_key (?view h) = vote_key (h\<lparr>sg_status := VIEWED\<rparr>)" for h by (simp add: vote_key_def party_of_def)
  have one: "envelopes (update_signer (sg_id g) ?inv s) = envelopes s" if "\<not> final (sg_status g)"
    by (rule envelopes_status1 [OF ok d(1) that]) (simp_all add: final_def)
  have two: "envelopes (update_signer (sg_id g) ?view s) = envelopes s" if "\<not> final (sg_status g)"
    by (rule envelopes_status1 [OF ok d(1) that _ vw]) (simp add: final_def)
  have both: "envelopes (update_signer (sg_id g) ?view (update_signer (sg_id g) ?inv s)) = envelopes s"
    if "\<not> final (sg_status g)"
  proof -
    have ok1: "signing_ok (update_signer (sg_id g) ?inv s)"
      using ok d(1) that by (intro update_signer_ok1) (simp_all add: signer_key_def final_def)
    have "?inv g \<in> set (signers (update_signer (sg_id g) ?inv s))"
      using d(1) by (force simp: update_row_def)
    from envelopes_status1 [OF ok1 this _ _ vw] one [OF that] show ?thesis by (simp add: final_def)
  qed
  show ?thesis
    unfolding open_session_def gr option.case prod.case Let_def
    using envelopes_expired [OF ok d(3)] one two both by (simp add: final_def split: option.split)
qed



section \<open>Progress\<close>

lemma find_token_update:
  assumes "find_token token s = Some (g, r)" "signing_ok s"
    and f: "\<And>h. sg_token (f h) = sg_token h \<and> sg_request (f h) = sg_request h"
  shows "find_token token (update_signer (sg_id g) f s) = Some (f g, r)"
proof -
  note d = find_tokenD [OF assms(1)]
  have fd: "find (\<lambda>h. sg_token h = token) (signers s) = Some g"
    using assms(1) by (auto simp: find_token_def split: option.splits)
  have "find (\<lambda>h. sg_token h = token) (update_row sg_id (sg_id g) f gs) =
      map_option (\<lambda>h. if sg_id h = sg_id g then f h else h) (find (\<lambda>h. sg_token h = token) gs)" for gs
    using f by (induction gs) (auto simp: update_row_def)
  then show ?thesis
    using fd d(4) f find_row_request [OF assms(2) d(3)] by (simp add: find_token_def)
qed

lemma can_act_update:
  assumes "can_signer_act m g s" "signing_ok s" "g \<in> set (signers s)"
    and f: "\<And>h. sg_id (f h) = sg_id h \<and> sg_request (f h) = sg_request h \<and> sg_role (f h) = sg_role h \<and> sg_order (f h) = sg_order h"
  shows "can_signer_act m (f g) (update_signer (sg_id g) f s)"
proof -
  have "sg_status c = SIGNED" if c: "c \<in> set (update_row sg_id (sg_id g) f (signers s))" "sg_request c = sg_request g"
    "sg_order c < sg_order g" "sg_role c \<noteq> CC" "m \<noteq> PARALLEL" for c
  proof -
    from c(1) obtain h where h: "h \<in> set (signers s)" "c = (if sg_id h = sg_id g then f h else h)"
      by (auto simp: update_row_def)
    have "sg_id h \<noteq> sg_id g" using signer_by_id [OF assms(2,3) h(1)] h(2) c(3) f by (auto split: if_splits)
    with h(2) have "c = h" by simp
    with assms(1) c h(1) show ?thesis by (auto simp: can_signer_act_def signers_of_def list_all_iff split: if_splits)
  qed
  with assms(1) f show ?thesis
    by (auto simp: can_signer_act_def signers_of_def list_all_iff split: if_splits)
qed

lemma open_session_ready:
  assumes tk: "find_token token s = Some (g, r)" and ok: "signing_ok s"
    and act: "active_status (rq_status r)" "\<not> past_deadline e r" "sg_status g \<in> {PENDING, INVITED, VIEWED}"
      "can_signer_act (rq_mode r) g s"
    and doc: "find_row d_id (rq_document r) (documents s) = Some d"
    and t: "t = snd (open_session e parse presign token cx s)"
  shows "\<exists>h. find_token token t = Some (h, r) \<and> sign_guard h r t = None \<and> sg_email h = sg_email g \<and> sg_id h = sg_id g
    \<and> documents t = documents s \<and> request_fields t = request_fields s"
proof -
  let ?inv = "\<lambda>g::signer_row. g\<lparr>sg_status := INVITED\<rparr>"
  let ?view = "\<lambda>g::signer_row. g\<lparr>sg_status := VIEWED, sg_viewed := Some (e_now e)\<rparr>"
  let ?s1 = "update_signer (sg_id g) ?inv s"
  let ?s2 = "update_signer (sg_id g) ?view s"
  let ?s3 = "update_signer (sg_id g) ?view ?s1"
  note d = find_tokenD [OF tk]
  have cc: "sg_role g \<noteq> CC" using act(4) by (auto simp: can_signer_act_def split: if_splits)
  have ok1: "signing_ok ?s1" if "sg_status g = PENDING"
    using ok d(1) that by (intro update_signer_ok1) (simp_all add: signer_key_def)
  have two: "find_token token ?s2 = Some (?view g, r)" "can_signer_act (rq_mode r) (?view g) ?s2"
    using find_token_update [OF tk ok, of ?view] can_act_update [OF act(4) ok d(1), of ?view] by simp_all
  have three: "find_token token ?s3 = Some (?view (?inv g), r) \<and> can_signer_act (rq_mode r) (?view (?inv g)) ?s3"
    if p: "sg_status g = PENDING"
  proof -
    have tk1: "find_token token ?s1 = Some (?inv g, r)" using find_token_update [OF tk ok, of ?inv] by simp
    have act1: "can_signer_act (rq_mode r) (?inv g) ?s1" using can_act_update [OF act(4) ok d(1), of ?inv] by simp
    from find_token_update [OF tk1 ok1 [OF p], of ?view]
      can_act_update [OF act1 ok1 [OF p] find_tokenD(1) [OF tk1], of ?view]
    show ?thesis by simp
  qed
  have rec: "find_token token (record_event e q ty i m w) = find_token token w"
    "can_signer_act k x (record_event e q ty i m w) = can_signer_act k x w" for q ty i m w k x
    by (simp_all add: find_token_def can_signer_act_def signers_of_def split: option.split)
  from act(3) consider "sg_status g = PENDING" | "sg_status g = INVITED" | "sg_status g = VIEWED" by auto
  then show ?thesis
  proof cases
    case 1
    then have "t = record_event e (rq_id r) EvViewed (Some (sg_id g)) (client_meta cx) ?s3"
      using tk act doc by (simp add: t open_session_def)
    with three [OF 1] cc show ?thesis by (simp add: rec sign_guard_def)
  next
    case 2
    then have "t = record_event e (rq_id r) EvViewed (Some (sg_id g)) (client_meta cx) ?s2"
      using tk act doc by (simp add: t open_session_def)
    with two cc show ?thesis by (simp add: rec sign_guard_def)
  next
    case 3
    then have "t = s" using tk act doc by (simp add: t open_session_def)
    with 3 tk act(4) cc show ?thesis by (simp add: sign_guard_def)
  qed
qed

lemma find_token_signer:
  assumes ok: "signing_ok s" and g: "g \<in> set (signers s)" and r: "r \<in> set (requests s)" "rq_id r = sg_request g"
  shows "find_token (sg_token g) s = Some (g, r)"
proof -
  obtain h where h: "find (\<lambda>h. sg_token h = sg_token g) (signers s) = Some h"
    using g by (cases "find (\<lambda>h. sg_token h = sg_token g) (signers s)") (auto simp: find_None_iff)
  then have "h \<in> set (signers s)" "sg_token h = sg_token g" using find_Some_iff_filter by fastforce+
  then have "h = g"
    using rows_ok_tokens_distinct [OF ok [unfolded signing_ok_def]] g by (metis distinct_map inj_onD)
  then show ?thesis using h r find_row_request [OF ok r(1)] by (simp add: find_token_def)
qed

lemma first_unsigned:
  assumes "w \<in> set gs" "p w"
  shows "\<exists>g \<in> set gs. p g \<and> (\<forall>c \<in> set gs. sg_order c < sg_order g \<longrightarrow> \<not> p c)"
proof -
  have "finite {g \<in> set gs. p g}" "{g \<in> set gs. p g} \<noteq> {}" using assms by auto
  from arg_min_if_finite [OF this, of sg_order] show ?thesis by blast
qed

definition plain_input :: "sign_input \<Rightarrow> bool" where
  "plain_input inp \<longleftrightarrow> sn_hash inp = None \<and> sn_type inp \<noteq> Some CERTIFICATE \<and> sn_certificate inp = None
     \<and> sn_value inp = None"

lemma plain_sign_succeeds:
  assumes ok: "signing_ok t" and tk: "find_token token t = Some (h, r)" and guard: "sign_guard h r t = None"
    and act: "active_status (rq_status r)" "\<not> past_deadline e r"
    and doc: "find_row d_id (rq_document r) (documents t) = Some d" "e_blob e (d_file_key d) = Some blob"
    and fields: "resolve_field_values (rq_id r) (sg_id h) (sn_fields inp) t = Inr vs"
    and inp: "plain_input inp"
  shows "succeeds (sign e cy token inp cx t)"
proof -
  note d = find_tokenD [OF tk]
  have none: "\<not> list_ex (\<lambda>x. si_request x = rq_id r \<and> si_signer x = sg_id h) (signatures t)"
  proof
    assume "list_ex (\<lambda>x. si_request x = rq_id r \<and> si_signer x = sg_id h) (signatures t)"
    then obtain x where x: "x \<in> set (signatures t)" "si_signer x = sg_id h" by (auto simp: list_ex_iff)
    obtain k where "k \<in> set (signers t)" "sg_id k = sg_id h" "sg_status k = SIGNED"
      using rows_ok_signature_signer [OF ok [unfolded signing_ok_def] x(1)] x(2) by auto
    with signer_by_id [OF ok d(1), of k] sign_guard_None(2) [OF guard] show False by auto
  qed
  from inp doc fields have "\<exists>hash. prepare_signature e cy inp h r t = Inr (hash, vs, None)"
    by (simp add: prepare_signature_def compute_content_hash_def certificate_step_def plain_input_def truthy_def)
  with tk act guard none show ?thesis by (auto simp: sign_def)
qed



end
