(* ===== verification/Documents.thy ===== *)
theory Documents
  imports Schema
begin

text \<open>
  apps/api/src/modules/documents/documents.service.ts. A handler works on a \<open>world\<close>: the
  database and the log of what it asked the object store and the search index to do. The
  search itself, the object store's answer to a write and the order of rows by \<open>updatedAt\<close>
  (a column the data model leaves to Prisma) are parameters.
\<close>

section \<open>Files\<close>

record upload_file =
  fi_name :: string
  fi_mime :: string
  fi_bytes :: string
  fi_size :: nat

definition allowed_types :: "(string \<times> string) list" where
  "allowed_types =
     [(''application/pdf'', ''pdf''),
      (''application/vnd.openxmlformats-officedocument.wordprocessingml.document'', ''docx''),
      (''image/png'', ''png''), (''image/jpeg'', ''jpg''), (''image/webp'', ''webp'')]"

text \<open>\<open>Buffer.toString('ascii')\<close> clears the highest bit of every byte.\<close>

definition ascii_text :: "string \<Rightarrow> string" where
  "ascii_text bs = map (\<lambda>c. char_of ((of_char c :: nat) mod 128)) bs"

definition subarray :: "nat \<Rightarrow> nat \<Rightarrow> string \<Rightarrow> string" where
  "subarray a b bs = drop a (take b bs)"

definition has_expected_magic :: "string \<Rightarrow> string \<Rightarrow> bool" where
  "has_expected_magic bs ext =
     (if ext = ''pdf'' then ascii_text (subarray 0 5 bs) = ''%PDF-''
      else if ext = ''docx'' then ascii_text (subarray 0 2 bs) = ''PK''
      else if ext = ''png'' then subarray 0 8 bs = map char_of [137, 80, 78, 71, 13, 10, 26, 10 :: nat]
      else if ext = ''jpg'' then subarray 0 3 bs = map char_of [255, 216, 255 :: nat]
      else if ext = ''webp''
      then ascii_text (subarray 0 4 bs) = ''RIFF'' \<and> ascii_text (subarray 8 12 bs) = ''WEBP''
      else False)"

definition max_upload :: nat where
  "max_upload = 50 * 1024 * 1024"

text \<open>\<open>name.replace(/\.[^.]+$/, '')\<close>: the last dot and a non-empty rest without dots.\<close>

definition strip_extension :: "string \<Rightarrow> string" where
  "strip_extension name =
     (let r = rev name; ext = takeWhile (\<lambda>c. c \<noteq> CHR ''.'') r; rest = dropWhile (\<lambda>c. c \<noteq> CHR ''.'') r
      in if ext = [] \<or> rest = [] then name else rev (tl rest))"

section \<open>The outside world\<close>

datatype effect = Put string string | IndexDoc id | UnindexDoc id

type_synonym world = "db \<times> effect list"

definition log_effect :: "effect \<Rightarrow> world \<Rightarrow> world" where
  "log_effect x w = (fst w, snd w @ [x])"

definition on_db :: "(db \<Rightarrow> db) \<Rightarrow> world \<Rightarrow> world" where
  "on_db f w = (f (fst w), snd w)"

lemma world_simps [simp]:
  "fst (log_effect x w) = fst w" "snd (log_effect x w) = snd w @ [x]"
  "fst (on_db f w) = f (fst w)" "snd (on_db f w) = snd w"
  by (simp_all add: log_effect_def on_db_def)

section \<open>Checks\<close>

definition assert_workspace_in_tenant :: "auth_user \<Rightarrow> id option \<Rightarrow> db \<Rightarrow> http_error option" where
  "assert_workspace_in_tenant u ws s =
     (case ws of
        None \<Rightarrow> None
      | Some i \<Rightarrow> if list_ex (\<lambda>w. w_id w = i \<and> in_tenant u (w_org w)) (workspaces s) then None
                  else Some (NotFound ''Workspace not found in the active organization''))"

definition assert_template_in_tenant :: "auth_user \<Rightarrow> id option \<Rightarrow> db \<Rightarrow> http_error option" where
  "assert_template_in_tenant u tp s =
     (case tp of
        None \<Rightarrow> None
      | Some i \<Rightarrow> if list_ex (\<lambda>t. tp_id t = i \<and> in_tenant u (tp_org t)) (templates s) then None
                  else Some (NotFound ''Template not found in the active organization''))"

definition find_document :: "auth_user \<Rightarrow> id \<Rightarrow> db \<Rightarrow> document_row option" where
  "find_document u i s = find (\<lambda>d. d_id d = i \<and> in_tenant u (d_org d)) (documents s)"

definition file_error :: "string \<Rightarrow> upload_file \<Rightarrow> http_error option" where
  "file_error ext f =
     (if \<not> has_expected_magic (fi_bytes f) ext
      then Some (BadRequest ''The file content does not match its declared type'')
      else if fi_size f > max_upload then Some (BadRequest ''File exceeds the 50 MB upload limit'')
      else None)"

text \<open>The checks both writers make of a file: its type, its first bytes, its size.\<close>

definition check_file :: "string \<Rightarrow> upload_file \<Rightarrow> http_error + string" where
  "check_file unsupported f =
     (case map_of allowed_types (fi_mime f) of
        None \<Rightarrow> Inl (BadRequest unsupported)
      | Some ext \<Rightarrow> (case file_error ext f of Some err \<Rightarrow> Inl err | None \<Rightarrow> Inr ext))"

section \<open>Uploading\<close>

record upload_input =
  up_title :: "string option"
  up_workspace :: "id option"
  up_tags :: "string list option"
  up_description :: "string option"
  up_template :: "id option"

definition uploaded_document ::
  "env \<Rightarrow> auth_user \<Rightarrow> id \<Rightarrow> upload_file \<Rightarrow> upload_input \<Rightarrow> string \<Rightarrow> id \<Rightarrow> document_row" where
  "uploaded_document e u org f inp key i = \<lparr>d_id = i, d_org = org, d_workspace = up_workspace inp,
     d_template = up_template inp, d_title = coalesce (up_title inp) (strip_extension (fi_name f)),
     d_description = up_description inp, d_status = DRAFT, d_file_name = fi_name f, d_file_key = key,
     d_content_type = fi_mime f, d_size = fi_size f, d_checksum = e_sha256 e (fi_bytes f),
     d_version = 1, d_tags = coalesce (up_tags inp) [], d_created_by = au_id u, d_deleted = None\<rparr>"

definition file_version ::
  "env \<Rightarrow> auth_user \<Rightarrow> id \<Rightarrow> nat \<Rightarrow> upload_file \<Rightarrow> string \<Rightarrow> string option \<Rightarrow> id \<Rightarrow> version_row" where
  "file_version e u doc n f key note i = \<lparr>v_id = i, v_document = doc, v_version = n, v_file_key = key,
     v_size = fi_size f, v_checksum = e_sha256 e (fi_bytes f), v_note = note, v_created_by = au_id u\<rparr>"

definition insert_document :: "document_row \<Rightarrow> version_row \<Rightarrow> db \<Rightarrow> db" where
  "insert_document d v s = s\<lparr>next_id := next_id s + 2, documents := documents s @ [d],
     versions := versions s @ [v]\<rparr>"

definition upload_document ::
  "env \<Rightarrow> (string \<Rightarrow> bool) \<Rightarrow> auth_user \<Rightarrow> upload_file option \<Rightarrow> upload_input \<Rightarrow> world \<Rightarrow> (document_row, world) res" where
  "upload_document e put_ok u upload inp w =
     (case org_of u of
        None \<Rightarrow> fail (Forbidden ''No active tenant'') w
      | Some org \<Rightarrow>
        (case upload of
           None \<Rightarrow> fail (BadRequest ''A document file is required'') w
         | Some f \<Rightarrow>
           (case assert_workspace_in_tenant u (up_workspace inp) (fst w) of
              Some err \<Rightarrow> fail err w
            | None \<Rightarrow>
              (case assert_template_in_tenant u (up_template inp) (fst w) of
                 Some err \<Rightarrow> fail err w
               | None \<Rightarrow>
                 (case check_file (''Unsupported file type: '' @ fi_mime f
                           @ ''. Allowed: PDF, DOCX, PNG, JPEG, WebP'') f of
                    Inl err \<Rightarrow> fail err w
                  | Inr ext \<Rightarrow>
                    (let key = show_nat org @ ''/documents/'' @ e_rand e 0 @ ''.'' @ ext;
                         w1 = log_effect (Put key (fi_bytes f)) w;
                         i = next_id (fst w);
                         d = uploaded_document e u org f inp key i;
                         v = file_version e u i 1 f key (Some ''Initial upload'') (i + 1)
                     in if \<not> put_ok key then fail (InternalError ''storage'') w
                        else if au_id u = None then fail fk_error w1
                        else ok d (log_effect (IndexDoc i) (on_db (insert_document d v) w1))))))))"

section \<open>Reading\<close>

record document_query =
  dq_status :: "document_status option"
  dq_workspace :: "id option"
  dq_search :: "string option"
  dq_limit :: "nat option"
  dq_offset :: "nat option"

definition list_documents ::
  "(id option \<Rightarrow> string \<Rightarrow> nat \<Rightarrow> id list) \<Rightarrow> (document_row list \<Rightarrow> document_row list) \<Rightarrow> auth_user
   \<Rightarrow> document_query \<Rightarrow> db \<Rightarrow> nat \<times> (nat \<times> nat) option \<times> document_row list" where
  "list_documents search by_updated u q s =
     (if coalesce (dq_search q) [] \<noteq> [] then
        (let ids = search (org_of u) (coalesce (dq_search q) []) (coalesce (dq_limit q) 20)
         in if ids = [] then (0, None, [])
            else (let ds = filter (\<lambda>d. d_id d \<in> set ids \<and> in_tenant u (d_org d) \<and> d_deleted d = None)
                             (documents s)
                  in (length ds, None, ds)))
      else
        (let ds = filter (\<lambda>d. in_tenant u (d_org d) \<and> d_deleted d = None
                    \<and> (case dq_status q of None \<Rightarrow> True | Some x \<Rightarrow> d_status d = x)
                    \<and> (case dq_workspace q of None \<Rightarrow> True | Some x \<Rightarrow> d_workspace d = Some x)) (documents s);
             limit = min (coalesce (dq_limit q) 25) 100;
             offset = coalesce (dq_offset q) 0
         in (length ds, Some (limit, offset), page offset limit (by_updated ds))))"

definition versions_of :: "id \<Rightarrow> db \<Rightarrow> version_row list" where
  "versions_of i s = filter (\<lambda>v. v_document v = i) (versions s)"

definition get_document ::
  "auth_user \<Rightarrow> id \<Rightarrow> world \<Rightarrow> (document_row \<times> version_row list \<times> request_row list, world) res" where
  "get_document u i w =
     (case find (\<lambda>d. d_id d = i \<and> in_tenant u (d_org d) \<and> d_deleted d = None) (documents (fst w)) of
        None \<Rightarrow> fail (NotFound ''Document not found'') w
      | Some d \<Rightarrow> ok (d, rev (sort_key v_version (versions_of i (fst w))),
                     filter (\<lambda>r. rq_document r = i) (requests (fst w))) w)"

text \<open>Version 0 is falsy, so it means the current file. The URL is valid for 900 seconds.\<close>

definition download_document ::
  "(string \<Rightarrow> nat \<Rightarrow> string) \<Rightarrow> auth_user \<Rightarrow> id \<Rightarrow> nat option \<Rightarrow> world
   \<Rightarrow> (string \<times> string \<times> string, world) res" where
  "download_document presign u i version w =
     (case find_document u i (fst w) of
        None \<Rightarrow> fail (NotFound ''Document not found'') w
      | Some d \<Rightarrow>
        if coalesce version 0 = 0
        then ok (presign (d_file_key d) 900, d_file_name d, d_content_type d) w
        else (case find (\<lambda>v. v_version v = coalesce version 0) (versions_of i (fst w)) of
                None \<Rightarrow> fail (NotFound ''Version not found'') w
              | Some v \<Rightarrow> ok (presign (v_file_key v) 900, d_file_name d, d_content_type d) w))"

section \<open>Changing\<close>

definition modify_document :: "id \<Rightarrow> (document_row \<Rightarrow> document_row) \<Rightarrow> db \<Rightarrow> db" where
  "modify_document i f s = s\<lparr>documents := update_row d_id i f (documents s)\<rparr>"

record metadata_input =
  md_title :: "string option"
  md_description :: "string option"
  md_tags :: "string list option"
  md_workspace :: "id option"

definition apply_metadata :: "metadata_input \<Rightarrow> document_row \<Rightarrow> document_row" where
  "apply_metadata inp d = d\<lparr>d_title := coalesce (md_title inp) (d_title d),
     d_description := coalesce_opt (md_description inp) (d_description d),
     d_tags := coalesce (md_tags inp) (d_tags d),
     d_workspace := coalesce_opt (md_workspace inp) (d_workspace d)\<rparr>"

definition update_metadata ::
  "auth_user \<Rightarrow> id \<Rightarrow> metadata_input \<Rightarrow> world \<Rightarrow> (document_row, world) res" where
  "update_metadata u i inp w =
     (case find_document u i (fst w) of
        None \<Rightarrow> fail (NotFound ''Document not found'') w
      | Some d \<Rightarrow>
        (case assert_workspace_in_tenant u (md_workspace inp) (fst w) of
           Some err \<Rightarrow> fail err w
         | None \<Rightarrow> ok (apply_metadata inp d)
             (log_effect (IndexDoc i) (on_db (modify_document i (apply_metadata inp)) w))))"

definition apply_version :: "env \<Rightarrow> upload_file \<Rightarrow> string \<Rightarrow> document_row \<Rightarrow> document_row" where
  "apply_version e f key d = d\<lparr>d_version := d_version d + 1, d_file_key := key, d_file_name := fi_name f,
     d_size := fi_size f, d_checksum := e_sha256 e (fi_bytes f)\<rparr>"

text \<open>The unique index on (documentId, version) makes the transaction fail as a whole.\<close>

definition add_version ::
  "env \<Rightarrow> (string \<Rightarrow> bool) \<Rightarrow> auth_user \<Rightarrow> id \<Rightarrow> upload_file option \<Rightarrow> string option \<Rightarrow> world
   \<Rightarrow> (version_row \<times> document_row, world) res" where
  "add_version e put_ok u i upload note w =
     (case find_document u i (fst w) of
        None \<Rightarrow> fail (NotFound ''Document not found'') w
      | Some d \<Rightarrow>
        (case upload of
           None \<Rightarrow> fail (BadRequest ''A document file is required'') w
         | Some f \<Rightarrow>
           (case check_file ''Unsupported file type'' f of
              Inl err \<Rightarrow> fail err w
            | Inr ext \<Rightarrow>
              (let n = d_version d + 1;
                   key = (case org_of u of None \<Rightarrow> ''undefined'' | Some org \<Rightarrow> show_nat org)
                     @ ''/documents/'' @ show_nat i @ ''/v'' @ show_nat n @ ''.'' @ ext;
                   w1 = log_effect (Put key (fi_bytes f)) w;
                   v = file_version e u i n f key note (next_id (fst w))
               in if \<not> put_ok key then fail (InternalError ''storage'') w
                  else if list_ex (\<lambda>v. v_version v = n) (versions_of i (fst w))
                  then fail (InternalError ''Unique constraint failed: documentId, version'') w1
                  else ok (v, apply_version e f key d)
                    (log_effect (IndexDoc i)
                      (on_db (\<lambda>s. modify_document i (apply_version e f key)
                                (s\<lparr>next_id := next_id s + 1, versions := versions s @ [v]\<rparr>)) w1))))))"

definition soft_delete :: "env \<Rightarrow> auth_user \<Rightarrow> id \<Rightarrow> world \<Rightarrow> (unit, world) res" where
  "soft_delete e u i w =
     (case find_document u i (fst w) of
        None \<Rightarrow> fail (NotFound ''Document not found'') w
      | Some d \<Rightarrow> ok () (log_effect (UnindexDoc i)
          (on_db (modify_document i (\<lambda>d. d\<lparr>d_deleted := Some (e_now e)\<rparr>)) w)))"

end
