(* ===== verification/Document_Api.thy ===== *)
theory Document_Api
  imports Documents
begin

text \<open>
  The properties of the document service: the version history is complete and append-only
  under every sequence of calls of any tenants, tenants cannot touch each other's documents,
  and what an accepted upload looks like.
\<close>

section \<open>The API as commands\<close>

datatype document_command =
    DcUpload env "string \<Rightarrow> bool" auth_user "upload_file option" upload_input
  | DcMetadata auth_user id metadata_input
  | DcVersion env "string \<Rightarrow> bool" auth_user id "upload_file option" "string option"
  | DcDelete env auth_user id

fun exec_document :: "document_command \<Rightarrow> id \<Rightarrow> world \<Rightarrow> world" where
  "exec_document (DcUpload e p u f inp) t w = snd (upload_document e p (acting_for t u) f inp w)"
| "exec_document (DcMetadata u i inp) t w = snd (update_metadata (acting_for t u) i inp w)"
| "exec_document (DcVersion e p u i f nt) t w = snd (add_version e p (acting_for t u) i f nt w)"
| "exec_document (DcDelete e u i) t w = snd (soft_delete e (acting_for t u) i w)"

section \<open>The invariant\<close>

definition history_ok :: "db \<Rightarrow> document_row \<Rightarrow> bool" where
  "history_ok s d \<longleftrightarrow> d_id d < next_id s
     \<and> map v_version (versions_of (d_id d) s) = [1..<Suc (d_version d)]
     \<and> map (\<lambda>v. (v_file_key v, v_checksum v, v_size v)) (versions_of (d_id d) s) \<noteq> []
     \<and> last (map (\<lambda>v. (v_file_key v, v_checksum v, v_size v)) (versions_of (d_id d) s))
         = (d_file_key d, d_checksum d, d_size d)"

definition documents_ok :: "world \<Rightarrow> bool" where
  "documents_ok w \<longleftrightarrow> distinct (map d_id (documents (fst w)))
     \<and> (\<forall>v \<in> set (versions (fst w)). v_document v < next_id (fst w))
     \<and> (\<forall>d \<in> set (documents (fst w)). history_ok (fst w) d)"

lemma find_documentD:
  "find_document u i s = Some d \<Longrightarrow> d \<in> set (documents s) \<and> d_id d = i \<and> in_tenant u (d_org d)"
  unfolding find_document_def using find_Some_iff_filter by fastforce

lemma versions_of_simps [simp]:
  "versions_of i (documents_update f s) = versions_of i s"
  "versions_of i (next_id_update g s) = versions_of i s"
  by (simp_all add: versions_of_def)

lemma versions_of_append [simp]:
  "versions_of i (s\<lparr>versions := versions s @ [v]\<rparr>) = versions_of i s @ (if v_document v = i then [v] else [])"
  by (simp add: versions_of_def)

lemma history_ok_same:
  assumes "history_ok s d" "d_id d' = d_id d" "d_version d' = d_version d" "d_file_key d' = d_file_key d"
    "d_checksum d' = d_checksum d" "d_size d' = d_size d"
  shows "history_ok s d'"
  using assms by (simp add: history_ok_def)

lemma history_ok_frame:
  assumes "history_ok s d" "next_id s \<le> next_id t" "versions_of (d_id d) t = versions_of (d_id d) s"
  shows "history_ok t d"
  using assms by (simp add: history_ok_def)

text \<open>An update of a row that keeps what the history is about keeps the invariant.\<close>

lemma documents_ok_modify:
  assumes "documents_ok w" "\<And>d. d_id (f d) = d_id d" "\<And>d. d_version (f d) = d_version d"
    "\<And>d. d_file_key (f d) = d_file_key d" "\<And>d. d_checksum (f d) = d_checksum d" "\<And>d. d_size (f d) = d_size d"
  shows "documents_ok (log_effect x (on_db (modify_document i f) w))"
proof -
  have "history_ok (fst w) d \<Longrightarrow> history_ok (modify_document i f (fst w)) d" for d
    by (erule history_ok_frame) (simp_all add: modify_document_def)
  moreover have "history_ok (fst w) d \<Longrightarrow> history_ok (fst w) (f d)" for d
    by (erule history_ok_same) (simp_all add: assms)
  ultimately show ?thesis
    using assms(1,2) by (auto simp: documents_ok_def modify_document_def set_update_row)
qed

lemma documents_ok_upload:
  assumes ok: "documents_ok w" and d: "d_id d = next_id (fst w)" "d_version d = 1"
    and v: "v_document v = d_id d" "v_version v = 1" "v_file_key v = d_file_key d" "v_checksum v = d_checksum d"
      "v_size v = d_size d"
  shows "documents_ok (log_effect x (on_db (insert_document d v) w))"
proof -
  let ?s = "fst w" let ?t = "insert_document d v (fst w)"
  have fresh: "versions_of (next_id ?s) ?s = []"
    using ok by (fastforce simp: documents_ok_def versions_of_def filter_empty_conv)
  have vo: "versions_of i ?t = versions_of i ?s @ (if v_document v = i then [v] else [])" for i
    by (simp add: insert_document_def versions_of_def)
  have "history_ok ?t d" using d v fresh by (simp add: history_ok_def vo) (simp add: insert_document_def)
  moreover have "history_ok ?t c" if "c \<in> set (documents ?s)" for c
  proof (rule history_ok_frame)
    show "history_ok ?s c" using ok that by (simp add: documents_ok_def)
    then have "d_id c \<noteq> v_document v" using d v by (simp add: history_ok_def)
    then show "versions_of (d_id c) ?t = versions_of (d_id c) ?s" by (simp add: vo)
  qed (simp add: insert_document_def)
  moreover have "d_id d \<notin> d_id ` set (documents ?s)"
    using ok d by (auto simp: documents_ok_def history_ok_def)
  moreover have "v_document v' < next_id ?t" if "v' \<in> set (versions ?t)" for v'
    using ok that d v by (fastforce simp: documents_ok_def insert_document_def)
  ultimately show ?thesis
    using ok by (simp add: documents_ok_def insert_document_def)
qed

lemma documents_ok_version:
  assumes ok: "documents_ok w" and d: "d \<in> set (documents (fst w))" "d_id d = i"
    and v: "v = file_version e u i (d_version d + 1) f key nt j"
  shows "documents_ok (log_effect x (on_db (\<lambda>s. modify_document i (apply_version e f key)
    (s\<lparr>next_id := next_id s + 1, versions := versions s @ [v]\<rparr>)) w))"
proof -
  let ?s = "fst w"
  define t where "t = modify_document i (apply_version e f key) (?s\<lparr>next_id := next_id ?s + 1, versions := versions ?s @ [v]\<rparr>)"
  have vo: "versions_of k t = versions_of k ?s @ (if i = k then [v] else [])" for k
    using v by (simp add: t_def modify_document_def versions_of_def file_version_def)
  have n: "next_id t = next_id ?s + 1" "versions t = versions ?s @ [v]"
    "documents t = update_row d_id i (apply_version e f key) (documents ?s)"
    by (simp_all add: t_def modify_document_def)
  have h: "history_ok ?s c" if "c \<in> set (documents ?s)" for c using ok that by (simp add: documents_ok_def)
  have "history_ok t (apply_version e f key d)"
    using h [OF d(1)] d(2) v by (simp add: history_ok_def vo n apply_version_def file_version_def del: upt_Suc)
      (simp add: upt_Suc)
  moreover have "history_ok t c" if "c \<in> set (documents ?s)" "d_id c \<noteq> i" for c
    by (rule history_ok_frame [OF h [OF that(1)]]) (use that(2) in \<open>simp_all add: vo n(1)\<close>)
  moreover have "c = d" if "c \<in> set (documents ?s)" "d_id c = i" for c
    using ok d that by (auto simp: documents_ok_def distinct_map inj_on_def)
  moreover have "v_document v' < next_id t" if "v' \<in> set (versions t)" for v'
    using ok that h [OF d(1)] d(2) v
    by (fastforce simp: documents_ok_def n history_ok_def file_version_def)
  moreover have "set (documents t) = {c \<in> set (documents ?s). d_id c \<noteq> i}
      \<union> apply_version e f key ` {c \<in> set (documents ?s). d_id c = i}"
    by (simp add: n set_update_row)
  moreover have "distinct (map d_id (documents t))"
    using ok by (simp add: documents_ok_def n apply_version_def)
  ultimately show ?thesis unfolding documents_ok_def world_simps t_def [symmetric] by blast
qed

lemma documents_ok_log [simp]: "documents_ok (log_effect x w) \<longleftrightarrow> documents_ok w"
  by (simp add: documents_ok_def)

lemma on_db_log [simp]: "on_db f (log_effect x w) = log_effect x (on_db f w)"
  by (simp add: on_db_def log_effect_def)

lemma exec_document_ok: "documents_ok w \<Longrightarrow> documents_ok (exec_document c t w)"
proof (cases c)
  case (DcUpload e p u f inp)
  then show "documents_ok w \<Longrightarrow> ?thesis"
    using documents_ok_upload [of w]
    by (auto simp: upload_document_def Let_def uploaded_document_def file_version_def
        split: option.splits sum.splits)
next
  case (DcMetadata u i inp)
  then show "documents_ok w \<Longrightarrow> ?thesis"
    using documents_ok_modify [of w "apply_metadata inp"]
    by (auto simp: update_metadata_def apply_metadata_def split: option.splits)
next
  case (DcVersion e p u i f nt)
  then show "documents_ok w \<Longrightarrow> ?thesis"
    using documents_ok_version [of w] find_documentD [of "acting_for t u" i "fst w"]
    by (auto simp: add_version_def Let_def split: option.splits sum.splits)
next
  case (DcDelete e u i)
  then show "documents_ok w \<Longrightarrow> ?thesis"
    using documents_ok_modify [of w "\<lambda>d. d\<lparr>d_deleted := Some (e_now e)\<rparr>"]
    by (auto simp: soft_delete_def split: option.splits)
qed

lemma modify_isolated:
  assumes "documents_ok w" "find_document (acting_for t u) i (fst w) = Some d" "t \<noteq> x" "\<And>d. d_org (f d) = d_org d"
  shows "filter (\<lambda>d. d_org d = x) (update_row d_id i f (documents (fst w))) =
    filter (\<lambda>d. d_org d = x) (documents (fst w))"
  using filter_update_row_other [of d_id "documents (fst w)" d d_org x f] assms find_documentD [OF assms(2)]
  by (auto simp: documents_ok_def)

lemma exec_document_isolated:
  assumes "documents_ok w" "t \<noteq> x"
  shows "filter (\<lambda>d. d_org d = x) (documents (fst (exec_document c t w))) =
    filter (\<lambda>d. d_org d = x) (documents (fst w))"
proof (cases c)
  case (DcUpload e p u f inp)
  with assms(2) show ?thesis
    by (auto simp: upload_document_def Let_def uploaded_document_def insert_document_def
        split: option.splits sum.splits)
qed (use assms modify_isolated in \<open>auto simp: update_metadata_def add_version_def soft_delete_def Let_def
      modify_document_def apply_metadata_def apply_version_def split: option.splits sum.splits\<close>)

interpretation document_api: tenant_api "documents \<circ> fst" d_org documents_ok exec_document
  by unfold_locales (auto simp: exec_document_ok exec_document_isolated)

section \<open>Properties\<close>

definition run_documents :: "(document_command \<times> id) list \<Rightarrow> world \<Rightarrow> world" where
  "run_documents cmds w = foldl (\<lambda>w (c, t). exec_document c t w) w cmds"

text \<open>Version rows are only ever appended.\<close>

lemma exec_versions_prefix: "prefix (versions (fst w)) (versions (fst (exec_document c t w)))"
  by (cases c)
    (auto simp: upload_document_def update_metadata_def add_version_def soft_delete_def Let_def
      insert_document_def modify_document_def split: option.splits sum.splits)

lemma run_versions_prefix: "prefix (versions (fst w)) (versions (fst (run_documents cmds w)))"
  unfolding run_documents_def
proof (induction cmds arbitrary: w)
  case (Cons ct cmds)
  obtain c t where ct: "ct = (c, t)" by (cases ct)
  show ?case
    using prefix_order.trans [OF exec_versions_prefix [of w c t] Cons.IH [of "exec_document c t w"]]
    by (simp add: ct)
qed simp


definition sample_file :: upload_file where
  "sample_file = \<lparr>fi_name = ''a.pdf'', fi_mime = ''application/pdf'', fi_bytes = ''%PDF-1.7'', fi_size = 8\<rparr>"

definition sample_upload :: upload_input where
  "sample_upload = \<lparr>up_title = None, up_workspace = None, up_tags = None, up_description = None,
     up_template = None\<rparr>"

definition sample_commands :: "(document_command \<times> id) list" where
  "sample_commands = [(DcUpload sample_env (\<lambda>_. True) sample_principal (Some sample_file) sample_upload, 1),
     (DcVersion sample_env (\<lambda>_. True) sample_principal 1 (Some sample_file) None, 1)]"

lemma sample_magic: "has_expected_magic ''%PDF-1.7'' ''pdf''"
  by code_simp

lemma sample_check_file [simp]: "check_file u sample_file = Inr ''pdf''"
  by (simp add: check_file_def sample_file_def allowed_types_def file_error_def sample_magic max_upload_def)

lemma sample_file_simps [simp]:
  "fi_name sample_file = ''a.pdf''" "fi_mime sample_file = ''application/pdf''"
  "strip_extension ''a.pdf'' = ''a''"
  by (simp_all add: sample_file_def strip_extension_def Let_def)

lemma sample_run:
  "\<exists>d. documents (fst (run_documents sample_commands (empty_db, []))) = [d] \<and> d_id d = 1 \<and> d_version d = 2
     \<and> d_content_type d = ''application/pdf'' \<and> d_title d = ''a''"
  by (simp add: run_documents_def sample_commands_def upload_document_def add_version_def Let_def
      sample_upload_def assert_workspace_in_tenant_def assert_template_in_tenant_def empty_db_def
      insert_document_def uploaded_document_def modify_document_def update_row_def apply_version_def
      find_document_def file_version_def versions_of_def sample_principal_def acting_for_def org_of_def
      in_tenant_def del: One_nat_def)

lemma empty_documents_ok: "documents_ok (empty_db, [])"
  by (simp add: documents_ok_def empty_db_def)


text \<open>
  no sequence of document calls made by other tenants changes, adds or removes a document
  of a tenant.
\<close>

theorem document_tenant_isolation:
  assumes "documents_ok w" "x \<notin> snd ` set cmds"
  shows "filter (\<lambda>d. d_org d = x) (documents (fst (run_documents cmds w))) =
    filter (\<lambda>d. d_org d = x) (documents (fst w))"
  using document_api.run_isolated [OF assms] by (simp add: run_documents_def)

theorem document_tenant_isolation_witness:
  "filter (\<lambda>d. d_org d = 2) (documents (fst (run_documents sample_commands (empty_db, [])))) = []"
  using document_tenant_isolation [OF empty_documents_ok, of 2 sample_commands]
  by (simp add: sample_commands_def empty_db_def)

text \<open>
  exactly which uploads are accepted: a tenant, an owner that is a real user, a workspace
  and a template of that tenant if any are named, a declared type of the five allowed ones
  whose magic bytes the content has, at most 50 MB, and an object store that takes the file.
\<close>

theorem upload_accepted_iff:
  "succeeds (upload_document e put_ok u (Some f) inp w) \<longleftrightarrow>
     (\<exists>org ext. org_of u = Some org \<and> au_id u \<noteq> None
        \<and> (up_workspace inp = None \<or> (\<exists>x \<in> set (workspaces (fst w)). Some (w_id x) = up_workspace inp \<and> w_org x = org))
        \<and> (up_template inp = None \<or> (\<exists>x \<in> set (templates (fst w)). Some (tp_id x) = up_template inp \<and> tp_org x = org))
        \<and> map_of allowed_types (fi_mime f) = Some ext \<and> has_expected_magic (fi_bytes f) ext
        \<and> fi_size f \<le> 52428800
        \<and> put_ok (show_nat org @ ''/documents/'' @ e_rand e 0 @ ''.'' @ ext))"
  by (auto simp: upload_document_def assert_workspace_in_tenant_def assert_template_in_tenant_def check_file_def
      file_error_def Let_def in_tenant_def list_ex_iff max_upload_def split: option.splits)

end
