(* ===== verification/Templates.thy ===== *)
theory Templates
  imports Documents
begin

text \<open>
  apps/api/src/modules/templates/templates.service.ts: templates and the fields placed on
  them. The order of a list by \<open>updatedAt\<close> is a parameter, as for documents. The check of a
  workspace is the one of the documents service.
\<close>

section \<open>Fields\<close>

record field_spec =
  fs_type :: field_type
  fs_name :: "string option"
  fs_key :: "string option"
  fs_required :: "bool option"
  fs_page :: "int option"
  fs_assignee :: "int option"
  fs_x :: "int option"
  fs_y :: "int option"
  fs_width :: "int option"
  fs_height :: "int option"
  fs_options :: "json option"

definition max_fields_per_template :: nat where
  "max_fields_per_template = 200"

definition to_field_create :: "id \<Rightarrow> id \<Rightarrow> field_spec \<Rightarrow> template_field_row" where
  "to_field_create i tp f = \<lparr>tf_id = i, tf_template = tp, tf_type = fs_type f, tf_name = fs_name f,
     tf_key = fs_key f, tf_required = coalesce (fs_required f) True, tf_page = coalesce (fs_page f) 1,
     tf_assignee = coalesce (fs_assignee f) 0, tf_x = fs_x f, tf_y = fs_y f, tf_width = fs_width f,
     tf_height = fs_height f, tf_options = fs_options f\<rparr>"

definition new_fields :: "id \<Rightarrow> id \<Rightarrow> field_spec list \<Rightarrow> template_field_row list" where
  "new_fields base tp fs = map (\<lambda>(k, f). to_field_create (base + k) tp f) (enumerate 0 fs)"

definition too_many_fields :: "field_spec list option \<Rightarrow> bool" where
  "too_many_fields fs \<longleftrightarrow> length (coalesce fs []) > max_fields_per_template"

definition fields_error :: http_error where
  "fields_error = BadRequest (''A template may define at most '' @ show_nat max_fields_per_template @ '' fields'')"

definition fields_of :: "id \<Rightarrow> db \<Rightarrow> template_field_row list" where
  "fields_of tp s = filter (\<lambda>f. tf_template f = tp) (template_fields s)"

section \<open>Operations\<close>

record template_input =
  ti_name :: "string option"
  ti_description :: "string option"
  ti_status :: "template_status option"
  ti_workspace :: "id option"
  ti_variables :: "json option"
  ti_fields :: "field_spec list option"

text \<open>\<open>name\<close> is required by the DTO of \<open>create\<close>; a missing one is the empty string here.\<close>

definition new_template :: "auth_user \<Rightarrow> id \<Rightarrow> template_input \<Rightarrow> id \<Rightarrow> template_row" where
  "new_template u org inp i = \<lparr>tp_id = i, tp_org = org, tp_workspace = ti_workspace inp,
     tp_name = coalesce (ti_name inp) [], tp_description = ti_description inp, tp_status = TplDraft,
     tp_variables = ti_variables inp, tp_created_by = au_id u\<rparr>"

definition create_template ::
  "auth_user \<Rightarrow> template_input \<Rightarrow> db \<Rightarrow> (template_row \<times> template_field_row list, db) res" where
  "create_template u inp s =
     (case org_of u of
        None \<Rightarrow> fail (Forbidden ''No active tenant'') s
      | Some org \<Rightarrow>
        if too_many_fields (ti_fields inp) then fail fields_error s
        else (case assert_workspace_in_tenant u (ti_workspace inp) s of
           Some err \<Rightarrow> fail err s
         | None \<Rightarrow>
           if au_id u = None then fail fk_error s
           else (let i = next_id s;
                     t = new_template u org inp i;
                     fs = new_fields (i + 1) i (coalesce (ti_fields inp) [])
                 in ok (t, fs) (s\<lparr>next_id := i + 1 + length fs, templates := templates s @ [t],
                      template_fields := template_fields s @ fs\<rparr>))))"

definition list_templates ::
  "(template_row list \<Rightarrow> template_row list) \<Rightarrow> auth_user \<Rightarrow> template_status option \<Rightarrow> id option
   \<Rightarrow> nat option \<Rightarrow> nat option \<Rightarrow> db \<Rightarrow> nat \<times> (template_row \<times> nat \<times> nat) list" where
  "list_templates by_updated u st ws limit offset s =
     (let ts = filter (\<lambda>t. in_tenant u (tp_org t)
                 \<and> (case st of None \<Rightarrow> True | Some x \<Rightarrow> tp_status t = x)
                 \<and> (case ws of None \<Rightarrow> True | Some x \<Rightarrow> tp_workspace t = Some x)) (templates s)
      in (length ts,
          map (\<lambda>t. (t, length (fields_of (tp_id t) s),
                    count_rows (\<lambda>d. d_template d = Some (tp_id t)) (documents s)))
            (page (coalesce offset 0) (min (coalesce limit 25) 100) (by_updated ts))))"

definition find_template :: "auth_user \<Rightarrow> id \<Rightarrow> db \<Rightarrow> template_row option" where
  "find_template u i s = find (\<lambda>t. tp_id t = i \<and> in_tenant u (tp_org t)) (templates s)"

definition get_template ::
  "auth_user \<Rightarrow> id \<Rightarrow> db \<Rightarrow> (template_row \<times> template_field_row list, db) res" where
  "get_template u i s =
     (case find_template u i s of
        None \<Rightarrow> fail (NotFound ''Template not found'') s
      | Some t \<Rightarrow> ok (t, sort_key tf_page (fields_of i s)) s)"

definition apply_template :: "template_input \<Rightarrow> template_row \<Rightarrow> template_row" where
  "apply_template inp t = t\<lparr>tp_name := coalesce (ti_name inp) (tp_name t),
     tp_description := coalesce_opt (ti_description inp) (tp_description t),
     tp_status := coalesce (ti_status inp) (tp_status t),
     tp_workspace := coalesce_opt (ti_workspace inp) (tp_workspace t),
     tp_variables := coalesce_opt (ti_variables inp) (tp_variables t)\<rparr>"

definition replace_fields :: "id \<Rightarrow> field_spec list option \<Rightarrow> db \<Rightarrow> db" where
  "replace_fields i fs s =
     (case fs of
        None \<Rightarrow> s
      | Some fs \<Rightarrow> s\<lparr>next_id := next_id s + length fs,
          template_fields := delete_many (\<lambda>f. tf_template f = i) (template_fields s)
            @ new_fields (next_id s) i fs\<rparr>)"

definition update_template ::
  "auth_user \<Rightarrow> id \<Rightarrow> template_input \<Rightarrow> db \<Rightarrow> (template_row \<times> template_field_row list, db) res" where
  "update_template u i inp s =
     (case find_template u i s of
        None \<Rightarrow> fail (NotFound ''Template not found'') s
      | Some t \<Rightarrow>
        if too_many_fields (ti_fields inp) then fail fields_error s
        else (case assert_workspace_in_tenant u (ti_workspace inp) s of
           Some err \<Rightarrow> fail err s
         | None \<Rightarrow>
           (let s' = replace_fields i (ti_fields inp)
                       (s\<lparr>templates := update_row tp_id i (apply_template inp) (templates s)\<rparr>)
            in ok (apply_template inp t, fields_of i s') s')))"

text \<open>
  The foreign keys of the schema: the fields go with their template (\<open>Cascade\<close>), a document
  that was made from it loses the reference (\<open>SetNull\<close>).
\<close>

definition remove_template :: "auth_user \<Rightarrow> id \<Rightarrow> db \<Rightarrow> (unit, db) res" where
  "remove_template u i s =
     (case find_template u i s of
        None \<Rightarrow> fail (NotFound ''Template not found'') s
      | Some t \<Rightarrow> ok () (s\<lparr>templates := delete_many (\<lambda>t. tp_id t = i) (templates s),
          template_fields := delete_many (\<lambda>f. tf_template f = i) (template_fields s),
          documents := map (\<lambda>d. if d_template d = Some i then d\<lparr>d_template := None\<rparr> else d) (documents s)\<rparr>))"

section \<open>The API as commands\<close>

datatype template_command =
    TcCreate auth_user template_input
  | TcUpdate auth_user id template_input
  | TcRemove auth_user id

fun exec_template :: "template_command \<Rightarrow> id \<Rightarrow> db \<Rightarrow> db" where
  "exec_template (TcCreate u inp) t s = snd (create_template (acting_for t u) inp s)"
| "exec_template (TcUpdate u i inp) t s = snd (update_template (acting_for t u) i inp s)"
| "exec_template (TcRemove u i) t s = snd (remove_template (acting_for t u) i s)"

text \<open>
  Every template has its own id, at most 200 fields, and every field row belongs to a
  template that exists.
\<close>

definition templates_ok :: "db \<Rightarrow> bool" where
  "templates_ok s \<longleftrightarrow> distinct (map tp_id (templates s))
     \<and> (\<forall>t \<in> set (templates s). tp_id t < next_id s \<and> length (fields_of (tp_id t) s) \<le> 200)
     \<and> (\<forall>f \<in> set (template_fields s). tf_template f \<in> tp_id ` set (templates s))"

lemma find_templateD:
  "find_template u i s = Some t \<Longrightarrow> t \<in> set (templates s) \<and> tp_id t = i \<and> in_tenant u (tp_org t)"
  unfolding find_template_def using find_Some_iff_filter by fastforce

lemma template_of_new_fields: "f \<in> set (new_fields base tp fs) \<Longrightarrow> tf_template f = tp"
  by (auto simp: new_fields_def to_field_create_def)

lemma length_new_fields [simp]: "length (new_fields base tp fs) = length fs"
  by (simp add: new_fields_def)

lemma filter_new_fields:
  "filter (\<lambda>f. tf_template f = i) (new_fields base tp fs) = (if i = tp then new_fields base tp fs else [])"
  using template_of_new_fields by (auto simp: filter_id_conv filter_empty_conv)

lemma filter_delete_fields:
  "filter (\<lambda>f. tf_template f = j) (delete_many (\<lambda>f. tf_template f = i) fs) =
    (if i = j then [] else filter (\<lambda>f. tf_template f = j) fs)"
  by (induction fs) (auto simp: delete_many_def)

lemma too_many_fields_le: "\<not> too_many_fields fs \<Longrightarrow> length (coalesce fs []) \<le> 200"
  by (simp add: too_many_fields_def max_fields_per_template_def)

lemma templates_okD:
  assumes "templates_ok s"
  shows "distinct (map tp_id (templates s))"
    and "t \<in> set (templates s) \<Longrightarrow> tp_id t < next_id s"
    and "t \<in> set (templates s) \<Longrightarrow> length (fields_of (tp_id t) s) \<le> 200"
    and "f \<in> set (template_fields s) \<Longrightarrow> tf_template f \<in> tp_id ` set (templates s)"
  using assms by (auto simp: templates_ok_def)

lemma no_fields_of_next: "templates_ok s \<Longrightarrow> fields_of (next_id s) s = []"
  using templates_okD(2,4) [of s] by (fastforce simp: fields_of_def filter_empty_conv)

lemma new_template_simps [simp]: "tp_id (new_template u org inp i) = i" "tp_org (new_template u org inp i) = org"
  by (simp_all add: new_template_def)

text \<open>The three writers, described by what they do to the two tables.\<close>

lemma create_template_effect:
  assumes "create_template (acting_for t u) inp s = (r, s')"
  shows "s' = s \<or> (\<exists>row fs. templates s' = templates s @ [row] \<and> tp_id row = next_id s \<and> tp_org row = t
    \<and> template_fields s' = template_fields s @ new_fields (next_id s + 1) (next_id s) fs \<and> length fs \<le> 200
    \<and> next_id s' = next_id s + 1 + length fs)"
  using assms too_many_fields_le [of "ti_fields inp"]
  by (auto simp: create_template_def Let_def split: if_split_asm option.split_asm
      intro!: exI [of _ "new_template (acting_for t u) t inp (next_id s)"] exI [of _ "coalesce (ti_fields inp) []"])

lemma update_template_effect:
  assumes "update_template (acting_for t u) i inp s = (r, s')"
  shows "s' = s \<or> (\<exists>row. row \<in> set (templates s) \<and> tp_id row = i \<and> tp_org row = t
    \<and> templates s' = update_row tp_id i (apply_template inp) (templates s)
    \<and> (case ti_fields inp of None \<Rightarrow> template_fields s' = template_fields s \<and> next_id s' = next_id s
       | Some fs \<Rightarrow> length fs \<le> 200 \<and> next_id s' = next_id s + length fs
           \<and> template_fields s' = delete_many (\<lambda>f. tf_template f = i) (template_fields s) @ new_fields (next_id s) i fs))"
  using assms too_many_fields_le [of "ti_fields inp"] find_templateD [of "acting_for t u" i s]
  by (auto simp: update_template_def Let_def replace_fields_def split: if_split_asm option.split_asm option.split)

lemma remove_template_effect:
  assumes "remove_template (acting_for t u) i s = (r, s')"
  shows "s' = s \<or> (\<exists>row. row \<in> set (templates s) \<and> tp_id row = i \<and> tp_org row = t
    \<and> templates s' = delete_many (\<lambda>t. tp_id t = i) (templates s) \<and> next_id s' = next_id s
    \<and> template_fields s' = delete_many (\<lambda>f. tf_template f = i) (template_fields s))"
  using assms find_templateD [of "acting_for t u" i s]
  by (auto simp: remove_template_def split: option.split_asm)

lemma fields_of_append:
  "template_fields s' = template_fields s @ fs \<Longrightarrow>
    fields_of j s' = fields_of j s @ filter (\<lambda>f. tf_template f = j) fs"
  by (simp add: fields_of_def)

lemma fields_of_replace:
  "template_fields s' = delete_many (\<lambda>f. tf_template f = i) (template_fields s) @ fs \<Longrightarrow>
    fields_of j s' = (if i = j then [] else fields_of j s) @ filter (\<lambda>f. tf_template f = j) fs"
  by (simp add: fields_of_def filter_delete_fields)

lemma tp_id_apply [simp]: "tp_id (apply_template inp t) = tp_id t" "tp_org (apply_template inp t) = tp_org t"
  by (simp_all add: apply_template_def)

lemma create_template_ok:
  assumes ok: "templates_ok s" and c: "create_template (acting_for t u) inp s = (r, s')"
  shows "templates_ok s'"
  using create_template_effect [OF c]
proof (elim disjE exE conjE)
  fix row fs
  assume e: "templates s' = templates s @ [row]" "tp_id row = next_id s"
    "template_fields s' = template_fields s @ new_fields (next_id s + 1) (next_id s) fs" "length fs \<le> 200"
    "next_id s' = next_id s + 1 + length fs"
  have f: "fields_of j s' = fields_of j s @ (if j = next_id s then new_fields (next_id s + 1) (next_id s) fs else [])" for j
    by (simp add: fields_of_append [OF e(3)] filter_new_fields)
  have lt: "tp_id x < next_id s" if "x \<in> set (templates s)" for x using templates_okD(2) [OF ok that] .
  show ?thesis
    unfolding templates_ok_def e(1)
  proof (intro conjI ballI)
    show "distinct (map tp_id (templates s @ [row]))"
      using templates_okD(1) [OF ok] lt e(2) by fastforce
    fix x assume x: "x \<in> set (templates s @ [row])"
    then show "tp_id x < next_id s'" using lt e(2,5) by fastforce
    show "length (fields_of (tp_id x) s') \<le> 200"
      using x lt templates_okD(3) [OF ok] no_fields_of_next [OF ok] e(2,4) by (fastforce simp: f)
  next
    fix g assume "g \<in> set (template_fields s')"
    then show "tf_template g \<in> tp_id ` set (templates s @ [row])"
      using templates_okD(4) [OF ok] template_of_new_fields e(2,3) by fastforce
  qed
qed (use ok in simp)

lemma update_template_ok:
  assumes ok: "templates_ok s" and c: "update_template (acting_for t u) i inp s = (r, s')"
  shows "templates_ok s'"
  using update_template_effect [OF c]
proof (elim disjE exE conjE)
  fix row
  assume row: "row \<in> set (templates s)" "tp_id row = i"
    and tmpl: "templates s' = update_row tp_id i (apply_template inp) (templates s)"
    and fs: "case ti_fields inp of None \<Rightarrow> template_fields s' = template_fields s \<and> next_id s' = next_id s
       | Some fs \<Rightarrow> length fs \<le> 200 \<and> next_id s' = next_id s + length fs
           \<and> template_fields s' = delete_many (\<lambda>f. tf_template f = i) (template_fields s) @ new_fields (next_id s) i fs"
  have ids: "tp_id ` set (templates s') = tp_id ` set (templates s)" "map tp_id (templates s') = map tp_id (templates s)"
    by (simp_all add: tmpl flip: set_map)
  have n: "next_id s \<le> next_id s'" using fs by (auto split: option.splits)
  have len: "length (fields_of j s') \<le> 200" if "j \<in> tp_id ` set (templates s)" for j
    using fs that templates_okD(3) [OF ok]
    by (auto simp: fields_of_replace filter_new_fields fields_of_def [of _ s'] split: option.splits)
      (auto simp: fields_of_def filter_delete_fields filter_new_fields)
  have fld: "tf_template g \<in> tp_id ` set (templates s)" if "g \<in> set (template_fields s')" for g
    using fs that templates_okD(4) [OF ok] template_of_new_fields row by (fastforce split: option.splits)
  have "tp_id x < next_id s' \<and> length (fields_of (tp_id x) s') \<le> 200" if "x \<in> set (templates s')" for x
  proof -
    have "tp_id x \<in> tp_id ` set (templates s)" using that unfolding ids(1) [symmetric] by simp
    with len templates_okD(2) [OF ok] n show ?thesis by fastforce
  qed
  with fld ids templates_okD(1) [OF ok] show ?thesis unfolding templates_ok_def by simp
qed (use ok in simp)

lemma remove_template_ok:
  assumes ok: "templates_ok s" and c: "remove_template (acting_for t u) i s = (r, s')"
  shows "templates_ok s'"
  using remove_template_effect [OF c]
proof (elim disjE exE conjE)
  assume e: "templates s' = delete_many (\<lambda>t. tp_id t = i) (templates s)" "next_id s' = next_id s"
    "template_fields s' = delete_many (\<lambda>f. tf_template f = i) (template_fields s)"
  have "length (fields_of j s') \<le> length (fields_of j s)" for j
    by (simp add: fields_of_def e(3) filter_delete_fields)
  then have "length (fields_of (tp_id x) s') \<le> 200" if "x \<in> set (templates s)" for x
    using templates_okD(3) [OF ok that] by (rule order_trans)
  with templates_okD(1,2,4) [OF ok] show ?thesis
    by (fastforce simp: templates_ok_def e delete_many_def distinct_map_filter)
qed (use ok in simp)

lemma exec_template_ok: "templates_ok s \<Longrightarrow> templates_ok (exec_template c t s)"
  using create_template_ok [OF _ surjective_pairing] update_template_ok [OF _ surjective_pairing]
    remove_template_ok [OF _ surjective_pairing]
  by (cases c) auto

text \<open>What a tenant sees: its templates together with the fields placed on each.\<close>

definition template_view :: "db \<Rightarrow> (template_row \<times> template_field_row list) list" where
  "template_view s = map (\<lambda>t. (t, fields_of (tp_id t) s)) (templates s)"

lemma filter_template_view:
  "filter (\<lambda>r. (tp_org \<circ> fst) r = x) (template_view s) =
    map (\<lambda>t. (t, fields_of (tp_id t) s)) (filter (\<lambda>t. tp_org t = x) (templates s))"
  by (simp add: template_view_def filter_map comp_def)

text \<open>A change that keeps the rows of tenant \<open>x\<close> and their fields is invisible to it.\<close>

lemma template_view_same:
  assumes "filter (\<lambda>t. tp_org t = x) (templates s') = filter (\<lambda>t. tp_org t = x) (templates s)"
    and "\<And>t. t \<in> set (templates s) \<Longrightarrow> tp_org t = x \<Longrightarrow> fields_of (tp_id t) s' = fields_of (tp_id t) s"
  shows "filter (\<lambda>r. (tp_org \<circ> fst) r = x) (template_view s') = filter (\<lambda>r. (tp_org \<circ> fst) r = x) (template_view s)"
  unfolding filter_template_view assms(1) using assms(2) by simp

lemma row_of_other_tenant:
  assumes "templates_ok s" "row \<in> set (templates s)" "tp_org row \<noteq> x" "y \<in> set (templates s)" "tp_org y = x"
  shows "tp_id y \<noteq> tp_id row"
  using assms templates_okD(1) [OF assms(1)] by (auto simp: distinct_map inj_on_def)

lemma exec_template_isolated:
  assumes ok: "templates_ok s" and "t \<noteq> x"
  shows "filter (\<lambda>r. (tp_org \<circ> fst) r = x) (template_view (exec_template c t s)) =
    filter (\<lambda>r. (tp_org \<circ> fst) r = x) (template_view s)"
proof (cases c)
  case (TcCreate u inp)
  obtain r s' where c: "create_template (acting_for t u) inp s = (r, s')" by fastforce
  from create_template_effect [OF c] show ?thesis
  proof (elim disjE exE conjE)
    fix row fs
    assume e: "templates s' = templates s @ [row]" "tp_org row = t"
      "template_fields s' = template_fields s @ new_fields (next_id s + 1) (next_id s) fs"
    have "fields_of (tp_id y) s' = fields_of (tp_id y) s" if "y \<in> set (templates s)" for y
      using templates_okD(2) [OF ok that] by (simp add: fields_of_append [OF e(3)] filter_new_fields)
    with e(1,2) \<open>t \<noteq> x\<close> show ?thesis
      by (intro template_view_same) (simp_all add: TcCreate c)
  qed (simp add: TcCreate c)
next
  case (TcUpdate u i inp)
  obtain r s' where c: "update_template (acting_for t u) i inp s = (r, s')" by fastforce
  from update_template_effect [OF c] show ?thesis
  proof (elim disjE exE conjE)
    fix row
    assume row: "row \<in> set (templates s)" "tp_id row = i" "tp_org row = t"
      and tmpl: "templates s' = update_row tp_id i (apply_template inp) (templates s)"
      and fs: "case ti_fields inp of None \<Rightarrow> template_fields s' = template_fields s \<and> next_id s' = next_id s
       | Some fs \<Rightarrow> length fs \<le> 200 \<and> next_id s' = next_id s + length fs
           \<and> template_fields s' = delete_many (\<lambda>f. tf_template f = i) (template_fields s) @ new_fields (next_id s) i fs"
    have "fields_of (tp_id y) s' = fields_of (tp_id y) s" if "y \<in> set (templates s)" "tp_org y = x" for y
      using fs row_of_other_tenant [OF ok row(1) _ that] row \<open>t \<noteq> x\<close>
      by (auto simp: fields_of_def filter_delete_fields filter_new_fields split: option.splits)
    with filter_update_row_other [of tp_id "templates s" row tp_org x "apply_template inp"]
      templates_okD(1) [OF ok] row \<open>t \<noteq> x\<close> show ?thesis
      by (intro template_view_same) (simp_all add: TcUpdate c tmpl)
  qed (simp add: TcUpdate c)
next
  case (TcRemove u i)
  obtain r s' where c: "remove_template (acting_for t u) i s = (r, s')" by fastforce
  from remove_template_effect [OF c] show ?thesis
  proof (elim disjE exE conjE)
    fix row
    assume row: "row \<in> set (templates s)" "tp_id row = i" "tp_org row = t"
      and e: "templates s' = delete_many (\<lambda>t. tp_id t = i) (templates s)"
        "template_fields s' = delete_many (\<lambda>f. tf_template f = i) (template_fields s)"
    have "fields_of (tp_id y) s' = fields_of (tp_id y) s" if "y \<in> set (templates s)" "tp_org y = x" for y
      using row_of_other_tenant [OF ok row(1) _ that] row \<open>t \<noteq> x\<close>
      by (auto simp: fields_of_def e filter_delete_fields)
    with filter_delete_other [of tp_id "templates s" row tp_org x]
      templates_okD(1) [OF ok] row \<open>t \<noteq> x\<close> show ?thesis
      by (intro template_view_same) (simp_all add: TcRemove c e)
  qed (simp add: TcRemove c)
qed

interpretation template_api: tenant_api template_view "tp_org \<circ> fst" templates_ok exec_template
  by unfold_locales (rule exec_template_ok, assumption, rule exec_template_isolated)

section \<open>Properties\<close>

definition run_templates :: "(template_command \<times> id) list \<Rightarrow> db \<Rightarrow> db" where
  "run_templates cmds s = foldl (\<lambda>s (c, t). exec_template c t s) s cmds"

text \<open>
  no sequence of template calls made by other tenants changes a template of a tenant or the
  fields placed on it.
\<close>

theorem template_tenant_isolation:
  assumes "templates_ok s" "x \<notin> snd ` set cmds"
  shows "filter (\<lambda>r. tp_org (fst r) = x) (template_view (run_templates cmds s)) =
    filter (\<lambda>r. tp_org (fst r) = x) (template_view s)"
  using template_api.run_isolated [OF assms] by (simp add: run_templates_def)

definition sample_template :: template_input where
  "sample_template = \<lparr>ti_name = Some ''NDA'', ti_description = None, ti_status = None, ti_workspace = None,
     ti_variables = None, ti_fields = Some [\<lparr>fs_type = FtText, fs_name = None, fs_key = Some ''k'',
       fs_required = None, fs_page = None, fs_assignee = Some 1, fs_x = None, fs_y = None, fs_width = None,
       fs_height = None, fs_options = None\<rparr>]\<rparr>"

lemma empty_templates_ok: "templates_ok empty_db"
  by (simp add: templates_ok_def empty_db_def)

theorem template_tenant_isolation_witness:
  "filter (\<lambda>r. tp_org (fst r) = 2) (template_view (run_templates [(TcCreate sample_principal sample_template, 1)] empty_db))
     = []"
  using template_tenant_isolation [OF empty_templates_ok, of 2 "[(TcCreate sample_principal sample_template, 1)]"]
  by (simp add: template_view_def empty_db_def)

text \<open>
  whatever template calls are made, no template ever has more than 200 fields and no
  field row outlives its template.
\<close>

theorem template_fields_bounded:
  assumes "templates_ok s"
  shows "(\<forall>t \<in> set (templates (run_templates cmds s)). length (fields_of (tp_id t) (run_templates cmds s)) \<le> 200)
    \<and> (\<forall>f \<in> set (template_fields (run_templates cmds s)). \<exists>t \<in> set (templates (run_templates cmds s)). tp_id t = tf_template f)"
  using template_api.inv_run [OF assms, of cmds]
  by (fastforce simp: templates_ok_def run_templates_def)

theorem template_fields_bounded_witness:
  "\<exists>t. templates (run_templates [(TcCreate sample_principal sample_template, 1)] empty_db) = [t]
     \<and> length (fields_of (tp_id t) (run_templates [(TcCreate sample_principal sample_template, 1)] empty_db)) \<le> 200"
proof -
  have "\<exists>t. templates (run_templates [(TcCreate sample_principal sample_template, 1)] empty_db) = [t]"
    by (simp add: run_templates_def create_template_def sample_template_def too_many_fields_def Let_def
        max_fields_per_template_def assert_workspace_in_tenant_def empty_db_def sample_principal_def acting_for_def org_of_def)
  with template_fields_bounded [OF empty_templates_ok, of "[(TcCreate sample_principal sample_template, 1)]"]
  show ?thesis by auto
qed

end
