(* ===== verification/Access.thy ===== *)
theory Access
  imports Schema
begin

text \<open>
  Who a request acts for and what it may do: apps/api/src/common/guards (jwt-auth, tenant,
  permissions), common/roles.ts and modules/api-keys. Verifying and signing JSON Web Tokens and
  fetching a JWKS key are the record \<open>jwt_lib\<close>. The \<open>lastUsedAt\<close> of a key is not kept.
\<close>

section \<open>Tokens\<close>

record claims =
  cl_sub :: "string option"
  cl_email :: "string option"
  cl_type :: "string option"
  cl_next :: "string option"
  cl_groups :: "string list option"
  cl_jti :: "string option"
  cl_exp :: "time option"

text \<open>
  \<open>jl_decode\<close> is the header's algorithm and key id; \<open>jl_hs256\<close> and \<open>jl_rs256\<close> verify a
  token at an instant, the latter with the JWKS key of an id, an issuer and an audience.
\<close>

record jwt_lib =
  jl_sign :: "string \<Rightarrow> claims \<Rightarrow> string"
  jl_decode :: "string \<Rightarrow> (string \<times> string option) option"
  jl_hs256 :: "string \<Rightarrow> time \<Rightarrow> string \<Rightarrow> claims option"
  jl_rs256 :: "string \<Rightarrow> time \<Rightarrow> string option \<Rightarrow> string option \<Rightarrow> string \<Rightarrow> claims option"

record auth_config =
  af_access_secret :: "string option"
  af_refresh_secret :: "string option"
  af_issuer :: "string option"
  af_client_id :: "string option"
  af_client_secret :: "string option"
  af_jwks_url :: "string option"
  af_authorization_url :: "string option"
  af_token_url :: "string option"
  af_userinfo_url :: "string option"
  af_redirect_uri :: "string option"
  af_scopes :: "string list option"
  af_admin_group :: "string option"
  af_cookie_domain :: "string option"

text \<open>A configured string that JavaScript takes for true.\<close>

definition configured :: "string option \<Rightarrow> string option" where
  "configured x = (case x of None \<Rightarrow> None | Some v \<Rightarrow> if v = [] then None else Some v)"

section \<open>Roles\<close>

definition system_role :: "membership_role \<Rightarrow> string" where
  "system_role r = (case r of OWNER \<Rightarrow> ''ORGANIZATION_OWNER'' | ADMIN \<Rightarrow> ''ADMINISTRATOR''
     | MANAGER \<Rightarrow> ''MANAGER'' | AUDITOR \<Rightarrow> ''AUDITOR'' | MEMBER \<Rightarrow> ''USER'')"

definition resolve_system_role :: "membership_role \<Rightarrow> db \<Rightarrow> id option" where
  "resolve_system_role r s = map_option ro_id (find (\<lambda>x. ro_name x = system_role r) (roles s))"

section \<open>The authentication guard\<close>

definition extract_bearer :: "string option \<Rightarrow> string option" where
  "extract_bearer h = (case h of
     None \<Rightarrow> None
   | Some x \<Rightarrow> if prefix ''Bearer '' x then Some (js_trim (drop (length ''Bearer '') x)) else None)"

definition verify_token :: "auth_config \<Rightarrow> jwt_lib \<Rightarrow> env \<Rightarrow> string \<Rightarrow> claims option" where
  "verify_token cf jl e token =
     (case jl_decode jl token of
        None \<Rightarrow> None
      | Some (alg, kid) \<Rightarrow>
        if alg = ''HS256'' then
          (case configured (af_access_secret cf) of
             None \<Rightarrow> None
           | Some secret \<Rightarrow>
             (case jl_hs256 jl secret (e_now e) token of
                None \<Rightarrow> None
              | Some c \<Rightarrow> if cl_type c = Some ''access'' then Some c else None))
        else if alg = ''RS256'' then
          (if configured (af_jwks_url cf) = None then None
           else (case configured kid of
              None \<Rightarrow> None
            | Some k \<Rightarrow> jl_rs256 jl k (e_now e) (configured (af_issuer cf)) (configured (af_client_id cf)) token))
        else None)"

definition org_open :: "db \<Rightarrow> id \<Rightarrow> bool" where
  "org_open s i \<longleftrightarrow> list_ex (\<lambda>x. o_id x = i \<and> (o_status x = OrgActive \<or> o_status x = OrgTrial)) (orgs s)"

definition permissions_of :: "membership_row \<Rightarrow> db \<Rightarrow> string list" where
  "permissions_of mb s = (case m_role_id mb of None \<Rightarrow> []
     | Some i \<Rightarrow> (case find_row ro_id i (roles s) of None \<Rightarrow> [] | Some r \<Rightarrow> ro_permissions r))"

definition active_tenant :: "id \<Rightarrow> db \<Rightarrow> tenant option" where
  "active_tenant uid s =
     (case find (\<lambda>mb. m_user mb = uid \<and> org_open s (m_org mb)) (memberships s) of
        None \<Rightarrow> None
      | Some mb \<Rightarrow>
        (case find_row o_id (m_org mb) (orgs s) of
           None \<Rightarrow> None
         | Some x \<Rightarrow> Some \<lparr>tn_id = o_id x, tn_slug = o_slug x, tn_role = TenantRole (m_role mb),
             tn_permissions = permissions_of mb s\<rparr>))"

definition active_user :: "user_row \<Rightarrow> bool" where
  "active_user x \<longleftrightarrow> u_status x = UserActive \<and> u_deleted x = None"

definition touch_login :: "env \<Rightarrow> id \<Rightarrow> db \<Rightarrow> db" where
  "touch_login e i s = s\<lparr>users := update_row u_id i (\<lambda>x. x\<lparr>u_last_login := Some (e_now e)\<rparr>) (users s)\<rparr>"

definition resolve_principal ::
  "auth_config \<Rightarrow> jwt_lib \<Rightarrow> env \<Rightarrow> string \<Rightarrow> db \<Rightarrow> (auth_user, db) res" where
  "resolve_principal cf jl e token s =
     (case verify_token cf jl e token of
        None \<Rightarrow> fail (Unauthorized ''Invalid or expired token'') s
      | Some c \<Rightarrow>
        (case (configured (cl_sub c), configured (cl_email c)) of
           (Some sub, Some email) \<Rightarrow>
             (case find (\<lambda>x. (u_provider_id x = Some sub \<or> u_email x = email) \<and> active_user x) (users s) of
                None \<Rightarrow> fail (Unauthorized ''User is not provisioned. Ask your administrator to invite you.'') s
              | Some x \<Rightarrow> ok \<lparr>au_id = Some (u_id x), au_email = u_email x, au_display_name = u_display_name x,
                  au_platform_role = u_platform_role x, au_sub = sub, au_groups = coalesce (cl_groups c) [],
                  au_org = active_tenant (u_id x) s\<rparr> (touch_login e (u_id x) s))
         | _ \<Rightarrow> fail (Unauthorized ''Token missing required claims (sub, email)'') s))"

definition key_usable :: "env \<Rightarrow> db \<Rightarrow> string \<Rightarrow> api_key_row \<Rightarrow> bool" where
  "key_usable e s hash k \<longleftrightarrow> k_hash k = hash \<and> k_revoked k = None
     \<and> list_ex (\<lambda>x. o_id x = k_org k \<and> (o_status x = OrgActive \<or> o_status x = OrgTrial) \<and> o_deleted x = None) (orgs s)
     \<and> (case k_expires k of None \<Rightarrow> True | Some t \<Rightarrow> e_now e < t)"

text \<open>The owner of a key, when the owner is still an active member of the key's organization.\<close>

definition key_owner :: "db \<Rightarrow> api_key_row \<Rightarrow> user_row option" where
  "key_owner s k =
     (case k_user k of
        None \<Rightarrow> None
      | Some uid \<Rightarrow> find (\<lambda>x. u_id x = uid \<and> active_user x
          \<and> list_ex (\<lambda>mb. m_user mb = uid \<and> m_org mb = k_org k
               \<and> list_ex (\<lambda>y. o_id y = k_org k \<and> (o_status y = OrgActive \<or> o_status y = OrgTrial)
                    \<and> o_deleted y = None) (orgs s)) (memberships s)) (users s))"

definition authenticate_api_key :: "env \<Rightarrow> string \<Rightarrow> db \<Rightarrow> (auth_user, db) res" where
  "authenticate_api_key e raw s =
     (case find (key_usable e s (e_sha256 e raw)) (api_keys s) of
        None \<Rightarrow> fail (Unauthorized ''Invalid API key'') s
      | Some k \<Rightarrow>
        if k_user k \<noteq> None \<and> key_owner s k = None
        then fail (Unauthorized ''API key owner is not an active organization member'') s
        else ok \<lparr>au_id = k_user k,
             au_email = (case key_owner s k of None \<Rightarrow> ''apikey:'' @ k_prefix k | Some x \<Rightarrow> u_email x),
             au_display_name = Some (k_name k), au_platform_role = PlatformUser,
             au_sub = ''apikey:'' @ show_nat (k_id k), au_groups = [],
             au_org = (case key_owner s k of None \<Rightarrow> None
               | Some x \<Rightarrow> Some \<lparr>tn_id = k_org k, tn_slug = [], tn_role = API_KEY,
                   tn_permissions = k_scopes k\<rparr>)\<rparr> s)"

text \<open>The request: its key and authorization headers. \<open>None\<close> is a request nobody is attached to.\<close>

record http_headers =
  hd_api_key :: "string option"
  hd_authorization :: "string option"

definition jwt_guard ::
  "auth_config \<Rightarrow> jwt_lib \<Rightarrow> env \<Rightarrow> bool \<Rightarrow> http_headers \<Rightarrow> db \<Rightarrow> (auth_user option, db) res" where
  "jwt_guard cf jl e public h s =
     (case configured (hd_api_key h) of
        Some raw \<Rightarrow> and_then (authenticate_api_key e raw s) (\<lambda>p s. ok (Some p) s)
      | None \<Rightarrow>
        if public then ok None s
        else (case configured (extract_bearer (hd_authorization h)) of
           None \<Rightarrow> fail (Unauthorized ''Missing bearer token'') s
         | Some token \<Rightarrow> and_then (resolve_principal cf jl e token s) (\<lambda>p s. ok (Some p) s)))"

section \<open>The tenant and permission guards\<close>

record route =
  rt_public :: bool
  rt_tenant :: bool
  rt_permissions :: "string list option"

definition tenant_guard :: "route \<Rightarrow> auth_user option \<Rightarrow> http_error option" where
  "tenant_guard rt u =
     (if rt_public rt \<or> \<not> rt_tenant rt then None
      else if (case u of None \<Rightarrow> True | Some p \<Rightarrow> au_org p = None)
      then Some (Forbidden ''No active tenant. Join or create an organization to use this endpoint.'')
      else None)"

definition granted_permissions :: "auth_user \<Rightarrow> string list" where
  "granted_permissions p = (case au_org p of None \<Rightarrow> [] | Some tn \<Rightarrow> tn_permissions tn)"

definition permissions_guard :: "route \<Rightarrow> auth_user option \<Rightarrow> http_error option" where
  "permissions_guard rt u =
     (if rt_public rt \<or> coalesce (rt_permissions rt) [] = [] then None
      else (case u of
         None \<Rightarrow> Some (Forbidden ''Authentication required'')
       | Some p \<Rightarrow>
         if au_platform_role p = PLATFORM_ADMIN then None
         else if list_ex (\<lambda>c. c \<in> set (granted_permissions p)) (coalesce (rt_permissions rt) []) then None
         else Some (Forbidden (''Missing required permission: ''
                @ js_join '', '' (coalesce (rt_permissions rt) [])))))"

definition guarded ::
  "auth_config \<Rightarrow> jwt_lib \<Rightarrow> env \<Rightarrow> route \<Rightarrow> http_headers \<Rightarrow> db \<Rightarrow> (auth_user option, db) res" where
  "guarded cf jl e rt h s = and_then (jwt_guard cf jl e (rt_public rt) h s) (\<lambda>u s.
     (case tenant_guard rt u of
        Some err \<Rightarrow> fail err s
      | None \<Rightarrow> (case permissions_guard rt u of Some err \<Rightarrow> fail err s | None \<Rightarrow> ok u s)))"

section \<open>API keys\<close>

record api_key_view =
  av_id :: id
  av_name :: string
  av_prefix :: string
  av_scopes :: "string list"
  av_expires :: "time option"
  av_key :: string

definition new_api_key ::
  "env \<Rightarrow> auth_user \<Rightarrow> id \<Rightarrow> string \<Rightarrow> string list option \<Rightarrow> int option \<Rightarrow> id \<Rightarrow> api_key_row" where
  "new_api_key e u org name scopes days i =
     (let plaintext = ''sgn_'' @ e_rand e 0
      in \<lparr>k_id = i, k_org = org, k_user = au_id u, k_name = name, k_hash = e_sha256 e plaintext,
          k_prefix = take 10 plaintext, k_scopes = coalesce scopes [],
          k_expires = (if coalesce days 0 = 0 then None else Some (e_now e + coalesce days 0 * day_ms)),
          k_revoked = None\<rparr>)"

definition create_api_key ::
  "env \<Rightarrow> auth_user \<Rightarrow> string \<Rightarrow> string list option \<Rightarrow> int option \<Rightarrow> db \<Rightarrow> (api_key_view, db) res" where
  "create_api_key e u name scopes days s =
     (case org_of u of
        None \<Rightarrow> fail (Forbidden ''No active tenant'') s
      | Some org \<Rightarrow>
        (let k = new_api_key e u org name scopes days (next_id s)
         in if au_id u = None then fail fk_error s
            else if k_hash k \<in> k_hash ` set (api_keys s)
            then fail (InternalError ''Unique constraint failed: keyHash'') s
            else ok \<lparr>av_id = k_id k, av_name = k_name k, av_prefix = k_prefix k, av_scopes = k_scopes k,
                   av_expires = k_expires k, av_key = ''sgn_'' @ e_rand e 0\<rparr>
                 (s\<lparr>next_id := next_id s + 1, api_keys := api_keys s @ [k]\<rparr>)))"

definition list_api_keys ::
  "auth_user \<Rightarrow> db \<Rightarrow> (id \<times> string \<times> string \<times> string list \<times> time option) list" where
  "list_api_keys u s = map (\<lambda>k. (k_id k, k_name k, k_prefix k, k_scopes k, k_expires k))
     (rev (filter (\<lambda>k. in_tenant u (k_org k) \<and> k_revoked k = None) (api_keys s)))"

definition revoke_api_key :: "env \<Rightarrow> auth_user \<Rightarrow> id \<Rightarrow> db \<Rightarrow> (unit, db) res" where
  "revoke_api_key e u i s =
     (case find (\<lambda>k. k_id k = i \<and> in_tenant u (k_org k)) (api_keys s) of
        None \<Rightarrow> fail (NotFound ''API key not found'') s
      | Some k \<Rightarrow> ok () (s\<lparr>api_keys := update_row k_id i (\<lambda>k. k\<lparr>k_revoked := Some (e_now e)\<rparr>) (api_keys s)\<rparr>))"

end
