(* ===== verification/Auth.thy ===== *)
theory Auth
  imports Access
begin

text \<open>
  apps/api/src/modules/auth: the login state, the sign-in with the identity provider, the
  rotating refresh sessions, and the controller that strings them together. The serialization of
  a query string and the two HTTP calls to the identity provider are parameters; a missing
  secret is the plain \<open>Error\<close> the code throws (an internal error).
\<close>

section \<open>Configuration\<close>

definition required_secret :: "string option \<Rightarrow> string \<Rightarrow> http_error + string" where
  "required_secret v name = (case configured v of
     None \<Rightarrow> Inl (InternalError (''Missing '' @ name @ '' - set it in .env''))
   | Some x \<Rightarrow> Inr x)"

definition auth_web_url :: "env \<Rightarrow> string" where
  "auth_web_url e = coalesce (e_web_url e) ''https://app.signara.innotel.us''"

definition cookie_domain :: "auth_config \<Rightarrow> string" where
  "cookie_domain cf = coalesce (af_cookie_domain cf) []"

text \<open>A template literal prints an absent value as \<open>undefined\<close>.\<close>

definition build_login_url ::
  "auth_config \<Rightarrow> ((string \<times> string) list \<Rightarrow> string) \<Rightarrow> string \<Rightarrow> string" where
  "build_login_url cf encode state =
     coalesce (af_authorization_url cf) ''undefined'' @ ''?'' @ encode
       [(''client_id'', coalesce (af_client_id cf) []), (''response_type'', ''code''),
        (''scope'', js_join '' '' (coalesce (af_scopes cf) [''openid'', ''profile'', ''email''])),
        (''redirect_uri'', coalesce (af_redirect_uri cf) []), (''state'', state)]"

section \<open>The login state\<close>

text \<open>
  The regular expression \<open>/[\\u0000-\\u001f]/\<close> of the source: in a class, \<open>\\\<close> is a
  backslash, so the members are the backslash, the letters u and f, the digits 0 and 1, and the
  range from \<open>0\<close> to the backslash (codes 48 to 92).
\<close>

definition rejected_char :: "char \<Rightarrow> bool" where
  "rejected_char c \<longleftrightarrow> c = CHR ''u'' \<or> c = CHR ''f'' \<or> (48 \<le> (of_char c :: nat) \<and> (of_char c :: nat) \<le> 92)"

definition backslash :: char where
  "backslash = CHR 0x5C"

definition safe_next_path :: "string option \<Rightarrow> string" where
  "safe_next_path nxt =
     (case configured nxt of
        None \<Rightarrow> ''/''
      | Some p \<Rightarrow>
        if \<not> prefix ''/'' p \<or> prefix ''//'' p \<or> backslash \<in> set p \<or> list_ex rejected_char p
        then ''/'' else p)"

definition state_claims :: "env \<Rightarrow> string \<Rightarrow> claims" where
  "state_claims e nxt = \<lparr>cl_sub = None, cl_email = None, cl_type = Some ''oidc-state'', cl_next = Some nxt,
     cl_groups = None, cl_jti = None, cl_exp = Some (e_now e + 10 * 60 * 1000)\<rparr>"

definition create_login_state ::
  "auth_config \<Rightarrow> jwt_lib \<Rightarrow> env \<Rightarrow> string option \<Rightarrow> http_error + string" where
  "create_login_state cf jl e nxt =
     (case required_secret (af_access_secret cf) ''JWT_ACCESS_SECRET'' of
        Inl err \<Rightarrow> Inl err
      | Inr secret \<Rightarrow> Inr (jl_sign jl secret (state_claims e (safe_next_path nxt))))"

definition parse_login_state ::
  "auth_config \<Rightarrow> jwt_lib \<Rightarrow> env \<Rightarrow> string \<Rightarrow> http_error + string" where
  "parse_login_state cf jl e state =
     (case required_secret (af_access_secret cf) ''JWT_ACCESS_SECRET'' of
        Inl err \<Rightarrow> Inl (Unauthorized ''Invalid or expired login state'')
      | Inr secret \<Rightarrow>
        (case jl_hs256 jl secret (e_now e) state of
           None \<Rightarrow> Inl (Unauthorized ''Invalid or expired login state'')
         | Some c \<Rightarrow> if cl_type c \<noteq> Some ''oidc-state''
                     then Inl (Unauthorized ''Invalid or expired login state'')
                     else Inr (safe_next_path (cl_next c))))"

section \<open>The identity provider\<close>

record idp =
  ip_token :: "string \<Rightarrow> (string \<times> string) list \<Rightarrow> string option"
  ip_userinfo :: "string \<Rightarrow> string \<Rightarrow> obj option"

text \<open>\<open>None\<close> is an answer that is not 2xx; the token endpoint answers with the access token.\<close>

definition exchange_code :: "auth_config \<Rightarrow> idp \<Rightarrow> string \<Rightarrow> http_error + string" where
  "exchange_code cf ip code =
     (case configured (af_token_url cf) of
        None \<Rightarrow> Inl (Unauthorized ''Identity provider is not configured (OIDC_TOKEN_URL missing)'')
      | Some url \<Rightarrow>
        (case ip_token ip url [(''grant_type'', ''authorization_code''), (''code'', code),
                (''redirect_uri'', coalesce (af_redirect_uri cf) []),
                (''client_id'', coalesce (af_client_id cf) []),
                (''client_secret'', coalesce (af_client_secret cf) [])] of
           None \<Rightarrow> Inl (Unauthorized ''Token exchange with identity provider failed'')
         | Some t \<Rightarrow> Inr t))"

definition fetch_userinfo :: "auth_config \<Rightarrow> idp \<Rightarrow> string \<Rightarrow> http_error + obj" where
  "fetch_userinfo cf ip token =
     (case ip_userinfo ip (coalesce (af_userinfo_url cf) []) (''Bearer '' @ token) of
        None \<Rightarrow> Inl (Unauthorized ''Failed to fetch user info'')
      | Some x \<Rightarrow> Inr x)"

section \<open>Tokens and sessions\<close>

record token_pair =
  tk_access :: string
  tk_refresh :: string
  tk_expires_in :: int

definition token_claims :: "env \<Rightarrow> string \<Rightarrow> nat \<Rightarrow> int \<Rightarrow> id \<Rightarrow> string \<Rightarrow> claims" where
  "token_claims e ty k seconds uid email = \<lparr>cl_sub = Some (show_nat uid), cl_email = Some email,
     cl_type = Some ty, cl_next = None, cl_groups = None, cl_jti = Some (e_rand e k),
     cl_exp = Some (e_now e + seconds * 1000)\<rparr>"

definition issue_token_pair ::
  "auth_config \<Rightarrow> jwt_lib \<Rightarrow> env \<Rightarrow> id \<Rightarrow> string \<Rightarrow> http_error + token_pair" where
  "issue_token_pair cf jl e uid email =
     (case required_secret (af_access_secret cf) ''JWT_ACCESS_SECRET'' of
        Inl err \<Rightarrow> Inl err
      | Inr access \<Rightarrow>
        (case required_secret (af_refresh_secret cf) ''JWT_REFRESH_SECRET'' of
           Inl err \<Rightarrow> Inl err
         | Inr refresh \<Rightarrow> Inr
             \<lparr>tk_access = jl_sign jl access (token_claims e ''access'' 0 (15 * 60) uid email),
              tk_refresh = jl_sign jl refresh (token_claims e ''refresh'' 1 (30 * 24 * 60 * 60) uid email),
              tk_expires_in = 15 * 60\<rparr>))"

definition fingerprint_hash :: "env \<Rightarrow> string \<Rightarrow> string \<Rightarrow> string" where
  "fingerprint_hash e fp token = e_sha256 e (fp @ '':'' @ token)"

definition create_session :: "env \<Rightarrow> id \<Rightarrow> string \<Rightarrow> string \<Rightarrow> string \<Rightarrow> db \<Rightarrow> db" where
  "create_session e uid token fp ip s = s\<lparr>next_id := next_id s + 1,
     sessions := sessions s @ [\<lparr>se_id = next_id s, se_user = uid, se_hash = fingerprint_hash e fp token,
       se_expires = e_now e + 30 * day_ms, se_revoked = None, se_ip = ip\<rparr>]\<rparr>"

definition revoke_where :: "env \<Rightarrow> (session_row \<Rightarrow> bool) \<Rightarrow> db \<Rightarrow> db" where
  "revoke_where e p s =
     s\<lparr>sessions := update_many p (\<lambda>x. x\<lparr>se_revoked := Some (e_now e)\<rparr>) (sessions s)\<rparr>"

text \<open>Issue a pair for a user and persist its session.\<close>

definition open_token_session ::
  "auth_config \<Rightarrow> jwt_lib \<Rightarrow> env \<Rightarrow> id \<Rightarrow> string \<Rightarrow> string \<Rightarrow> string \<Rightarrow> db \<Rightarrow> (token_pair, db) res" where
  "open_token_session cf jl e uid email fp ip s =
     (case issue_token_pair cf jl e uid email of
        Inl err \<Rightarrow> fail err s
      | Inr pair \<Rightarrow> ok pair (create_session e uid (tk_refresh pair) fp ip s))"

section \<open>Signing in\<close>

record idp_claims =
  ic_sub :: string
  ic_email :: "string option"
  ic_name :: "string option"
  ic_groups :: "string list option"

definition idp_role :: "auth_config \<Rightarrow> idp_claims \<Rightarrow> platform_role" where
  "idp_role cf c = (if coalesce (af_admin_group cf) ''signara-admins'' \<in> set (coalesce (ic_groups c) [])
     then PLATFORM_ADMIN else PlatformUser)"

definition apply_idp :: "auth_config \<Rightarrow> env \<Rightarrow> idp_claims \<Rightarrow> user_row \<Rightarrow> user_row" where
  "apply_idp cf e c x = x\<lparr>u_provider_id := Some (ic_sub c),
     u_display_name := coalesce_opt (ic_name c) (u_display_name x), u_email_verified := Some (e_now e),
     u_status := UserActive, u_last_login := Some (e_now e), u_platform_role := idp_role cf c\<rparr>"

definition idp_user :: "auth_config \<Rightarrow> env \<Rightarrow> idp_claims \<Rightarrow> string \<Rightarrow> id \<Rightarrow> user_row" where
  "idp_user cf e c email i = \<lparr>u_id = i, u_email = email,
     u_first_name = map_option (\<lambda>n. hd (js_split (CHR '' '') n)) (ic_name c),
     u_last_name = map_option (\<lambda>n. js_join '' '' (tl (js_split (CHR '' '') n))) (ic_name c),
     u_display_name = ic_name c, u_email_verified = Some (e_now e), u_mfa = False,
     u_status = UserActive, u_platform_role = idp_role cf c, u_provider_id = Some (ic_sub c),
     u_timezone = ''UTC'', u_locale = ''en'', u_last_login = None, u_deleted = None\<rparr>"

text \<open>The upsert by e-mail; a provider id of another user violates its unique index.\<close>

definition upsert_user ::
  "auth_config \<Rightarrow> env \<Rightarrow> idp_claims \<Rightarrow> string \<Rightarrow> db \<Rightarrow> (user_row, db) res" where
  "upsert_user cf e c email s =
     (if list_ex (\<lambda>x. u_provider_id x = Some (ic_sub c) \<and> u_email x \<noteq> email) (users s)
      then fail (InternalError ''Unique constraint failed: authProviderId'') s
      else (case find (\<lambda>x. u_email x = email) (users s) of
         Some x \<Rightarrow> ok (apply_idp cf e c x)
           (s\<lparr>users := update_row u_id (u_id x) (apply_idp cf e c) (users s)\<rparr>)
       | None \<Rightarrow> ok (idp_user cf e c email (next_id s))
           (s\<lparr>next_id := next_id s + 1, users := users s @ [idp_user cf e c email (next_id s)]\<rparr>)))"

definition login_with_idp ::
  "auth_config \<Rightarrow> jwt_lib \<Rightarrow> env \<Rightarrow> idp_claims \<Rightarrow> string \<Rightarrow> string \<Rightarrow> db \<Rightarrow> (token_pair, db) res" where
  "login_with_idp cf jl e c fp ip s =
     (case configured (map_option js_lower (ic_email c)) of
        None \<Rightarrow> fail (BadRequest ''Identity provider response missing email'') s
      | Some email \<Rightarrow> and_then (upsert_user cf e c email s) (\<lambda>x s.
          if u_status x \<noteq> UserActive then fail (Unauthorized ''Account is not active'') s
          else open_token_session cf jl e (u_id x) email fp ip s))"

section \<open>Refreshing and signing out\<close>

definition live_session :: "env \<Rightarrow> string \<Rightarrow> string \<Rightarrow> session_row \<Rightarrow> bool" where
  "live_session e hash sub x \<longleftrightarrow> se_hash x = hash \<and> show_nat (se_user x) = sub \<and> se_revoked x = None
     \<and> e_now e < se_expires x"

definition refresh ::
  "auth_config \<Rightarrow> jwt_lib \<Rightarrow> env \<Rightarrow> string \<Rightarrow> string \<Rightarrow> string \<Rightarrow> db \<Rightarrow> (token_pair, db) res" where
  "refresh cf jl e token fp ip s =
     (case required_secret (af_refresh_secret cf) ''JWT_REFRESH_SECRET'' of
        Inl err \<Rightarrow> fail (Unauthorized ''Invalid or expired refresh token'') s
      | Inr secret \<Rightarrow>
        (case jl_hs256 jl secret (e_now e) token of
           None \<Rightarrow> fail (Unauthorized ''Invalid or expired refresh token'') s
         | Some c \<Rightarrow>
           if cl_type c \<noteq> Some ''refresh'' \<or> configured (cl_sub c) = None
           then fail (Unauthorized ''Invalid refresh token'') s
           else (case find (live_session e (fingerprint_hash e fp token) (coalesce (cl_sub c) [])) (sessions s) of
              None \<Rightarrow> fail (Unauthorized ''Invalid or expired refresh token'') s
            | Some x \<Rightarrow>
              (case find_row u_id (se_user x) (users s) of
                 None \<Rightarrow> fail (InternalError ''user'') s
               | Some usr \<Rightarrow>
                 if u_status usr \<noteq> UserActive then fail (Unauthorized ''Account is not active'') s
                 else (let s1 = revoke_where e (\<lambda>y. se_id y = se_id x \<and> se_revoked y = None) s;
                           n = count_rows (\<lambda>y. se_id y = se_id x \<and> se_revoked y = None) (sessions s)
                       in if n \<noteq> 1 then fail (Unauthorized ''Invalid or expired refresh token'') s1
                          else open_token_session cf jl e (se_user x) (u_email usr) fp ip s1)))))"

definition revoke_session :: "env \<Rightarrow> string \<Rightarrow> string \<Rightarrow> db \<Rightarrow> db" where
  "revoke_session e token fp s = revoke_where e (\<lambda>x. se_hash x = fingerprint_hash e fp token) s"

definition logout_all :: "env \<Rightarrow> id \<Rightarrow> db \<Rightarrow> db" where
  "logout_all e uid s = revoke_where e (\<lambda>x. se_user x = uid) s"

section \<open>The controller\<close>

definition claim_string :: "obj \<Rightarrow> string \<Rightarrow> string option" where
  "claim_string o' k = (case map_of o' k of Some (JStr x) \<Rightarrow> Some x | _ \<Rightarrow> None)"

text \<open>\<open>userinfo.groups.map(String)\<close>; \<open>String\<close> on a JSON value is a parameter.\<close>

definition claim_groups :: "(json \<Rightarrow> string) \<Rightarrow> obj \<Rightarrow> string list option" where
  "claim_groups show_json o' = (case map_of o' ''groups'' of Some (JArr xs) \<Rightarrow> Some (map show_json xs) | _ \<Rightarrow> None)"

definition login_callback ::
  "auth_config \<Rightarrow> jwt_lib \<Rightarrow> idp \<Rightarrow> (json \<Rightarrow> string) \<Rightarrow> env \<Rightarrow> string option \<Rightarrow> string option \<Rightarrow> string option
   \<Rightarrow> string option \<Rightarrow> string option \<Rightarrow> string option \<Rightarrow> db \<Rightarrow> (token_pair \<times> string, db) res" where
  "login_callback cf jl ip show_json e code state err cookie agent addr s =
     (case configured err of
        Some x \<Rightarrow> fail (Unauthorized (''Identity provider error: '' @ x)) s
      | None \<Rightarrow>
        (case (configured code, configured state) of
           (Some c, Some st) \<Rightarrow>
             if configured cookie = None \<or> length (coalesce cookie []) > 4096 \<or> cookie \<noteq> state
             then fail (Unauthorized ''Invalid or expired login state'') s
             else (case parse_login_state cf jl e st of
                Inl x \<Rightarrow> fail x s
              | Inr nxt \<Rightarrow>
                (case exchange_code cf ip c of
                   Inl x \<Rightarrow> fail x s
                 | Inr access \<Rightarrow>
                   (case fetch_userinfo cf ip access of
                      Inl x \<Rightarrow> fail x s
                    | Inr info \<Rightarrow>
                      (case (configured (claim_string info ''sub''), configured (claim_string info ''email'')) of
                         (Some sub, Some email) \<Rightarrow>
                           and_then (login_with_idp cf jl e \<lparr>ic_sub = sub, ic_email = Some email,
                                 ic_name = claim_string info ''name'', ic_groups = claim_groups show_json info\<rparr>
                               (take 256 (coalesce agent ''unknown'')) (coalesce addr ''unknown'') s)
                             (\<lambda>pair s. ok (pair, nxt) s)
                       | _ \<Rightarrow> fail (Unauthorized ''Identity provider response missing required claims'') s))))
         | _ \<Rightarrow> fail (Unauthorized ''Missing code or state'') s))"

end
