(* ===== verification/Admin.thy ===== *)
theory Admin
  imports Auth
begin

text \<open>
  apps/api/src/modules/admin/admin.service.ts: the platform administration. What the search
  engine answers to a batch of documents and its document count are parameters.
\<close>

definition assert_platform_admin :: "auth_user \<Rightarrow> http_error option" where
  "assert_platform_admin u = (if au_platform_role u \<noteq> PLATFORM_ADMIN
     then Some (Forbidden ''Platform administrator role required'') else None)"

definition contains_insensitive :: "string \<Rightarrow> string \<Rightarrow> bool" where
  "contains_insensitive x q = js_includes (js_lower x) (js_lower q)"

definition matches_search :: "string option \<Rightarrow> string list \<Rightarrow> bool" where
  "matches_search q xs = (case configured q of None \<Rightarrow> True | Some t \<Rightarrow> list_ex (\<lambda>x. contains_insensitive x t) xs)"

definition list_organizations ::
  "auth_user \<Rightarrow> string option \<Rightarrow> org_status option \<Rightarrow> nat option \<Rightarrow> nat option \<Rightarrow> db
   \<Rightarrow> (nat \<times> (org_row \<times> nat \<times> nat) list, db) res" where
  "list_organizations u q st limit offset s =
     (case assert_platform_admin u of
        Some err \<Rightarrow> fail err s
      | None \<Rightarrow>
        (let xs = filter (\<lambda>x. o_deleted x = None \<and> (case st of None \<Rightarrow> True | Some y \<Rightarrow> o_status x = y)
                    \<and> matches_search q [o_name x, o_slug x]) (orgs s)
         in ok (length xs, map (\<lambda>x. (x, count_rows (\<lambda>mb. m_org mb = o_id x) (memberships s),
                     count_rows (\<lambda>d. d_org d = o_id x) (documents s)))
                   (page (coalesce offset 0) (min (coalesce limit 25) 200) (rev xs))) s))"

definition list_users ::
  "auth_user \<Rightarrow> string option \<Rightarrow> user_status option \<Rightarrow> nat option \<Rightarrow> nat option \<Rightarrow> db
   \<Rightarrow> (nat \<times> (user_row \<times> nat) list, db) res" where
  "list_users u q st limit offset s =
     (case assert_platform_admin u of
        Some err \<Rightarrow> fail err s
      | None \<Rightarrow>
        (let xs = filter (\<lambda>x. u_deleted x = None \<and> (case st of None \<Rightarrow> True | Some y \<Rightarrow> u_status x = y)
                    \<and> matches_search q (u_email x # (case u_display_name x of None \<Rightarrow> [] | Some n \<Rightarrow> [n])))
                  (users s)
         in ok (length xs, map (\<lambda>x. (x, count_rows (\<lambda>mb. m_user mb = u_id x) (memberships s)))
                   (page (coalesce offset 0) (min (coalesce limit 25) 200) (rev xs))) s))"

definition set_organization_status ::
  "env \<Rightarrow> auth_user \<Rightarrow> id \<Rightarrow> org_status \<Rightarrow> db \<Rightarrow> (id \<times> org_status, db) res" where
  "set_organization_status e u i st s =
     (case assert_platform_admin u of
        Some err \<Rightarrow> fail err s
      | None \<Rightarrow>
        (case find_row o_id i (orgs s) of
           None \<Rightarrow> fail (NotFound ''Organization not found'') s
         | Some x \<Rightarrow>
           (let s1 = s\<lparr>orgs := update_row o_id i (\<lambda>x. x\<lparr>o_status := st\<rparr>) (orgs s)\<rparr>
            in ok (i, st) (if st = OrgSuspended
                 then revoke_where e (\<lambda>x. list_ex (\<lambda>mb. m_user mb = se_user x \<and> m_org mb = i) (memberships s1)) s1
                 else s1))))"

definition set_user_status ::
  "env \<Rightarrow> auth_user \<Rightarrow> id \<Rightarrow> user_status \<Rightarrow> db \<Rightarrow> (id \<times> user_status, db) res" where
  "set_user_status e u i st s =
     (case assert_platform_admin u of
        Some err \<Rightarrow> fail err s
      | None \<Rightarrow>
        (case find_row u_id i (users s) of
           None \<Rightarrow> fail (InternalError ''Record to update not found'') s
         | Some x \<Rightarrow>
           (let s1 = s\<lparr>users := update_row u_id i (\<lambda>x. x\<lparr>u_status := st\<rparr>) (users s)\<rparr>
            in ok (i, st) (if st \<noteq> UserActive then revoke_where e (\<lambda>x. se_user x = i) s1 else s1))))"

section \<open>Rebuilding the search index\<close>

text \<open>The rows after the cursor, in the order of the primary key.\<close>

definition after_cursor :: "id option \<Rightarrow> document_row list \<Rightarrow> document_row list" where
  "after_cursor cursor rows = (case cursor of None \<Rightarrow> rows | Some c \<Rightarrow> filter (\<lambda>d. c < d_id d) rows)"

text \<open>
  The loop of \<open>reindexSearch\<close> over the matching rows sorted by id: index a batch, move the
  cursor to its last row, stop at an empty or short batch.
\<close>

function reindex_loop ::
  "(document_row list \<Rightarrow> nat \<times> nat) \<Rightarrow> nat \<Rightarrow> document_row list \<Rightarrow> id option \<Rightarrow> nat \<times> nat \<Rightarrow> nat \<times> nat" where
  "reindex_loop index_docs bs rows cursor acc =
     (let batch = take bs (after_cursor cursor rows)
      in if batch = [] then acc
         else (let report = index_docs batch;
                   acc' = (fst acc + fst report, snd acc + snd report)
               in if length batch < bs then acc'
                  else reindex_loop index_docs bs rows (Some (d_id (last batch))) acc'))"
  by pat_completeness auto

lemma after_cursor_shorter:
  assumes "take bs (after_cursor cursor rows) \<noteq> []"
  shows "length (after_cursor (Some (d_id (last (take bs (after_cursor cursor rows))))) rows)
    < length (after_cursor cursor rows)"
proof -
  let ?xs = "after_cursor cursor rows"
  define d where "d = last (take bs ?xs)"
  have d: "d \<in> set ?xs" unfolding d_def using last_in_set [OF assms] by (rule in_set_takeD)
  have "after_cursor (Some (d_id d)) rows = filter (\<lambda>x. d_id d < d_id x) ?xs"
    using d by (auto simp: after_cursor_def intro!: filter_cong split: option.splits)
  moreover have "length (filter (\<lambda>x. d_id d < d_id x) ?xs) < length ?xs"
    using d by (intro length_filter_less) auto
  ultimately show ?thesis by (simp add: d_def)
qed

termination reindex_loop
  by (relation "measure (\<lambda>(_, _, rows, cursor, _). length (after_cursor cursor rows))")
    (simp_all add: after_cursor_shorter)

declare reindex_loop.simps [simp del]

record reindex_report =
  ri_total :: nat
  ri_indexed :: nat
  ri_failed :: nat
  ri_in_index :: "nat option"

definition reindex_rows :: "id option \<Rightarrow> db \<Rightarrow> document_row list" where
  "reindex_rows org s = sort_key d_id (filter (\<lambda>d. d_deleted d = None
     \<and> (case org of None \<Rightarrow> True | Some x \<Rightarrow> d_org d = x)) (documents s))"

definition reindex_search ::
  "(document_row list \<Rightarrow> nat \<times> nat) \<Rightarrow> nat option \<Rightarrow> auth_user \<Rightarrow> id option \<Rightarrow> int option \<Rightarrow> db
   \<Rightarrow> (reindex_report, db) res" where
  "reindex_search index_docs count u org batch_size s =
     (case assert_platform_admin u of
        Some err \<Rightarrow> fail err s
      | None \<Rightarrow>
        (let bs = nat (min (max (coalesce batch_size 200) 1) 500);
             rows = reindex_rows org s;
             report = reindex_loop index_docs bs rows None (0, 0)
         in ok \<lparr>ri_total = length rows, ri_indexed = fst report, ri_failed = snd report, ri_in_index = count\<rparr> s))"

section \<open>Metrics\<close>

record metrics =
  mt_organizations :: nat
  mt_users :: nat
  mt_documents :: nat
  mt_completed :: nat
  mt_active :: nat
  mt_audit :: nat

definition platform_metrics :: "env \<Rightarrow> auth_user \<Rightarrow> db \<Rightarrow> (metrics, db) res" where
  "platform_metrics e u s =
     (case assert_platform_admin u of
        Some err \<Rightarrow> fail err s
      | None \<Rightarrow> ok \<lparr>mt_organizations = count_rows (\<lambda>x. o_deleted x = None) (orgs s),
          mt_users = count_rows (\<lambda>x. u_deleted x = None) (users s),
          mt_documents = count_rows (\<lambda>d. d_deleted d = None) (documents s),
          mt_completed = count_rows (\<lambda>r. rq_status r = COMPLETED) (requests s),
          mt_active = count_rows (\<lambda>r. rq_status r = AWAITING_SIGNATURE \<or> rq_status r = IN_PROGRESS) (requests s),
          mt_audit = count_rows (\<lambda>x. e_now e - day_ms \<le> al_at x) (audit_logs s)\<rparr> s)"

end
