(* ===== verification/Session_Props.thy ===== *)
theory Session_Props
  imports Admin
begin

text \<open>
  Sessions over time: the operations that write the session table as a step relation, what a
  used or revoked refresh token can still do, and the sign-in of a suspended account.
\<close>

section \<open>The steps\<close>

text \<open>
  A step that opens a session stores the hash of a token that was never stored before: the
  token carries a random UUID and the hash is SHA-256.
\<close>

definition hashes_distinct :: "db \<Rightarrow> bool" where
  "hashes_distinct s \<longleftrightarrow> distinct (map se_hash (sessions s))"

inductive auth_step :: "db \<Rightarrow> db \<Rightarrow> bool" where
  Login: "hashes_distinct (snd (login_with_idp cf jl e c fp ip s)) \<Longrightarrow>
    auth_step s (snd (login_with_idp cf jl e c fp ip s))"
| Refresh: "hashes_distinct (snd (refresh cf jl e token fp ip s)) \<Longrightarrow>
    auth_step s (snd (refresh cf jl e token fp ip s))"
| Revoke: "auth_step s (revoke_session e token fp s)"
| Logout_All: "auth_step s (logout_all e uid s)"
| User_Status: "auth_step s (snd (set_user_status e u i st s))"
| Org_Status: "auth_step s (snd (set_organization_status e u i org_st s))"

inductive auth_steps :: "db \<Rightarrow> db \<Rightarrow> bool" where
  Refl: "auth_steps s s"
| Step: "auth_steps s t \<Longrightarrow> auth_step t r \<Longrightarrow> auth_steps s r"

definition session_next :: "session_row \<Rightarrow> session_row \<Rightarrow> bool" where
  "session_next x y \<longleftrightarrow> se_hash y = se_hash x \<and> se_user y = se_user x \<and> se_id y = se_id x
     \<and> (se_revoked x \<noteq> None \<longrightarrow> se_revoked y \<noteq> None)"

text \<open>Rows are never removed, only revoked, and never revived.\<close>

definition sessions_evolve :: "db \<Rightarrow> db \<Rightarrow> bool" where
  "sessions_evolve s t \<longleftrightarrow>
     (\<exists>olds news. sessions t = olds @ news \<and> list_all2 session_next (sessions s) olds)"

lemma evolve_same: "sessions t = sessions s \<Longrightarrow> sessions_evolve s t"
  unfolding sessions_evolve_def
  by (intro exI [of _ "sessions s"] exI [of _ "[]"]) (simp add: list_all2_same session_next_def)

lemma evolve_revoke: "sessions r = sessions s \<Longrightarrow> sessions_evolve s (revoke_where e p r)"
  unfolding sessions_evolve_def
  by (intro exI [of _ "sessions (revoke_where e p r)"] exI [of _ "[]"])
    (simp add: revoke_where_def update_many_def list_all2_map2 list_all2_same session_next_def)

lemma evolve_create: "sessions_evolve s r \<Longrightarrow> sessions_evolve s (create_session e uid token fp ip r)"
  unfolding sessions_evolve_def create_session_def by fastforce

lemma hashes_revoke [simp]:
  "map se_hash (sessions (revoke_where e p s)) = map se_hash (sessions s)"
  by (simp add: revoke_where_def update_many_def)

lemma evolve_open:
  "sessions_evolve s r \<Longrightarrow> sessions_evolve s (snd (open_token_session cf jl e uid email fp ip r))"
  by (auto simp: open_token_session_def evolve_create split: sum.split)

lemma upsert_sessions: "sessions (snd (upsert_user cf e c email s)) = sessions s"
  by (simp add: upsert_user_def split: option.split)

lemma evolve_login: "sessions_evolve s (snd (login_with_idp cf jl e c fp ip s))"
proof (cases "configured (map_option js_lower (ic_email c))")
  case (Some email)
  obtain v r where v: "upsert_user cf e c email s = (v, r)" by (cases "upsert_user cf e c email s")
  with upsert_sessions [of cf e c email s] have "sessions_evolve s r" by (simp add: evolve_same)
  with Some v show ?thesis
    by (cases v) (auto simp: login_with_idp_def evolve_open)
qed (simp add: login_with_idp_def evolve_same)

lemma evolve_refresh: "sessions_evolve s (snd (refresh cf jl e token fp ip s))"
  by (auto simp: refresh_def Let_def evolve_same evolve_open evolve_revoke split: sum.split option.split)

lemma evolve_status:
  "sessions_evolve s (snd (set_user_status e u i st s))"
  "sessions_evolve s (snd (set_organization_status e u i org_st s))"
  by (auto simp: set_user_status_def set_organization_status_def Let_def evolve_same evolve_revoke
      split: option.split)

lemma step_evolve: "auth_step s t \<Longrightarrow> sessions_evolve s t"
  by (induction rule: auth_step.induct)
    (simp_all add: evolve_login evolve_refresh evolve_status evolve_revoke revoke_session_def logout_all_def)

lemma status_hashes:
  "map se_hash (sessions (snd (set_user_status e u i st s))) = map se_hash (sessions s)"
  "map se_hash (sessions (snd (set_organization_status e u i org_st s))) = map se_hash (sessions s)"
  by (simp_all add: set_user_status_def set_organization_status_def Let_def split: option.split)

lemma step_distinct: "auth_step s t \<Longrightarrow> hashes_distinct s \<Longrightarrow> hashes_distinct t"
  by (induction rule: auth_step.induct)
    (simp_all add: hashes_distinct_def status_hashes revoke_session_def logout_all_def)

section \<open>Used-up tokens\<close>

definition used_up :: "string \<Rightarrow> db \<Rightarrow> bool" where
  "used_up h s \<longleftrightarrow> hashes_distinct s \<and> (\<exists>x \<in> set (sessions s). se_hash x = h \<and> se_revoked x \<noteq> None)"

lemma used_upI:
  "hashes_distinct s \<Longrightarrow> x \<in> set (sessions s) \<Longrightarrow> se_hash x = h \<Longrightarrow> se_revoked x \<noteq> None \<Longrightarrow> used_up h s"
  by (auto simp: used_up_def)

lemma used_up_step: "auth_step s t \<Longrightarrow> used_up h s \<Longrightarrow> used_up h t"
proof -
  assume step: "auth_step s t" and used: "used_up h s"
  from used obtain x where x: "x \<in> set (sessions s)" "se_hash x = h" "se_revoked x \<noteq> None"
    by (auto simp: used_up_def)
  from step_evolve [OF step] obtain olds news where
    t: "sessions t = olds @ news" "list_all2 session_next (sessions s) olds"
    by (auto simp: sessions_evolve_def)
  from x(1) obtain k where "k < length (sessions s)" "sessions s ! k = x" by (auto simp: in_set_conv_nth)
  with t(2) have "session_next x (olds ! k)" "olds ! k \<in> set olds"
    by (auto simp: list_all2_conv_all_nth)
  with x(2,3) t(1) step_distinct [OF step] used show "used_up h t"
    by (auto simp: used_up_def session_next_def intro!: bexI [of _ "olds ! k"])
qed

lemma used_up_steps: "auth_steps s t \<Longrightarrow> used_up h s \<Longrightarrow> used_up h t"
  by (induction rule: auth_steps.induct) (auto intro: used_up_step)

lemma used_up_refuses:
  assumes "used_up (fingerprint_hash e fp token) s"
  shows "\<not> succeeds (refresh cf jl e token fp ip s)"
proof -
  have "find (live_session e (fingerprint_hash e fp token) sub) (sessions s) = None" for sub
  proof -
    obtain x where x: "x \<in> set (sessions s)" "se_hash x = fingerprint_hash e fp token" "se_revoked x \<noteq> None"
      using assms by (auto simp: used_up_def)
    have "\<not> live_session e (fingerprint_hash e fp token) sub y" if "y \<in> set (sessions s)" for y
    proof
      assume l: "live_session e (fingerprint_hash e fp token) sub y"
      have "inj_on se_hash (set (sessions s))"
        using assms by (simp add: used_up_def hashes_distinct_def distinct_map)
      then have "y = x" by (rule inj_onD) (use l x that in \<open>simp_all add: live_session_def\<close>)
      with l x(3) show False by (simp add: live_session_def)
    qed
    then show ?thesis by (simp add: find_None_iff)
  qed
  then show ?thesis by (simp add: refresh_def split: sum.split option.split)
qed

lemma refresh_successE:
  assumes "refresh cf jl e token fp ip s = (Inr pair, s1)"
  obtains secret c x usr where "required_secret (af_refresh_secret cf) ''JWT_REFRESH_SECRET'' = Inr secret"
    "jl_hs256 jl secret (e_now e) token = Some c"
    "find (live_session e (fingerprint_hash e fp token) (coalesce (cl_sub c) [])) (sessions s) = Some x"
    "find_row u_id (se_user x) (users s) = Some usr" "u_status usr = UserActive"
    "issue_token_pair cf jl e (se_user x) (u_email usr) = Inr pair"
    "s1 = create_session e (se_user x) (tk_refresh pair) fp ip
       (revoke_where e (\<lambda>y. se_id y = se_id x \<and> se_revoked y = None) s)"
  using assms
  by (auto simp: refresh_def Let_def open_token_session_def
      split: sum.split_asm option.split_asm if_split_asm)

lemma refresh_uses_up:
  assumes "refresh cf jl e token fp ip s = (Inr pair, s1)" "hashes_distinct s1"
  shows "used_up (fingerprint_hash e fp token) s1"
proof -
  from assms(1) obtain sub x where
    x: "find (live_session e (fingerprint_hash e fp token) sub) (sessions s) = Some x"
    and s1: "s1 = create_session e (se_user x) (tk_refresh pair) fp ip
       (revoke_where e (\<lambda>y. se_id y = se_id x \<and> se_revoked y = None) s)"
    by (rule refresh_successE)
  from find_Some_iff_filter [OF x] have
    l: "x \<in> set (sessions s)" "se_hash x = fingerprint_hash e fp token" "se_revoked x = None"
    by (auto simp: live_session_def)
  then have "x\<lparr>se_revoked := Some (e_now e)\<rparr> \<in> set (sessions s1)"
    by (auto simp: s1 create_session_def revoke_where_def update_many_def image_iff intro!: bexI [of _ x])
  then show ?thesis by (rule used_upI [OF assms(2)]) (simp_all add: l(2))
qed

lemma suspended_uses_up:
  assumes "set_user_status e u i st s = (Inr v, s1)" "st \<noteq> UserActive" "hashes_distinct s"
    and "x \<in> set (sessions s)" "se_user x = i"
  shows "used_up (se_hash x) s1"
proof -
  have "sessions s1 = update_many (\<lambda>y. se_user y = i) (\<lambda>y. y\<lparr>se_revoked := Some (e_now e)\<rparr>) (sessions s)"
    using assms(1,2)
    by (auto simp: set_user_status_def Let_def revoke_where_def split: option.split_asm)
  moreover have "hashes_distinct s1"
    using assms(1,3) status_hashes(1) [of e u i st s] by (simp add: hashes_distinct_def)
  moreover from calculation(1) have "x\<lparr>se_revoked := Some (e_now e)\<rparr> \<in> set (sessions s1)"
    using assms(4,5) by (auto simp: update_many_def image_iff intro!: bexI [of _ x])
  ultimately show ?thesis by (intro used_upI [of s1 "x\<lparr>se_revoked := Some (e_now e)\<rparr>"]) simp_all
qed

section \<open>Properties\<close>

text \<open>
  C14: a refresh token works once: after a successful refresh the same token is refused with
  the same client, whatever sign-ins, refreshes, sign-outs and suspensions come in between and
  at whatever time it is tried.
\<close>

theorem refresh_token_single_use:
  assumes "refresh cf jl e token fp ip s = (Inr pair, s1)" "hashes_distinct s1"
    and "auth_steps s1 t" "e_sha256 e' = e_sha256 e"
  shows "\<not> succeeds (refresh cf' jl' e' token fp ip' t)"
  using used_up_refuses [of e' fp token t]
    used_up_steps [OF assms(3) refresh_uses_up [OF assms(1,2)]] assms(4)
  by (simp add: fingerprint_hash_def)

definition sample_config :: auth_config where
  "sample_config = \<lparr>af_access_secret = Some ''a'', af_refresh_secret = Some ''r'', af_issuer = None,
     af_client_id = None, af_client_secret = None, af_jwks_url = None, af_authorization_url = None,
     af_token_url = None, af_userinfo_url = None, af_redirect_uri = None, af_scopes = None,
     af_admin_group = None, af_cookie_domain = None\<rparr>"

definition refresh_claims :: claims where
  "refresh_claims = \<lparr>cl_sub = Some ''5'', cl_email = None, cl_type = Some ''refresh'', cl_next = None,
     cl_groups = None, cl_jti = None, cl_exp = None\<rparr>"

definition sample_jwt :: jwt_lib where
  "sample_jwt = \<lparr>jl_sign = (\<lambda>secret c. coalesce (cl_next c) (coalesce (cl_jti c) [])),
     jl_decode = (\<lambda>_. None),
     jl_hs256 = (\<lambda>secret now t. if t = ''tok'' then Some refresh_claims
       else Some \<lparr>cl_sub = None, cl_email = None, cl_type = Some ''oidc-state'', cl_next = Some t,
              cl_groups = None, cl_jti = None, cl_exp = Some (1000 + 10 * 60 * 1000)\<rparr>),
     jl_rs256 = (\<lambda>_ _ _ _ _. None)\<rparr>"

definition sample_session :: session_row where
  "sample_session = \<lparr>se_id = 7, se_user = 5, se_hash = ''h:ua:tok'', se_expires = 5000, se_revoked = None,
     se_ip = ''::1''\<rparr>"

definition session_db :: db where
  "session_db = empty_db\<lparr>next_id := 10, users := [sample_user], sessions := [sample_session]\<rparr>"

lemma sample_texts [simp]:
  "show_nat 5 = ''5''" "show_nat 1 = ''1''" "js_lower ''Ada@acme.test'' = ''ada@acme.test''"
  by code_simp+

lemma sample_refresh:
  "\<exists>pair s1. refresh sample_config sample_jwt sample_env ''tok'' ''ua'' ''::1'' session_db = (Inr pair, s1)
     \<and> hashes_distinct s1"
  by (simp add: refresh_def required_secret_def configured_def sample_config_def sample_jwt_def refresh_claims_def
      fingerprint_hash_def sample_env_def session_db_def sample_session_def live_session_def
      sample_user_def count_rows_def open_token_session_def issue_token_pair_def token_claims_def
      create_session_def revoke_where_def update_many_def hashes_distinct_def del: One_nat_def)

theorem refresh_token_single_use_witness:
  "\<not> succeeds (refresh sample_config sample_jwt sample_env ''tok'' ''ua'' ''::1''
     (snd (refresh sample_config sample_jwt sample_env ''tok'' ''ua'' ''::1'' session_db)))"
proof -
  obtain pair s1 where s1: "refresh sample_config sample_jwt sample_env ''tok'' ''ua'' ''::1'' session_db = (Inr pair, s1)"
    "hashes_distinct s1"
    using sample_refresh by blast
  from refresh_token_single_use [OF s1 auth_steps.Refl refl] show ?thesis unfolding s1(1) by simp
qed

text \<open>
  C25: once an administrator suspends or deactivates an account, every refresh token it had is
  refused from then on, also after the account signs in again.
\<close>

theorem suspension_ends_sessions:
  assumes "set_user_status e u i st s = (Inr v, s1)" "st \<noteq> UserActive" "hashes_distinct s"
    and "x \<in> set (sessions s)" "se_user x = i" "se_hash x = fingerprint_hash e' fp token"
    and "auth_steps s1 t"
  shows "\<not> succeeds (refresh cf jl e' token fp ip t)"
  using used_up_refuses used_up_steps [OF assms(7) suspended_uses_up [OF assms(1-5)]] assms(6) by metis

definition sample_admin :: auth_user where
  "sample_admin = sample_principal\<lparr>au_platform_role := PLATFORM_ADMIN\<rparr>"

theorem suspension_ends_sessions_witness:
  "\<not> succeeds (refresh sample_config sample_jwt sample_env ''tok'' ''ua'' ''::1''
     (snd (set_user_status sample_env sample_admin 5 UserSuspended session_db)))"
proof -
  obtain v s1 where s1: "set_user_status sample_env sample_admin 5 UserSuspended session_db = (Inr v, s1)"
    by (simp add: set_user_status_def assert_platform_admin_def sample_admin_def session_db_def sample_user_def)
  have "\<not> succeeds (refresh sample_config sample_jwt sample_env ''tok'' ''ua'' ''::1'' s1)"
    by (rule suspension_ends_sessions [OF s1 _ _ _ _ _ auth_steps.Refl, of sample_session])
      (simp_all add: hashes_distinct_def session_db_def sample_session_def fingerprint_hash_def sample_env_def)
  then show ?thesis unfolding s1 by simp
qed

text \<open>
  C36: signing in with the identity provider makes a suspended or deactivated account active
  again: the update runs before the status is looked at, so the check never refuses anyone.
\<close>

theorem suspended_account_signs_in:
  assumes "find (\<lambda>x. u_email x = email) (users s) = Some usr" "ic_email c = Some mail" "js_lower mail = email" "email \<noteq> []"
    and "\<forall>x \<in> set (users s). u_provider_id x = Some (ic_sub c) \<longrightarrow> u_email x = email"
    and "configured (af_access_secret cf) = Some a" "configured (af_refresh_secret cf) = Some r"
    and "distinct (map u_id (users s))"
  shows "succeeds (login_with_idp cf jl e c fp ip s)
    \<and> map_option u_status (find_row u_id (u_id usr) (users (snd (login_with_idp cf jl e c fp ip s)))) = Some UserActive"
proof -
  have mem: "usr \<in> set (users s)" using find_Some_iff_filter [OF assms(1)] by simp
  have "\<not> list_ex (\<lambda>x. u_provider_id x = Some (ic_sub c) \<and> u_email x \<noteq> email) (users s)"
    using assms(5) by (auto simp: list_ex_iff)
  then have up: "upsert_user cf e c email s = (Inr (apply_idp cf e c usr),
      s\<lparr>users := update_row u_id (u_id usr) (apply_idp cf e c) (users s)\<rparr>)"
    using assms(1) by (simp add: upsert_user_def)
  have em: "configured (map_option js_lower (ic_email c)) = Some email"
    using assms(2-4) by (simp add: configured_def)
  have id: "u_id (apply_idp cf e c x) = u_id x" for x by (simp add: apply_idp_def)
  have st: "u_status (apply_idp cf e c x) = UserActive" for x by (simp add: apply_idp_def)
  from up em assms(6,7) obtain pair where
    "login_with_idp cf jl e c fp ip s = (Inr pair, create_session e (u_id usr) (tk_refresh pair) fp ip
      (s\<lparr>users := update_row u_id (u_id usr) (apply_idp cf e c) (users s)\<rparr>))"
    by (auto simp: login_with_idp_def st id open_token_session_def issue_token_pair_def required_secret_def)
  then show ?thesis
    by (simp add: create_session_def find_row_update_row id find_row_distinct [OF assms(8) mem] st)
qed

theorem suspended_account_signs_in_witness:
  "map_option u_status (find_row u_id 5 (users (snd (login_with_idp sample_config sample_jwt sample_env
     \<lparr>ic_sub = ''x'', ic_email = Some ''Ada@acme.test'', ic_name = None, ic_groups = None\<rparr> ''ua'' ''::1''
     (session_db\<lparr>users := [sample_user\<lparr>u_status := UserSuspended\<rparr>]\<rparr>))))) = Some UserActive"
proof -
  let ?s = "session_db\<lparr>users := [sample_user\<lparr>u_status := UserSuspended\<rparr>]\<rparr>"
  let ?c = "\<lparr>ic_sub = ''x'', ic_email = Some ''Ada@acme.test'', ic_name = None, ic_groups = None\<rparr>"
  have "find (\<lambda>x. u_email x = ''ada@acme.test'') (users ?s) = Some (sample_user\<lparr>u_status := UserSuspended\<rparr>)"
    "u_id (sample_user\<lparr>u_status := UserSuspended\<rparr>) = 5" "u_provider_id sample_user = None"
    "configured (af_access_secret sample_config) = Some ''a''" "configured (af_refresh_secret sample_config) = Some ''r''"
    by (simp_all add: sample_user_def sample_config_def configured_def)
  with suspended_account_signs_in [of "''ada@acme.test''" ?s "sample_user\<lparr>u_status := UserSuspended\<rparr>" ?c
      "''Ada@acme.test''" sample_config "''a''" "''r''" sample_jwt sample_env "''ua''" "''::1''"]
  show ?thesis by simp
qed

section \<open>The login state\<close>

text \<open>
  the path a login returns to is always a path of the web app: it starts with one slash, has
  no backslash and no scheme or host separator, and asking again changes nothing.
\<close>

theorem safe_next_path_local:
  "prefix ''/'' (safe_next_path nxt) \<and> \<not> prefix ''//'' (safe_next_path nxt)
   \<and> backslash \<notin> set (safe_next_path nxt) \<and> CHR '':'' \<notin> set (safe_next_path nxt)
   \<and> safe_next_path (Some (safe_next_path nxt)) = safe_next_path nxt"
proof -
  have colon: "rejected_char (CHR '':'')" by (simp add: rejected_char_def)
  show ?thesis
  proof (cases "safe_next_path nxt = ''/''")
    case True
    then show ?thesis by (simp add: safe_next_path_def configured_def backslash_def rejected_char_def)
  next
    case False
    then obtain p where p: "nxt = Some p" "safe_next_path nxt = p" "prefix ''/'' p" "\<not> prefix ''//'' p"
      "backslash \<notin> set p" "\<not> list_ex rejected_char p"
      by (auto simp: safe_next_path_def configured_def split: option.splits if_split_asm)
    with colon show ?thesis by (auto simp: list_ex_iff)
  qed
qed

text \<open>
  the filter for control characters rejects ordinary paths instead: every path with a digit,
  an upper-case letter, a question mark, or one of the letters u and f is replaced by the root,
  while control characters pass.
\<close>

theorem login_return_path_lost:
  "safe_next_path (Some ''/documents'') = ''/''
   \<and> safe_next_path (Some ''/settings?tab=team'') = ''/''
   \<and> safe_next_path (Some [CHR ''/'', CHR 0x01, CHR 0x0A]) = [CHR ''/'', CHR 0x01, CHR 0x0A]
   \<and> safe_next_path (Some (CHR ''/'' # p)) =
       (if prefix ''/'' p \<or> list_ex (\<lambda>c. c = CHR ''u'' \<or> c = CHR ''f'' \<or> of_char c \<in> {48..92 :: nat}) p
        then ''/'' else CHR ''/'' # p)"
proof -
  have b: "backslash \<in> set p \<Longrightarrow> list_ex rejected_char p"
    by (auto simp: list_ex_iff backslash_def rejected_char_def intro!: bexI [of _ "CHR 0x5C"])
  have r: "rejected_char = (\<lambda>c. c = CHR ''u'' \<or> c = CHR ''f'' \<or> of_char c \<in> {48..92 :: nat})"
    by (simp add: rejected_char_def fun_eq_iff)
  have "safe_next_path (Some (CHR ''/'' # p)) =
      (if prefix ''/'' p \<or> list_ex rejected_char p then ''/'' else CHR ''/'' # p)"
    using b by (auto simp: safe_next_path_def configured_def backslash_def rejected_char_def)
  moreover have "safe_next_path (Some ''/documents'') = ''/''" "safe_next_path (Some ''/settings?tab=team'') = ''/''"
    "safe_next_path (Some [CHR ''/'', CHR 0x01, CHR 0x0A]) = [CHR ''/'', CHR 0x01, CHR 0x0A]"
    by code_simp+
  ultimately show ?thesis unfolding r by blast
qed

text \<open>
  the path stored in a login state is the path the callback returns to, whatever the caller
  asked for, provided the token library verifies what it signed.
\<close>

theorem login_state_roundtrip:
  assumes "create_login_state cf jl e nxt = Inr state"
    and "\<And>secret. jl_hs256 jl secret (e_now e') state = Some (state_claims e (safe_next_path nxt))"
  shows "parse_login_state cf jl e' state = Inr (safe_next_path nxt)"
  using assms safe_next_path_local [of nxt]
  by (auto simp: create_login_state_def parse_login_state_def state_claims_def split: sum.splits)


theorem login_state_roundtrip_witness:
  "parse_login_state sample_config sample_jwt sample_env ''/'' = Inr ''/''"
proof -
  have c: "create_login_state sample_config sample_jwt sample_env None = Inr ''/''"
    by (simp add: create_login_state_def required_secret_def configured_def sample_config_def sample_jwt_def
        state_claims_def safe_next_path_def)
  have "parse_login_state sample_config sample_jwt sample_env ''/'' = Inr (safe_next_path None)"
    by (rule login_state_roundtrip [OF c])
      (simp add: sample_jwt_def state_claims_def safe_next_path_def configured_def sample_env_def)
  then show ?thesis by (simp add: safe_next_path_def configured_def)
qed

end
