(* ===== verification/Access_Props.thy ===== *)
theory Access_Props
  imports Session_Props
begin

text \<open>
  What an API key can do, and that the rebuild of the search index covers every document.
\<close>

section \<open>API keys\<close>

lemma authenticate_success:
  assumes "authenticate_api_key e raw s = (Inr p, s')"
  shows "s' = s \<and> (\<exists>k. find (key_usable e s (e_sha256 e raw)) (api_keys s) = Some k
    \<and> au_platform_role p = PlatformUser
    \<and> au_org p = (case key_owner s k of None \<Rightarrow> None
       | Some x \<Rightarrow> Some \<lparr>tn_id = k_org k, tn_slug = [], tn_role = API_KEY, tn_permissions = k_scopes k\<rparr>))"
proof (cases "find (key_usable e s (e_sha256 e raw)) (api_keys s)")
  case (Some k)
  show ?thesis
  proof (cases "k_user k \<noteq> None \<and> key_owner s k = None")
    case True
    with Some assms show ?thesis by (simp add: authenticate_api_key_def)
  next
    case False
    with Some assms show ?thesis unfolding authenticate_api_key_def if_not_P [OF False] by auto
  qed
qed (use assms in \<open>simp add: authenticate_api_key_def\<close>)

lemma guarded_key:
  assumes "guarded cf jl e rt h s = (Inr (Some p), s')" "configured (hd_api_key h) = Some raw"
  shows "authenticate_api_key e raw s = (Inr p, s') \<and> permissions_guard rt (Some p) = None"
proof (cases "authenticate_api_key e raw s")
  case (Pair v t)
  show ?thesis
  proof (cases v)
    case (Inr q)
    with Pair assms show ?thesis
      by (auto simp: guarded_def jwt_guard_def split: option.split_asm)
  qed (use Pair assms in \<open>simp add: guarded_def jwt_guard_def\<close>)
qed


lemma find_last: "(\<And>x. x \<in> set xs \<Longrightarrow> \<not> p x) \<Longrightarrow> p y \<Longrightarrow> find p (xs @ [y]) = Some y"
  by (induction xs) auto

definition sample_org :: org_row where
  "sample_org = \<lparr>o_id = 1, o_name = ''Acme'', o_slug = ''acme'', o_legal_name = None, o_tax_id = None,
     o_status = OrgActive, o_branding = None, o_deleted = None\<rparr>"

definition sample_member :: membership_row where
  "sample_member = \<lparr>m_id = 3, m_org = 1, m_user = 5, m_role = OWNER, m_role_id = None\<rparr>"

definition access_db :: db where
  "access_db = empty_db\<lparr>next_id := 10, users := [sample_user], orgs := [sample_org], memberships := [sample_member]\<rparr>"

text \<open>
  a freshly created API key works: as long as its owner is an active member of the open
  organization, the plaintext returned once by \<open>create\<close> authenticates as that organization
  with exactly the scopes asked for, until the expiry asked for.
\<close>

theorem api_key_roundtrip:
  assumes c: "create_api_key e u name scopes days s = (Inr v, s')"
    and "x \<in> set (users s)" "au_id u = Some (u_id x)" "active_user x"
    and "mb \<in> set (memberships s)" "m_user mb = u_id x" "org_of u = Some (m_org mb)"
    and "y \<in> set (orgs s)" "o_id y = m_org mb" "o_status y = OrgActive" "o_deleted y = None"
    and "e_sha256 e' = e_sha256 e" "\<And>t. av_expires v = Some t \<Longrightarrow> e_now e' < t"
  shows "\<exists>p. authenticate_api_key e' (av_key v) s' = (Inr p, s') \<and> org_of p = org_of u
    \<and> granted_permissions p = coalesce scopes []"
proof -
  define k where "k = new_api_key e u (m_org mb) name scopes days (next_id s)"
  from c assms(3,7) have s': "s' = s\<lparr>next_id := next_id s + 1, api_keys := api_keys s @ [k]\<rparr>"
    and fresh: "k_hash k \<notin> k_hash ` set (api_keys s)"
    and v: "av_key v = ''sgn_'' @ e_rand e 0" "av_expires v = k_expires k"
    by (auto simp: create_api_key_def Let_def k_def split: if_split_asm)
  have k: "k_hash k = e_sha256 e' (av_key v)" "k_revoked k = None" "k_org k = m_org mb" "k_user k = Some (u_id x)"
    "k_scopes k = coalesce scopes []"
    using assms(3,12) v(1) by (simp_all add: k_def new_api_key_def Let_def)
  have "key_usable e' s' (e_sha256 e' (av_key v)) k"
    using assms(8-11,13) v(2) k by (auto simp: key_usable_def s' list_ex_iff split: option.split)
  moreover have "\<not> key_usable e' s' (e_sha256 e' (av_key v)) j" if "j \<in> set (api_keys s)" for j
    using fresh that k(1) by (auto simp: key_usable_def image_iff)
  ultimately have f: "find (key_usable e' s' (e_sha256 e' (av_key v))) (api_keys s') = Some k"
    by (simp add: s' find_last)
  have "find (\<lambda>z. u_id z = u_id x \<and> active_user z
      \<and> list_ex (\<lambda>mb'. m_user mb' = u_id x \<and> m_org mb' = k_org k
           \<and> list_ex (\<lambda>y. o_id y = k_org k \<and> (o_status y = OrgActive \<or> o_status y = OrgTrial)
                \<and> o_deleted y = None) (orgs s')) (memberships s')) (users s') \<noteq> None"
    using assms(2,4-6,8-11) k(3) by (auto simp: find_None_iff list_ex_iff s')
  then obtain z where "key_owner s' k = Some z" using k(4) by (auto simp: key_owner_def)
  with f k assms(7) show ?thesis
    by (auto simp: authenticate_api_key_def org_of_def granted_permissions_def)
qed

lemma sample_create_key:
  "\<exists>v s'. create_api_key sample_env sample_principal ''ci'' (Some [''documents.read'']) None access_db = (Inr v, s')
     \<and> av_expires v = None"
  by (simp add: create_api_key_def Let_def sample_principal_def org_of_def access_db_def empty_db_def new_api_key_def)

theorem api_key_roundtrip_witness:
  "\<exists>v s' p. create_api_key sample_env sample_principal ''ci'' (Some [''documents.read'']) None access_db = (Inr v, s')
     \<and> authenticate_api_key sample_env (av_key v) s' = (Inr p, s') \<and> granted_permissions p = [''documents.read'']"
proof -
  obtain v s' where c: "create_api_key sample_env sample_principal ''ci'' (Some [''documents.read'']) None access_db
      = (Inr v, s')" "av_expires v = None"
    using sample_create_key by blast
  have "\<exists>p. authenticate_api_key sample_env (av_key v) s' = (Inr p, s') \<and> org_of p = org_of sample_principal
      \<and> granted_permissions p = coalesce (Some [''documents.read'']) []"
    by (rule api_key_roundtrip [OF c(1), of sample_user sample_member sample_org])
      (use c(2) in \<open>simp_all add: access_db_def sample_user_def sample_principal_def active_user_def sample_member_def
        sample_org_def org_of_def\<close>)
  with c(1) show ?thesis by auto
qed

definition key_db :: db where
  "key_db = access_db\<lparr>api_keys := [\<lparr>k_id = 8, k_org = 1, k_user = Some 5, k_name = ''ci'', k_hash = ''h:sgn_1'',
     k_prefix = ''sgn_1'', k_scopes = [''documents.read''], k_expires = None, k_revoked = None\<rparr>]\<rparr>"

lemma sample_guarded:
  "\<exists>p. guarded sample_config sample_jwt sample_env
       \<lparr>rt_public = False, rt_tenant = True, rt_permissions = Some [''documents.read'']\<rparr>
       \<lparr>hd_api_key = Some ''sgn_1'', hd_authorization = None\<rparr> key_db = (Inr (Some p), key_db)"
  by (simp add: guarded_def jwt_guard_def configured_def authenticate_api_key_def key_usable_def key_db_def
      access_db_def sample_env_def sample_org_def key_owner_def sample_user_def active_user_def sample_member_def
      tenant_guard_def permissions_guard_def granted_permissions_def)


section \<open>The search index\<close>

text \<open>The reference: cut the rows into batches of at most \<open>n\<close> and add up their reports.\<close>

fun chunks :: "nat \<Rightarrow> 'a list \<Rightarrow> 'a list list" where
  "chunks n [] = []"
| "chunks n (x # xs) = take (max n 1) (x # xs) # chunks n (drop (max n 1) (x # xs))"

definition add_reports :: "(document_row list \<Rightarrow> nat \<times> nat) \<Rightarrow> document_row list list \<Rightarrow> nat \<times> nat" where
  "add_reports f bs = (sum_list (map (fst \<circ> f) bs), sum_list (map (snd \<circ> f) bs))"


lemma concat_chunks: "concat (chunks n xs) = xs"
  by (induction n xs rule: chunks.induct) (auto simp: append_take_drop_id simp del: take_Suc_Cons drop_Suc_Cons)

lemma chunks_bound: "0 < n \<Longrightarrow> b \<in> set (chunks n xs) \<Longrightarrow> length b \<le> n"
  by (induction n xs rule: chunks.induct) (auto simp: max_def)

lemma after_cursor_split:
  assumes "sorted_wrt (\<lambda>a b. d_id a < d_id b) (pre @ post)"
    and "cursor = (if pre = [] then None else Some (d_id (last pre)))"
  shows "after_cursor cursor (pre @ post) = post"
proof (cases "pre = []")
  case False
  then obtain ys y where pre: "pre = ys @ [y]" by (metis rev_exhaust)
  with assms(1) have "\<forall>x \<in> set ys. d_id x < d_id y" "\<forall>x \<in> set post. d_id y < d_id x"
    by (auto simp: sorted_wrt_append)
  with assms(2) pre show ?thesis
    by (auto simp: after_cursor_def filter_empty_conv filter_id_conv not_less less_imp_le)
qed (use assms in \<open>simp add: after_cursor_def\<close>)

lemma add_reports_simps:
  "add_reports f [] = (0, 0)"
  "add_reports f (b # bs) = (fst (f b) + fst (add_reports f bs), snd (f b) + snd (add_reports f bs))"
  by (simp_all add: add_reports_def)

lemma reindex_loop_chunks:
  assumes "0 < n" "sorted_wrt (\<lambda>a b. d_id a < d_id b) (pre @ post)"
    and "cursor = (if pre = [] then None else Some (d_id (last pre)))"
  shows "reindex_loop f n (pre @ post) cursor acc =
    (fst acc + fst (add_reports f (chunks n post)), snd acc + snd (add_reports f (chunks n post)))"
  using assms
proof (induction n post arbitrary: pre cursor acc rule: chunks.induct)
  case (1 n)
  then show ?case
    using after_cursor_split [OF 1(2,3)] by (subst reindex_loop.simps) (simp add: add_reports_simps)
next
  case (2 n x xs)
  define b where "b = take n (x # xs)"
  define r where "r = drop n (x # xs)"
  have n: "max n 1 = n" using 2(2) by simp
  have split: "x # xs = b @ r" by (simp add: b_def r_def)
  have b: "b \<noteq> []" using 2(2) by (simp add: b_def take_Cons split: nat.split)
  have ch: "chunks n (x # xs) = b # chunks n r" by (simp only: chunks.simps n b_def r_def)
  have ih: "reindex_loop f n (p @ r) c a =
      (fst a + fst (add_reports f (chunks n r)), snd a + snd (add_reports f (chunks n r)))"
    if "sorted_wrt (\<lambda>a b. d_id a < d_id b) (p @ r)" "c = (if p = [] then None else Some (d_id (last p)))" for p c a
    using 2(1) [unfolded n, folded r_def, OF 2(2) that] .
  let ?acc = "(fst acc + fst (f b), snd acc + snd (f b))"
  have loop: "reindex_loop f n (pre @ x # xs) cursor acc =
      (if length b < n then ?acc else reindex_loop f n (pre @ x # xs) (Some (d_id (last b))) ?acc)"
    using b by (subst reindex_loop.simps) (simp add: after_cursor_split [OF 2(3,4)] Let_def b_def [symmetric])
  show ?case
  proof (cases "length b < n")
    case True
    then have "r = []" unfolding b_def r_def by (simp add: min_def split: if_split_asm)
    with True show ?thesis unfolding loop ch by (simp add: add_reports_simps)
  next
    case False
    have "reindex_loop f n ((pre @ b) @ r) (Some (d_id (last b))) ?acc =
        (fst ?acc + fst (add_reports f (chunks n r)), snd ?acc + snd (add_reports f (chunks n r)))"
    proof (rule ih)
      show "sorted_wrt (\<lambda>a b. d_id a < d_id b) ((pre @ b) @ r)" using 2(3) by (simp only: split append_assoc)
    qed (use b in simp)
    then have "reindex_loop f n (pre @ x # xs) (Some (d_id (last b))) ?acc =
        (fst ?acc + fst (add_reports f (chunks n r)), snd ?acc + snd (add_reports f (chunks n r)))"
      by (simp only: split append_assoc)
    with False show ?thesis unfolding loop ch by (simp add: add_reports_simps)
  qed
qed


lemma reindex_rows_sorted:
  assumes "distinct (map d_id (documents s))"
  shows "sorted_wrt (\<lambda>a b. d_id a < d_id b) (reindex_rows org s)"
proof -
  have "distinct (map d_id (filter p (documents s)))" for p using assms by (rule distinct_map_filter)
  then have "sorted_wrt (<) (map d_id (reindex_rows org s))"
    unfolding reindex_rows_def strict_sorted_iff by (simp add: distinct_map)
  then show ?thesis by (simp add: sorted_wrt_map)
qed

text \<open>
  the rebuild of the search index submits every document that is not deleted exactly once,
  in batches of at most 500, whatever batch size is asked for, and reports the sums of what the
  search engine said about each batch.
\<close>

theorem reindex_covers_all:
  assumes "distinct (map d_id (documents s))" "au_platform_role u = PLATFORM_ADMIN"
  shows "\<exists>bs r. reindex_search f count u org batch_size s = (Inr r, s)
    \<and> concat bs = reindex_rows org s \<and> (\<forall>b \<in> set bs. length b \<le> 500)
    \<and> (ri_indexed r, ri_failed r) = add_reports f bs \<and> ri_total r = length (concat bs)"
proof -
  define n where "n = nat (min (max (coalesce batch_size 200) 1) 500)"
  have n: "0 < n" "n \<le> 500" by (auto simp: n_def)
  let ?bs = "chunks n (reindex_rows org s)"
  have "reindex_loop f n (reindex_rows org s) None (0, 0) = add_reports f ?bs"
    using reindex_loop_chunks [of n "[]" "reindex_rows org s" None f "(0, 0)"] n(1) reindex_rows_sorted [OF assms(1)]
    by simp
  moreover have "\<forall>b \<in> set ?bs. length b \<le> 500" using chunks_bound n by (blast intro: order_trans)
  ultimately show ?thesis
    using assms(2) by (intro exI [of _ ?bs] exI [of _ "\<lparr>ri_total = length (reindex_rows org s),
        ri_indexed = fst (add_reports f ?bs), ri_failed = snd (add_reports f ?bs), ri_in_index = count\<rparr>"] conjI)
      (simp_all add: reindex_search_def assert_platform_admin_def Let_def concat_chunks flip: n_def)
qed

theorem reindex_covers_all_witness:
  "\<exists>bs r. reindex_search (\<lambda>b. (length b, 0)) None sample_admin None None empty_db = (Inr r, empty_db)
    \<and> (ri_indexed r, ri_failed r) = add_reports (\<lambda>b. (length b, 0)) bs"
  using reindex_covers_all [of empty_db sample_admin "\<lambda>b. (length b, 0)" None None None]
  by (force simp: empty_db_def sample_admin_def)

end
