(* ===== verification/Organizations.thy ===== *)
theory Organizations
  imports Access
begin

text \<open>
  apps/api/src/modules/organizations and modules/users: the tenant itself, its workspaces and
  teams, its members. The \<open>createdAt\<close> order of a list is the order of creation of its rows.
\<close>

section \<open>Slugs\<close>

definition slug_char :: "char \<Rightarrow> bool" where
  "slug_char c \<longleftrightarrow> (97 \<le> (of_char c :: nat) \<and> (of_char c :: nat) \<le> 122)
     \<or> (48 \<le> (of_char c :: nat) \<and> (of_char c :: nat) \<le> 57) \<or> c = CHR ''-''"

text \<open>\<open>replace(/[^a-z0-9-]+/g, '-')\<close>: one dash for every run of other characters.\<close>

fun dash_runs :: "bool \<Rightarrow> string \<Rightarrow> string" where
  "dash_runs inside [] = []"
| "dash_runs inside (c # cs) =
     (if slug_char c then c # dash_runs False cs
      else if inside then dash_runs True cs else CHR ''-'' # dash_runs True cs)"

definition strip_dashes :: "string \<Rightarrow> string" where
  "strip_dashes x = rev (dropWhile (\<lambda>c. c = CHR ''-'') (rev (dropWhile (\<lambda>c. c = CHR ''-'') x)))"

definition slugify :: "string \<Rightarrow> string" where
  "slugify x = take 60 (strip_dashes (dash_runs False (js_lower x)))"

definition slug_candidate :: "string \<Rightarrow> nat \<Rightarrow> string" where
  "slug_candidate base i = (if i = 0 then base else take 56 base @ ''-'' @ show_nat (i + 1))"

definition unique_org_slug :: "string \<Rightarrow> db \<Rightarrow> http_error + string" where
  "unique_org_slug base s =
     (if base = [] then Inl (Conflict ''Could not derive a slug from the organization name'')
      else (case find (\<lambda>i. slug_candidate base i \<notin> o_slug ` set (orgs s)) [0..<20] of
              None \<Rightarrow> Inl (Conflict ''Could not allocate a unique slug, try a more specific name'')
            | Some i \<Rightarrow> Inr (slug_candidate base i)))"

section \<open>The active organization\<close>

definition tenant_role_of :: "auth_user \<Rightarrow> tenant_role option" where
  "tenant_role_of u = map_option tn_role (au_org u)"

definition assert_manager :: "auth_user \<Rightarrow> http_error option" where
  "assert_manager u = (if tenant_role_of u \<in> {Some (TenantRole OWNER), Some (TenantRole ADMIN), Some (TenantRole MANAGER)}
     then None else Some (Forbidden ''Insufficient role for this operation''))"

definition assert_admin :: "auth_user \<Rightarrow> http_error option" where
  "assert_admin u = (if tenant_role_of u \<in> {Some (TenantRole OWNER), Some (TenantRole ADMIN)}
     then None else Some (Forbidden ''Only owners and administrators can update the organization''))"

record org_view =
  ow_org :: org_row
  ow_account :: "(plan_code \<times> subscription_status \<times> int \<times> time option) option"
  ow_members :: nat
  ow_documents :: nat
  ow_workspaces :: nat

definition view_org :: "org_row \<Rightarrow> db \<Rightarrow> org_view" where
  "view_org x s = \<lparr>ow_org = x,
     ow_account = map_option (\<lambda>a. (ac_plan a, ac_status a, ac_seats a, ac_period_end a))
       (find (\<lambda>a. ac_org a = o_id x) (accounts s)),
     ow_members = count_rows (\<lambda>m. m_org m = o_id x) (memberships s),
     ow_documents = count_rows (\<lambda>d. d_org d = o_id x) (documents s),
     ow_workspaces = count_rows (\<lambda>w. w_org w = o_id x) (workspaces s)\<rparr>"

definition get_current :: "auth_user \<Rightarrow> db \<Rightarrow> (org_view, db) res" where
  "get_current u s =
     (case org_of u of
        None \<Rightarrow> fail (Forbidden ''No active tenant'') s
      | Some i \<Rightarrow> (case find_row o_id i (orgs s) of
                    None \<Rightarrow> fail (NotFound ''Organization not found'') s
                  | Some x \<Rightarrow> ok (view_org x s) s))"

record org_input =
  oi_name :: "string option"
  oi_legal_name :: "string option"
  oi_tax_id :: "string option"
  oi_branding :: "json option"

definition apply_org :: "org_input \<Rightarrow> org_row \<Rightarrow> org_row" where
  "apply_org inp x = x\<lparr>o_name := coalesce (oi_name inp) (o_name x),
     o_legal_name := coalesce_opt (oi_legal_name inp) (o_legal_name x),
     o_tax_id := coalesce_opt (oi_tax_id inp) (o_tax_id x),
     o_branding := coalesce_opt (oi_branding inp) (o_branding x)\<rparr>"

definition update_current :: "auth_user \<Rightarrow> org_input \<Rightarrow> db \<Rightarrow> (org_row, db) res" where
  "update_current u inp s =
     (case org_of u of
        None \<Rightarrow> fail (Forbidden ''No active tenant'') s
      | Some i \<Rightarrow>
        (case assert_admin u of
           Some err \<Rightarrow> fail err s
         | None \<Rightarrow>
           (case find_row o_id i (orgs s) of
              None \<Rightarrow> fail (InternalError ''Record to update not found'') s
            | Some x \<Rightarrow> ok (apply_org inp x) (s\<lparr>orgs := update_row o_id i (apply_org inp) (orgs s)\<rparr>))))"

section \<open>Workspaces and teams\<close>

definition list_workspaces :: "auth_user \<Rightarrow> db \<Rightarrow> workspace_row list" where
  "list_workspaces u s = filter (\<lambda>w. in_tenant u (w_org w)) (workspaces s)"

definition create_workspace ::
  "auth_user \<Rightarrow> string \<Rightarrow> string option \<Rightarrow> string option \<Rightarrow> visibility option \<Rightarrow> db \<Rightarrow> (workspace_row, db) res" where
  "create_workspace u name slug descr vis s =
     (case assert_manager u of
        Some err \<Rightarrow> fail err s
      | None \<Rightarrow>
        (case org_of u of
           None \<Rightarrow> fail missing_org_error s
         | Some org \<Rightarrow>
           (let w = \<lparr>w_id = next_id s, w_org = org, w_name = name, w_slug = coalesce slug (slugify name),
                     w_description = descr, w_visibility = coalesce vis VisOrganization, w_default = False,
                     w_created_by = au_id u\<rparr>
            in if au_id u = None then fail fk_error s
               else if list_ex (\<lambda>x. w_org x = org \<and> w_slug x = w_slug w) (workspaces s)
               then fail (InternalError ''Unique constraint failed: organizationId, slug'') s
               else ok w (s\<lparr>next_id := next_id s + 1, workspaces := workspaces s @ [w]\<rparr>))))"

definition workspace_in_tenant :: "auth_user \<Rightarrow> id option \<Rightarrow> db \<Rightarrow> bool" where
  "workspace_in_tenant u ws s = (case ws of None \<Rightarrow> True
     | Some i \<Rightarrow> list_ex (\<lambda>w. w_id w = i \<and> in_tenant u (w_org w)) (workspaces s))"

abbreviation workspace_error :: http_error where
  "workspace_error \<equiv> NotFound ''Workspace not found in the active organization''"

definition list_teams :: "auth_user \<Rightarrow> id option \<Rightarrow> db \<Rightarrow> ((team_row \<times> nat) list, db) res" where
  "list_teams u ws s =
     (if \<not> workspace_in_tenant u ws s then fail workspace_error s
      else ok (map (\<lambda>t. (t, count_rows (\<lambda>m. fst m = t_id t) (team_members s)))
                 (filter (\<lambda>t. in_tenant u (t_org t) \<and> (case ws of None \<Rightarrow> True | Some i \<Rightarrow> t_workspace t = Some i))
                    (teams s))) s)"

text \<open>\<open>createMany\<close> with \<open>skipDuplicates\<close>: the pairs that are not there yet, each once.\<close>

definition add_pairs :: "(id \<times> id) list \<Rightarrow> (id \<times> id) list \<Rightarrow> (id \<times> id) list" where
  "add_pairs new old = old @ filter (\<lambda>p. p \<notin> set old) (remdups new)"

definition create_team ::
  "auth_user \<Rightarrow> string \<Rightarrow> string option \<Rightarrow> id option \<Rightarrow> id list option \<Rightarrow> db \<Rightarrow> (team_row, db) res" where
  "create_team u name descr ws ids s =
     (case assert_manager u of
        Some err \<Rightarrow> fail err s
      | None \<Rightarrow>
        if \<not> workspace_in_tenant u ws s then fail workspace_error s
        else
          (let wanted = coalesce ids [];
               found = remdups (map m_user (filter (\<lambda>m. in_tenant u (m_org m) \<and> m_user m \<in> set wanted) (memberships s)))
           in if wanted \<noteq> [] \<and> length found \<noteq> length (remdups wanted)
              then fail (NotFound ''One or more team members are not in the active organization'') s
              else (case org_of u of
                 None \<Rightarrow> fail missing_org_error s
               | Some org \<Rightarrow>
                 (let t = \<lparr>t_id = next_id s, t_org = org, t_workspace = ws, t_name = name, t_description = descr\<rparr>
                  in ok t (s\<lparr>next_id := next_id s + 1, teams := teams s @ [t],
                       team_members := add_pairs (map (Pair (t_id t)) wanted) (team_members s)\<rparr>)))))"

section \<open>A new organization\<close>

definition create_organization ::
  "auth_user \<Rightarrow> string \<Rightarrow> string option \<Rightarrow> string option \<Rightarrow> db \<Rightarrow> (org_view, db) res" where
  "create_organization u nm slug legal s =
     (if au_org u \<noteq> None
      then fail (Conflict ''You already belong to an organization. New members join through an invite from its owner.'') s
      else
        (let name = js_trim nm
         in if length name < 2 then fail (Conflict ''Organization name is too short'') s
            else (case unique_org_slug (case configured slug of Some x \<Rightarrow> slugify x | None \<Rightarrow> slugify name) s of
               Inl err \<Rightarrow> fail err s
             | Inr sl \<Rightarrow>
               (let i = next_id s;
                    x = \<lparr>o_id = i, o_name = name, o_slug = sl, o_legal_name = configured (map_option js_trim legal),
                         o_tax_id = None, o_status = OrgActive, o_branding = None, o_deleted = None\<rparr>
                in (case au_id u of
                      None \<Rightarrow> fail fk_error s
                    | Some uid \<Rightarrow>
                      (let s' = s\<lparr>next_id := i + 4, orgs := orgs s @ [x],
                          memberships := memberships s @ [\<lparr>m_id = i + 1, m_org = i, m_user = uid, m_role = OWNER,
                             m_role_id = resolve_system_role OWNER s\<rparr>],
                          accounts := accounts s @ [\<lparr>ac_id = i + 2, ac_org = i, ac_plan = COMMUNITY,
                             ac_status = SubActive, ac_seats = 1, ac_period_end = None\<rparr>],
                          workspaces := workspaces s @ [\<lparr>w_id = i + 3, w_org = i, w_name = ''Default Workspace'',
                             w_slug = ''default'', w_description = None, w_visibility = VisOrganization,
                             w_default = True, w_created_by = Some uid\<rparr>]\<rparr>
                       in ok (view_org x s') s'))))))"

section \<open>Members\<close>

definition update_profile ::
  "auth_user \<Rightarrow> string option \<Rightarrow> string option \<Rightarrow> string option \<Rightarrow> db \<Rightarrow> (user_row, db) res" where
  "update_profile u name tz loc s =
     (let f = (\<lambda>x. x\<lparr>u_display_name := coalesce_opt name (u_display_name x),
                 u_timezone := coalesce tz (u_timezone x), u_locale := coalesce loc (u_locale x)\<rparr>)
      in (case au_id u of
            None \<Rightarrow> fail (InternalError ''Record to update not found'') s
          | Some i \<Rightarrow>
            (case find_row u_id i (users s) of
               None \<Rightarrow> fail (InternalError ''Record to update not found'') s
             | Some x \<Rightarrow> ok (f x) (s\<lparr>users := update_row u_id i f (users s)\<rparr>))))"

definition user_matches :: "string \<Rightarrow> user_row \<Rightarrow> bool" where
  "user_matches q x \<longleftrightarrow> js_includes (js_lower (u_email x)) (js_lower q)
     \<or> (case u_display_name x of None \<Rightarrow> False | Some n \<Rightarrow> js_includes (js_lower n) (js_lower q))"

definition list_members ::
  "auth_user \<Rightarrow> string option \<Rightarrow> membership_role option \<Rightarrow> nat option \<Rightarrow> nat option \<Rightarrow> db
   \<Rightarrow> (nat \<times> nat \<times> nat \<times> (membership_row \<times> user_row option) list, db) res" where
  "list_members u q role limit offset s =
     (case org_of u of
        None \<Rightarrow> fail (Forbidden ''No active tenant'') s
      | Some org \<Rightarrow>
        (let lim = min (coalesce limit 50) 200;
             ms = filter (\<lambda>m. m_org m = org \<and> (case role of None \<Rightarrow> True | Some r \<Rightarrow> m_role m = r)
                    \<and> (case configured q of None \<Rightarrow> True
                       | Some t \<Rightarrow> list_ex (\<lambda>x. u_id x = m_user m \<and> user_matches t x) (users s))) (memberships s)
         in ok (length ms, lim, coalesce offset 0,
                map (\<lambda>m. (m, find_row u_id (m_user m) (users s))) (page (coalesce offset 0) lim ms)) s))"

definition invited_user :: "string \<Rightarrow> id \<Rightarrow> user_row" where
  "invited_user email i = \<lparr>u_id = i, u_email = email, u_first_name = None, u_last_name = None,
     u_display_name = None, u_email_verified = None, u_mfa = False, u_status = UserInvited,
     u_platform_role = PlatformUser, u_provider_id = None, u_timezone = ''UTC'', u_locale = ''en'',
     u_last_login = None, u_deleted = None\<rparr>"

text \<open>The account with that e-mail, created on demand.\<close>

definition ensure_user :: "string \<Rightarrow> db \<Rightarrow> user_row \<times> db" where
  "ensure_user email s =
     (case find (\<lambda>x. u_email x = email) (users s) of
        Some x \<Rightarrow> (x, s)
      | None \<Rightarrow> (invited_user email (next_id s),
                 s\<lparr>next_id := next_id s + 1, users := users s @ [invited_user email (next_id s)]\<rparr>))"

definition invite_member ::
  "auth_user \<Rightarrow> string \<Rightarrow> membership_role \<Rightarrow> id list option \<Rightarrow> db
   \<Rightarrow> (id \<times> string \<times> membership_role \<times> user_status, db) res" where
  "invite_member u mail role wss s =
     (case org_of u of
        None \<Rightarrow> fail (Forbidden ''No active tenant'') s
      | Some org \<Rightarrow>
        (let email = js_trim (js_lower mail); wanted = coalesce wss []
         in if \<not> js_includes email ''@'' then fail (BadRequest ''Invalid email address'') s
            else if list_ex (\<lambda>m. m_org m = org \<and> list_ex (\<lambda>x. u_id x = m_user m \<and> u_email x = email) (users s))
                      (memberships s)
            then fail (Conflict ''User is already a member'') s
            else if wanted \<noteq> [] \<and> count_rows (\<lambda>w. w_org w = org \<and> w_id w \<in> set wanted) (workspaces s)
                      \<noteq> length (remdups wanted)
            then fail (NotFound ''One or more workspaces are not in the active organization'') s
            else (let (x, s1) = ensure_user email s;
                      m = \<lparr>m_id = next_id s1, m_org = org, m_user = u_id x, m_role = role,
                           m_role_id = resolve_system_role role s1\<rparr>
                  in if list_ex (\<lambda>y. m_org y = org \<and> m_user y = u_id x) (memberships s1)
                     then fail (InternalError ''Unique constraint failed: organizationId, userId'') s1
                     else ok (m_id m, email, role, u_status x)
                       (s1\<lparr>next_id := next_id s1 + 1, memberships := memberships s1 @ [m],
                          workspace_members := add_pairs (map (\<lambda>w. (w, u_id x)) wanted) (workspace_members s1)\<rparr>))))"

definition assert_can_manage :: "auth_user \<Rightarrow> http_error option" where
  "assert_can_manage u = (if tenant_role_of u \<noteq> Some (TenantRole OWNER) \<and> tenant_role_of u \<noteq> Some (TenantRole ADMIN)
     then Some (Forbidden ''Only organization owners and administrators can manage members'') else None)"

definition update_member_role ::
  "auth_user \<Rightarrow> id \<Rightarrow> membership_role \<Rightarrow> db \<Rightarrow> (membership_row, db) res" where
  "update_member_role u i role s =
     (case org_of u of
        None \<Rightarrow> fail (Forbidden ''No active tenant'') s
      | Some org \<Rightarrow>
        (case assert_can_manage u of
           Some err \<Rightarrow> fail err s
         | None \<Rightarrow>
           (let f = (\<lambda>m. m\<lparr>m_role := role, m_role_id := resolve_system_role role s\<rparr>)
            in (case find (\<lambda>m. m_id m = i \<and> m_org m = org) (memberships s) of
                  None \<Rightarrow> fail (InternalError ''Record to update not found'') s
                | Some m \<Rightarrow> ok (f m) (s\<lparr>memberships := update_row m_id i f (memberships s)\<rparr>)))))"

definition remove_member :: "auth_user \<Rightarrow> id \<Rightarrow> db \<Rightarrow> (unit, db) res" where
  "remove_member u i s =
     (case org_of u of
        None \<Rightarrow> fail (Forbidden ''No active tenant'') s
      | Some org \<Rightarrow>
        (case assert_can_manage u of
           Some err \<Rightarrow> fail err s
         | None \<Rightarrow>
           (case find_row m_id i (memberships s) of
              None \<Rightarrow> fail (NotFound ''Member not found'') s
            | Some m \<Rightarrow>
              if m_org m \<noteq> org then fail (NotFound ''Member not found'') s
              else if m_role m = OWNER then fail (BadRequest ''Cannot remove the organization owner'') s
              else ok () (s\<lparr>memberships := delete_many (\<lambda>m. m_id m = i) (memberships s)\<rparr>))))"

end
