(* ===== verification/Organization_Props.thy ===== *)
theory Organization_Props
  imports Organizations Net
begin

text \<open>
  The slugs of organizations, what founding an organization leaves behind, and the member table
  under every sequence of calls.
\<close>

section \<open>Slugs\<close>

lemma dash_runs_chars: "c \<in> set (dash_runs b x) \<Longrightarrow> slug_char c"
  by (induction b x rule: dash_runs.induct) (auto simp: slug_char_def split: if_split_asm)

lemma set_strip_dashes: "set (strip_dashes x) \<subseteq> set x"
  by (auto simp: strip_dashes_def dest!: set_dropWhileD)

lemma slugify_chars: "c \<in> set (slugify x) \<Longrightarrow> slug_char c"
  using set_strip_dashes dash_runs_chars by (fastforce simp: slugify_def dest: in_set_takeD)

lemma length_slugify: "length (slugify x) \<le> 60"
  by (simp add: slugify_def)

lemma strip_dashes_hd:
  assumes "strip_dashes x \<noteq> []"
  shows "hd (strip_dashes x) \<noteq> CHR ''-''"
proof -
  define y where "y = dropWhile (\<lambda>c. c = CHR ''-'') x"
  have "prefix (strip_dashes x) y"
    unfolding strip_dashes_def y_def [symmetric]
    using suffix_dropWhile [of "\<lambda>c. c = CHR ''-''" "rev y"] by (simp add: suffix_to_prefix)
  moreover from this assms have "y \<noteq> []" by auto
  ultimately have "hd (strip_dashes x) = hd y" using assms by (auto simp: prefix_def)
  then show ?thesis using hd_dropWhile [of "\<lambda>c. c = CHR ''-''" x] \<open>y \<noteq> []\<close> by (simp add: y_def)
qed

lemma slugify_hd: "slugify x \<noteq> [] \<Longrightarrow> hd (slugify x) \<noteq> CHR ''-''"
  unfolding slugify_def using strip_dashes_hd by (metis hd_take take_eq_Nil zero_less_numeral)

lemma digit_slug_char: "is_digit c \<Longrightarrow> slug_char c"
  by (simp add: is_digit_def slug_char_def Let_def)

lemma unique_org_slug_cases:
  assumes "unique_org_slug base s = Inr sl"
  obtains i where "i < 20" "sl = slug_candidate base i" "sl \<notin> o_slug ` set (orgs s)" "base \<noteq> []"
  using assms find_Some_iff_filter [of "\<lambda>i. slug_candidate base i \<notin> o_slug ` set (orgs s)" "[0..<20]"]
  by (auto simp: unique_org_slug_def split: if_split_asm option.split_asm)

lemma slug_candidate_chars:
  assumes "c \<in> set (slug_candidate base i)" "\<And>c. c \<in> set base \<Longrightarrow> slug_char c"
  shows "slug_char c"
  using assms digit_slug_char [OF show_nat_digits] by (auto simp: slug_candidate_def slug_char_def split: if_split_asm dest: in_set_takeD)

lemma slug_candidate_length:
  assumes "i < 20" "length base \<le> 60" "base \<noteq> []"
  shows "slug_candidate base i \<noteq> [] \<and> length (slug_candidate base i) \<le> 60
    \<and> hd (slug_candidate base i) = hd base"
  using assms length_show_nat_le [of "i + 1" 2] by (cases base) (auto simp: slug_candidate_def)

text \<open>
  a slug allocated for an organization is used by no other organization, has one to 60
  characters out of a-z, 0-9 and the dash, and does not start with a dash.
\<close>

theorem organization_slug_wellformed:
  assumes "unique_org_slug (slugify x) s = Inr sl"
  shows "sl \<notin> o_slug ` set (orgs s) \<and> sl \<noteq> [] \<and> length sl \<le> 60 \<and> hd sl \<noteq> CHR ''-''
    \<and> (\<forall>c \<in> set sl. slug_char c)"
proof -
  obtain i where i: "i < 20" "sl = slug_candidate (slugify x) i" "sl \<notin> o_slug ` set (orgs s)" "slugify x \<noteq> []"
    using unique_org_slug_cases [OF assms] .
  from slug_candidate_length [OF i(1) length_slugify i(4)] slugify_hd [OF i(4)]
    slug_candidate_chars [OF _ slugify_chars] i(2,3) show ?thesis by auto
qed

theorem organization_slug_wellformed_witness:
  "unique_org_slug (slugify ''--Ada & Sons, Ltd.'') empty_db = Inr ''ada-sons-ltd'' \<and> hd ''ada-sons-ltd'' \<noteq> CHR ''-''"
proof -
  have sl: "slugify ''--Ada & Sons, Ltd.'' = ''ada-sons-ltd''" by code_simp
  have u: "unique_org_slug (slugify ''--Ada & Sons, Ltd.'') empty_db = Inr ''ada-sons-ltd''"
    by (simp add: sl unique_org_slug_def empty_db_def upt_conv_Cons slug_candidate_def)
  from organization_slug_wellformed [OF u] u show ?thesis by simp
qed

section \<open>Founding an organization\<close>

text \<open>
  whoever founds an organization had none; the organization is new, its slug is free, its
  only member is the founder as OWNER, and it starts on the COMMUNITY plan with one seat and a
  default workspace.
\<close>

theorem founded_organization:
  assumes "create_organization u nm slug legal s = (Inr v, s')"
    and "\<And>m. m \<in> set (memberships s) \<Longrightarrow> m_org m < next_id s"
  shows "au_org u = None \<and> orgs s' = orgs s @ [ow_org v] \<and> o_slug (ow_org v) \<notin> o_slug ` set (orgs s)
    \<and> map (\<lambda>m. (Some (m_user m), m_role m)) (filter (\<lambda>m. m_org m = o_id (ow_org v)) (memberships s')) = [(au_id u, OWNER)]
    \<and> ow_members v = 1 \<and> ow_workspaces v \<ge> 1
    \<and> (\<exists>a. accounts s' = accounts s @ [a] \<and> ac_org a = o_id (ow_org v) \<and> ac_plan a = COMMUNITY \<and> ac_seats a = 1)"
proof -
  have none: "filter (\<lambda>m. m_org m = next_id s) (memberships s) = []"
    using assms(2) by (fastforce simp: filter_empty_conv)
  from assms(1) show ?thesis
    by (auto simp: create_organization_def Let_def view_org_def count_rows_def none
        elim!: unique_org_slug_cases split: if_split_asm option.split_asm sum.split_asm)
qed

theorem founded_organization_witness:
  "\<exists>v s'. create_organization (sample_principal\<lparr>au_org := None\<rparr>) ''Acme'' None None empty_db = (Inr v, s') \<and> ow_members v = 1"
proof -
  have sl: "slugify ''Acme'' = ''acme''" by code_simp
  have "\<exists>v s'. create_organization (sample_principal\<lparr>au_org := None\<rparr>) ''Acme'' None None empty_db = (Inr v, s')"
    by (simp add: create_organization_def sample_principal_def Let_def js_trim_def js_space_def configured_def sl
        unique_org_slug_def empty_db_def upt_conv_Cons slug_candidate_def)
  then obtain v s' where c: "create_organization (sample_principal\<lparr>au_org := None\<rparr>) ''Acme'' None None empty_db = (Inr v, s')"
    by blast
  from founded_organization [OF c] c show ?thesis by (auto simp: empty_db_def)
qed


section \<open>Members\<close>

datatype member_command =
    McInvite auth_user string membership_role "id list option"
  | McRole auth_user id membership_role
  | McRemove auth_user id

fun exec_member :: "member_command \<Rightarrow> id \<Rightarrow> db \<Rightarrow> db" where
  "exec_member (McInvite u mail role wss) t s = snd (invite_member (acting_for t u) mail role wss s)"
| "exec_member (McRole u i role) t s = snd (update_member_role (acting_for t u) i role s)"
| "exec_member (McRemove u i) t s = snd (remove_member (acting_for t u) i s)"

definition members_ok :: "db \<Rightarrow> bool" where
  "members_ok s \<longleftrightarrow> distinct (map m_id (memberships s)) \<and> distinct (map (\<lambda>m. (m_org m, m_user m)) (memberships s))
     \<and> distinct (map u_id (users s)) \<and> distinct (map u_email (users s))
     \<and> (\<forall>m \<in> set (memberships s). m_id m < next_id s) \<and> (\<forall>x \<in> set (users s). u_id x < next_id s)"

text \<open>The three writers, described by what they do to the two tables.\<close>

lemma ensure_user_effect:
  assumes "ensure_user email s = (x, s1)" "members_ok s"
  shows "members_ok s1 \<and> memberships s1 = memberships s"
proof (cases "find (\<lambda>x. u_email x = email) (users s)")
  case None
  then have "email \<notin> u_email ` set (users s)" by (auto simp: find_None_iff)
  moreover from assms(2) have "next_id s \<notin> u_id ` set (users s)" by (auto simp: members_ok_def)
  ultimately show ?thesis
    using assms None by (auto simp: ensure_user_def members_ok_def invited_user_def less_Suc_eq)
qed (use assms in \<open>auto simp: ensure_user_def\<close>)

lemma invite_member_effect:
  assumes "invite_member (acting_for t u) mail role wss s = (r, s')" "members_ok s"
  shows "members_ok s' \<and> (memberships s' = memberships s
    \<or> (\<exists>m. memberships s' = memberships s @ [m] \<and> m_org m = t))"
proof -
  obtain x s1 where x: "ensure_user (js_trim (js_lower mail)) s = (x, s1)" by fastforce
  note ok = ensure_user_effect [OF x assms(2)]
  from assms(1) consider "s' = s" | "s' = s1"
    | m wm where "s' = s1\<lparr>next_id := next_id s1 + 1, memberships := memberships s1 @ [m], workspace_members := wm\<rparr>"
      "m_id m = next_id s1" "m_org m = t" "m_user m = u_id x"
      "\<not> list_ex (\<lambda>y. m_org y = t \<and> m_user y = u_id x) (memberships s1)"
    by (auto simp: invite_member_def Let_def x split: if_split_asm)
  then show ?thesis
  proof cases
    case 3
    then have "m_id m \<notin> m_id ` set (memberships s1)"
      "(m_org m, m_user m) \<notin> (\<lambda>m. (m_org m, m_user m)) ` set (memberships s1)"
      using ok by (auto simp: members_ok_def list_ex_iff)
    with 3 ok show ?thesis by (auto simp: members_ok_def less_Suc_eq)
  qed (use ok assms(2) in auto)
qed

lemma update_member_role_effect:
  assumes "update_member_role (acting_for t u) i role s = (r, s')"
  shows "s' = s \<or> (\<exists>m f. m \<in> set (memberships s) \<and> m_id m = i \<and> m_org m = t \<and> s' = s\<lparr>memberships := update_row m_id i f (memberships s)\<rparr>
    \<and> (\<forall>m. m_id (f m) = m_id m \<and> m_org (f m) = m_org m \<and> m_user (f m) = m_user m))"
proof (cases "find (\<lambda>m. m_id m = i \<and> m_org m = t) (memberships s)")
  case (Some m)
  with find_Some_iff_filter [OF Some] assms show ?thesis
    by (auto simp: update_member_role_def Let_def split: option.split_asm
        intro!: exI [of _ m] exI [of _ "\<lambda>m. m\<lparr>m_role := role, m_role_id := resolve_system_role role s\<rparr>"])
qed (use assms in \<open>auto simp: update_member_role_def Let_def split: option.split_asm\<close>)

lemma remove_member_effect:
  assumes "remove_member (acting_for t u) i s = (r, s')"
  shows "s' = s \<or> (\<exists>m. m \<in> set (memberships s) \<and> m_id m = i \<and> m_org m = t
    \<and> s' = s\<lparr>memberships := delete_many (\<lambda>m. m_id m = i) (memberships s)\<rparr>)"
  using assms by (auto simp: remove_member_def dest: find_row_SomeD split: option.split_asm if_split_asm)

lemma map_update_row_same:
  "(\<And>r. f (g r) = f r) \<Longrightarrow> map f (update_row key i g rows) = map f rows"
  by (simp add: update_row_def)

lemma exec_member_ok: "members_ok s \<Longrightarrow> members_ok (exec_member c t s)"
proof (cases c)
  case (McInvite u mail role wss)
  then show "members_ok s \<Longrightarrow> ?thesis" using invite_member_effect [OF surjective_pairing] by simp
next
  case (McRole u i role)
  assume ok: "members_ok s"
  from update_member_role_effect [OF surjective_pairing, of t u i role s] show ?thesis
  proof (elim disjE exE conjE)
    fix f assume s': "snd (update_member_role (acting_for t u) i role s) = s\<lparr>memberships := update_row m_id i f (memberships s)\<rparr>"
      and f: "\<forall>m. m_id (f m) = m_id m \<and> m_org (f m) = m_org m \<and> m_user (f m) = m_user m"
    have "map m_id (update_row m_id i f (memberships s)) = map m_id (memberships s)"
      "map (\<lambda>m. (m_org m, m_user m)) (update_row m_id i f (memberships s)) = map (\<lambda>m. (m_org m, m_user m)) (memberships s)"
      using f by (simp_all add: map_update_row_same)
    then show ?thesis using ok f by (auto simp: McRole s' members_ok_def set_update_row)
  qed (use ok McRole in simp)
next
  case (McRemove u i)
  assume "members_ok s"
  with remove_member_effect [OF surjective_pairing, of t u i s] show ?thesis
    by (auto simp: McRemove members_ok_def delete_many_def distinct_map_filter)
qed

lemma exec_member_isolated:
  assumes ok: "members_ok s" and "t \<noteq> x"
  shows "filter (\<lambda>m. m_org m = x) (memberships (exec_member c t s)) = filter (\<lambda>m. m_org m = x) (memberships s)"
proof (cases c)
  case (McInvite u mail role wss)
  with invite_member_effect [OF surjective_pairing ok, of t u mail role wss] assms(2) show ?thesis by auto
next
  case (McRole u i role)
  from update_member_role_effect [OF surjective_pairing, of t u i role s] show ?thesis
    using filter_update_row_other [of m_id "memberships s" _ m_org x] assms by (auto simp: McRole members_ok_def)
next
  case (McRemove u i)
  from remove_member_effect [OF surjective_pairing, of t u i s] show ?thesis
    using filter_delete_other [of m_id "memberships s" _ m_org x] assms by (auto simp: McRemove members_ok_def)
qed

interpretation member_api: tenant_api memberships m_org members_ok exec_member
  by unfold_locales (rule exec_member_ok, assumption, rule exec_member_isolated)

definition run_members :: "(member_command \<times> id) list \<Rightarrow> db \<Rightarrow> db" where
  "run_members cmds s = foldl (\<lambda>s (c, t). exec_member c t s) s cmds"

text \<open>
  C26: however invitations, role changes and removals of any tenants interleave, nobody is ever
  twice a member of one organization, no two accounts share an e-mail, and a tenant that makes no
  call keeps exactly its members and their roles.
\<close>

theorem members_consistent:
  assumes "members_ok s"
  shows "distinct (map (\<lambda>m. (m_org m, m_user m)) (memberships (run_members cmds s)))
    \<and> distinct (map u_email (users (run_members cmds s)))
    \<and> (x \<in> snd ` set cmds \<or> filter (\<lambda>m. m_org m = x) (memberships (run_members cmds s)) =
         filter (\<lambda>m. m_org m = x) (memberships s))"
  using member_api.inv_run [OF assms, of cmds] member_api.run_isolated [OF assms, of x cmds]
  by (auto simp: members_ok_def run_members_def)

theorem members_consistent_witness:
  "distinct (map u_email (users (run_members [(McInvite sample_principal ''Bob@x.org '' MEMBER None, 1),
     (McInvite sample_principal ''bob@x.org'' ADMIN None, 2)] empty_db)))"
  using members_consistent [of empty_db "[(McInvite sample_principal ''Bob@x.org '' MEMBER None, 1),
     (McInvite sample_principal ''bob@x.org'' ADMIN None, 2)]"]
  by (simp add: members_ok_def empty_db_def)

text \<open>
  the rule that an owner cannot be removed does not protect the organization: an
  administrator can demote the owner and then remove them, so the organization can be left
  without any owner.
\<close>

theorem owner_removable_by_admin:
  assumes "members_ok s" "m \<in> set (memberships s)" "m_org m = org" "m_role m = OWNER"
    and "org_of u = Some org" "tenant_role_of u = Some (TenantRole ADMIN)"
  shows "fst (remove_member u (m_id m) s) = Inl (BadRequest ''Cannot remove the organization owner'')
    \<and> succeeds (update_member_role u (m_id m) MEMBER s)
    \<and> (let r = remove_member u (m_id m) (snd (update_member_role u (m_id m) MEMBER s))
        in succeeds r \<and> m_id m \<notin> m_id ` set (memberships (snd r)))"
proof -
  have manage: "assert_can_manage u = None" using assms(6) by (simp add: assert_can_manage_def)
  have row: "find_row m_id (m_id m) (memberships s) = Some m"
    using assms(1,2) by (intro find_row_distinct) (simp_all add: members_ok_def)
  define f :: "membership_row \<Rightarrow> membership_row" where "f = (\<lambda>m. m\<lparr>m_role := MEMBER, m_role_id := resolve_system_role MEMBER s\<rparr>)"
  have "\<exists>m'. find (\<lambda>m'. m_id m' = m_id m \<and> m_org m' = org) (memberships s) = Some m'"
    using assms(2,3) by (fastforce simp: find_None_iff simp flip: not_None_eq)
  then have up: "update_member_role u (m_id m) MEMBER s = (Inr m', s\<lparr>memberships := update_row m_id (m_id m) f (memberships s)\<rparr>)"
    if "m' = f (the (find (\<lambda>m'. m_id m' = m_id m \<and> m_org m' = org) (memberships s)))" for m'
    using that assms(5) manage by (auto simp: update_member_role_def Let_def f_def)
  have row': "find_row m_id (m_id m) (update_row m_id (m_id m) f (memberships s)) = Some (f m)"
    by (subst find_row_update_row) (simp_all add: row f_def)
  have fm: "m_org (f m) = org" "m_role (f m) = MEMBER" using assms(3) by (simp_all add: f_def)
  show ?thesis
    using assms(3-5) manage row row' fm
    by (auto simp: remove_member_def up [OF refl] Let_def image_iff)
qed

theorem owner_removable_by_admin_witness:
  "let u = sample_principal\<lparr>au_org := Some \<lparr>tn_id = 1, tn_slug = [], tn_role = TenantRole ADMIN, tn_permissions = []\<rparr>\<rparr>;
       s = empty_db\<lparr>next_id := 9, memberships := [\<lparr>m_id = 3, m_org = 1, m_user = 4, m_role = OWNER, m_role_id = None\<rparr>]\<rparr>
   in succeeds (remove_member u 3 (snd (update_member_role u 3 MEMBER s)))"
  using owner_removable_by_admin [of "empty_db\<lparr>next_id := 9, memberships := [\<lparr>m_id = 3, m_org = 1, m_user = 4,
      m_role = OWNER, m_role_id = None\<rparr>]\<rparr>" "\<lparr>m_id = 3, m_org = 1, m_user = 4, m_role = OWNER, m_role_id = None\<rparr>" 1
      "sample_principal\<lparr>au_org := Some \<lparr>tn_id = 1, tn_slug = [], tn_role = TenantRole ADMIN, tn_permissions = []\<rparr>\<rparr>"]
  by (simp add: members_ok_def empty_db_def org_of_def tenant_role_of_def Let_def)

end
