(* ===== verification/Billing.thy ===== *)
theory Billing
  imports Schema
begin

text \<open>
  apps/api/src/modules/billing/billing.service.ts: accounts, subscriptions, invoices, coupons.
  Amounts are integers in cents; \<open>Math.round(n / 100)\<close> is exact on them and written
  \<open>(n + 50) div 100\<close>. The order of plans by \<open>sortOrder\<close> and the creation time of a
  document are parameters; an account's document and storage limits are not kept.
\<close>

section \<open>Accounts\<close>

definition new_account :: "id \<Rightarrow> id \<Rightarrow> account_row" where
  "new_account i org = \<lparr>ac_id = i, ac_org = org, ac_plan = COMMUNITY, ac_status = SubActive, ac_seats = 1,
     ac_period_end = None\<rparr>"

definition get_account :: "auth_user \<Rightarrow> db \<Rightarrow> (account_row \<times> subscription_row list, db) res" where
  "get_account u s =
     (case org_of u of
        None \<Rightarrow> fail (Forbidden ''No active tenant'') s
      | Some org \<Rightarrow>
        (case find (\<lambda>a. ac_org a = org) (accounts s) of
           Some a \<Rightarrow> ok (a, rev (filter (\<lambda>x. sb_account x = ac_id a) (subscriptions s))) s
         | None \<Rightarrow> ok (new_account (next_id s) org, [])
             (s\<lparr>next_id := next_id s + 1, accounts := accounts s @ [new_account (next_id s) org]\<rparr>)))"

definition list_plans :: "(plan_row list \<Rightarrow> plan_row list) \<Rightarrow> db \<Rightarrow> plan_row list" where
  "list_plans by_sort_order s = by_sort_order (filter pl_active (plans s))"

section \<open>Coupons\<close>

definition apply_coupon :: "env \<Rightarrow> id \<Rightarrow> string \<Rightarrow> db \<Rightarrow> (int, db) res" where
  "apply_coupon e account code s =
     (case find (\<lambda>c. cp_code c = js_upper code) (coupons s) of
        None \<Rightarrow> fail (BadRequest ''Invalid coupon code'') s
      | Some c \<Rightarrow>
        if \<not> cp_active c then fail (BadRequest ''Invalid coupon code'') s
        else if (case cp_expires c of None \<Rightarrow> False | Some t \<Rightarrow> t < e_now e)
        then fail (BadRequest ''Coupon has expired'') s
        else if (case cp_max c of None \<Rightarrow> False | Some n \<Rightarrow> n \<le> cp_redeemed c)
        then fail (BadRequest ''Coupon has reached its redemption limit'') s
        else if (cp_id c, account) \<in> set (redemptions s)
        then fail (BadRequest ''Coupon already redeemed by this organization'') s
        else ok (if cp_type c = PERCENT then cp_value c else 0)
          (s\<lparr>redemptions := redemptions s @ [(cp_id c, account)],
             coupons := update_row cp_id (cp_id c) (\<lambda>c. c\<lparr>cp_redeemed := cp_redeemed c + 1\<rparr>) (coupons s)\<rparr>))"

section \<open>Subscribing\<close>

datatype period = Monthly | Yearly

record subscription_input =
  su_plan :: plan_code
  su_seats :: int
  su_coupon :: "string option"
  su_period :: "period option"

definition price_of :: "plan_row \<Rightarrow> subscription_input \<Rightarrow> int" where
  "price_of p inp = (if su_period inp = Some Yearly then pl_yearly p else pl_monthly p)"

definition amount_due :: "int \<Rightarrow> int \<Rightarrow> int \<Rightarrow> int" where
  "amount_due price seats discount = max 0 ((price * seats * (100 - discount) + 50) div 100)"

definition new_subscription ::
  "env \<Rightarrow> account_row \<Rightarrow> plan_row \<Rightarrow> subscription_input \<Rightarrow> id \<Rightarrow> subscription_row" where
  "new_subscription e a p inp i = \<lparr>sb_id = i, sb_account = ac_id a, sb_plan = pl_id p,
     sb_provider = (if e_billing_enabled e then ''stripe'' else ''local''),
     sb_provider_id = (if e_billing_enabled e then None else Some (''sub_'' @ e_rand e 0)),
     sb_status = (if e_billing_enabled e then SubTrialing else SubActive), sb_seats = su_seats inp,
     sb_start = e_now e, sb_end = e_now e + 30 * day_ms\<rparr>"

definition new_invoice ::
  "account_row \<Rightarrow> plan_row \<Rightarrow> subscription_input \<Rightarrow> int \<Rightarrow> id \<Rightarrow> id \<Rightarrow> invoice_row" where
  "new_invoice a p inp discount sub i = \<lparr>iv_id = i, iv_account = ac_id a, iv_subscription = sub,
     iv_amount = amount_due (price_of p inp) (su_seats inp) discount, iv_quantity = su_seats inp,
     iv_unit = price_of p inp, iv_discount = discount\<rparr>"

text \<open>The writes of a subscription once the discount is known.\<close>

definition perform_subscription ::
  "env \<Rightarrow> account_row \<Rightarrow> plan_row \<Rightarrow> subscription_input \<Rightarrow> int \<Rightarrow> db \<Rightarrow> db" where
  "perform_subscription e a p inp discount s =
     (let i = next_id s;
          s1 = s\<lparr>next_id := i + 1, subscriptions := subscriptions s @ [new_subscription e a p inp i]\<rparr>;
          s2 = (if amount_due (price_of p inp) (su_seats inp) discount > 0
                then s1\<lparr>next_id := i + 2, invoices := invoices s1 @ [new_invoice a p inp discount i (i + 1)]\<rparr>
                else s1)
      in s2\<lparr>accounts := update_row ac_id (ac_id a)
              (\<lambda>a. a\<lparr>ac_plan := pl_code p, ac_status := SubTrialing, ac_seats := su_seats inp\<rparr>) (accounts s2)\<rparr>)"

definition create_subscription ::
  "env \<Rightarrow> auth_user \<Rightarrow> subscription_input \<Rightarrow> db \<Rightarrow> (account_row \<times> subscription_row list, db) res" where
  "create_subscription e u inp s =
     (if org_of u = None then fail (Forbidden ''No active tenant'') s
      else if su_seats inp < 1 then fail (BadRequest ''Seats must be at least 1'') s
      else (case find (\<lambda>p. pl_code p = su_plan inp) (plans s) of
         None \<Rightarrow> fail (NotFound ''Plan not found'') s
       | Some p \<Rightarrow>
         if \<not> pl_active p then fail (NotFound ''Plan not found'') s
         else and_then (get_account u s) (\<lambda>(a, _) s.
           and_then (if coalesce (su_coupon inp) [] \<noteq> [] then apply_coupon e (ac_id a) (coalesce (su_coupon inp) []) s
                     else ok 0 s)
             (\<lambda>discount s. get_account u (perform_subscription e a p inp discount s)))))"

section \<open>Reports\<close>

definition list_invoices :: "auth_user \<Rightarrow> db \<Rightarrow> nat \<times> invoice_row list" where
  "list_invoices u s =
     (case find (\<lambda>a. in_tenant u (ac_org a)) (accounts s) of
        None \<Rightarrow> (0, [])
      | Some a \<Rightarrow> (let xs = filter (\<lambda>x. iv_account x = ac_id a) (invoices s) in (length xs, take 100 (rev xs))))"

record usage_report =
  us_start :: time
  us_plan :: plan_code
  us_documents :: nat
  us_completed :: nat
  us_members :: nat
  us_seats :: int

definition usage :: "env \<Rightarrow> (document_row \<Rightarrow> time) \<Rightarrow> auth_user \<Rightarrow> db \<Rightarrow> (usage_report, db) res" where
  "usage e created u s = and_then (get_account u s) (\<lambda>(a, _) s.
     (let start = coalesce (ac_period_end a) (e_now e) - 30 * day_ms
      in ok \<lparr>us_start = start, us_plan = ac_plan a,
           us_documents = count_rows (\<lambda>d. in_tenant u (d_org d) \<and> start \<le> created d) (documents s),
           us_completed = count_rows (\<lambda>r. in_tenant u (rq_org r) \<and> rq_status r = COMPLETED
              \<and> (case rq_completed r of None \<Rightarrow> False | Some t \<Rightarrow> start \<le> t)) (requests s),
           us_members = count_rows (\<lambda>m. in_tenant u (m_org m)) (memberships s),
           us_seats = ac_seats a\<rparr> s))"

section \<open>Coupon accounting\<close>

text \<open>
  The count on a coupon is the number of its redemption rows, never exceeds the limit, and
  no account redeemed a coupon twice.
\<close>

definition coupons_ok :: "db \<Rightarrow> bool" where
  "coupons_ok s \<longleftrightarrow> distinct (map cp_id (coupons s)) \<and> distinct (redemptions s)
     \<and> (\<forall>c \<in> set (coupons s). cp_redeemed c = length (filter (\<lambda>r. fst r = cp_id c) (redemptions s))
          \<and> (case cp_max c of None \<Rightarrow> True | Some n \<Rightarrow> cp_redeemed c \<le> n))"

lemma apply_coupon_ok:
  assumes "apply_coupon e account code s = (r, s')" "coupons_ok s"
  shows "coupons_ok s'"
proof (cases "s' = s")
  case False
  with assms(1) obtain c where c: "find (\<lambda>c. cp_code c = js_upper code) (coupons s) = Some c"
    "\<not> (case cp_max c of None \<Rightarrow> False | Some n \<Rightarrow> n \<le> cp_redeemed c)" "(cp_id c, account) \<notin> set (redemptions s)"
    and s': "s' = s\<lparr>redemptions := redemptions s @ [(cp_id c, account)],
      coupons := update_row cp_id (cp_id c) (\<lambda>c. c\<lparr>cp_redeemed := cp_redeemed c + 1\<rparr>) (coupons s)\<rparr>"
    by (auto simp: apply_coupon_def split: option.split_asm if_split_asm)
  have mem: "c \<in> set (coupons s)" using find_Some_iff_filter [OF c(1)] by simp
  have same: "d = c" if "d \<in> set (coupons s)" "cp_id d = cp_id c" for d
    using assms(2) mem that by (auto simp: coupons_ok_def distinct_map dest: inj_onD)
  have row: "cp_redeemed d = length (filter (\<lambda>r. fst r = cp_id d) (redemptions s))
      \<and> (case cp_max d of None \<Rightarrow> True | Some n \<Rightarrow> cp_redeemed d \<le> n)" if "d \<in> set (coupons s)" for d
    using assms(2) that by (simp add: coupons_ok_def)
  have "distinct (map cp_id (coupons s'))" "distinct (redemptions s')"
    using assms(2) c(3) by (simp_all add: coupons_ok_def s')
  moreover have "cp_redeemed d = length (filter (\<lambda>r. fst r = cp_id d) (redemptions s'))
      \<and> (case cp_max d of None \<Rightarrow> True | Some n \<Rightarrow> cp_redeemed d \<le> n)" if "d \<in> set (coupons s')" for d
  proof -
    from that consider "d \<in> set (coupons s)" "cp_id d \<noteq> cp_id c"
      | d' where "d' \<in> set (coupons s)" "cp_id d' = cp_id c" "d = d'\<lparr>cp_redeemed := cp_redeemed d' + 1\<rparr>"
      by (auto simp: s' set_update_row)
    then show ?thesis
    proof cases
      case 2
      with same [OF 2(1,2)] row [OF mem] c(2) show ?thesis by (auto simp: s' split: option.splits)
    qed (use row in \<open>simp add: s'\<close>)
  qed
  ultimately show ?thesis unfolding coupons_ok_def by blast
qed (use assms in simp)

lemma coupons_ok_frame: "coupons t = coupons s \<Longrightarrow> redemptions t = redemptions s \<Longrightarrow> coupons_ok t = coupons_ok s"
  by (simp add: coupons_ok_def)

lemma get_account_frame:
  "coupons (snd (get_account u s)) = coupons s" "redemptions (snd (get_account u s)) = redemptions s"
  "invoices (snd (get_account u s)) = invoices s" "subscriptions (snd (get_account u s)) = subscriptions s"
  by (simp_all add: get_account_def split: option.split)

lemma perform_subscription_frame:
  "coupons (perform_subscription e a p inp d s) = coupons s" "redemptions (perform_subscription e a p inp d s) = redemptions s"
  by (simp_all add: perform_subscription_def Let_def)

lemma create_subscription_cases:
  assumes "create_subscription e u inp s = (r, s')"
  obtains (refused) err where "r = Inl err" "s' = s"
    | (coupon) a subs s1 err where "get_account u s = (Inr (a, subs), s1)" "r = Inl err"
        "apply_coupon e (ac_id a) (coalesce (su_coupon inp) []) s1 = (Inl err, s')"
    | (subscribed) p a subs s1 d s2 where "find (\<lambda>p. pl_code p = su_plan inp) (plans s) = Some p" "1 \<le> su_seats inp"
        "get_account u s = (Inr (a, subs), s1)" "(d, s2) = (0, s1) \<or>
          apply_coupon e (ac_id a) (coalesce (su_coupon inp) []) s1 = (Inr d, s2)"
        "get_account u (perform_subscription e a p inp d s2) = (r, s')"
proof (cases "get_account u s")
  case (Pair ga s1)
  show thesis
  proof (cases ga)
    case (Inl err)
    with Pair have "org_of u = None" by (auto simp: get_account_def split: option.split_asm)
    with assms show thesis by (intro refused) (auto simp: create_subscription_def)
  next
    case (Inr asubs)
    obtain a subs where a: "asubs = (a, subs)" by (cases asubs)
    obtain ac s2 where ac: "apply_coupon e (ac_id a) (coalesce (su_coupon inp) []) s1 = (ac, s2)" by fastforce
    show thesis
    proof (cases "org_of u = None \<or> su_seats inp < 1 \<or> (\<forall>p. find (\<lambda>p. pl_code p = su_plan inp) (plans s) = Some p \<longrightarrow> \<not> pl_active p)")
      case True
      with assms have "\<exists>err. r = Inl err \<and> s' = s"
        by (auto simp: create_subscription_def split: if_split_asm option.split_asm)
      then show thesis using refused by blast
    next
      case False
      then obtain p where p: "find (\<lambda>p. pl_code p = su_plan inp) (plans s) = Some p" "pl_active p" "1 \<le> su_seats inp"
        and org: "org_of u \<noteq> None" "\<not> su_seats inp < 1" by auto
      have eq: "create_subscription e u inp s = and_then (if coalesce (su_coupon inp) [] \<noteq> [] then (ac, s2) else ok 0 s1)
          (\<lambda>d s. get_account u (perform_subscription e a p inp d s))"
        using p org Pair Inr a ac by (auto simp: create_subscription_def)
      show thesis
      proof (cases "coalesce (su_coupon inp) [] = []")
        case True
        with eq assms Pair Inr a show thesis by (intro subscribed [OF p(1,3), of a subs s1 0 s1]) simp_all
      next
        case False
        show thesis
        proof (cases ac)
          case (Inl err)
          with False eq assms Pair \<open>ga = Inr asubs\<close> a ac show thesis by (intro coupon [of a subs s1 err]) simp_all
        next
          case (Inr d)
          with False eq assms Pair \<open>ga = Inr asubs\<close> a ac show thesis
            by (intro subscribed [OF p(1,3), of a subs s1 d s2]) simp_all
        qed
      qed
    qed
  qed
qed

section \<open>Properties\<close>

lemma create_subscription_coupons:
  assumes "coupons_ok s"
  shows "coupons_ok (snd (create_subscription e u inp s))"
proof -
  obtain r s' where c: "create_subscription e u inp s = (r, s')" by fastforce
  have frame: "coupons_ok s1" if "get_account u s = (v, s1)" for v s1
    using assms get_account_frame(1,2) [of u s] that coupons_ok_frame [of s1 s] by simp
  from c show ?thesis
  proof (cases rule: create_subscription_cases)
    case (coupon a subs s1 err)
    with apply_coupon_ok [OF coupon(3) frame [OF coupon(1)]] c show ?thesis by simp
  next
    case (subscribed p a subs s1 d s2)
    have "coupons_ok s2" using subscribed(4) apply_coupon_ok [OF _ frame [OF subscribed(3)]] frame [OF subscribed(3)] by auto
    then have "coupons_ok (perform_subscription e a p inp d s2)"
      by (simp add: coupons_ok_def perform_subscription_frame)
    moreover have "coupons_ok s' = coupons_ok (perform_subscription e a p inp d s2)"
      using get_account_frame(1,2) [of u "perform_subscription e a p inp d s2"] subscribed(5)
      by (intro coupons_ok_frame) simp_all
    ultimately show ?thesis using c by simp
  qed (use assms c in simp)
qed

definition run_subscriptions :: "(env \<times> auth_user \<times> subscription_input) list \<Rightarrow> db \<Rightarrow> db" where
  "run_subscriptions calls s = foldl (\<lambda>s (e, u, inp). snd (create_subscription e u inp s)) s calls"

text \<open>
  C22: however often tenants subscribe with coupons, the redemption count of a coupon is the
  number of accounts that redeemed it, each once, and never exceeds its limit.
\<close>

theorem coupon_limit_kept:
  assumes "coupons_ok s"
    and "c \<in> set (coupons (run_subscriptions calls s))"
  shows "cp_redeemed c = length (filter (\<lambda>r. fst r = cp_id c) (redemptions (run_subscriptions calls s)))
    \<and> distinct (redemptions (run_subscriptions calls s)) \<and> (cp_max c = None \<or> cp_redeemed c \<le> the (cp_max c))"
proof -
  have "coupons_ok (run_subscriptions calls s)"
    using assms(1) unfolding run_subscriptions_def
    by (induction calls arbitrary: s) (auto simp: create_subscription_coupons)
  with assms(2) show ?thesis unfolding coupons_ok_def by (cases "cp_max c") auto
qed

definition sample_coupon :: coupon_row where
  "sample_coupon = \<lparr>cp_id = 2, cp_code = ''TEN'', cp_type = PERCENT, cp_value = 10, cp_active = True,
     cp_expires = None, cp_max = Some 1, cp_redeemed = 0\<rparr>"

definition billing_db :: db where
  "billing_db = empty_db\<lparr>next_id := 10, coupons := [sample_coupon],
     plans := [\<lparr>pl_id = 3, pl_code = BUSINESS, pl_name = ''Business'', pl_monthly = 2999, pl_yearly = 29999, pl_active = True\<rparr>]\<rparr>"

definition sample_subscription :: subscription_input where
  "sample_subscription = \<lparr>su_plan = BUSINESS, su_seats = 3, su_coupon = Some ''ten'', su_period = None\<rparr>"

lemma billing_db_ok: "coupons_ok billing_db"
  by (simp add: coupons_ok_def billing_db_def sample_coupon_def empty_db_def)

lemma upper_ten [simp]: "js_upper ''ten'' = ''TEN''"
  by code_simp

lemma sample_subscribed:
  "\<exists>r s' a subs s1 s2. create_subscription sample_env sample_principal sample_subscription billing_db = (Inr r, s')
     \<and> coupons s' = [sample_coupon\<lparr>cp_redeemed := 1\<rparr>]"
  by (simp add: create_subscription_def sample_subscription_def sample_principal_def org_of_def billing_db_def
      get_account_def new_account_def empty_db_def apply_coupon_def sample_coupon_def update_row_def
      perform_subscription_def Let_def)

theorem coupon_limit_kept_witness:
  "\<exists>c. coupons (run_subscriptions [(sample_env, sample_principal, sample_subscription)] billing_db) = [c] \<and> cp_redeemed c \<le> 1"
proof -
  let ?t = "run_subscriptions [(sample_env, sample_principal, sample_subscription)] billing_db"
  obtain c where c: "coupons ?t = [c]" "cp_max c = Some 1"
    using sample_subscribed by (auto simp: run_subscriptions_def sample_coupon_def)
  from coupon_limit_kept [OF billing_db_ok, of c "[(sample_env, sample_principal, sample_subscription)]"] c
  show ?thesis by simp
qed



end
