(* ===== verification/Audit_Log.thy ===== *)
theory Audit_Log
  imports Schema Dates
begin

text \<open>
  apps/api/src/modules/audit/audit.service.ts and common/interceptors/audit.interceptor.ts: the
  audit log, its CSV export and the rows written for mutating requests. \<open>JSON.stringify\<close> is a
  parameter.
\<close>

section \<open>Queries\<close>

record audit_query =
  aq_action :: "string option"
  aq_resource_type :: "string option"
  aq_resource_id :: "string option"
  aq_outcome :: "audit_outcome option"
  aq_actor_email :: "string option"
  aq_from :: "time option"
  aq_to :: "time option"
  aq_limit :: "nat option"
  aq_offset :: "nat option"

definition truthy_filter :: "string option \<Rightarrow> (string \<Rightarrow> bool) \<Rightarrow> bool" where
  "truthy_filter q p = (case q of None \<Rightarrow> True | Some x \<Rightarrow> x = [] \<or> p x)"

definition in_range :: "time option \<Rightarrow> time option \<Rightarrow> time \<Rightarrow> bool" where
  "in_range lo hi t \<longleftrightarrow> (case lo of None \<Rightarrow> True | Some x \<Rightarrow> x \<le> t) \<and> (case hi of None \<Rightarrow> True | Some x \<Rightarrow> t \<le> x)"

definition audit_matches :: "id \<Rightarrow> audit_query \<Rightarrow> audit_row \<Rightarrow> bool" where
  "audit_matches org q r \<longleftrightarrow> al_org r = Some org
     \<and> truthy_filter (aq_action q) (\<lambda>x. js_includes (al_action r) x)
     \<and> truthy_filter (aq_resource_type q) (\<lambda>x. al_resource_type r = x)
     \<and> truthy_filter (aq_resource_id q) (\<lambda>x. al_resource_id r = Some x)
     \<and> (case aq_outcome q of None \<Rightarrow> True | Some x \<Rightarrow> al_outcome r = x)
     \<and> truthy_filter (aq_actor_email q) (\<lambda>x. al_actor_email r = Some x)
     \<and> in_range (aq_from q) (aq_to q) (al_at r)"

definition list_audit :: "auth_user \<Rightarrow> audit_query \<Rightarrow> db \<Rightarrow> (nat \<times> audit_row list, db) res" where
  "list_audit u q s =
     (case org_of u of
        None \<Rightarrow> fail (Forbidden ''No active tenant'') s
      | Some org \<Rightarrow>
        (let rows = filter (audit_matches org q) (audit_logs s)
         in ok (length rows, page (coalesce (aq_offset q) 0) (min (coalesce (aq_limit q) 100) 500) (rev rows)) s))"

section \<open>CSV export\<close>

definition csv_escape :: "string \<Rightarrow> string" where
  "csv_escape v = [CHR 0x22] @ concat (map (\<lambda>c. if c = CHR 0x22 then [c, c] else [c]) v) @ [CHR 0x22]"

definition outcome_name :: "audit_outcome \<Rightarrow> string" where
  "outcome_name x = (case x of AuditSuccess \<Rightarrow> ''SUCCESS'' | AuditFailure \<Rightarrow> ''FAILURE'' | AuditDenied \<Rightarrow> ''DENIED'')"

definition csv_columns :: "string list" where
  "csv_columns = [''timestamp'', ''actor'', ''action'', ''resourceType'', ''resourceId'', ''outcome'',
     ''ipAddress'', ''userAgent'', ''metadata'']"

definition csv_values :: "(json \<Rightarrow> string) \<Rightarrow> audit_row \<Rightarrow> string list" where
  "csv_values str r = [to_iso (al_at r), coalesce (al_actor_email r) [], al_action r, al_resource_type r,
     coalesce (al_resource_id r) [], outcome_name (al_outcome r), coalesce (al_ip r) [],
     coalesce (al_agent r) [], str (coalesce (al_meta r) (JObj []))]"

definition export_rows ::
  "auth_user \<Rightarrow> time option \<Rightarrow> time option \<Rightarrow> string option \<Rightarrow> db \<Rightarrow> audit_row list" where
  "export_rows u lo hi action s = take 50000 (filter (\<lambda>r.
     (case org_of u of None \<Rightarrow> True | Some org \<Rightarrow> al_org r = Some org)
     \<and> truthy_filter action (\<lambda>x. js_includes (al_action r) x) \<and> in_range lo hi (al_at r)) (audit_logs s))"

definition export_audit ::
  "(json \<Rightarrow> string) \<Rightarrow> auth_user \<Rightarrow> time option \<Rightarrow> time option \<Rightarrow> string option \<Rightarrow> db \<Rightarrow> string" where
  "export_audit str u lo hi action s =
     js_join [CHR 0x0A] (js_join '','' csv_columns
       # map (\<lambda>r. js_join '','' (map csv_escape (csv_values str r))) (export_rows u lo hi action s))"

section \<open>Writing rows\<close>

record audit_input =
  ai_org :: "id option"
  ai_actor :: "id option"
  ai_actor_email :: "string option"
  ai_action :: string
  ai_resource_type :: string
  ai_resource_id :: "string option"
  ai_outcome :: "audit_outcome option"
  ai_meta :: "json option"
  ai_ip :: "string option"
  ai_agent :: "string option"

definition record_audit :: "env \<Rightarrow> audit_input \<Rightarrow> db \<Rightarrow> db" where
  "record_audit e inp s = s\<lparr>audit_logs := audit_logs s @ [\<lparr>al_org = ai_org inp, al_actor = ai_actor inp,
     al_actor_email = ai_actor_email inp, al_action = ai_action inp,
     al_resource_type = ai_resource_type inp, al_resource_id = ai_resource_id inp,
     al_outcome = coalesce (ai_outcome inp) AuditSuccess, al_meta = ai_meta inp, al_ip = ai_ip inp,
     al_agent = map_option (take 500) (ai_agent inp), al_at = e_now e\<rparr>]\<rparr>"

text \<open>
  What the interceptor sees of a request; \<open>hr_resource\<close> is \<open>res.locals.auditResource\<close>, whose
  type may be something other than a string (\<open>None\<close>).
\<close>

record http_request_info =
  hr_method :: string
  hr_path :: "string option"
  hr_url :: string
  hr_param_id :: "string option"
  hr_resource :: "(string option \<times> string option) option"
  hr_user :: "auth_user option"
  hr_request_id :: "string option"
  hr_ip :: "string option"
  hr_agent :: "string option"

definition mutating :: "string \<Rightarrow> bool" where
  "mutating mth \<longleftrightarrow> mth \<in> {''POST'', ''PUT'', ''PATCH'', ''DELETE''}"

definition path_resource :: "string option \<Rightarrow> string" where
  "path_resource p = (case p of None \<Rightarrow> ''unknown''
     | Some x \<Rightarrow> (let t = js_join ''.'' (filter (\<lambda>y. y \<noteq> []) (js_split (CHR ''/'') x))
                  in if t = [] then ''unknown'' else t))"

definition intercepted_input :: "http_request_info \<Rightarrow> audit_outcome \<Rightarrow> int \<Rightarrow> audit_input" where
  "intercepted_input rq outcome duration =
     (let (ty, i) = (case hr_resource rq of
            Some (t, i) \<Rightarrow> (coalesce t ''unknown'', i)
          | None \<Rightarrow> (path_resource (hr_path rq), hr_param_id rq))
      in \<lparr>ai_org = (case hr_user rq of None \<Rightarrow> None | Some u \<Rightarrow> org_of u),
          ai_actor = (case hr_user rq of None \<Rightarrow> None | Some u \<Rightarrow> au_id u),
          ai_actor_email = map_option au_email (hr_user rq),
          ai_action = hr_method rq @ '' '' @ coalesce (hr_path rq) (hr_url rq),
          ai_resource_type = ty, ai_resource_id = i, ai_outcome = Some outcome,
          ai_meta = Some (JObj ((''durationMs'', JNum duration) #
            (case hr_request_id rq of None \<Rightarrow> [] | Some x \<Rightarrow> [(''requestId'', JStr x)]))),
          ai_ip = hr_ip rq, ai_agent = hr_agent rq\<rparr>)"

text \<open>
  The row of a request is written after its handler; a row the database refuses (the actor
  \<open>'system'\<close> of an ownerless key violates the foreign key) is only logged.
\<close>

definition intercept ::
  "env \<Rightarrow> http_request_info \<Rightarrow> (db \<Rightarrow> ('a, db) res) \<Rightarrow> int \<Rightarrow> db \<Rightarrow> ('a, db) res" where
  "intercept e rq handler duration s =
     (let (r, s') = handler s
      in if \<not> mutating (hr_method rq) then (r, s')
         else if (case hr_user rq of None \<Rightarrow> False | Some u \<Rightarrow> au_id u = None) then (r, s')
         else (r, record_audit e (intercepted_input rq
                (case r of Inl _ \<Rightarrow> AuditFailure | Inr _ \<Rightarrow> AuditSuccess) duration) s'))"

section \<open>Reading an export back\<close>

text \<open>A reference reader of CSV: quoted fields double their quotes, records end at a newline.\<close>

fun csv_quoted :: "string \<Rightarrow> string \<times> string" where
  "csv_quoted [] = ([], [])"
| "csv_quoted (c # cs) =
     (if c = CHR 0x22 then
        (case cs of
           d # ds \<Rightarrow> if d = CHR 0x22 then (let (f, r) = csv_quoted ds in (d # f, r)) else ([], cs)
         | [] \<Rightarrow> ([], []))
      else (let (f, r) = csv_quoted cs in (c # f, r)))"

definition separator :: "char \<Rightarrow> bool" where
  "separator c \<longleftrightarrow> c = CHR '','' \<or> c = CHR 0x0A"

definition csv_field :: "string \<Rightarrow> string \<times> string" where
  "csv_field s = (case s of
     c # cs \<Rightarrow> if c = CHR 0x22 then csv_quoted cs
               else (takeWhile (\<lambda>c. \<not> separator c) s, dropWhile (\<lambda>c. \<not> separator c) s)
   | [] \<Rightarrow> ([], []))"

lemma length_csv_quoted: "length (snd (csv_quoted s)) \<le> length s"
proof (induction s rule: csv_quoted.induct)
  case (2 c cs)
  show ?case
  proof (cases "c = CHR 0x22")
    case True
    then show ?thesis
      using 2(1) by (cases cs) (auto simp: case_prod_beta intro: le_SucI)
  next
    case False
    then show ?thesis using 2(2) by (simp add: case_prod_beta)
  qed
qed simp

lemma length_csv_field: "length (snd (csv_field s)) \<le> length s"
  by (auto simp: csv_field_def length_dropWhile_le le_SucI length_csv_quoted split: list.splits)

function csv_read :: "string \<Rightarrow> string list list" where
  "csv_read s =
     (let (f, r) = csv_field s
      in (case r of
            [] \<Rightarrow> [[f]]
          | c # cs \<Rightarrow> if c = CHR '','' then (case csv_read cs of [] \<Rightarrow> [[f]] | x # xs \<Rightarrow> (f # x) # xs)
                      else [f] # csv_read cs))"
  by pat_completeness auto

termination csv_read
proof (relation "measure length")
  fix s :: string and fr f r c cs
  assume "fr = csv_field s" "(f, r) = fr" "r = c # cs"
  then have "snd (csv_field s) = c # cs" by (simp add: prod_eq_iff)
  with length_csv_field [of s] show "(cs, s) \<in> measure length" by simp
  from \<open>snd (csv_field s) = c # cs\<close> length_csv_field [of s] show "(cs, s) \<in> measure length" by simp
qed simp

declare csv_read.simps [simp del]

lemma csv_quoted_escape:
  "rest = [] \<or> hd rest \<noteq> CHR 0x22 \<Longrightarrow>
    csv_quoted (concat (map (\<lambda>c. if c = CHR 0x22 then [c, c] else [c]) v) @ CHR 0x22 # rest) = (v, rest)"
  by (induction v) (auto split: list.split)

lemma csv_field_escape:
  "rest = [] \<or> hd rest \<noteq> CHR 0x22 \<Longrightarrow> csv_field (csv_escape v @ rest) = (v, rest)"
  by (simp add: csv_escape_def csv_field_def csv_quoted_escape)

text \<open>A field text that the reader reads as \<open>v\<close> wherever a separator or the end follows.\<close>

definition field_text :: "string \<Rightarrow> string \<Rightarrow> bool" where
  "field_text t v \<longleftrightarrow> (\<forall>rest. rest = [] \<or> separator (hd rest) \<longrightarrow> csv_field (t @ rest) = (v, rest))"

lemma field_text_escape: "field_text (csv_escape v) v"
  unfolding field_text_def by (intro allI impI csv_field_escape) (auto simp: separator_def)

lemma field_text_plain:
  assumes "\<forall>c \<in> set t. \<not> separator c \<and> c \<noteq> CHR 0x22" "t \<noteq> []"
  shows "field_text t t"
  unfolding field_text_def
proof (intro allI impI)
  fix rest :: string assume r: "rest = [] \<or> separator (hd rest)"
  have "takeWhile (\<lambda>c. \<not> separator c) (t @ rest) = t" "dropWhile (\<lambda>c. \<not> separator c) (t @ rest) = rest"
    using assms(1) r by (cases rest; simp add: takeWhile_append2 dropWhile_append2)+
  with assms show "csv_field (t @ rest) = (t, rest)" by (cases t) (simp_all add: csv_field_def)
qed

lemma csv_read_record:
  assumes "list_all2 field_text ts vs" "ts \<noteq> []" "rest = [] \<or> hd rest = CHR 0x0A"
  shows "csv_read (js_join '','' ts @ rest) = (if rest = [] then [vs] else vs # csv_read (tl rest))"
  using assms
proof (induction "'',''" ts arbitrary: vs rule: js_join.induct)
  case (2 x)
  then obtain v where v: "vs = [v]" "field_text x v" by (auto simp: list_all2_Cons1)
  with 2(3) have "csv_field (x @ rest) = (v, rest)" by (auto simp: field_text_def separator_def)
  with v 2(3) show ?case by (subst csv_read.simps) (cases rest; simp)
next
  case (3 x y ys)
  then obtain v w where v: "vs = v # w" "field_text x v" "list_all2 field_text (y # ys) w"
    by (auto simp: list_all2_Cons1)
  define body where "body = js_join '','' (y # ys) @ rest"
  have "csv_field (x @ '','' @ body) = (v, '','' @ body)" using v(2) by (auto simp: field_text_def separator_def)
  moreover have "csv_read body = (if rest = [] then [w] else w # csv_read (tl rest))"
    unfolding body_def using 3(1) [OF v(3)] 3(4) by simp
  ultimately have "csv_read (x @ '','' @ body) = (if rest = [] then [v # w] else (v # w) # csv_read (tl rest))"
    by (subst csv_read.simps) simp
  then show ?case by (simp add: v(1) body_def)
qed simp

lemma csv_read_records:
  assumes "list_all2 (\<lambda>ts vs. ts \<noteq> [] \<and> list_all2 field_text ts vs) tss vss" "tss \<noteq> []"
  shows "csv_read (js_join [CHR 0x0A] (map (js_join '','') tss)) = vss"
  using assms
proof (induction tss arbitrary: vss)
  case (Cons ts tss)
  then obtain vs vss' where v: "vss = vs # vss'" "ts \<noteq> []" "list_all2 field_text ts vs"
    "list_all2 (\<lambda>ts vs. ts \<noteq> [] \<and> list_all2 field_text ts vs) tss vss'"
    by (auto simp: list_all2_Cons1)
  show ?case
  proof (cases tss)
    case Nil
    with v csv_read_record [OF v(3,2), of "[]"] show ?thesis by simp
  next
    case (Cons us uss)
    with v csv_read_record [OF v(3,2), of "CHR 0x0A # js_join [CHR 0x0A] (map (js_join '','') tss)"] Cons.IH [OF v(4)]
    show ?thesis by simp
  qed
qed simp


text \<open>
  C23: the CSV export can be read back: whatever quotes, commas and line breaks the actor, the
  resource, the user agent or the metadata contain, a CSV reader finds the header and then exactly
  the values of the exported rows, which are rows of the caller's tenant.
\<close>

theorem audit_export_roundtrip:
  "csv_read (export_audit str (acting_for t u) lo hi action s) =
     csv_columns # map (csv_values str) (export_rows (acting_for t u) lo hi action s)
   \<and> al_org ` set (export_rows (acting_for t u) lo hi action s) \<subseteq> {Some t}
   \<and> length (export_rows (acting_for t u) lo hi action s) \<le> 50000"
proof (intro conjI)
  let ?rows = "export_rows (acting_for t u) lo hi action s"
  have header: "list_all2 field_text csv_columns csv_columns"
    unfolding list_all2_same by (intro ballI field_text_plain) (auto simp: csv_columns_def separator_def)
  have rows: "list_all2 (\<lambda>ts vs. ts \<noteq> [] \<and> list_all2 field_text ts vs)
      (map (\<lambda>r. map csv_escape (csv_values str r)) ?rows) (map (csv_values str) ?rows)"
    unfolding list_all2_map1 list_all2_map2 list_all2_same by (simp add: csv_values_def field_text_escape)
  have "list_all2 (\<lambda>ts vs. ts \<noteq> [] \<and> list_all2 field_text ts vs)
      (csv_columns # map (\<lambda>r. map csv_escape (csv_values str r)) ?rows) (csv_columns # map (csv_values str) ?rows)"
    using header rows by (simp add: csv_columns_def)
  from csv_read_records [OF this] show "csv_read (export_audit str (acting_for t u) lo hi action s) =
     csv_columns # map (csv_values str) ?rows"
    by (simp add: export_audit_def comp_def)
  show "al_org ` set ?rows \<subseteq> {Some t}"
    unfolding export_rows_def by (auto dest!: in_set_takeD)
  show "length ?rows \<le> 50000" by (simp add: export_rows_def)
qed

end
