(* ===== verification/Mail.thy ===== *)
theory Mail
  imports Branding Access
begin

text \<open>
  apps/api/src/modules/mailer: the e-mail templates, the SMTP service and what it sends. The
  rendering of a date with \<open>toUTCString\<close> and the transport are parameters; the em dash of the
  invitation is written as a hyphen. \<open>stripHtml\<close> is not modelled: every caller passes a text.
\<close>

section \<open>Escaping\<close>

definition escape_char :: "char \<Rightarrow> string" where
  "escape_char c =
     (if c = CHR ''&'' then ''&amp;'' else if c = CHR ''<'' then ''&lt;'' else if c = CHR ''>'' then ''&gt;''
      else if c = CHR 0x22 then ''&quot;'' else if c = CHR 0x27 then ''&#39;'' else [c])"

text \<open>
  The five replacements of the code run one after the other, the ampersand first, so no
  replacement sees the output of another: together they replace each character once.
\<close>

definition replace_char :: "char \<Rightarrow> string \<Rightarrow> string \<Rightarrow> string" where
  "replace_char c t s = concat (map (\<lambda>x. if x = c then t else [x]) s)"

definition escape_html :: "string \<Rightarrow> string" where
  "escape_html s = replace_char (CHR 0x27) ''&#39;'' (replace_char (CHR 0x22) ''&quot;''
     (replace_char (CHR ''>'') ''&gt;'' (replace_char (CHR ''<'') ''&lt;'' (replace_char (CHR ''&'') ''&amp;'' s))))"

lemma replace_char_concat: "replace_char c t (concat xs) = concat (map (replace_char c t) xs)"
  by (induction xs) (simp_all add: replace_char_def)

lemma escape_html_chars: "escape_html s = concat (map escape_char s)"
proof -
  have "escape_html [x] = escape_char x" for x
    by (simp add: escape_html_def escape_char_def replace_char_def)
  moreover have "escape_html (concat xs) = concat (map escape_html xs)" for xs
    by (simp add: escape_html_def [abs_def] replace_char_concat comp_def)
  moreover have "s = concat (map (\<lambda>x. [x]) s)" by (induction s) simp_all
  ultimately show ?thesis by (metis (no_types, lifting) map_eq_conv map_map comp_apply)
qed

section \<open>Templates\<close>

definition nl :: string where
  "nl = [CHR 0x0A]"

definition logo_part :: "branding \<Rightarrow> string" where
  "logo_part b =
     (case configured (br_logo b) of
        None \<Rightarrow> []
      | Some url \<Rightarrow>
          ''<img src=\"'' @ escape_html url
          @ ''\" alt=\"\" height=\"28\" style=\"height:28px;vertical-align:middle;margin-right:10px;border''
          @ '':0;\" />'')"

definition tagline_part :: "branding \<Rightarrow> string" where
  "tagline_part b =
     (if br_tagline b = [] then []
      else
        ''<span style=\"color:#cfe0ff;font-size:12px;margin-left:8px;\">'' @ escape_html (br_tagline b)
        @ ''</span>'')"

definition shell :: "string \<Rightarrow> branding \<Rightarrow> string" where
  "shell body b =
     ''<!DOCTYPE html>'' @ nl @ ''<html lang=\"en\">'' @ nl @ ''  <head>'' @ nl
     @ ''    <meta charset=\"utf-8\" />'' @ nl
     @ ''    <meta name=\"viewport\" content=\"width=device-width, initial-scale=1\" />'' @ nl
     @ ''    <title>'' @ escape_html (br_name b) @ ''</title>'' @ nl @ ''  </head>'' @ nl
     @ ''  <body style=\"margin:0;padding:0;background-color:#f5f7fa;font-family:-apple-system,B''
     @ ''linkMacSystemFont,'Segoe UI',Roboto,Helvetica,Arial,sans-serif;\">'' @ nl
     @ ''    <table role=\"presentation\" width=\"100%\" cellpadding=\"0\" cellspacing=\"0\" style=\"bac''
     @ ''kground-color:#f5f7fa;padding:32px 16px;\">'' @ nl @ ''      <tr>'' @ nl
     @ ''        <td align=\"center\">'' @ nl
     @ ''          <table role=\"presentation\" width=\"100%\" cellpadding=\"0\" cellspacing=\"0\" styl''
     @ ''e=\"max-width:560px;background-color:#ffffff;border-radius:12px;overflow:hidden;border:''
     @ ''1px solid #e5e7eb;\">'' @ nl @ ''            <tr>'' @ nl
     @ ''              <td style=\"padding:28px 32px;background-color:'' @ escape_html (br_color b) @ '';\">''
     @ nl @ ''                '' @ logo_part b
     @ ''<span style=\"color:#ffffff;font-size:20px;font-weight:700;letter-spacing:0.5px;\">''
     @ escape_html (br_name b) @ ''</span>'' @ nl @ ''                '' @ tagline_part b @ nl
     @ ''              </td>'' @ nl @ ''            </tr>'' @ nl @ ''            <tr>'' @ nl
     @ ''              <td style=\"padding:32px;color:#111827;font-size:15px;line-height:1.6;\">'' @ nl
     @ ''                '' @ body @ nl @ ''              </td>'' @ nl @ ''            </tr>'' @ nl
     @ ''            <tr>'' @ nl
     @ ''              <td style=\"padding:16px 32px 24px;border-top:1px solid #e5e7eb;color:#6b''
     @ ''7280;font-size:12px;line-height:1.5;\">'' @ nl @ ''                '' @ escape_html (br_footer b)
     @ nl @ ''              </td>'' @ nl @ ''            </tr>'' @ nl @ ''          </table>'' @ nl
     @ ''        </td>'' @ nl @ ''      </tr>'' @ nl @ ''    </table>'' @ nl @ ''  </body>'' @ nl
     @ ''</html>''"

definition button :: "string \<Rightarrow> string \<Rightarrow> branding \<Rightarrow> string" where
  "button label href b =
     ''<table role=\"presentation\" cellpadding=\"0\" cellspacing=\"0\" style=\"margin:24px 0;\">'' @ nl
     @ ''    <tr>'' @ nl @ ''      <td style=\"border-radius:8px;background-color:''
     @ escape_html (br_color b) @ '';\">'' @ nl @ ''        <a href=\"'' @ escape_html href
     @ ''\" style=\"display:inline-block;padding:12px 28px;color:#ffffff;text-decoration:none;fon''
     @ ''t-weight:600;font-size:14px;border-radius:8px;\">'' @ escape_html label @ ''</a>'' @ nl
     @ ''      </td>'' @ nl @ ''    </tr>'' @ nl @ ''  </table>''"

record signing_mail =
  sm_signer :: "string option"
  sm_email :: string
  sm_title :: string
  sm_request :: "string option"
  sm_deadline :: "time option"
  sm_message :: "string option"
  sm_url :: string
  sm_reminder :: bool
  sm_org :: "id option"

record rendered =
  rd_subject :: string
  rd_html :: string
  rd_text :: string

text \<open>A part of the body that is there only when a value is (JavaScript's truth of a string).\<close>

definition when_some :: "string option \<Rightarrow> (string \<Rightarrow> string) \<Rightarrow> string list" where
  "when_some x f = (case configured x of None \<Rightarrow> [] | Some v \<Rightarrow> [f v])"

text \<open>The line of the request's own title, shown when it differs from the document's.\<close>

definition request_title :: "signing_mail \<Rightarrow> string option" where
  "request_title c = (case configured (sm_request c) of None \<Rightarrow> None
     | Some t \<Rightarrow> if t = sm_title c then None else Some t)"

definition invited_name :: "signing_mail \<Rightarrow> string" where
  "invited_name c = (case configured (sm_signer c) of None \<Rightarrow> ''You''
     | Some n \<Rightarrow> ''<strong>'' @ escape_html n @ ''</strong>, you'')"

definition invite_parts :: "(time \<Rightarrow> string) \<Rightarrow> signing_mail \<Rightarrow> branding \<Rightarrow> string list" where
  "invite_parts utc c b =
     [''<h2 style=\"margin:0 0 8px;color:#111827;font-size:18px;\">You've been invited to sign</'' @ ''h2>'']
     @ [''<p style=\"margin:0;\">'' @ invited_name c @ '' have been asked to sign <strong>''
      @ escape_html (sm_title c) @ ''</strong> via Signara.</p>'']
     @ when_some (request_title c) (\<lambda>t.
         ''<p style=\"margin:8px 0 0;color:#374151;\">Request: '' @ escape_html t @ ''</p>'')
     @ (case sm_deadline c of None \<Rightarrow> []
        | Some d \<Rightarrow>
         [''<p style=\"margin:8px 0 0;color:#374151;\">Sign by: '' @ escape_html (utc d) @ ''</p>''])
     @ when_some (sm_message c) (\<lambda>m.
         ''<p style=\"margin:8px 0 0;color:#374151;font-style:italic;\">\"'' @ escape_html m @ ''\"</p>'')
     @ [button ''Review & sign document'' (sm_url c) b]
     @ [''<p style=\"margin:0;font-size:13px;color:#6b7280;\">This link is personal and secret - d''
      @ ''on't forward it. If you're signing in sequence, others can't sign until your turn is c''
      @ ''omplete.</p>'']"

definition render_invite :: "(time \<Rightarrow> string) \<Rightarrow> signing_mail \<Rightarrow> branding \<Rightarrow> rendered" where
  "render_invite utc c b = \<lparr>rd_subject = ''Please sign: '' @ sm_title c,
     rd_html = shell (js_join nl (invite_parts utc c b)) b,
     rd_text = ''You've been invited to sign '' @ sm_title c @ ''. Open '' @ sm_url c\<rparr>"

definition deadline_part :: "(time \<Rightarrow> string) \<Rightarrow> signing_mail \<Rightarrow> string" where
  "deadline_part utc c = (case sm_deadline c of None \<Rightarrow> []
     | Some d \<Rightarrow> '' The requested deadline was '' @ escape_html (utc d) @ ''.'')"

definition reminder_parts :: "(time \<Rightarrow> string) \<Rightarrow> signing_mail \<Rightarrow> branding \<Rightarrow> string list" where
  "reminder_parts utc c b =
     [''<h2 style=\"margin:0 0 8px;color:#111827;font-size:18px;\">Still waiting on your signatu''
      @ ''re</h2>'']
     @ [''<p style=\"margin:0;\">This is a reminder to sign <strong>'' @ escape_html (sm_title c)
      @ ''</strong>.'' @ deadline_part utc c @ ''</p>'']
     @ when_some (sm_message c) (\<lambda>m.
         ''<p style=\"margin:8px 0 0;color:#374151;font-style:italic;\">\"'' @ escape_html m @ ''\"</p>'')
     @ [button ''Sign the document'' (sm_url c) b]
     @ [''<p style=\"margin:0;font-size:13px;color:#6b7280;\">If you've already signed, you can ig''
      @ ''nore this message.</p>'']"

definition render_reminder :: "(time \<Rightarrow> string) \<Rightarrow> signing_mail \<Rightarrow> branding \<Rightarrow> rendered" where
  "render_reminder utc c b = \<lparr>rd_subject = ''Reminder: '' @ sm_title c,
     rd_html = shell (js_join nl (reminder_parts utc c b)) b,
     rd_text = ''Reminder: please sign '' @ sm_title c @ ''. Open '' @ sm_url c\<rparr>"

record completion_mail =
  cm_sender :: "string option"
  cm_email :: string
  cm_title :: string
  cm_url :: string
  cm_org :: "id option"

definition greeting :: "completion_mail \<Rightarrow> string" where
  "greeting c = (case configured (cm_sender c) of None \<Rightarrow> ''Hi,'' | Some n \<Rightarrow> ''Hi '' @ escape_html n @ '','')"

definition completion_parts :: "completion_mail \<Rightarrow> branding \<Rightarrow> string list" where
  "completion_parts c b =
     [''<h2 style=\"margin:0 0 8px;color:#111827;font-size:18px;\">All parties have signed</h2>'']
     @ [''<p style=\"margin:0;\">'' @ greeting c @ ''</p>'']
     @ [''<p style=\"margin:8px 0 0;\">All parties have successfully signed the document <strong>''
      @ escape_html (cm_title c) @ ''</strong>. Download the completed document from the link below.</p>'']
     @ [button ''Download the signed document'' (cm_url c) b]
     @ [''<p style=\"margin:0;font-size:13px;color:#6b7280;\">The completed certificate and the fu''
      @ ''ll audit trail are available from the document page.</p>'']"

definition render_completion :: "completion_mail \<Rightarrow> branding \<Rightarrow> rendered" where
  "render_completion c b = \<lparr>rd_subject = ''Document '' @ cm_title c @ '' has been signed by all parties'',
     rd_html = shell (js_join nl (completion_parts c b)) b,
     rd_text = (case configured (cm_sender c) of None \<Rightarrow> [] | Some n \<Rightarrow> ''Hi '' @ n @ '', '') @ ''All parties have successfully signed the document '' @ cm_title c @ ''. Download it: '' @ cm_url c\<rparr>"

definition notification_parts :: "string \<Rightarrow> string \<Rightarrow> string list" where
  "notification_parts title bdy =
     [''<h2 style=\"margin:0 0 8px;color:#111827;font-size:18px;\">'' @ escape_html title @ ''</h2>'']
     @ when_some (Some bdy) (\<lambda>body.
         ''<p style=\"margin:0;color:#374151;\">'' @ replace_char (CHR 0x0A) ''<br/>'' (escape_html body)
         @ ''</p>'')"

definition render_notification :: "string \<Rightarrow> string \<Rightarrow> rendered" where
  "render_notification title bdy = \<lparr>rd_subject = title,
     rd_html = shell (js_join nl (notification_parts title bdy)) platform_branding,
     rd_text = (if bdy = [] then title else title @ nl @ nl @ bdy)\<rparr>"

section \<open>The SMTP service\<close>

record mail_config =
  mc_host :: "string option"
  mc_port :: "int option"
  mc_user :: "string option"
  mc_pass :: "string option"
  mc_secure :: "string option"
  mc_from :: "string option"
  mc_envelope :: "string option"
  mc_servername :: "string option"
  mc_insecure :: bool

definition mail_from :: "mail_config \<Rightarrow> string" where
  "mail_from mc = coalesce (mc_from mc) ''Signara <no-reply@signara.innotel.us>''"

definition envelope_from :: "mail_config \<Rightarrow> string option" where
  "envelope_from mc = configured (map_option js_trim (mc_envelope mc))"

record transport_options =
  to_host :: "string option"
  to_port :: int
  to_secure :: bool
  to_servername :: "string option"
  to_reject_unauthorized :: "bool option"
  to_auth :: "(string \<times> string) option"

definition transporter :: "mail_config \<Rightarrow> transport_options" where
  "transporter mc =
     (let port = coalesce (mc_port mc) 587
      in \<lparr>to_host = mc_host mc, to_port = port,
          to_secure = (mc_secure mc = Some ''true'' \<or> port = 465),
          to_servername = configured (map_option js_trim (mc_servername mc)),
          to_reject_unauthorized = (if mc_insecure mc then Some False else None),
          to_auth = (case (configured (mc_user mc), configured (mc_pass mc)) of
              (Some u, Some p) \<Rightarrow> Some (u, p) | _ \<Rightarrow> None)\<rparr>)"

record mail =
  ml_from :: string
  ml_envelope :: "string option"
  ml_to :: string
  ml_subject :: string
  ml_html :: string
  ml_text :: string

text \<open>
  What went out, in order. \<open>transport\<close> answers \<open>Some\<close> error message when the relay refuses;
  the error goes to the caller, and the queue retries the job.
\<close>

type_synonym outbox = "mail list"

definition send_mail ::
  "mail_config \<Rightarrow> (transport_options \<Rightarrow> mail \<Rightarrow> string option) \<Rightarrow> string \<Rightarrow> rendered \<Rightarrow> outbox
   \<Rightarrow> (bool, outbox) res" where
  "send_mail mc transport addr r out =
     (if configured (mc_host mc) = None then ok False out
      else (let m = \<lparr>ml_from = mail_from mc, ml_envelope = envelope_from mc, ml_to = addr,
                ml_subject = rd_subject r, ml_html = rd_html r, ml_text = rd_text r\<rparr>
            in (case transport (transporter mc) m of
                  Some err \<Rightarrow> fail (InternalError err) out
                | None \<Rightarrow> ok True (out @ [m]))))"

definition send_signing_mail ::
  "mail_config \<Rightarrow> (transport_options \<Rightarrow> mail \<Rightarrow> string option) \<Rightarrow> (string \<Rightarrow> url option)
   \<Rightarrow> (time \<Rightarrow> string) \<Rightarrow> signing_mail \<Rightarrow> db \<Rightarrow> outbox \<Rightarrow> (bool, outbox) res" where
  "send_signing_mail mc transport parse utc c s out =
     (let b = branding_for_organization parse (sm_org c) s
      in send_mail mc transport (sm_email c)
           (if sm_reminder c then render_reminder utc c b else render_invite utc c b) out)"

definition send_completion_mail ::
  "mail_config \<Rightarrow> (transport_options \<Rightarrow> mail \<Rightarrow> string option) \<Rightarrow> (string \<Rightarrow> url option)
   \<Rightarrow> completion_mail \<Rightarrow> db \<Rightarrow> outbox \<Rightarrow> (bool, outbox) res" where
  "send_completion_mail mc transport parse c s out =
     send_mail mc transport (cm_email c)
       (render_completion c (branding_for_organization parse (cm_org c) s)) out"

definition send_notification_mail ::
  "mail_config \<Rightarrow> (transport_options \<Rightarrow> mail \<Rightarrow> string option) \<Rightarrow> string \<Rightarrow> string \<Rightarrow> string option
   \<Rightarrow> outbox \<Rightarrow> (bool, outbox) res" where
  "send_notification_mail mc transport addr title bdy out =
     send_mail mc transport addr (render_notification title (coalesce bdy [])) out"

section \<open>No markup from user data\<close>

text \<open>The characters that open, close and delimit tags and attributes.\<close>

definition markup_char :: "char \<Rightarrow> bool" where
  "markup_char c \<longleftrightarrow> c = CHR ''<'' \<or> c = CHR ''>'' \<or> c = CHR 0x22 \<or> c = CHR 0x27"

definition markup :: "string \<Rightarrow> string" where
  "markup s = filter markup_char s"

lemma markup_append: "markup (x @ y) = markup x @ markup y"
  by (simp add: markup_def)

lemma markup_escape_char: "markup (escape_char c) = []"
  by (simp add: markup_def escape_char_def markup_char_def)

lemma markup_escape: "markup (escape_html s) = []"
  unfolding escape_html_chars by (induction s) (simp_all add: markup_append markup_escape_char, simp add: markup_def)

lemma markup_join_cong:
  assumes "map markup xs = map markup ys"
  shows "markup (js_join sep xs) = markup (js_join sep ys)"
  using assms
proof (induction sep xs arbitrary: ys rule: js_join.induct)
  case (2 sep x)
  then obtain y where "ys = [y]" "markup x = markup y" by auto
  then show ?case by simp
next
  case (3 sep x y xs)
  then obtain u v us where ys: "ys = u # v # us" "markup x = markup u" "map markup (y # xs) = map markup (v # us)"
    by (auto simp: map_eq_Cons_conv Cons_eq_map_conv)
  from 3(1) [OF ys(3)] ys(1,2) show ?case by (simp only: js_join.simps markup_append)
qed auto

text \<open>What decides the shape of a mail: which optional parts it has.\<close>

definition brand_shape :: "branding \<Rightarrow> bool \<times> bool" where
  "brand_shape b = (configured (br_logo b) = None, br_tagline b = [])"

definition signing_shape :: "signing_mail \<Rightarrow> bool \<times> bool \<times> bool \<times> bool" where
  "signing_shape c = (configured (sm_signer c) = None, request_title c = None, sm_deadline c = None,
     configured (sm_message c) = None)"

lemma markup_logo: "brand_shape b = brand_shape b' \<Longrightarrow> markup (logo_part b) = markup (logo_part b')"
  unfolding logo_part_def brand_shape_def
  by (cases "configured (br_logo b)"; cases "configured (br_logo b')")
    (simp_all only: option.case prod.inject option.distinct simp_thms markup_append markup_escape)

lemma markup_tagline: "brand_shape b = brand_shape b' \<Longrightarrow> markup (tagline_part b) = markup (tagline_part b')"
  unfolding tagline_part_def brand_shape_def
  by (cases "br_tagline b = []"; cases "br_tagline b' = []")
    (simp_all only: if_True if_False prod.inject simp_thms markup_append markup_escape)

lemma markup_shell:
  assumes "brand_shape b = brand_shape b'" "markup x = markup y"
  shows "markup (shell x b) = markup (shell y b')"
  unfolding shell_def
  by (simp only: markup_append markup_escape markup_logo [OF assms(1)] markup_tagline [OF assms(1)] assms(2))

definition button_markup :: string where
  "button_markup = markup (button [] [] platform_branding)"

lemma markup_button: "markup (button l h b) = button_markup"
  unfolding button_markup_def button_def by (simp only: markup_append markup_escape)


lemma markup_when_some:
  assumes "(configured x = None) = (configured y = None)" "\<And>v w. markup (f v) = markup (f w)"
  shows "map markup (when_some x f) = map markup (when_some y f)"
  using assms(1) by (auto simp: when_some_def assms(2) split: option.split)

lemma markup_name:
  assumes "(configured (sm_signer c) = None) = (configured (sm_signer c') = None)"
  shows "markup (invited_name c) = markup (invited_name c')"
  using assms unfolding invited_name_def
  by (cases "configured (sm_signer c)"; cases "configured (sm_signer c')")
    (simp_all only: option.case option.distinct simp_thms markup_append markup_escape)

lemma markup_deadline:
  assumes "(sm_deadline c = None) = (sm_deadline c' = None)"
  shows "markup (deadline_part utc c) = markup (deadline_part utc c')"
  using assms unfolding deadline_part_def
  by (cases "sm_deadline c"; cases "sm_deadline c'")
    (simp_all only: option.case option.distinct simp_thms markup_append markup_escape)

lemma markup_invite_parts:
  assumes "signing_shape c = signing_shape c'"
  shows "map markup (invite_parts utc c b) = map markup (invite_parts utc c' b')"
proof -
  have eq: "(configured (sm_signer c) = None) = (configured (sm_signer c') = None)"
    "(request_title c = None) = (request_title c' = None)" "(sm_deadline c = None) = (sm_deadline c' = None)"
    "(configured (sm_message c) = None) = (configured (sm_message c') = None)"
    using assms by (simp_all add: signing_shape_def)
  have "(configured (request_title c) = None) = (configured (request_title c') = None)"
    using eq(2) by (simp add: request_title_def configured_def split: option.split option.split_asm if_split_asm)
  note title = markup_when_some [OF this] and message = markup_when_some [OF eq(4)]
  have deadline: "map markup (case sm_deadline c of None \<Rightarrow> [] | Some d \<Rightarrow> [x @ escape_html (utc d) @ y]) =
      map markup (case sm_deadline c' of None \<Rightarrow> [] | Some d \<Rightarrow> [x @ escape_html (utc d) @ y])" for x y
    using eq(3) by (cases "sm_deadline c"; cases "sm_deadline c'")
      (simp_all only: option.case option.distinct simp_thms list.map markup_append markup_escape)
  show ?thesis
    unfolding invite_parts_def map_append list.map markup_append markup_escape markup_name [OF eq(1)] deadline
    by (intro arg_cong2 [of _ _ _ _ append] refl title message)
      (simp_all only: markup_append markup_escape list.map markup_button)
qed

lemma markup_reminder_parts:
  assumes "signing_shape c = signing_shape c'"
  shows "map markup (reminder_parts utc c b) = map markup (reminder_parts utc c' b')"
proof -
  have eq: "(sm_deadline c = None) = (sm_deadline c' = None)"
    "(configured (sm_message c) = None) = (configured (sm_message c') = None)"
    using assms by (simp_all add: signing_shape_def)
  note message = markup_when_some [OF eq(2)]
  show ?thesis
    unfolding reminder_parts_def map_append list.map markup_append markup_escape markup_deadline [OF eq(1)]
    by (intro arg_cong2 [of _ _ _ _ append] refl message)
      (simp_all only: markup_append markup_escape list.map markup_button)
qed

text \<open>
  C21: nothing a user, a tenant or its branding supplies can add, remove or break a tag or an
  attribute of an invitation, a reminder or a completion mail: the sequence of angle brackets and
  quotes depends only on which optional parts are present.
\<close>

theorem mail_markup_fixed:
  assumes "signing_shape c = signing_shape c'" "brand_shape b = brand_shape b'"
    and "(configured (cm_sender k) = None) = (configured (cm_sender k') = None)"
  shows "markup (rd_html (render_invite utc c b)) = markup (rd_html (render_invite utc c' b'))
    \<and> markup (rd_html (render_reminder utc c b)) = markup (rd_html (render_reminder utc c' b'))
    \<and> markup (rd_html (render_completion k b)) = markup (rd_html (render_completion k' b'))"
proof (intro conjI)
  note shell = markup_shell [OF assms(2) markup_join_cong]
  show "markup (rd_html (render_invite utc c b)) = markup (rd_html (render_invite utc c' b'))"
    unfolding render_invite_def rendered.simps by (intro shell markup_invite_parts assms)
  show "markup (rd_html (render_reminder utc c b)) = markup (rd_html (render_reminder utc c' b'))"
    unfolding render_reminder_def rendered.simps by (intro shell markup_reminder_parts assms)
  have "markup (greeting k) = markup (greeting k')"
    using assms(3) unfolding greeting_def
    by (cases "configured (cm_sender k)"; cases "configured (cm_sender k')")
      (simp_all only: option.case option.distinct simp_thms markup_append markup_escape)
  then have "map markup (completion_parts k b) = map markup (completion_parts k' b')"
    unfolding completion_parts_def
    by (simp only: map_append list.map markup_append markup_escape markup_button)
  then show "markup (rd_html (render_completion k b)) = markup (rd_html (render_completion k' b'))"
    unfolding render_completion_def rendered.simps by (intro shell)
qed

definition sample_mail :: "string \<Rightarrow> signing_mail" where
  "sample_mail title = \<lparr>sm_signer = Some title, sm_email = ''b@x.org'', sm_title = title, sm_request = None,
     sm_deadline = None, sm_message = None, sm_url = title, sm_reminder = False, sm_org = None\<rparr>"

definition sample_completion :: completion_mail where
  "sample_completion = \<lparr>cm_sender = None, cm_email = ''a@x.org'', cm_title = ''NDA'', cm_url = ''u'', cm_org = None\<rparr>"

theorem mail_markup_fixed_witness:
  "markup (rd_html (render_invite (\<lambda>_. []) (sample_mail ''</p><script>'') platform_branding)) =
   markup (rd_html (render_invite (\<lambda>_. []) (sample_mail ''NDA'') platform_branding))"
  using mail_markup_fixed [of "sample_mail ''</p><script>''" "sample_mail ''NDA''" platform_branding platform_branding
      sample_completion sample_completion "\<lambda>_. []"]
  by (simp add: signing_shape_def sample_mail_def request_title_def configured_def)

end
