(* ===== verification/Jobs.thy ===== *)
theory Jobs
  imports Mail Signing_Samples
begin

text \<open>
  apps/api/src/modules/jobs: the worker of the signing queue, which mails invitations, reminders
  and completion notices, and the two schedulers. The state of the worker is the database and the
  mails that went out. Jobs carry their ids by type, so the branch for a job without ids is not
  reachable here.
\<close>

section \<open>The signing worker\<close>

datatype worker_job = SweepReminders | SigningJob signing_job

type_synonym worker_state = "db \<times> outbox"

record mailer =
  mr_config :: mail_config
  mr_transport :: "transport_options \<Rightarrow> mail \<Rightarrow> string option"
  mr_parse :: "string \<Rightarrow> url option"
  mr_utc :: "time \<Rightarrow> string"

text \<open>\<open>(process.env.WEB_URL ?? default).replace(/\/$/, '')\<close>.\<close>

definition link_base :: "env \<Rightarrow> string" where
  "link_base e = (let u = coalesce (e_web_url e) ''https://app.signara.innotel.us''
     in if u \<noteq> [] \<and> last u = CHR ''/'' then butlast u else u)"

definition with_outbox :: "db \<Rightarrow> (bool, outbox) res \<Rightarrow> (bool, worker_state) res" where
  "with_outbox s r = (fst r, (s, snd r))"

definition completion_job :: "mailer \<Rightarrow> env \<Rightarrow> id \<Rightarrow> worker_state \<Rightarrow> (bool, worker_state) res" where
  "completion_job mr e rid w =
     (case find_row rq_id rid (requests (fst w)) of
        None \<Rightarrow> ok False w
      | Some r \<Rightarrow>
        (case (case rq_created_by r of None \<Rightarrow> None | Some uid \<Rightarrow> find_row u_id uid (users (fst w))) of
           None \<Rightarrow> ok False w
         | Some x \<Rightarrow>
           if u_email x = [] then ok False w
           else with_outbox (fst w) (send_completion_mail (mr_config mr) (mr_transport mr) (mr_parse mr)
                  \<lparr>cm_sender = u_display_name x, cm_email = u_email x,
                   cm_title = coalesce (coalesce_opt (rq_title r)
                     (map_option d_title (find_row d_id (rq_document r) (documents (fst w))))) ''document'',
                   cm_url = link_base e @ ''/documents/'' @ show_nat (rq_document r), cm_org = Some (rq_org r)\<rparr>
                  (fst w) (snd w))))"

definition signer_job :: "mailer \<Rightarrow> env \<Rightarrow> bool \<Rightarrow> id \<Rightarrow> worker_state \<Rightarrow> (bool, worker_state) res" where
  "signer_job mr e reminder sid w =
     (case find_row sg_id sid (signers (fst w)) of
        None \<Rightarrow> ok False w
      | Some g \<Rightarrow>
        (case find_row rq_id (sg_request g) (requests (fst w)) of
           None \<Rightarrow> ok False w
         | Some r \<Rightarrow>
           if sg_status g = SIGNED \<or> sg_status g = DECLINED \<or> rq_status r = CANCELLED then ok False w
           else with_outbox (fst w) (send_signing_mail (mr_config mr) (mr_transport mr) (mr_parse mr) (mr_utc mr)
                  \<lparr>sm_signer = sg_name g, sm_email = sg_email g,
                   sm_title = coalesce (coalesce_opt (rq_title r)
                     (map_option d_title (find_row d_id (rq_document r) (documents (fst w))))) [],
                   sm_request = rq_title r, sm_deadline = rq_deadline r, sm_message = rq_message r,
                   sm_url = link_base e @ ''/sign/'' @ sg_token g, sm_reminder = reminder,
                   sm_org = Some (rq_org r)\<rparr> (fst w) (snd w))))"

definition process_signing_job :: "mailer \<Rightarrow> env \<Rightarrow> worker_job \<Rightarrow> worker_state \<Rightarrow> (bool, worker_state) res" where
  "process_signing_job mr e job w =
     (case job of
        SweepReminders \<Rightarrow> ok False (snd (sweep_due_reminders e (fst w)), snd w)
      | SigningJob (SendCompletionMail rid) \<Rightarrow> completion_job mr e rid w
      | SigningJob (SendSigningInvite rid sid) \<Rightarrow> signer_job mr e False sid w
      | SigningJob (SendSigningReminder rid sid attempt) \<Rightarrow> signer_job mr e True sid w)"

section \<open>Schedules\<close>

text \<open>
  A repeatable job is keyed by its name and its interval; the queue may refuse the call, which is
  only logged.
\<close>

definition add_repeat :: "string \<Rightarrow> int \<Rightarrow> (string \<times> int) list \<Rightarrow> (string \<times> int) list" where
  "add_repeat name every jobs = (if (name, every) \<in> set jobs then jobs else jobs @ [(name, every)])"

definition schedule_sweep ::
  "bool \<Rightarrow> string \<Rightarrow> int option \<Rightarrow> (string \<times> int) list \<Rightarrow> (string \<times> int) list" where
  "schedule_sweep queue_up name every_minutes jobs =
     (let m = coalesce every_minutes 360
      in if m \<le> 0 \<or> \<not> queue_up then jobs else add_repeat name (m * 60000) jobs)"

definition schedule_reminders :: "bool \<Rightarrow> int option \<Rightarrow> (string \<times> int) list \<Rightarrow> (string \<times> int) list" where
  "schedule_reminders queue_up = schedule_sweep queue_up ''sweep-reminders''"

definition schedule_webhook_health :: "bool \<Rightarrow> int option \<Rightarrow> (string \<times> int) list \<Rightarrow> (string \<times> int) list" where
  "schedule_webhook_health queue_up = schedule_sweep queue_up ''sweep-endpoints''"

section \<open>Properties\<close>

lemma send_mail_outbox:
  "snd (send_mail mc transport addr r out) = out
   \<or> (\<exists>m. snd (send_mail mc transport addr r out) = out @ [m] \<and> ml_to m = addr \<and> ml_text m = rd_text r)"
  by (auto simp: send_mail_def Let_def split: option.split)

text \<open>The link of a signing mail is in its text.\<close>

lemma signing_mail_link:
  "suffix (''Open '' @ sm_url c) (rd_text (if sm_reminder c then render_reminder utc c b else render_invite utc c b))"
  unfolding render_reminder_def render_invite_def by (auto simp: suffix_def)

text \<open>
  C27: an invitation or reminder job sends at most one mail, to the address of its signer and with
  that signer's link, and none once the signer signed or declined or the request was cancelled,
  however long the job waited in the queue; it changes nothing in the database.
\<close>

theorem signing_mail_addressee:
  assumes "job = SendSigningInvite rid sid \<or> job = SendSigningReminder rid sid n"
    and "process_signing_job mr e (SigningJob job) (s, out) = (r, (s', out'))"
  shows "s' = s \<and> (out' = out \<or> (\<exists>m g q. out' = out @ [m] \<and> find_row sg_id sid (signers s) = Some g
    \<and> find_row rq_id (sg_request g) (requests s) = Some q \<and> ml_to m = sg_email g
    \<and> suffix (''/sign/'' @ sg_token g) (ml_text m)
    \<and> sg_status g \<noteq> SIGNED \<and> sg_status g \<noteq> DECLINED \<and> rq_status q \<noteq> CANCELLED))"
proof -
  obtain rem where job: "signer_job mr e rem sid (s, out) = (r, (s', out'))"
    using assms by (auto simp: process_signing_job_def)
  show ?thesis
  proof (cases "s' = s \<and> out' = out")
    case False
    from job obtain g where g: "find_row sg_id sid (signers s) = Some g"
      using False by (auto simp: signer_job_def split: option.split_asm)
    from job obtain q where q: "find_row rq_id (sg_request g) (requests s) = Some q"
      using False g by (auto simp: signer_job_def split: option.split_asm)
    have st: "\<not> (sg_status g = SIGNED \<or> sg_status g = DECLINED \<or> rq_status q = CANCELLED)"
      using job False g q by (auto simp: signer_job_def)
    define c where "c = \<lparr>sm_signer = sg_name g, sm_email = sg_email g,
        sm_title = coalesce (coalesce_opt (rq_title q)
          (map_option d_title (find_row d_id (rq_document q) (documents s)))) [],
        sm_request = rq_title q, sm_deadline = rq_deadline q, sm_message = rq_message q,
        sm_url = link_base e @ ''/sign/'' @ sg_token g, sm_reminder = rem, sm_org = Some (rq_org q)\<rparr>"
    have "with_outbox s (send_signing_mail (mr_config mr) (mr_transport mr) (mr_parse mr) (mr_utc mr) c s out)
        = (r, (s', out'))"
      using job g q st by (simp add: signer_job_def c_def)
    then have eq: "s' = s" "out' = snd (send_signing_mail (mr_config mr) (mr_transport mr) (mr_parse mr) (mr_utc mr) c s out)"
      by (auto simp: with_outbox_def)
    define b where "b = branding_for_organization (mr_parse mr) (sm_org c) s"
    define t where "t = (if sm_reminder c then render_reminder (mr_utc mr) c b else render_invite (mr_utc mr) c b)"
    have "suffix (''/sign/'' @ sg_token g) (sm_url c)" by (simp add: c_def suffix_def)
    then have "suffix (''/sign/'' @ sg_token g) (''Open '' @ sm_url c)" by (rule suffix_appendI)
    with signing_mail_link [of c "mr_utc mr" b] have link: "suffix (''/sign/'' @ sg_token g) (rd_text t)"
      unfolding t_def using suffix_order.trans by blast
    have "out' = snd (send_mail (mr_config mr) (mr_transport mr) (sg_email g) t out)"
      by (simp add: eq(2) send_signing_mail_def Let_def t_def b_def) (simp add: c_def)
    with send_mail_outbox [of "mr_config mr" "mr_transport mr" "sg_email g" t out] link g q st eq(1)
    show ?thesis by auto
  qed simp
qed


definition sample_mailer :: mailer where
  "sample_mailer = \<lparr>mr_config = \<lparr>mc_host = Some ''smtp'', mc_port = None, mc_user = None, mc_pass = None, mc_secure = None,
     mc_from = None, mc_envelope = None, mc_servername = None, mc_insecure = False\<rparr>,
     mr_transport = (\<lambda>_ _. None), mr_parse = (\<lambda>_. None), mr_utc = (\<lambda>_. ''later'')\<rparr>"

theorem signing_mail_addressee_witness:
  "fst (snd (process_signing_job sample_mailer sample_env (SigningJob (SendSigningInvite 10 11)) (run_created, []))) = run_created
   \<and> length (snd (snd (process_signing_job sample_mailer sample_env (SigningJob (SendSigningInvite 10 11)) (run_created, [])))) \<le> 1"
proof -
  obtain r s' out' where p: "process_signing_job sample_mailer sample_env (SigningJob (SendSigningInvite 10 11)) (run_created, [])
      = (r, (s', out'))" by (metis surj_pair)
  from signing_mail_addressee [OF _ p] have "s' = run_created \<and> length out' \<le> 1" by auto
  with p show ?thesis by simp
qed

end
