(* ===== verification/I18n.thy ===== *)
theory I18n
  imports Prelude Complex_Main
begin

text \<open>
  apps/web/src/lib/i18n: which catalog a request gets, and how a message is looked up and filled
  in. Numbers read by \<open>Number.parseFloat\<close> are exact decimals here instead of doubles. The reading
  of a catalog file is a parameter, and so is the reading of a property of \<open>vars\<close> (an object,
  so inherited properties are found as well).
\<close>

section \<open>Locales\<close>

definition locale_codes :: "string list" where
  "locale_codes = [''en'', ''de'', ''es'', ''fr'', ''it'', ''hi'', ''kr'']"

definition default_locale :: string where
  "default_locale = ''en''"

definition is_locale :: "string option \<Rightarrow> bool" where
  "is_locale v = (case v of None \<Rightarrow> False | Some x \<Rightarrow> x \<in> set locale_codes)"

definition normalize_locale :: "string option \<Rightarrow> string option" where
  "normalize_locale tag =
     (case tag of
        None \<Rightarrow> None
      | Some t \<Rightarrow>
        (let base = takeWhile (\<lambda>c. c \<noteq> CHR ''-'' \<and> c \<noteq> CHR ''_'') (js_lower (js_trim t))
         in if t = [] \<or> base = [] \<or> base = ''*'' then None
            else if base \<in> set locale_codes then Some base
            else if base = ''ko'' then Some ''kr'' else None))"

subsection \<open>parseFloat\<close>

definition digit :: "char \<Rightarrow> bool" where
  "digit c \<longleftrightarrow> 48 \<le> (of_char c :: nat) \<and> (of_char c :: nat) \<le> 57"

definition digits_value :: "string \<Rightarrow> int" where
  "digits_value ds = foldl (\<lambda>n c. 10 * n + (of_char c - 48)) 0 ds"

text \<open>The exponent of \<open>e12\<close> or \<open>E-3\<close>; without digits after it the letter ends the number.\<close>

definition read_exponent :: "string \<Rightarrow> int" where
  "read_exponent s =
     (case s of
        [] \<Rightarrow> 0
      | c # cs \<Rightarrow>
        if c = CHR ''e'' \<or> c = CHR ''E'' then
          (let (sign, ds) = (case cs of
               d # r \<Rightarrow> if d = CHR ''-'' then (-1, takeWhile digit r)
                       else if d = CHR ''+'' then (1, takeWhile digit r) else (1, takeWhile digit cs)
             | [] \<Rightarrow> (1, []))
           in sign * digits_value ds)
        else 0)"

definition power_of_ten :: "int \<Rightarrow> rat" where
  "power_of_ten k = (if 0 \<le> k then 10 ^ nat k else 1 / 10 ^ nat (- k))"

definition strip_sign :: "string \<Rightarrow> rat \<times> string" where
  "strip_sign s = (case s of
     c # r \<Rightarrow> if c = CHR ''-'' then (-1, r) else if c = CHR ''+'' then (1, r) else (1, s)
   | [] \<Rightarrow> (1, []))"

text \<open>\<open>None\<close> is \<open>NaN\<close> or an infinity, neither of which is finite.\<close>

definition parse_float :: "string \<Rightarrow> rat option" where
  "parse_float s =
     (let (sign, body) = strip_sign (dropWhile js_space s);
          whole = takeWhile digit body;
          rest = dropWhile digit body;
          frac = (case rest of c # r \<Rightarrow> if c = CHR ''.'' then takeWhile digit r else [] | [] \<Rightarrow> []);
          after = (case rest of c # r \<Rightarrow> if c = CHR ''.'' then dropWhile digit r else rest | [] \<Rightarrow> [])
      in if whole = [] \<and> frac = [] then None
         else Some (sign * of_int (digits_value (whole @ frac))
                * power_of_ten (read_exponent after - int (length frac))))"

subsection \<open>Negotiation\<close>

text \<open>One part of an \<open>Accept-Language\<close> header: its tag and its weight.\<close>

definition weight_of :: "string list \<Rightarrow> rat option" where
  "weight_of params =
     (case find (\<lambda>p. prefix ''q='' p) (map js_trim params) of
        None \<Rightarrow> Some 1
      | Some p \<Rightarrow> parse_float (drop 2 p))"

definition ranked :: "string \<Rightarrow> (string \<times> rat) list" where
  "ranked header =
     sort_key (\<lambda>e. - snd e)
       (List.map_filter (\<lambda>part.
          (case js_split (CHR '';'') part of
             [] \<Rightarrow> None
           | tag # params \<Rightarrow>
             (case weight_of params of
                None \<Rightarrow> None
              | Some q \<Rightarrow> if js_trim tag \<noteq> [] \<and> 0 < q then Some (js_trim tag, q) else None)))
         (js_split (CHR '','') header))"

fun first_supported :: "(string \<times> rat) list \<Rightarrow> string" where
  "first_supported [] = default_locale"
| "first_supported ((tag, q) # rest) =
     (case normalize_locale (Some tag) of Some l \<Rightarrow> l | None \<Rightarrow> first_supported rest)"

definition negotiate_locale :: "string option \<Rightarrow> string" where
  "negotiate_locale header =
     (case header of None \<Rightarrow> default_locale
      | Some h \<Rightarrow> if h = [] then default_locale else first_supported (ranked h))"

definition resolve_locale :: "string option \<Rightarrow> string option \<Rightarrow> string" where
  "resolve_locale cookie accept =
     (case normalize_locale cookie of Some l \<Rightarrow> l | None \<Rightarrow> negotiate_locale accept)"

section \<open>Messages\<close>

text \<open>A read of one property of a catalog node; the elements of an array have decimal names.\<close>

definition child :: "string \<Rightarrow> json \<Rightarrow> json option" where
  "child k node =
     (case node of
        JObj o' \<Rightarrow> map_of o' k
      | JArr xs \<Rightarrow> map_option snd (find (\<lambda>p. show_nat (fst p) = k) (enumerate 0 xs))
      | _ \<Rightarrow> None)"

fun walk :: "json option \<Rightarrow> string list \<Rightarrow> json option" where
  "walk node [] = node"
| "walk node (k # ks) = (case node of None \<Rightarrow> None | Some n \<Rightarrow> walk (child k n) ks)"

definition string_leaf :: "json option \<Rightarrow> string option" where
  "string_leaf n = (case n of Some (JStr x) \<Rightarrow> Some x | _ \<Rightarrow> None)"

definition lookup_message :: "json option \<Rightarrow> string \<Rightarrow> string option" where
  "lookup_message messages key =
     (case messages of
        None \<Rightarrow> None
      | Some m \<Rightarrow>
        (case string_leaf (child key m) of
           Some x \<Rightarrow> Some x
         | None \<Rightarrow> string_leaf (walk (Some m) (js_split (CHR ''.'') key))))"

text \<open>The characters of \<open>[\w.-]\<close>.\<close>

definition name_char :: "char \<Rightarrow> bool" where
  "name_char c \<longleftrightarrow> digit c \<or> (65 \<le> (of_char c :: nat) \<and> (of_char c :: nat) \<le> 90)
     \<or> (97 \<le> (of_char c :: nat) \<and> (of_char c :: nat) \<le> 122) \<or> c = CHR ''_'' \<or> c = CHR ''.'' \<or> c = CHR ''-''"

text \<open>
  One match of \<open>/\{\{\s*([\w.-]+)\s*\}\}/\<close> at the start: the name and the rest. The greedy runs need
  no backtracking because white space, names and braces share no character.
\<close>

definition match_placeholder :: "string \<Rightarrow> (string \<times> string) option" where
  "match_placeholder s =
     (if \<not> prefix ''{{'' s then None
      else (let a = dropWhile js_space (drop 2 s); name = takeWhile name_char a;
                b = dropWhile js_space (dropWhile name_char a)
            in if name = [] \<or> \<not> prefix ''}}'' b then None else Some (name, drop 2 b)))"

lemma match_placeholder_shorter:
  assumes "match_placeholder s = Some (n, r)"
  shows "length r < length s"
proof -
  have "length s \<ge> 2" and r: "r = drop 2 (dropWhile js_space (dropWhile name_char (dropWhile js_space (drop 2 s))))"
    using assms by (auto simp: match_placeholder_def Let_def prefix_def split: if_split_asm)
  have "length (dropWhile js_space (dropWhile name_char (dropWhile js_space (drop 2 s)))) \<le> length (drop 2 s)"
    using length_dropWhile_le order_trans by metis
  with \<open>length s \<ge> 2\<close> show ?thesis by (simp add: r)
qed

text \<open>The matched text of a placeholder, which stands when the variable is missing.\<close>

function interpolate_with :: "(string \<Rightarrow> string option) \<Rightarrow> string \<Rightarrow> string" where
  "interpolate_with vars s =
     (case match_placeholder s of
        Some (name, rest) \<Rightarrow>
          (case vars name of Some v \<Rightarrow> v | None \<Rightarrow> take (length s - length rest) s) @ interpolate_with vars rest
      | None \<Rightarrow> (case s of [] \<Rightarrow> [] | c # cs \<Rightarrow> c # interpolate_with vars cs))"
  by pat_completeness auto

termination interpolate_with
  by (relation "measure (length \<circ> snd)") (auto dest: match_placeholder_shorter)

declare interpolate_with.simps [simp del]

definition interpolate :: "string \<Rightarrow> (string \<Rightarrow> string option) option \<Rightarrow> string" where
  "interpolate t vars = (case vars of None \<Rightarrow> t | Some v \<Rightarrow> interpolate_with v t)"

definition translate ::
  "json option \<Rightarrow> string \<Rightarrow> string option \<Rightarrow> (string \<Rightarrow> string option) option \<Rightarrow> string" where
  "translate messages key fallback vars =
     interpolate (case lookup_message messages key of Some x \<Rightarrow> x
        | None \<Rightarrow> (case fallback of Some x \<Rightarrow> x | None \<Rightarrow> key)) vars"

section \<open>Loading a catalog\<close>

definition catalog_roots :: "string list" where
  "catalog_roots = [''public/locales'', ''apps/web/public/locales'']"

text \<open>\<open>read_json\<close> is \<open>None\<close> for a file that is missing or not JSON. Only successes are cached.\<close>

fun load_from :: "(string \<Rightarrow> json option) \<Rightarrow> string \<Rightarrow> string list \<Rightarrow> json option" where
  "load_from read_json code [] = None"
| "load_from read_json code (dir # dirs) =
     (case read_json (dir @ ''/'' @ code @ ''/translation.json'') of
        Some m \<Rightarrow> Some m | None \<Rightarrow> load_from read_json code dirs)"

definition load_messages ::
  "(string \<Rightarrow> json option) \<Rightarrow> string \<Rightarrow> (string \<rightharpoonup> json) \<Rightarrow> json \<times> (string \<rightharpoonup> json)" where
  "load_messages read_json code cache =
     (case cache code of
        Some m \<Rightarrow> (m, cache)
      | None \<Rightarrow> (case load_from read_json code catalog_roots of
                  Some m \<Rightarrow> (m, cache(code \<mapsto> m)) | None \<Rightarrow> (JObj [], cache)))"

section \<open>Properties\<close>

lemma normalize_locale_code: "normalize_locale t = Some l \<Longrightarrow> l \<in> set locale_codes"
  by (auto simp: normalize_locale_def Let_def locale_codes_def split: option.split_asm if_split_asm)

lemma first_supported_code: "first_supported xs \<in> set locale_codes"
  by (induction xs rule: first_supported.induct)
    (auto simp: default_locale_def locale_codes_def dest: normalize_locale_code split: option.split)

lemma interpolate_missing: "interpolate_with (\<lambda>_. None) s = s"
proof (induction "\<lambda>_::string. None::string option" s rule: interpolate_with.induct)
  case (1 s)
  show ?case
  proof (cases "match_placeholder s")
    case None
    with 1(1) [OF None] show ?thesis by (subst interpolate_with.simps) (auto split: list.split)
  next
    case (Some nr)
    obtain n r where nr: "nr = (n, r)" by (cases nr)
    have "suffix r s"
      using Some nr by (auto simp: match_placeholder_def Let_def split: if_split_asm
          intro!: suffix_drop suffix_order.trans [OF suffix_drop] suffix_order.trans [OF suffix_dropWhile])
    then have "take (length s - length r) s @ r = s" by (auto simp: suffix_def)
    with 1(2) [OF Some nr [symmetric]] Some nr show ?thesis by (subst interpolate_with.simps) simp
  qed
qed


lemma sort_weights: "sorted_wrt (\<lambda>a b. snd b \<le> snd a) (ranked h)"
proof -
  have "sorted (map (\<lambda>e. - snd e) (sort_key (\<lambda>e. - snd e) xs))" for xs :: "(string \<times> rat) list" by simp
  then show ?thesis unfolding ranked_def sorted_map by simp
qed

lemma first_supported_best:
  assumes "sorted_wrt (\<lambda>a b. snd b \<le> snd a) xs" "(tag, q) \<in> set xs" "normalize_locale (Some tag) = Some l"
  shows "\<exists>tag' q'. (tag', q') \<in> set xs \<and> normalize_locale (Some tag') = Some (first_supported xs) \<and> q \<le> q'"
  using assms
proof (induction xs rule: first_supported.induct)
  case (2 t w rest)
  show ?case
  proof (cases "normalize_locale (Some t)")
    case None
    with 2 obtain tag' q' where "(tag', q') \<in> set rest" "normalize_locale (Some tag') = Some (first_supported rest)" "q \<le> q'"
      by auto
    with None show ?thesis by auto
  next
    case (Some x)
    with 2(2,3) show ?thesis by (intro exI [of _ t] exI [of _ w]) auto
  qed
qed simp

text \<open>
  every request gets one of the seven catalogs; a cookie that names one wins over the browser, a
  regional or legacy tag is mapped to its catalog, and English is the default.
\<close>

theorem locale_always_supported:
  "resolve_locale cookie accept \<in> set locale_codes
   \<and> resolve_locale (Some ''de-AT'') accept = ''de''
   \<and> resolve_locale None (Some ''ko-KR,en;q=0.8'') = ''kr''
   \<and> resolve_locale None None = ''en''"
proof -
  have "resolve_locale cookie accept \<in> set locale_codes"
    using first_supported_code normalize_locale_code
    by (auto simp: resolve_locale_def negotiate_locale_def default_locale_def locale_codes_def split: option.split)
  moreover have "normalize_locale (Some ''de-AT'') = Some ''de''" by code_simp
  moreover have "resolve_locale None (Some ''ko-KR,en;q=0.8'') = ''kr''" by code_simp
  moreover have "resolve_locale None None = ''en''" by code_simp
  ultimately show ?thesis by (simp add: resolve_locale_def)
qed

theorem negotiated_locale_best:
  assumes "(tag, q) \<in> set (ranked h)" "normalize_locale (Some tag) = Some l" "h \<noteq> []"
  shows "\<exists>tag' q'. (tag', q') \<in> set (ranked h) \<and> normalize_locale (Some tag') = Some (negotiate_locale (Some h)) \<and> q \<le> q'"
  using first_supported_best [OF sort_weights assms(1,2)] assms(3) by (simp add: negotiate_locale_def)

text \<open>
  filling in a message never loses text: with no variable defined it is unchanged, and a message
  that is missing from a catalog shows the caller's default, or the key itself.
\<close>

theorem translate_falls_back:
  "translate messages key fallback (Some (\<lambda>_. None)) = translate messages key fallback None
   \<and> translate None key (Some d) None = d \<and> translate None key None None = key
   \<and> interpolate ''{{ count }} of {{total}}'' (Some (\<lambda>n. if n = ''count'' then Some ''3'' else None)) = ''3 of {{total}}''"
proof -
  have "interpolate ''{{ count }} of {{total}}'' (Some (\<lambda>n. if n = ''count'' then Some ''3'' else None)) = ''3 of {{total}}''"
    by code_simp
  then show ?thesis by (simp add: translate_def lookup_message_def interpolate_missing interpolate_def)
qed

end
