(* ===== verification/Posture.thy ===== *)
theory Posture
  imports Prelude
begin

text \<open>
  apps/api/src/config/secret-posture.ts: the check that refuses to start a production deployment
  on missing or shipped placeholder secrets. The environment is a partial map; the em dash and the
  backquotes of the message are hyphens and apostrophes.
\<close>

text \<open>\<open>/change[-_.]?me/i\<close>, tried at every position.\<close>

definition placeholder_at :: "string \<Rightarrow> bool" where
  "placeholder_at s =
     (prefix ''change'' s \<and>
       (let r = drop 6 s
        in prefix ''me'' r \<or> (case r of [] \<Rightarrow> False | c # cs \<Rightarrow> c \<in> set ''-_.'' \<and> prefix ''me'' cs)))"

definition is_placeholder :: "string option \<Rightarrow> bool" where
  "is_placeholder v = list_ex placeholder_at (suffixes (js_lower (js_trim (case v of None \<Rightarrow> [] | Some x \<Rightarrow> x))))"

definition required_in_production :: "string list" where
  "required_in_production = [''JWT_ACCESS_SECRET'', ''JWT_REFRESH_SECRET'', ''CRYPTO_MASTER_KEY'']"

definition no_placeholders :: "string list" where
  "no_placeholders = required_in_production @ [''POSTGRES_PASSWORD'', ''REDIS_PASSWORD'', ''DATABASE_URL'',
     ''REDIS_URL'', ''S3_SECRET_KEY'', ''MEILISEARCH_API_KEY'', ''OIDC_CLIENT_SECRET'', ''AUTHENTIK_SECRET_KEY'',
     ''AUTHENTIK_DB_PASSWORD'', ''AUTHENTIK_BOOTSTRAP_PASSWORD'']"

definition secret_problems :: "(string \<Rightarrow> string option) \<Rightarrow> string list" where
  "secret_problems vars =
     map (\<lambda>k. k @ '' is not set'')
       (filter (\<lambda>k. js_trim (case vars k of None \<Rightarrow> [] | Some x \<Rightarrow> x) = []) required_in_production)
     @ map (\<lambda>k. k @ '' still holds the placeholder from .env.example'')
       (filter (\<lambda>k. is_placeholder (vars k)) no_placeholders)"

text \<open>\<open>Some\<close> message when the process must not start.\<close>

definition assert_secret_posture :: "(string \<Rightarrow> string option) \<Rightarrow> string option" where
  "assert_secret_posture vars =
     (if (case vars ''NODE_ENV'' of None \<Rightarrow> ''development'' | Some x \<Rightarrow> x) \<noteq> ''production'' then None
      else if secret_problems vars = [] then None
      else Some (js_join [CHR 0x0A]
        ([''Refusing to start: this deployment would run with default credentials.'']
         @ map (\<lambda>p. ''  - '' @ p) (secret_problems vars)
         @ [[], ''Generate real values ('./setup.sh' does it for a new .env), store them in'',
            ''Cerulean Vault ('python3 scripts/vault-migrate.py --from-env-file .env'), and'',
            ''keep the resolved values in the gitignored .env - see docs/stack.md.''])))"

text \<open>The shapes of a shipped placeholder.\<close>

definition placeholders :: "string list" where
  "placeholders = [''changeme'', ''change-me'', ''change_me'', ''change.me'']"

lemma prefix_append_iff: "prefix (x @ y) s \<longleftrightarrow> prefix x s \<and> prefix y (drop (length x) s)"
  by (auto simp: prefix_def append_eq_conv_conj)

lemma placeholder_at_iff: "placeholder_at s \<longleftrightarrow> (\<exists>p \<in> set placeholders. prefix p s)"
proof -
  have c: "prefix (''change'' @ y) s \<longleftrightarrow> prefix ''change'' s \<and> prefix y (drop 6 s)" for y
    using prefix_append_iff [of "''change''" y s] by (simp add: numeral_eq_Suc)
  have p: "placeholders = [''change'' @ ''me'', ''change'' @ ''-me'', ''change'' @ ''_me'', ''change'' @ ''.me'']"
    by (simp add: placeholders_def)
  have d: "prefix (x # y) r \<longleftrightarrow> (case r of [] \<Rightarrow> False | c # cs \<Rightarrow> c = x \<and> prefix y cs)"
    for x :: char and y r by (auto split: list.split)
  have "(\<exists>p \<in> set placeholders. prefix p s) \<longleftrightarrow> prefix ''change'' s \<and>
      (\<exists>y \<in> {''me'', ''-me'', ''_me'', ''.me''}. prefix y (drop 6 s))"
    unfolding p by (simp only: list.set bex_simps c) blast
  also have "(\<exists>y \<in> {''me'', ''-me'', ''_me'', ''.me''}. prefix y r) \<longleftrightarrow>
      prefix ''me'' r \<or> (case r of [] \<Rightarrow> False | c # cs \<Rightarrow> c \<in> set ''-_.'' \<and> prefix ''me'' cs)" for r
    by (cases r) auto
  finally show ?thesis by (simp add: placeholder_at_def Let_def)
qed

text \<open>
  a production process starts exactly when the three secrets it signs and encrypts with are
  set and no watched variable contains a placeholder, in any spelling, anywhere in its value;
  any other environment always starts.
\<close>

theorem production_starts_iff:
  "assert_secret_posture vars = None \<longleftrightarrow>
     vars ''NODE_ENV'' \<noteq> Some ''production''
     \<or> list_all (\<lambda>k. \<exists>v. vars k = Some v \<and> js_trim v \<noteq> []) required_in_production
       \<and> list_all (\<lambda>k. list_all (\<lambda>p. \<not> (\<exists>v. vars k = Some v \<and> sublist p (js_lower (js_trim v)))) placeholders) no_placeholders"
proof -
  have sub: "sublist p x \<longleftrightarrow> (\<exists>y. suffix y x \<and> prefix p y)" for p x :: string
    unfolding sublist_def suffix_def prefix_def by blast
  have ph: "is_placeholder (Some v) \<longleftrightarrow> (\<exists>p \<in> set placeholders. sublist p (js_lower (js_trim v)))" for v
    unfolding is_placeholder_def list_ex_iff placeholder_at_iff sub by (simp add: set_suffixes_eq) blast
  have none: "\<not> is_placeholder None" by (simp add: is_placeholder_def js_trim_def js_lower_def placeholder_at_def)
  have "secret_problems vars = [] \<longleftrightarrow>
      list_all (\<lambda>k. \<exists>v. vars k = Some v \<and> js_trim v \<noteq> []) required_in_production
      \<and> list_all (\<lambda>k. \<not> is_placeholder (vars k)) no_placeholders"
  proof -
    have "js_trim (case vars k of None \<Rightarrow> [] | Some x \<Rightarrow> x) \<noteq> [] \<longleftrightarrow> (\<exists>v. vars k = Some v \<and> js_trim v \<noteq> [])" for k
      by (cases "vars k") (simp_all add: js_trim_def [of "[]"])
    then show ?thesis by (simp add: secret_problems_def filter_empty_conv list_all_iff)
  qed
  moreover have "\<not> is_placeholder (vars k) \<longleftrightarrow>
      list_all (\<lambda>p. \<not> (\<exists>v. vars k = Some v \<and> sublist p (js_lower (js_trim v)))) placeholders" for k
    using none by (cases "vars k") (auto simp: ph list_all_iff)
  ultimately show ?thesis
    by (auto simp: assert_secret_posture_def split: option.split)
qed

end
