(* ===== verification/Send_Wizard.thy ===== *)
theory Send_Wizard
  imports Signing_Samples
begin

text \<open>
  apps/web/src/app/documents/[id]/send/send-wizard-client.tsx: the three steps in which a sender
  names the recipients of a document, sets the options and sends the request. The state of the
  component is a record, every control that changes it an action; a control exists only in the
  step that shows it. The instant \<open>new Date(deadline)\<close> yields is a parameter of the control.
  The last section composes the wizard with \<open>createRequest\<close> of the API.
\<close>

section \<open>The component\<close>

datatype wizard_step = Signers_Step | Settings_Step | Review_Step

record signer_draft =
  dr_email :: string
  dr_name :: "string option"
  dr_role :: signer_role
  dr_order :: nat

record wizard =
  wz_step :: wizard_step
  wz_signers :: "signer_draft list"
  wz_mode :: signing_mode
  wz_in_person :: bool
  wz_message :: string
  wz_deadline :: "time option"
  wz_title :: string
  wz_draft_email :: string
  wz_draft_name :: string
  wz_draft_role :: signer_role
  wz_draft_error :: "string option"

definition initial_wizard :: "string \<Rightarrow> wizard" where
  "initial_wizard title = \<lparr>wz_step = Signers_Step, wz_signers = [], wz_mode = SEQUENTIAL, wz_in_person = False,
     wz_message = [], wz_deadline = None, wz_title = title, wz_draft_email = [], wz_draft_name = [],
     wz_draft_role = SIGNER, wz_draft_error = None\<rparr>"

text \<open>The expression \<open>/^[^\s@]+@[^\s@]+\.[^\s@]+$/\<close>.\<close>

definition has_inner_dot :: "string \<Rightarrow> bool" where
  "has_inner_dot d = list_ex (\<lambda>k. d ! k = CHR ''.'') [1..<length d - 1]"

definition email_pattern :: "string \<Rightarrow> bool" where
  "email_pattern s = (list_all (\<lambda>c. \<not> js_space c) s
     \<and> (case js_split (CHR ''@'') s of [a, d] \<Rightarrow> a \<noteq> [] \<and> has_inner_dot d | _ \<Rightarrow> False))"

definition or_undefined :: "string \<Rightarrow> string option" where
  "or_undefined v = (if v = [] then None else Some v)"

definition add_signer :: "wizard \<Rightarrow> wizard" where
  "add_signer w =
     (let email = js_lower (js_trim (wz_draft_email w))
      in if email = [] then w\<lparr>wz_draft_error := Some ''Email is required''\<rparr>
         else if \<not> email_pattern email then w\<lparr>wz_draft_error := Some ''Enter a valid email address''\<rparr>
         else if list_ex (\<lambda>d. dr_email d = email) (wz_signers w)
         then w\<lparr>wz_draft_error := Some ''This email is already in the list''\<rparr>
         else if 50 \<le> length (wz_signers w)
         then w\<lparr>wz_draft_error := Some ''A signing request supports at most 50 signers''\<rparr>
         else w\<lparr>wz_signers := wz_signers w @ [\<lparr>dr_email = email, dr_name = or_undefined (js_trim (wz_draft_name w)),
                  dr_role = wz_draft_role w, dr_order = length (wz_signers w)\<rparr>],
                wz_draft_email := [], wz_draft_name := [], wz_draft_role := SIGNER, wz_draft_error := None\<rparr>)"

definition renumber :: "signer_draft list \<Rightarrow> signer_draft list" where
  "renumber ds = map (\<lambda>(k, d). d\<lparr>dr_order := k\<rparr>) (enumerate 0 ds)"

definition remove_signer :: "string \<Rightarrow> wizard \<Rightarrow> wizard" where
  "remove_signer email w = w\<lparr>wz_signers := renumber (filter (\<lambda>d. dr_email d \<noteq> email) (wz_signers w))\<rparr>"

text \<open>The two arrows of a row: \<open>index\<close> is the row's, so it lies in the list.\<close>

definition swap :: "nat \<Rightarrow> nat \<Rightarrow> 'a list \<Rightarrow> 'a list" where
  "swap i j xs = xs[i := xs ! j, j := xs ! i]"

definition move_signer :: "nat \<Rightarrow> int \<Rightarrow> wizard \<Rightarrow> wizard" where
  "move_signer index delta w =
     (let target = int index + delta
      in if target < 0 \<or> int (length (wz_signers w)) \<le> target then w
         else w\<lparr>wz_signers := renumber (swap index (nat target) (wz_signers w))\<rparr>)"

definition sequential_order :: "wizard \<Rightarrow> signer_draft list" where
  "sequential_order w = sort_key dr_order (wz_signers w)"

definition can_continue :: "wizard \<Rightarrow> bool" where
  "can_continue w = (if wz_signers w = [] then False
     else length (wz_signers w) = length (remdups (map dr_email (wz_signers w))))"

text \<open>The body that \<open>submit\<close> posts.\<close>

definition draft_input :: "signer_draft \<Rightarrow> signer_input" where
  "draft_input d = \<lparr>in_email = dr_email d, in_name = dr_name d, in_role = Some (dr_role d), in_order = Some (int (dr_order d))\<rparr>"

definition submitted_request :: "id \<Rightarrow> wizard \<Rightarrow> create_input" where
  "submitted_request document w = \<lparr>cr_document = document, cr_template = None,
     cr_title = or_undefined (js_trim (wz_title w)), cr_message = or_undefined (js_trim (wz_message w)),
     cr_deadline = wz_deadline w, cr_mode = Some (wz_mode w), cr_signers = map draft_input (wz_signers w),
     cr_rules = [], cr_send_invites = Some (\<not> wz_in_person w)\<rparr>"

section \<open>The controls\<close>

datatype wizard_action =
    Type_Email string | Type_Name string | Choose_Role signer_role | Add | Remove string | Move nat bool
  | Continue | Stepper wizard_step | Back | To_Review
  | Choose_Mode signing_mode | Choose_In_Person bool | Type_Title string | Type_Message string
  | Choose_Deadline "time option"

fun step_number :: "wizard_step \<Rightarrow> nat" where
  "step_number Signers_Step = 0"
| "step_number Settings_Step = 1"
| "step_number Review_Step = 2"

fun wizard_do :: "wizard_action \<Rightarrow> wizard \<Rightarrow> wizard" where
  "wizard_do (Type_Email x) w = (if wz_step w = Signers_Step then w\<lparr>wz_draft_email := x\<rparr> else w)"
| "wizard_do (Type_Name x) w = (if wz_step w = Signers_Step then w\<lparr>wz_draft_name := x\<rparr> else w)"
| "wizard_do (Choose_Role x) w = (if wz_step w = Signers_Step then w\<lparr>wz_draft_role := x\<rparr> else w)"
| "wizard_do Add w = (if wz_step w = Signers_Step then add_signer w else w)"
| "wizard_do (Remove x) w = (if wz_step w = Signers_Step then remove_signer x w else w)"
| "wizard_do (Move k down) w = (if wz_step w = Signers_Step \<and> k < length (wz_signers w)
     then move_signer k (if down then 1 else - 1) w else w)"
| "wizard_do Continue w = (if wz_step w = Signers_Step \<and> can_continue w then w\<lparr>wz_step := Settings_Step\<rparr> else w)"
| "wizard_do (Stepper x) w = (if step_number x \<le> step_number (wz_step w) then w\<lparr>wz_step := x\<rparr> else w)"
| "wizard_do Back w = (case wz_step w of Signers_Step \<Rightarrow> w | Settings_Step \<Rightarrow> w\<lparr>wz_step := Signers_Step\<rparr>
     | Review_Step \<Rightarrow> w\<lparr>wz_step := Settings_Step\<rparr>)"
| "wizard_do To_Review w = (if wz_step w = Settings_Step then w\<lparr>wz_step := Review_Step\<rparr> else w)"
| "wizard_do (Choose_Mode x) w = (if wz_step w = Settings_Step then w\<lparr>wz_mode := x\<rparr> else w)"
| "wizard_do (Choose_In_Person x) w = (if wz_step w = Settings_Step then w\<lparr>wz_in_person := x\<rparr> else w)"
| "wizard_do (Type_Title x) w = (if wz_step w = Settings_Step then w\<lparr>wz_title := x\<rparr> else w)"
| "wizard_do (Type_Message x) w = (if wz_step w = Settings_Step then w\<lparr>wz_message := x\<rparr> else w)"
| "wizard_do (Choose_Deadline x) w = (if wz_step w = Settings_Step then w\<lparr>wz_deadline := x\<rparr> else w)"

definition run_wizard :: "wizard_action list \<Rightarrow> string \<Rightarrow> wizard" where
  "run_wizard acts title = foldl (\<lambda>w a. wizard_do a w) (initial_wizard title) acts"

section \<open>Trimmed lower-case text\<close>

lemma js_space_lower [simp]: "js_space (js_lower_char c) = js_space c"
  by (auto simp: js_space_def js_lower_char_def Let_def)

lemma dropWhile_lower: "dropWhile js_space (map js_lower_char s) = map js_lower_char (dropWhile js_space s)"
  by (induction s) simp_all

lemma js_trim_lower: "js_trim (js_lower s) = js_lower (js_trim s)"
  by (simp add: js_trim_def js_lower_def dropWhile_lower rev_map)

lemma dropWhile_stop: "xs = [] \<or> \<not> p (hd xs) \<Longrightarrow> dropWhile p xs = xs"
  by (cases xs) auto

lemma last_dropWhile: "dropWhile p xs \<noteq> [] \<Longrightarrow> last (dropWhile p xs) = last xs"
  by (induction xs) auto

lemma js_trim_trim [simp]: "js_trim (js_trim s) = js_trim s"
proof -
  define a where "a = dropWhile js_space s"
  define b where "b = dropWhile js_space (rev a)"
  have a: "a = [] \<or> \<not> js_space (hd a)" unfolding a_def using hd_dropWhile by blast
  have b: "b = [] \<or> \<not> js_space (hd b)" unfolding b_def using hd_dropWhile by blast
  have "b = [] \<or> last b = hd a"
    unfolding b_def using last_dropWhile [of js_space "rev a"] by (cases "a = []") (auto simp: last_rev)
  with a have "rev b = [] \<or> \<not> js_space (hd (rev b))"
    unfolding b_def by (cases "a = []") (auto simp: hd_rev)
  with b show ?thesis
    unfolding js_trim_def a_def [symmetric] b_def [symmetric] by (simp add: dropWhile_stop)
qed

section \<open>The recipients\<close>

definition emails_ok :: "string list \<Rightarrow> bool" where
  "emails_ok es \<longleftrightarrow> distinct es \<and> length es \<le> 50
     \<and> (\<forall>e \<in> set es. js_trim (js_lower e) = e \<and> email_pattern e)"

definition recipients_ok :: "signer_draft list \<Rightarrow> bool" where
  "recipients_ok ds \<longleftrightarrow> map dr_order ds = [0..<length ds] \<and> emails_ok (map dr_email ds)"

definition wizard_ok :: "wizard \<Rightarrow> bool" where
  "wizard_ok w \<longleftrightarrow> recipients_ok (wz_signers w) \<and> (wz_step w \<noteq> Signers_Step \<longrightarrow> wz_signers w \<noteq> [])"

lemma renumber_fields [simp]:
  "map dr_order (renumber ds) = [0..<length ds]" "map dr_email (renumber ds) = map dr_email ds"
  "length (renumber ds) = length ds"
proof -
  have "map dr_order (renumber ds) = map fst (enumerate 0 ds)" by (simp add: renumber_def comp_def case_prod_beta)
  then show "map dr_order (renumber ds) = [0..<length ds]" by simp
  have "map dr_email (renumber ds) = map dr_email (map snd (enumerate 0 ds))"
    unfolding renumber_def map_map by (rule map_cong) (auto simp: case_prod_beta)
  then show "map dr_email (renumber ds) = map dr_email ds" by simp
qed (simp add: renumber_def)

lemma renumber_ok: "emails_ok (map dr_email ds) \<Longrightarrow> recipients_ok (renumber ds)"
  by (simp add: recipients_ok_def)

lemma add_signer_ok:
  assumes "recipients_ok (wz_signers w)"
  shows "recipients_ok (wz_signers (add_signer w))"
proof -
  have "js_trim (js_lower (js_lower (js_trim x))) = js_lower (js_trim x)" for x by (simp add: js_trim_lower)
  with assms show ?thesis
    by (auto simp: add_signer_def Let_def recipients_ok_def emails_ok_def list_ex_iff)
qed

lemma remove_signer_ok:
  assumes "recipients_ok (wz_signers w)"
  shows "recipients_ok (wz_signers (remove_signer x w))"
proof -
  have "emails_ok (map dr_email (filter (\<lambda>d. dr_email d \<noteq> x) ds))" if "emails_ok (map dr_email ds)" for ds :: "signer_draft list"
    using that unfolding emails_ok_def
    by (auto simp: distinct_map inj_on_def intro: order_trans [OF length_filter_le])
  with assms show ?thesis by (simp add: remove_signer_def recipients_ok_def)
qed

lemma emails_ok_swap:
  assumes "emails_ok es" "i < length es" "j < length es"
  shows "emails_ok (es[i := es ! j, j := es ! i])"
  using assms by (simp add: emails_ok_def set_swap del: set_update_distinct)

lemma move_signer_ok:
  assumes "recipients_ok (wz_signers w)" "k < length (wz_signers w)"
  shows "recipients_ok (wz_signers (move_signer k delta w)) \<and> length (wz_signers (move_signer k delta w)) = length (wz_signers w)"
proof -
  have "map f (swap i j xs) = swap i j (map f xs)" if "i < length xs" "j < length xs" for f :: "signer_draft \<Rightarrow> string" and i j xs
    using that by (simp add: swap_def map_update)
  then have "emails_ok (map dr_email (swap k j (wz_signers w)))" if "j < length (wz_signers w)" for j
    using assms that emails_ok_swap [of "map dr_email (wz_signers w)" k j]
    by (simp only: recipients_ok_def swap_def length_map)
  then show ?thesis
    using assms by (auto simp: move_signer_def Let_def swap_def intro!: renumber_ok)
qed

lemma signer_controls_step [simp]:
  "wz_step (add_signer w) = wz_step w" "wz_step (remove_signer x w) = wz_step w"
  "wz_step (move_signer k delta w) = wz_step w"
  by (simp_all add: add_signer_def remove_signer_def move_signer_def Let_def)

lemma step_number_zero [simp]: "step_number x = 0 \<longleftrightarrow> x = Signers_Step"
  by (cases x) simp_all

lemma wizard_do_ok:
  assumes "wizard_ok w"
  shows "wizard_ok (wizard_do a w)"
proof (cases a)
  case (Move k down)
  with assms move_signer_ok [of w k] show ?thesis by (auto simp: wizard_ok_def)
next
  case (Stepper x)
  with assms show ?thesis by (cases "wz_step w") (auto simp: wizard_ok_def)
qed (use assms in \<open>auto simp: wizard_ok_def add_signer_ok remove_signer_ok can_continue_def split: wizard_step.splits\<close>)

lemma run_wizard_ok: "wizard_ok (run_wizard acts title)"
proof -
  have "wizard_ok w \<Longrightarrow> wizard_ok (foldl (\<lambda>w a. wizard_do a w) w acts)" for w
    by (induction acts arbitrary: w) (simp_all add: wizard_do_ok)
  moreover have "wizard_ok (initial_wizard title)"
    by (simp add: wizard_ok_def initial_wizard_def recipients_ok_def emails_ok_def)
  ultimately show ?thesis unfolding run_wizard_def by blast
qed

section \<open>The request the API receives\<close>

lemma submitted_order:
  assumes "map dr_order ds = [0..<length ds]"
  shows "ordered_signers (map draft_input ds) = map (\<lambda>d. (draft_input d, int (dr_order d))) ds"
proof -
  let ?ys = "map (\<lambda>d. (draft_input d, int (dr_order d))) ds"
  have "map (\<lambda>(k, i). (i, coalesce (in_order i) (int k))) (enumerate 0 (map draft_input ds)) =
      map (\<lambda>i. (i, coalesce (in_order i) 0)) (map draft_input ds)"
    by (rule nth_equalityI) (simp_all add: nth_enumerate_eq draft_input_def coalesce_def)
  also have "\<dots> = ?ys" by (simp add: draft_input_def coalesce_def)
  finally have m: "ordered_signers (map draft_input ds) = sort_key snd ?ys" by (simp add: ordered_signers_def)
  have "map snd ?ys = map int (map dr_order ds)" by simp
  then have "map snd ?ys = map int [0..<length ds]" by (simp only: assms)
  then have "sorted (map snd ?ys)" by (simp add: sorted_map sorted_wrt_map comp_def)
  then show ?thesis using m sort_key_id_if_sorted [of snd ?ys] by simp
qed

lemma remdups_distinct_length: "distinct xs \<Longrightarrow> length (remdups xs) = length xs"
  by (simp add: distinct_remdups_id)

text \<open>
  C18: whatever a sender does in the wizard, the recipients it submits are accepted: the API can
  refuse the request only for its tenant, its document or the document's template, and it takes
  the recipients in the order the review step shows.
\<close>

theorem wizard_request_accepted:
  assumes "w = run_wizard acts title" "wz_step w = Review_Step"
  shows "check_create u (submitted_request document w) s =
    (case org_of u of
       None \<Rightarrow> Inl (Forbidden ''No active tenant'')
     | Some org \<Rightarrow>
       (case find (\<lambda>d. d_id d = document \<and> d_org d = org \<and> d_deleted d = None) (documents s) of
          None \<Rightarrow> Inl (NotFound ''Document not found'')
        | Some d \<Rightarrow>
          if d_status d = COMPLETED then Inl (Conflict ''Document is already completed'')
          else (case load_template_placements (d_template d) (length (wz_signers w)) s of
             Inl err \<Rightarrow> Inl err
           | Inr ps \<Rightarrow> Inr (org, d, map (\<lambda>d. (draft_input d, int (dr_order d))) (sequential_order w), ps))))"
proof -
  have ok: "map dr_order (wz_signers w) = [0..<length (wz_signers w)]" "emails_ok (map dr_email (wz_signers w))"
    "wz_signers w \<noteq> []"
    using run_wizard_ok [of acts title] assms by (auto simp: wizard_ok_def recipients_ok_def)
  let ?ys = "map (\<lambda>d. (draft_input d, int (dr_order d))) (wz_signers w)"
  have len: "length (wz_signers w) \<le> 50" using ok(2) by (simp add: emails_ok_def)
  have "map (\<lambda>(i, k). signer_email i) ?ys = map dr_email (wz_signers w)"
    using ok(2) by (auto simp: signer_email_def draft_input_def emails_ok_def)
  then have emails: "length (remdups (map (\<lambda>(i, k). signer_email i) ?ys)) = length (wz_signers w)"
    using ok(2) by (simp only: remdups_distinct_length emails_ok_def length_map)
  have "map snd ?ys = map int (map dr_order (wz_signers w))" by simp
  then have "distinct (map snd ?ys)" by (simp only: ok(1)) (simp add: distinct_map)
  then have orders: "length (remdups (map snd ?ys)) = length (wz_signers w)"
    by (simp only: remdups_distinct_length length_map)
  have shown: "sequential_order w = wz_signers w"
    unfolding sequential_order_def by (rule sort_key_id_if_sorted) (simp add: ok(1))
  have inp: "cr_signers (submitted_request document w) = map draft_input (wz_signers w)"
    "cr_rules (submitted_request document w) = []" "cr_template (submitted_request document w) = None"
    "cr_document (submitted_request document w) = document"
    by (simp_all add: submitted_request_def)
  show ?thesis
    unfolding check_create_def inp submitted_order [OF ok(1)] Let_def shown
    using ok(3) len by (simp only: emails orders length_map) (simp add: coalesce_opt_def split: option.split sum.split)
qed

definition sample_actions :: "wizard_action list" where
  "sample_actions = [Type_Email '' Ann@X.org '', Add, Type_Email ''bob@x.org'', Choose_Role APPROVER, Add, Move 0 True,
     Continue, Choose_Mode PARALLEL, To_Review]"

theorem wizard_request_accepted_witness:
  "map_sum id (\<lambda>(org, d, rs, ps). map (\<lambda>(i, k). (in_email i, k)) rs)
     (check_create sample_principal (submitted_request 2 (run_wizard sample_actions ''Lease'')) sample_db) =
   Inr [(''bob@x.org'', 0), (''ann@x.org'', 1)]"
proof -
  let ?w = "run_wizard sample_actions ''Lease''"
  have "wz_step ?w = Review_Step" by code_simp
  moreover have "map (\<lambda>d. (dr_email d, int (dr_order d))) (sequential_order ?w) = [(''bob@x.org'', 0), (''ann@x.org'', 1)]"
    by code_simp
  then have "map (\<lambda>(i, k). (in_email i, k)) (map (\<lambda>d. (draft_input d, int (dr_order d))) (sequential_order ?w)) =
      [(''bob@x.org'', 0), (''ann@x.org'', 1)]"
    by (simp add: comp_def draft_input_def)
  moreover have "org_of sample_principal = Some 1 \<and> documents sample_db = [sample_document]" by code_simp
  ultimately show ?thesis
    using wizard_request_accepted [of ?w sample_actions "''Lease''" sample_principal 2 sample_db]
    by (simp add: sample_document_def load_template_placements_def)
qed

end
