(* ===== verification/Sign_Form.thy ===== *)
theory Sign_Form
  imports Signing_Samples
begin

text \<open>
  The form of apps/web/src/app/sign/[token]/signing-room.tsx: the values a signer enters for the
  placed fields of the session, which of them are missing, and the body that \<open>sign\<close> posts. The
  last section composes the form with \<open>resolveFieldValues\<close> of the API.
\<close>

section \<open>The component\<close>

text \<open>\<open>values\<close> is a JavaScript object from field ids to values; a missing key is \<open>undefined\<close>.\<close>

type_synonym form_values = "id \<Rightarrow> json option"

definition loaded_values :: "request_field_row list \<Rightarrow> form_values" where
  "loaded_values fs = foldl (\<lambda>vs f. if is_empty_value (rf_value f) then vs else vs(rf_id f := rf_value f))
     (\<lambda>_. None) fs"

definition enter_value :: "id \<Rightarrow> json \<Rightarrow> form_values \<Rightarrow> form_values" where
  "enter_value i v vs = vs(i := Some v)"

definition missing_fields :: "request_field_row list \<Rightarrow> form_values \<Rightarrow> request_field_row list" where
  "missing_fields fs vs = filter (\<lambda>f. rf_required f \<and> is_empty_value (vs (rf_id f))) fs"

definition can_sign_form :: "request_field_row list \<Rightarrow> form_values \<Rightarrow> bool" where
  "can_sign_form fs vs = (fs = [] \<or> missing_fields fs vs = [])"

definition field_payload :: "request_field_row list \<Rightarrow> form_values \<Rightarrow> field_input list" where
  "field_payload fs vs = map (\<lambda>f. \<lparr>fi_id = rf_id f, fi_value = vs (rf_id f)\<rparr>)
     (filter (\<lambda>f. \<not> is_empty_value (vs (rf_id f))) fs)"

definition sign_body :: "request_field_row list \<Rightarrow> form_values \<Rightarrow> sign_input" where
  "sign_body fs vs = \<lparr>sn_type = Some TYPED, sn_serial = None, sn_hash = None, sn_algorithm = None,
     sn_certificate = None, sn_value = None,
     sn_fields = (if field_payload fs vs = [] then None else Some (field_payload fs vs))\<rparr>"

section \<open>What the API does with it\<close>

lemma submitted_payload:
  assumes "distinct (map rf_id fs)" "f \<in> set fs"
  shows "submitted (field_payload fs vs) (rf_id f) =
    (if is_empty_value (vs (rf_id f)) then None else Some (vs (rf_id f)))"
proof -
  let ?ps = "map (\<lambda>f. (rf_id f, vs (rf_id f))) (filter (\<lambda>f. \<not> is_empty_value (vs (rf_id f))) fs)"
  have "distinct (map fst (rev ?ps))"
    using assms(1) by (auto simp: comp_def distinct_map inj_on_def simp flip: rev_map)
  moreover have "map (\<lambda>f. (fi_id f, fi_value f)) (field_payload fs vs) = ?ps"
    by (simp add: field_payload_def)
  ultimately show ?thesis
    using assms(2) unfolding submitted_def
    by (auto intro!: map_of_is_SomeI simp: map_of_eq_None_iff)
qed

lemma empty_value_None [simp]: "is_empty_value None"
  by (simp add: is_empty_value_def)

lemma first_occurrences_set [simp]: "set (first_occurrences xs) = set xs"
  by (simp add: first_occurrences_def)

lemma submitted_Nil [simp]: "submitted [] i = None"
  by (simp add: submitted_def)

lemma form_resolution:
  assumes "distinct (map rf_id (request_fields s))"
    and fs: "fs = request_fields_for_signer rid sid s"
  shows "resolve_field_values rid sid (sn_fields (sign_body fs vs)) s =
    (if can_sign_form fs vs
     then Inr (map (\<lambda>f. (rf_id f, vs (rf_id f))) (filter (\<lambda>f. \<not> is_empty_value (vs (rf_id f))) fs))
     else Inl (BadRequest (''Complete the required field(s) first: ''
       @ js_join '', '' (map (\<lambda>f. coalesce (rf_name f) (field_type_name (rf_type f))) (missing_fields fs vs)))))"
proof -
  have d: "distinct (map rf_id fs)"
    using assms(1) unfolding fs request_fields_for_signer_def
    by (auto simp: distinct_map inj_on_def)
  have inp: "coalesce (sn_fields (sign_body fs vs)) [] = field_payload fs vs"
    by (simp add: sign_body_def coalesce_def)
  note sub = submitted_payload [OF d]
  have val: "submitted_value (field_payload fs vs) (rf_id f) = (if is_empty_value (vs (rf_id f)) then None else vs (rf_id f))"
    if "f \<in> set fs" for f
    using sub [OF that] by (simp add: submitted_value_def)
  have unknown: "filter (\<lambda>i. \<not> list_ex (\<lambda>f. rf_id f = i) fs) (first_occurrences (map fi_id (field_payload fs vs))) = []"
    by (auto simp: filter_empty_conv field_payload_def list_ex_iff)
  have miss: "filter (\<lambda>f. rf_required f \<and> is_empty_value (submitted_value (field_payload fs vs) (rf_id f))) fs =
      missing_fields fs vs"
    unfolding missing_fields_def by (rule filter_cong) (auto simp: val)
  have kept: "map (\<lambda>f. (rf_id f, submitted_value (field_payload fs vs) (rf_id f)))
      (filter (\<lambda>f. submitted (field_payload fs vs) (rf_id f) \<noteq> None) fs) =
      map (\<lambda>f. (rf_id f, vs (rf_id f))) (filter (\<lambda>f. \<not> is_empty_value (vs (rf_id f))) fs)"
    by (rule map_cong [OF filter_cong]) (auto simp: sub val)
  show ?thesis
    unfolding resolve_field_values_def inp fs [symmetric] Let_def unknown miss kept can_sign_form_def
    by (simp add: missing_fields_def)
qed

text \<open>
  C19: the signing room and the API agree on when a form is complete: if the room enables its
  button, the API accepts the posted fields and stores exactly the answers that are not empty;
  if it does not, the API refuses the same form and names the missing fields.
\<close>

theorem form_agrees_with_api:
  assumes "distinct (map rf_id (request_fields s))"
    and fs: "fs = request_fields_for_signer rid sid s"
  shows "resolve_field_values rid sid (sn_fields (sign_body fs vs)) s =
    (if can_sign_form fs vs
     then Inr (map (\<lambda>f. (rf_id f, vs (rf_id f))) (filter (\<lambda>f. \<not> is_empty_value (vs (rf_id f))) fs))
     else Inl (BadRequest (''Complete the required field(s) first: ''
       @ js_join '', '' (map (\<lambda>f. coalesce (rf_name f) (field_type_name (rf_type f))) (missing_fields fs vs)))))"
  using assms by (rule form_resolution)

definition sample_field :: "id \<Rightarrow> bool \<Rightarrow> request_field_row" where
  "sample_field i req = \<lparr>rf_id = i, rf_request = 10, rf_signer = Some 11, rf_type = FtText, rf_name = None, rf_key = None,
     rf_required = req, rf_page = 1, rf_x = None, rf_y = None, rf_width = None, rf_height = None, rf_options = None,
     rf_value = None, rf_filled = None\<rparr>"

definition form_db :: db where
  "form_db = empty_db\<lparr>request_fields := [sample_field 20 True, sample_field 21 False]\<rparr>"

theorem form_agrees_with_api_witness:
  "resolve_field_values 10 11 (sn_fields (sign_body (request_fields_for_signer 10 11 form_db)
      (enter_value 20 (JStr ''Ann'') (\<lambda>_. None)))) form_db = Inr [(20, Some (JStr ''Ann''))]"
proof -
  have f: "request_fields_for_signer 10 11 form_db = [sample_field 20 True, sample_field 21 False]" by code_simp
  have d: "distinct (map rf_id (request_fields form_db))" by code_simp
  show ?thesis
    using form_agrees_with_api [OF d refl, of 10 11 "enter_value 20 (JStr ''Ann'') (\<lambda>_. None)"]
    by (simp add: f sample_field_def can_sign_form_def missing_fields_def is_empty_value_def enter_value_def
        js_trim_def js_space_def)
qed

end
