(* ===== verification/Template_Editor.thy ===== *)
theory Template_Editor
  imports Complex_Main Net
begin

text \<open>
  The editor of apps/web/src/app/templates/[id]/edit/template-editor-client.tsx: the fields of a
  template as boxes on a page, placed in percent of the page by pointer or by number, and the body
  that \<open>save\<close> sends. Coordinates are rational numbers: the code computes with doubles, and the
  rounding of the last bits is not modelled. The validation of the body by the API
  (apps/api/src/modules/templates/templates.controller.ts) is class-validator's; the section on
  saving states the documented behaviour it relies on.
\<close>

section \<open>The fields\<close>

text \<open>
  \<open>ef_other\<close> are the names of the further properties of a field that came from the server, which the
  spread carries along.
\<close>

record editor_field =
  ef_id :: string
  ef_type :: field_type
  ef_name :: "string option"
  ef_required :: bool
  ef_page :: nat
  ef_assignee :: nat
  ef_x :: "rat option"
  ef_y :: "rat option"
  ef_width :: "rat option"
  ef_height :: "rat option"
  ef_other :: "string list"

record drag =
  dg_field :: string
  dg_resize :: bool
  dg_offset_x :: rat
  dg_offset_y :: rat

record editor =
  ed_fields :: "editor_field list"
  ed_selected :: "string option"
  ed_page :: nat
  ed_drag :: "drag option"

record canvas =
  cv_left :: rat
  cv_top :: rat
  cv_width :: rat
  cv_height :: rat

fun field_spec_of :: "field_type \<Rightarrow> string \<times> rat \<times> rat" where
  "field_spec_of FtSignature = (''Signature'', 30, 12)"
| "field_spec_of FtInitial = (''Initials'', 16, 10)"
| "field_spec_of FtName = (''Name'', 30, 8)"
| "field_spec_of FtEmail = (''Email'', 30, 8)"
| "field_spec_of FtDate = (''Date'', 20, 8)"
| "field_spec_of FtText = (''Text'', 30, 8)"
| "field_spec_of FtCheckbox = (''Checkbox'', 8, 8)"
| "field_spec_of FtDropdown = (''Dropdown'', 24, 8)"
| "field_spec_of FtAttachment = (''Attachment'', 22, 10)"
| "field_spec_of FtCompany = (''Company'', 30, 8)"
| "field_spec_of FtJobTitle = (''Job title'', 30, 8)"
| "field_spec_of FtPhone = (''Phone'', 24, 8)"
| "field_spec_of _ = ([], 0, 0)"

definition placeable :: "field_type \<Rightarrow> bool" where
  "placeable t = (t \<noteq> FtAddress \<and> t \<noteq> FtCustom)"

definition update_field :: "string \<Rightarrow> (editor_field \<Rightarrow> editor_field) \<Rightarrow> editor \<Rightarrow> editor" where
  "update_field i patch ed = ed\<lparr>ed_fields := map (\<lambda>f. if ef_id f = i then patch f else f) (ed_fields ed)\<rparr>"

definition page_count :: "editor \<Rightarrow> nat" where
  "page_count ed = foldl max 1 (map ef_page (ed_fields ed))"

text \<open>The effect that keeps the active page within the pages of the template.\<close>

definition clamp_page :: "editor \<Rightarrow> editor" where
  "clamp_page ed = (if page_count ed < ed_page ed then ed\<lparr>ed_page := page_count ed\<rparr> else ed)"

definition add_field :: "string \<Rightarrow> field_type \<Rightarrow> editor \<Rightarrow> editor" where
  "add_field now t ed =
     (let (label, w, h) = field_spec_of t;
          base = max 10 (10 + length (ed_fields ed) * 2);
          f = \<lparr>ef_id = ''f-'' @ now, ef_type = t, ef_name = Some label, ef_required = True, ef_page = ed_page ed,
               ef_assignee = 0, ef_x = Some (of_nat (base mod 60)), ef_y = Some (of_nat (base mod 50)),
               ef_width = Some w, ef_height = Some h, ef_other = []\<rparr>
      in ed\<lparr>ed_fields := ed_fields ed @ [f], ed_selected := Some (ef_id f)\<rparr>)"

definition remove_field :: "string \<Rightarrow> editor \<Rightarrow> editor" where
  "remove_field i ed = ed\<lparr>ed_fields := filter (\<lambda>f. ef_id f \<noteq> i) (ed_fields ed),
     ed_selected := (if ed_selected ed = Some i then None else ed_selected ed)\<rparr>"

section \<open>The pointer\<close>

definition percent :: "rat \<Rightarrow> rat \<Rightarrow> rat \<Rightarrow> rat" where
  "percent origin extent client = (client - origin) / extent * 100"

definition canvas_point :: "canvas \<Rightarrow> rat \<Rightarrow> rat \<Rightarrow> rat \<times> rat" where
  "canvas_point cv x y = (min 100 (max 0 (percent (cv_left cv) (cv_width cv) x)),
     min 100 (max 0 (percent (cv_top cv) (cv_height cv) y)))"

definition pointer_down :: "canvas \<Rightarrow> rat \<Rightarrow> rat \<Rightarrow> editor_field \<Rightarrow> bool \<Rightarrow> editor \<Rightarrow> editor" where
  "pointer_down cv x y f resize ed = ed\<lparr>ed_selected := Some (ef_id f),
     ed_drag := Some \<lparr>dg_field = ef_id f, dg_resize = resize,
       dg_offset_x = percent (cv_left cv) (cv_width cv) x - coalesce (ef_x f) 0,
       dg_offset_y = percent (cv_top cv) (cv_height cv) y - coalesce (ef_y f) 0\<rparr>\<rparr>"

definition move_to :: "rat \<Rightarrow> rat \<Rightarrow> editor_field \<Rightarrow> editor_field \<Rightarrow> editor_field" where
  "move_to x y f g = g\<lparr>ef_x := Some (min (100 - coalesce (ef_width f) 10) (max 0 x)),
     ef_y := Some (min (100 - coalesce (ef_height f) 8) (max 0 y))\<rparr>"

definition resize_to :: "rat \<Rightarrow> rat \<Rightarrow> editor_field \<Rightarrow> editor_field \<Rightarrow> editor_field" where
  "resize_to x y f g = g\<lparr>ef_width := Some (min (100 - coalesce (ef_x f) 0) (max 4 (x - coalesce (ef_x f) 0))),
     ef_height := Some (min (100 - coalesce (ef_y f) 0) (max 4 (y - coalesce (ef_y f) 0)))\<rparr>"

definition pointer_move :: "canvas \<Rightarrow> rat \<Rightarrow> rat \<Rightarrow> editor \<Rightarrow> editor" where
  "pointer_move cv x y ed =
     (case ed_drag ed of
        None \<Rightarrow> ed
      | Some dg \<Rightarrow>
        (case find (\<lambda>f. ef_id f = dg_field dg) (ed_fields ed) of
           None \<Rightarrow> ed
         | Some f \<Rightarrow>
           (let (px, py) = canvas_point cv x y
            in update_field (dg_field dg)
                 (if dg_resize dg then resize_to px py f
                  else move_to (px - dg_offset_x dg) (py - dg_offset_y dg) f) ed)))"

definition pointer_up :: "editor \<Rightarrow> editor" where
  "pointer_up ed = ed\<lparr>ed_drag := None\<rparr>"

definition canvas_click :: "editor \<Rightarrow> editor" where
  "canvas_click ed = (if ed_drag ed \<noteq> None then ed else ed\<lparr>ed_selected := None\<rparr>)"

text \<open>The inspector writes what was typed: the position and size have no clamp.\<close>

datatype inspector =
    Set_Name string | Set_Assignee int | Set_Page nat | Set_Required bool
  | Set_X rat | Set_Y rat | Set_Width rat | Set_Height rat

fun inspector_patch :: "inspector \<Rightarrow> editor_field \<Rightarrow> editor_field" where
  "inspector_patch (Set_Name s) f = f\<lparr>ef_name := Some s\<rparr>"
| "inspector_patch (Set_Assignee n) f = f\<lparr>ef_assignee := nat (max 0 (n - 1))\<rparr>"
| "inspector_patch (Set_Page n) f = f\<lparr>ef_page := n\<rparr>"
| "inspector_patch (Set_Required b) f = f\<lparr>ef_required := b\<rparr>"
| "inspector_patch (Set_X q) f = f\<lparr>ef_x := Some q\<rparr>"
| "inspector_patch (Set_Y q) f = f\<lparr>ef_y := Some q\<rparr>"
| "inspector_patch (Set_Width q) f = f\<lparr>ef_width := Some q\<rparr>"
| "inspector_patch (Set_Height q) f = f\<lparr>ef_height := Some q\<rparr>"

fun geometric :: "inspector \<Rightarrow> bool" where
  "geometric (Set_Name s) = False"
| "geometric (Set_Assignee n) = False"
| "geometric (Set_Page n) = False"
| "geometric (Set_Required b) = False"
| "geometric _ = True"

definition inspect :: "inspector \<Rightarrow> editor \<Rightarrow> editor" where
  "inspect c ed =
     (case find (\<lambda>f. Some (ef_id f) = ed_selected ed) (ed_fields ed) of
        None \<Rightarrow> ed
      | Some f \<Rightarrow> update_field (ef_id f) (inspector_patch c) ed)"

text \<open>
  Pressing and releasing the pointer on a field is followed by a click event of the field, which
  bubbles to the canvas: the selection that the press made is gone, and the inspector shows nothing.
\<close>

lemma click_on_field_deselects: "ed_selected (canvas_click (pointer_up (pointer_down cv x y f r ed))) = None"
  by (simp add: canvas_click_def pointer_up_def pointer_down_def)

definition add_page :: "editor \<Rightarrow> editor" where
  "add_page ed = clamp_page (ed\<lparr>ed_page := page_count ed + 1\<rparr>)"

lemma add_page_stays: "ed_page (add_page ed) = page_count ed"
  by (simp add: add_page_def clamp_page_def page_count_def)

section \<open>Loading and saving\<close>

text \<open>
  \<open>include: { fields: true }\<close> answers with every column of the row; those that the component does
  not name travel in \<open>ef_other\<close>.
\<close>

definition received_field :: "template_field_row \<Rightarrow> editor_field" where
  "received_field r = \<lparr>ef_id = show_nat (tf_id r), ef_type = tf_type r, ef_name = tf_name r, ef_required = tf_required r,
     ef_page = nat (tf_page r), ef_assignee = nat (tf_assignee r), ef_x = map_option of_int (tf_x r),
     ef_y = map_option of_int (tf_y r), ef_width = map_option of_int (tf_width r),
     ef_height = map_option of_int (tf_height r), ef_other = [''templateId'', ''options'', ''createdAt'']\<rparr>"

definition load_editor :: "template_field_row list \<Rightarrow> editor" where
  "load_editor rows = \<lparr>ed_fields = map received_field rows, ed_selected = None, ed_page = 1, ed_drag = None\<rparr>"

record field_body =
  fb_names :: "string list"
  fb_x :: rat
  fb_y :: rat
  fb_width :: "rat option"
  fb_height :: "rat option"

definition to_server_field :: "editor_field \<Rightarrow> field_body" where
  "to_server_field f = \<lparr>fb_names = [''type'', ''name'', ''key'', ''isRequired'', ''pageNumber'', ''assigneeOrder'',
       ''x'', ''y'', ''width'', ''height''] @ ef_other f,
     fb_x = coalesce (ef_x f) 10, fb_y = coalesce (ef_y f) 10, fb_width = ef_width f, fb_height = ef_height f\<rparr>"

definition save_body :: "editor \<Rightarrow> field_body list" where
  "save_body ed = map to_server_field (ed_fields ed)"

text \<open>
  The properties \<open>TemplateFieldDto\<close> declares; with \<open>forbidNonWhitelisted\<close> the validation pipe
  refuses a body with any other property, and \<open>@IsInt\<close> refuses a number with a fraction.
\<close>

definition dto_properties :: "string list" where
  "dto_properties = [''type'', ''name'', ''key'', ''isRequired'', ''pageNumber'', ''assigneeOrder'',
     ''x'', ''y'', ''width'', ''height'', ''options'']"

definition whole :: "rat \<Rightarrow> bool" where
  "whole q = (of_int \<lfloor>q\<rfloor> = q)"

definition rejects_undeclared :: "(field_body \<Rightarrow> bool) \<Rightarrow> bool" where
  "rejects_undeclared valid \<longleftrightarrow> (\<forall>b. valid b \<longrightarrow> set (fb_names b) \<subseteq> set dto_properties)"

definition rejects_fractions :: "(field_body \<Rightarrow> bool) \<Rightarrow> bool" where
  "rejects_fractions valid \<longleftrightarrow> (\<forall>b. valid b \<longrightarrow> whole (fb_x b) \<and> whole (fb_y b))"

section \<open>Editing\<close>

text \<open>
  One step is one event of the canvas or the palette. A new field takes the clock as its id, which
  is fresh unless two fields are added in one millisecond.
\<close>

inductive edit :: "editor \<Rightarrow> editor \<Rightarrow> bool" where
  Add: "placeable t \<Longrightarrow> ''f-'' @ now \<notin> ef_id ` set (ed_fields ed) \<Longrightarrow> edit ed (add_field now t ed)"
| Delete: "edit ed (remove_field i ed)"
| Down: "f \<in> set (ed_fields ed) \<Longrightarrow> edit ed (pointer_down cv x y f resize ed)"
| Drag: "edit ed (pointer_move cv x y ed)"
| Up: "edit ed (pointer_up ed)"
| Click: "edit ed (canvas_click ed)"
| Inspect: "\<not> geometric c \<Longrightarrow> edit ed (inspect c ed)"
| Settle: "edit ed (clamp_page ed)"
| Page: "edit ed (clamp_page (ed\<lparr>ed_page := n\<rparr>))"

inductive edits :: "editor \<Rightarrow> editor \<Rightarrow> bool" where
  Edits_Refl: "edits ed ed"
| Edits_Step: "edits a b \<Longrightarrow> edit b c \<Longrightarrow> edits a c"

lemma pointer_fields [simp]:
  "ed_fields (pointer_down cv x y f r ed) = ed_fields ed" "ed_fields (pointer_up ed) = ed_fields ed"
  "ed_fields (canvas_click ed) = ed_fields ed" "ed_fields (clamp_page (ed\<lparr>ed_page := n\<rparr>)) = ed_fields ed"
  "ed_fields (clamp_page ed) = ed_fields ed"
  by (simp_all add: pointer_down_def pointer_up_def canvas_click_def clamp_page_def)

text \<open>A drag moves or resizes one field by its own size; the fields keep their ids and properties.\<close>

lemma pointer_move_fields:
  assumes "distinct (map ef_id (ed_fields ed))"
  shows "\<exists>i h. ed_fields (pointer_move cv x y ed) = map (\<lambda>f. if ef_id f = i then h f else f) (ed_fields ed)
    \<and> (\<forall>f \<in> set (ed_fields ed). ef_id f = i \<longrightarrow> h f = f \<or> (\<exists>p q. h f = move_to p q f f \<or> h f = resize_to p q f f))"
proof (cases "ed_drag ed")
  case None
  have "map (\<lambda>f. if ef_id f = [] then f else f) (ed_fields ed) = ed_fields ed" by simp
  with None show ?thesis by (intro exI [of _ "[]"] exI [of _ "\<lambda>f. f"]) (simp add: pointer_move_def)
next
  case (Some dg)
  show ?thesis
  proof (cases "find (\<lambda>f. ef_id f = dg_field dg) (ed_fields ed)")
    case None
    with Some show ?thesis by (intro exI [of _ "[]"] exI [of _ "\<lambda>f. f"]) (simp add: pointer_move_def)
  next
    case (Some f)
    obtain px py where p: "canvas_point cv x y = (px, py)" by fastforce
    let ?h = "if dg_resize dg then resize_to px py f else move_to (px - dg_offset_x dg) (py - dg_offset_y dg) f"
    have "g = f" if "g \<in> set (ed_fields ed)" "ef_id g = dg_field dg" for g
      using find_Some_iff_filter [OF Some] that assms by (metis distinct_map inj_onD)
    then have "?h g = g \<or> (\<exists>p q. ?h g = move_to p q g g \<or> ?h g = resize_to p q g g)"
      if "g \<in> set (ed_fields ed)" "ef_id g = dg_field dg" for g
      using that by auto
    moreover have "ed_fields (pointer_move cv x y ed) = map (\<lambda>g. if ef_id g = dg_field dg then ?h g else g) (ed_fields ed)"
      using \<open>ed_drag ed = Some dg\<close> Some p by (simp add: pointer_move_def update_field_def)
    ultimately show ?thesis by blast
  qed
qed

text \<open>What every event keeps: a property of single fields that new, moved and resized ones have.\<close>

definition fields_ok :: "(editor_field \<Rightarrow> bool) \<Rightarrow> editor \<Rightarrow> bool" where
  "fields_ok P ed \<longleftrightarrow> distinct (map ef_id (ed_fields ed)) \<and> (\<forall>f \<in> set (ed_fields ed). P f)"

lemma add_field_fields:
  "ed_fields (add_field now t ed) = ed_fields ed @ [last (ed_fields (add_field now t ed))]
   \<and> ef_id (last (ed_fields (add_field now t ed))) = ''f-'' @ now"
  by (simp add: add_field_def Let_def case_prod_beta)

definition same_box :: "editor_field \<Rightarrow> editor_field \<Rightarrow> bool" where
  "same_box f g \<longleftrightarrow> ef_id f = ef_id g \<and> ef_x f = ef_x g \<and> ef_y f = ef_y g \<and> ef_width f = ef_width g
     \<and> ef_height f = ef_height g \<and> ef_other f = ef_other g"

lemma inspector_same_box: "\<not> geometric c \<Longrightarrow> same_box (inspector_patch c f) f"
  by (cases c) (simp_all add: same_box_def)

lemma inspect_keeps:
  assumes "fields_ok P ed" "\<not> geometric c" and same: "\<And>f g. same_box f g \<Longrightarrow> P g \<Longrightarrow> P f"
  shows "fields_ok P (inspect c ed)"
proof (cases "find (\<lambda>f. Some (ef_id f) = ed_selected ed) (ed_fields ed)")
  case (Some g)
  let ?h = "\<lambda>f. if ef_id f = ef_id g then inspector_patch c f else f"
  have eq: "ed_fields (inspect c ed) = map ?h (ed_fields ed)"
    using Some by (simp add: inspect_def update_field_def)
  have "ef_id (?h f) = ef_id f" for f using inspector_same_box [OF assms(2), of f] by (simp add: same_box_def)
  then have "map ef_id (ed_fields (inspect c ed)) = map ef_id (ed_fields ed)" unfolding eq by simp
  moreover have "P (?h f)" if "P f" for f using same [OF inspector_same_box [OF assms(2)] that] that by simp
  then have "\<forall>f \<in> set (ed_fields (inspect c ed)). P f" using assms(1) unfolding eq fields_ok_def set_map by blast
  ultimately show ?thesis using assms(1) by (simp add: fields_ok_def)
qed (use assms(1) in \<open>simp add: inspect_def\<close>)

lemma edit_keeps:
  assumes "edit ed ed'" "fields_ok P ed"
    and new: "\<And>now t ed. placeable t \<Longrightarrow> P (last (ed_fields (add_field now t ed)))"
    and moved: "\<And>p q f. P f \<Longrightarrow> P (move_to p q f f)" "\<And>p q f. P f \<Longrightarrow> P (resize_to p q f f)"
    and same: "\<And>f g. same_box f g \<Longrightarrow> P g \<Longrightarrow> P f"
  shows "fields_ok P ed'"
  using assms(1,2)
proof (cases rule: edit.cases)
  case (Add t now)
  obtain f where f: "ed_fields (add_field now t ed) = ed_fields ed @ [f]" "ef_id f = ''f-'' @ now"
    using add_field_fields [of now t ed] by blast
  have "P f" using new [OF Add(2), of now ed] f(1) by simp
  with f Add(3) assms(2) show ?thesis unfolding fields_ok_def Add(1) by auto
next
  case (Delete i)
  with assms(2) show ?thesis by (auto simp: fields_ok_def remove_field_def distinct_map inj_on_def)
next
  case (Drag cv x y)
  from assms(2) have d: "distinct (map ef_id (ed_fields ed))" by (simp add: fields_ok_def)
  from pointer_move_fields [OF d, of cv x y] obtain i h where
    eq: "ed_fields ed' = map (\<lambda>f. if ef_id f = i then h f else f) (ed_fields ed)"
    and h: "\<And>f. f \<in> set (ed_fields ed) \<Longrightarrow> ef_id f = i \<Longrightarrow>
      h f = f \<or> (\<exists>p q. h f = move_to p q f f \<or> h f = resize_to p q f f)"
    using Drag by blast
  have id: "ef_id (h f) = ef_id f" if "f \<in> set (ed_fields ed)" "ef_id f = i" for f
    using h [OF that] by (auto simp: move_to_def resize_to_def)
  have "map ef_id (ed_fields ed') = map ef_id (ed_fields ed)" unfolding eq using id by auto
  moreover have "P g" if "g \<in> set (ed_fields ed')" for g
    using that h moved assms(2) unfolding eq fields_ok_def by fastforce
  ultimately show ?thesis using assms(2) by (simp add: fields_ok_def)
next
  case (Inspect c)
  with assms(2) same show ?thesis by (auto intro: inspect_keeps)
qed (use assms(2) in \<open>simp_all add: fields_ok_def\<close>)

lemma edits_keep:
  assumes "edits ed ed'" "fields_ok P ed"
    and "\<And>now t ed. placeable t \<Longrightarrow> P (last (ed_fields (add_field now t ed)))"
    and "\<And>p q f. P f \<Longrightarrow> P (move_to p q f f)" "\<And>p q f. P f \<Longrightarrow> P (resize_to p q f f)"
    and "\<And>f g. same_box f g \<Longrightarrow> P g \<Longrightarrow> P f"
  shows "fields_ok P ed'"
  using assms(1,2) by (induction rule: edits.induct) (blast intro: edit_keeps assms(3-6))+

definition on_page :: "editor_field \<Rightarrow> bool" where
  "on_page f = (case (ef_x f, ef_y f, ef_width f, ef_height f) of
       (Some x, Some y, Some w, Some h) \<Rightarrow> 0 \<le> x \<and> 4 \<le> w \<and> x + w \<le> 100 \<and> 0 \<le> y \<and> 4 \<le> h \<and> y + h \<le> 100
     | _ \<Rightarrow> False)"

lemma on_page_same: "same_box f g \<Longrightarrow> on_page g \<Longrightarrow> on_page f"
  by (simp add: same_box_def on_page_def)

lemma on_page_move: "on_page f \<Longrightarrow> on_page (move_to p q f f)"
  by (auto simp: on_page_def move_to_def min_def max_def coalesce_def split: option.splits)

lemma on_page_resize: "on_page f \<Longrightarrow> on_page (resize_to p q f f)"
  by (auto simp: on_page_def resize_to_def min_def max_def coalesce_def split: option.splits)

lemma spec_fits:
  assumes "placeable t"
  shows "4 \<le> fst (snd (field_spec_of t)) \<and> fst (snd (field_spec_of t)) \<le> 30
    \<and> 4 \<le> snd (snd (field_spec_of t)) \<and> snd (snd (field_spec_of t)) \<le> 12"
  using assms by (cases t) (simp_all add: placeable_def)

lemma on_page_new:
  assumes "placeable t"
  shows "on_page (last (ed_fields (add_field now t ed)))"
proof -
  have mod: "(of_nat (k mod m) :: rat) \<le> of_nat (m - 1)" if "0 < m" for k m :: nat
    using that by (simp only: of_nat_le_iff) (simp add: less_Suc_eq_le [symmetric])
  show ?thesis
    using spec_fits [OF assms] mod [of 60 "max 10 (10 + length (ed_fields ed) * 2)"]
      mod [of 50 "max 10 (10 + length (ed_fields ed) * 2)"]
    by (simp add: add_field_def Let_def case_prod_beta on_page_def)
qed

text \<open>
  C37: working with the pointer, the palette and the page tabs never loses a field: if all fields lie on the page
  with at least the smallest size, so they do after any sequence of additions, deletions, moves and
  resizes, wherever the pointer goes, and of changes of label, page, signer and obligation.
\<close>

theorem editor_fields_on_page:
  assumes "edits ed ed'" "distinct (map ef_id (ed_fields ed))" "\<forall>f \<in> set (ed_fields ed). on_page f"
    and "f \<in> set (ed_fields ed')"
  shows "\<exists>x y w h. ef_x f = Some x \<and> ef_y f = Some y \<and> ef_width f = Some w \<and> ef_height f = Some h
    \<and> 0 \<le> x \<and> 4 \<le> w \<and> x + w \<le> 100 \<and> 0 \<le> y \<and> 4 \<le> h \<and> y + h \<le> 100"
proof -
  have "fields_ok on_page ed'"
    by (rule edits_keep [OF assms(1)]) (use assms(2,3) in \<open>simp_all add: fields_ok_def on_page_new on_page_move on_page_resize on_page_same\<close>)
  with assms(4) have "on_page f" by (simp add: fields_ok_def)
  then show ?thesis by (auto simp: on_page_def split: option.splits)
qed

theorem editor_fields_on_page_witness:
  "\<exists>f \<in> set (ed_fields (pointer_move \<lparr>cv_left = 0, cv_top = 0, cv_width = 600, cv_height = 800\<rparr> 900 (- 50)
       (pointer_down \<lparr>cv_left = 0, cv_top = 0, cv_width = 600, cv_height = 800\<rparr> 66 88
          (hd (ed_fields (add_field ''1'' FtText (load_editor []))))
          False (add_field ''1'' FtText (load_editor []))))).
     ef_x f = Some 70 \<and> ef_y f = Some 0 \<and> (\<exists>w. ef_width f = Some w \<and> 70 + w \<le> 100)"
proof -
  let ?cv = "\<lparr>cv_left = 0, cv_top = 0, cv_width = 600, cv_height = 800\<rparr> :: canvas"
  let ?a = "add_field ''1'' FtText (load_editor [])"
  let ?b = "pointer_down ?cv 66 88 (hd (ed_fields ?a)) False ?a"
  let ?c = "pointer_move ?cv 900 (- 50) ?b"
  have "edit (load_editor []) ?a" by (rule edit.Add) (simp_all add: placeable_def load_editor_def)
  moreover have "hd (ed_fields ?a) \<in> set (ed_fields ?a)" by (simp add: add_field_def load_editor_def)
  then have "edit ?a ?b" by (rule edit.Down)
  ultimately have e: "edits (load_editor []) ?c"
    by (meson Edits_Refl Edits_Step edit.Drag)
  obtain f where f: "ed_fields ?c = [f]" "ef_x f = Some 70" "ef_y f = Some 0"
    by (simp add: add_field_def load_editor_def pointer_down_def pointer_move_def canvas_point_def percent_def
        update_field_def move_to_def coalesce_def)
  have m: "f \<in> set (ed_fields ?c)" by (simp only: f(1)) simp
  have "\<exists>x y w h. ef_x f = Some x \<and> ef_y f = Some y \<and> ef_width f = Some w \<and> ef_height f = Some h
    \<and> 0 \<le> x \<and> 4 \<le> w \<and> x + w \<le> 100 \<and> 0 \<le> y \<and> 4 \<le> h \<and> y + h \<le> 100"
    by (rule editor_fields_on_page [OF e _ _ m]) (simp_all add: load_editor_def)
  with f(2) have "\<exists>w. ef_width f = Some w \<and> 70 + w \<le> 100" by auto
  with f(2,3) m show ?thesis by blast
qed

section \<open>What the API accepts\<close>

definition new_or_loaded :: "editor_field \<Rightarrow> bool" where
  "new_or_loaded f \<longleftrightarrow> (ef_other f = [] \<and> prefix ''f-'' (ef_id f)) \<or> ''templateId'' \<in> set (ef_other f)"

lemma new_or_loaded_new: "new_or_loaded (last (ed_fields (add_field now t ed)))"
  by (simp add: new_or_loaded_def add_field_def Let_def case_prod_beta)

lemma new_or_loaded_kept:
  "new_or_loaded f \<Longrightarrow> new_or_loaded (move_to p q f f)" "new_or_loaded f \<Longrightarrow> new_or_loaded (resize_to p q f f)"
  "same_box f g \<Longrightarrow> new_or_loaded g \<Longrightarrow> new_or_loaded f"
  by (simp_all add: new_or_loaded_def move_to_def resize_to_def same_box_def)

lemma load_new_or_loaded:
  assumes "distinct (map tf_id rows)"
  shows "fields_ok new_or_loaded (load_editor rows)"
proof -
  have "ef_id \<circ> received_field = show_nat \<circ> tf_id" by (rule ext) (simp add: received_field_def)
  moreover have "distinct (map show_nat (map tf_id rows))"
    using assms by (subst distinct_map) (simp add: inj_on_def)
  moreover have "new_or_loaded (received_field r)" for r by (simp add: new_or_loaded_def received_field_def)
  ultimately show ?thesis by (simp add: fields_ok_def load_editor_def)
qed

lemma edits_new_or_loaded:
  assumes "edits (load_editor rows) ed" "distinct (map tf_id rows)"
  shows "fields_ok new_or_loaded ed"
  by (rule edits_keep [OF assms(1) load_new_or_loaded [OF assms(2)]]) (auto intro: new_or_loaded_new new_or_loaded_kept)


definition loaded_row :: template_field_row where
  "loaded_row = \<lparr>tf_id = 7, tf_template = 1, tf_type = FtText, tf_name = Some ''Text'', tf_key = None, tf_required = True,
     tf_page = 1, tf_assignee = 0, tf_x = Some 10, tf_y = Some 10, tf_width = Some 30, tf_height = Some 8, tf_options = None\<rparr>"


text \<open>
  a field that the pointer drops at a fraction of a percent makes the whole template
  unsavable: the editor does not round, and the API takes whole numbers only.
\<close>

theorem dragged_field_refused:
  assumes "rejects_fractions valid" "ed_drag ed = Some dg" "\<not> dg_resize dg"
    and "find (\<lambda>f. ef_id f = dg_field dg) (ed_fields ed) = Some f"
    and "canvas_point cv x y = (px, py)" "0 \<le> px - dg_offset_x dg" "px - dg_offset_x dg + coalesce (ef_width f) 10 \<le> 100"
    and "\<not> whole (px - dg_offset_x dg)"
  shows "\<not> list_all valid (save_body (pointer_up (pointer_move cv x y ed)))"
proof -
  let ?g = "move_to (px - dg_offset_x dg) (py - dg_offset_y dg) f f"
  have "?g \<in> set (ed_fields (pointer_move cv x y ed))"
    using assms(2-5) find_Some_iff_filter [OF assms(4)]
    by (auto simp: pointer_move_def update_field_def intro!: image_eqI [of _ _ f])
  moreover have "ef_x ?g = Some (px - dg_offset_x dg)" using assms(6,7) by (simp add: move_to_def)
  ultimately show ?thesis
    using assms(1,8) unfolding save_body_def list_all_iff rejects_fractions_def
    by (force simp: to_server_field_def coalesce_def)
qed

theorem dragged_field_refused_witness:
  "\<not> list_all (\<lambda>b. whole (fb_x b) \<and> whole (fb_y b))
     (save_body (pointer_up (pointer_move \<lparr>cv_left = 0, cv_top = 0, cv_width = 600, cv_height = 800\<rparr> 67 88
       (pointer_down \<lparr>cv_left = 0, cv_top = 0, cv_width = 600, cv_height = 800\<rparr> 66 88
          (received_field loaded_row) False (load_editor [loaded_row])))))"
proof -
  let ?cv = "\<lparr>cv_left = 0, cv_top = 0, cv_width = 600, cv_height = 800\<rparr> :: canvas"
  let ?ed = "pointer_down ?cv 66 88 (received_field loaded_row) False (load_editor [loaded_row])"
  have valid: "rejects_fractions (\<lambda>b. whole (fb_x b) \<and> whole (fb_y b))" by (simp add: rejects_fractions_def)
  have drag: "ed_drag ?ed = Some \<lparr>dg_field = show_nat 7, dg_resize = False, dg_offset_x = 1, dg_offset_y = 1\<rparr>"
    by (simp add: pointer_down_def received_field_def loaded_row_def percent_def coalesce_def)
  have fnd: "find (\<lambda>f. ef_id f = show_nat 7) (ed_fields ?ed) = Some (received_field loaded_row)"
    by (simp add: load_editor_def received_field_def loaded_row_def)
  have pt: "canvas_point ?cv 67 88 = (67 / 6, 11)" by (simp add: canvas_point_def percent_def)
  have w: "coalesce (ef_width (received_field loaded_row)) 10 = 30"
    by (simp add: received_field_def loaded_row_def coalesce_def)
  have "\<lfloor>61 / 6 :: rat\<rfloor> = 10" by (rule floor_unique) simp_all
  then have frac: "\<not> whole (61 / 6)" by (simp add: whole_def)
  have fnd': "find (\<lambda>f. ef_id f = dg_field \<lparr>dg_field = show_nat 7, dg_resize = False, dg_offset_x = 1, dg_offset_y = 1\<rparr>)
      (ed_fields ?ed) = Some (received_field loaded_row)"
    using fnd by simp
  show ?thesis
    by (rule dragged_field_refused [OF valid drag _ fnd' pt]) (simp_all add: w frac)
qed

end
