(* ===== verification/Seed.thy ===== *)
theory Seed
  imports Access
begin

text \<open>
  packages/database/prisma/seed.ts: the catalogue of permissions, the permissions of the system
  roles, the plans and the demo tenant. Schema keeps the codes of a role's \<open>RolePermission\<close> rows in
  the role; the table of permissions itself is only written here, so it stands beside the \<open>db\<close>.
  A plan's JSON features and its sort order are not modelled, the log output neither.
\<close>

section \<open>The catalogue\<close>

record permission_row =
  pm_id :: id
  pm_code :: string
  pm_description :: string
  pm_category :: string

definition permission_catalog :: "(string \<times> string \<times> string) list" where
  "permission_catalog = [
     (''organizations.read'', ''View organization profile and settings'', ''organizations''),
     (''organizations.update'', ''Update organization profile and branding'', ''organizations''),
     (''organizations.manage'', ''Manage organization lifecycle and members'', ''organizations''),
     (''workspaces.manage'', ''Create and manage workspaces'', ''workspaces''),
     (''teams.manage'', ''Create and manage teams and team membership'', ''workspaces''),
     (''members.invite'', ''Invite members to the organization'', ''members''),
     (''members.manage'', ''Change member roles and remove members'', ''members''),
     (''documents.create'', ''Upload and create documents'', ''documents''),
     (''documents.read'', ''View documents'', ''documents''),
     (''documents.update'', ''Edit documents and metadata'', ''documents''),
     (''documents.delete'', ''Delete or void documents'', ''documents''),
     (''documents.download'', ''Download original and signed documents'', ''documents''),
     (''documents.versions'', ''View and restore document versions'', ''documents''),
     (''templates.create'', ''Create templates'', ''templates''),
     (''templates.read'', ''View templates'', ''templates''),
     (''templates.update'', ''Edit templates'', ''templates''),
     (''templates.delete'', ''Delete templates'', ''templates''),
     (''signing.send'', ''Create and send signing requests'', ''signing''),
     (''signing.read'', ''View signing requests and events'', ''signing''),
     (''signing.cancel'', ''Cancel or void signing requests'', ''signing''),
     (''signing.remind'', ''Send reminders to signers'', ''signing''),
     (''signing.certificateSign'', ''Apply a certificate-backed signature'', ''signing''),
     (''certificates.read'', ''View certificates and verification results'', ''certificates''),
     (''certificates.manage'', ''Import, provision, revoke, and manage certificates'', ''certificates''),
     (''audit.read'', ''View audit logs'', ''audit''),
     (''audit.export'', ''Export audit logs and evidence reports'', ''audit''),
     (''billing.read'', ''View billing account and invoices'', ''billing''),
     (''billing.manage'', ''Manage subscriptions, payment methods, coupons'', ''billing''),
     (''apikeys.manage'', ''Create and revoke API keys'', ''apikeys''),
     (''notifications.read'', ''View notifications'', ''notifications''),
     (''webhooks.manage'', ''Register, inspect, and remove outbound webhook endpoints'', ''webhooks''),
     (''admin.platform'', ''Platform administration (all tenants)'', ''admin''),
     (''admin.monitoring'', ''View platform monitoring and metrics'', ''admin'')]"

definition all_codes :: "string list" where
  "all_codes = map fst permission_catalog"

definition manager_codes :: "string list" where
  "manager_codes = [''documents.create'', ''documents.read'', ''documents.update'', ''documents.download'',
      ''documents.versions'', ''templates.create'', ''templates.read'', ''templates.update'',
      ''signing.send'', ''signing.read'', ''signing.cancel'', ''signing.remind'',
      ''signing.certificateSign'', ''certificates.read'', ''notifications.read'']"

definition auditor_codes :: "string list" where
  "auditor_codes = [''documents.read'', ''signing.read'', ''audit.read'', ''audit.export'']"

definition user_codes :: "string list" where
  "user_codes = [''documents.create'', ''documents.read'', ''documents.download'', ''templates.read'',
      ''signing.read'', ''signing.certificateSign'', ''certificates.read'', ''notifications.read'']"

definition role_codes :: "(string \<times> string list) list" where
  "role_codes = [(''ORGANIZATION_OWNER'', all_codes), (''ADMINISTRATOR'', all_codes), (''MANAGER'', manager_codes),
     (''AUDITOR'', auditor_codes), (''USER'', user_codes)]"

definition plan_catalog :: "(plan_code \<times> string \<times> int \<times> int) list" where
  "plan_catalog = [(COMMUNITY, ''Community'', 0, 0), (PROFESSIONAL, ''Professional'', 1200, 12000),
     (BUSINESS, ''Business'', 4900, 49000), (ENTERPRISE, ''Enterprise'', 0, 0)]"

section \<open>Upserts\<close>

text \<open>\<open>upsert\<close> of Prisma on a unique column: the matching row is changed, or a row is created.\<close>

definition upsert :: "('r \<Rightarrow> bool) \<Rightarrow> ('r \<Rightarrow> 'r) \<Rightarrow> (id \<Rightarrow> 'r) \<Rightarrow> id \<times> 'r list \<Rightarrow> id \<times> 'r list" where
  "upsert match change create t = (case t of (n, rows) \<Rightarrow>
     if list_ex match rows then (n, map (\<lambda>r. if match r then change r else r) rows)
     else (n + 1, rows @ [create n]))"

record seed_state =
  sd_permissions :: "permission_row list"
  sd_db :: db

definition seed_permission :: "seed_state \<Rightarrow> string \<times> string \<times> string \<Rightarrow> seed_state" where
  "seed_permission st p = (case p of (code, descr, cat) \<Rightarrow>
     (let (n, rows) = upsert (\<lambda>r. pm_code r = code) (\<lambda>r. r\<lparr>pm_description := descr, pm_category := cat\<rparr>)
            (\<lambda>i. \<lparr>pm_id = i, pm_code = code, pm_description = descr, pm_category = cat\<rparr>)
            (next_id (sd_db st), sd_permissions st)
      in st\<lparr>sd_permissions := rows, sd_db := (sd_db st)\<lparr>next_id := n\<rparr>\<rparr>))"

definition seed_permissions :: "seed_state \<Rightarrow> seed_state" where
  "seed_permissions st = foldl seed_permission st permission_catalog"

text \<open>A row of \<open>RolePermission\<close> is created unless it exists.\<close>

definition link_permission :: "string list \<Rightarrow> string \<Rightarrow> string list" where
  "link_permission cs c = (if c \<in> set cs then cs else cs @ [c])"

definition link_permissions :: "permission_row list \<Rightarrow> string list \<Rightarrow> role_row \<Rightarrow> role_row" where
  "link_permissions ps codes r =
     r\<lparr>ro_permissions := foldl link_permission (ro_permissions r) (map pm_code (filter (\<lambda>p. pm_code p \<in> set codes) ps))\<rparr>"

definition seed_role :: "seed_state \<Rightarrow> string \<times> string list \<Rightarrow> seed_state" where
  "seed_role st rc = (case rc of (name, codes) \<Rightarrow>
     (let (n, rows) = upsert (\<lambda>r. ro_name r = name) (\<lambda>r. r) (\<lambda>i. \<lparr>ro_id = i, ro_name = name, ro_permissions = []\<rparr>)
            (next_id (sd_db st), roles (sd_db st));
          linked = map (\<lambda>r. if ro_name r = name then link_permissions (sd_permissions st) codes r else r) rows
      in st\<lparr>sd_db := (sd_db st)\<lparr>next_id := n, roles := linked\<rparr>\<rparr>))"

definition seed_roles :: "seed_state \<Rightarrow> seed_state" where
  "seed_roles st = foldl seed_role st role_codes"

definition seed_plan :: "db \<Rightarrow> plan_code \<times> string \<times> int \<times> int \<Rightarrow> db" where
  "seed_plan s p = (case p of (code, name, monthly, yearly) \<Rightarrow>
     (let (n, rows) = upsert (\<lambda>r. pl_code r = code)
            (\<lambda>r. r\<lparr>pl_name := name, pl_monthly := monthly, pl_yearly := yearly, pl_active := True\<rparr>)
            (\<lambda>i. \<lparr>pl_id = i, pl_code = code, pl_name = name, pl_monthly = monthly, pl_yearly = yearly, pl_active = True\<rparr>)
            (next_id s, plans s)
      in s\<lparr>next_id := n, plans := rows\<rparr>))"

definition seed_plans :: "seed_state \<Rightarrow> seed_state" where
  "seed_plans st = st\<lparr>sd_db := foldl seed_plan (sd_db st) plan_catalog\<rparr>"

section \<open>The demo tenant\<close>

definition seed_user :: "env \<Rightarrow> string \<Rightarrow> db \<Rightarrow> db" where
  "seed_user e email s =
     (let (n, rows) = upsert (\<lambda>x. u_email x = email)
            (\<lambda>x. x\<lparr>u_platform_role := PLATFORM_ADMIN, u_status := UserActive, u_email_verified := Some (e_now e)\<rparr>)
            (\<lambda>i. \<lparr>u_id = i, u_email = email, u_first_name = Some ''Signara'', u_last_name = Some ''Admin'',
               u_display_name = Some ''Signara Admin'', u_email_verified = Some (e_now e), u_mfa = False,
               u_status = UserActive, u_platform_role = PLATFORM_ADMIN, u_provider_id = None, u_timezone = ''UTC'',
               u_locale = ''en'', u_last_login = None, u_deleted = None\<rparr>)
            (next_id s, users s)
      in s\<lparr>next_id := n, users := rows\<rparr>)"

definition seed_org :: "db \<Rightarrow> db" where
  "seed_org s =
     (let (n, rows) = upsert (\<lambda>x. o_slug x = ''signara-demo'') (\<lambda>x. x\<lparr>o_status := OrgActive\<rparr>)
            (\<lambda>i. \<lparr>o_id = i, o_name = ''Signara Demo'', o_slug = ''signara-demo'', o_legal_name = None, o_tax_id = None,
               o_status = OrgActive, o_branding = None, o_deleted = None\<rparr>)
            (next_id s, orgs s)
      in s\<lparr>next_id := n, orgs := rows\<rparr>)"

text \<open>The rows just upserted, by their unique column.\<close>

definition demo_user_id :: "string \<Rightarrow> db \<Rightarrow> id" where
  "demo_user_id email s = (case find (\<lambda>x. u_email x = email) (users s) of None \<Rightarrow> 0 | Some x \<Rightarrow> u_id x)"

definition demo_org_id :: "db \<Rightarrow> id" where
  "demo_org_id s = (case find (\<lambda>x. o_slug x = ''signara-demo'') (orgs s) of None \<Rightarrow> 0 | Some x \<Rightarrow> o_id x)"

definition seed_membership :: "string \<Rightarrow> db \<Rightarrow> db" where
  "seed_membership email s =
     (let (n, rows) = upsert (\<lambda>x. m_org x = demo_org_id s \<and> m_user x = demo_user_id email s) (\<lambda>x. x\<lparr>m_role := OWNER\<rparr>)
            (\<lambda>i. \<lparr>m_id = i, m_org = demo_org_id s, m_user = demo_user_id email s, m_role = OWNER, m_role_id = None\<rparr>)
            (next_id s, memberships s)
      in s\<lparr>next_id := n, memberships := rows\<rparr>)"

definition seed_workspace :: "string \<Rightarrow> db \<Rightarrow> db" where
  "seed_workspace email s =
     (let (n, rows) = upsert (\<lambda>x. w_org x = demo_org_id s \<and> w_slug x = ''default'') (\<lambda>x. x)
            (\<lambda>i. \<lparr>w_id = i, w_org = demo_org_id s, w_name = ''Default Workspace'', w_slug = ''default'',
               w_description = None, w_visibility = VisOrganization, w_default = True,
               w_created_by = Some (demo_user_id email s)\<rparr>)
            (next_id s, workspaces s)
      in s\<lparr>next_id := n, workspaces := rows\<rparr>)"

definition seed_account :: "db \<Rightarrow> db" where
  "seed_account s =
     (let (n, rows) = upsert (\<lambda>x. ac_org x = demo_org_id s) (\<lambda>x. x)
            (\<lambda>i. \<lparr>ac_id = i, ac_org = demo_org_id s, ac_plan = COMMUNITY, ac_status = SubActive, ac_seats = 1,
               ac_period_end = None\<rparr>)
            (next_id s, accounts s)
      in s\<lparr>next_id := n, accounts := rows\<rparr>)"

definition seed_demo :: "env \<Rightarrow> string \<Rightarrow> seed_state \<Rightarrow> seed_state" where
  "seed_demo e email st =
     st\<lparr>sd_db := seed_account (seed_workspace email (seed_membership email (seed_org (seed_user e email (sd_db st)))))\<rparr>"

text \<open>\<open>main\<close>: \<open>demo_email\<close> is \<open>SIGNARA_DEMO_EMAIL\<close>, \<open>rbac_only\<close> the flag \<open>--rbac-only\<close>.\<close>

definition seed_rbac :: "seed_state \<Rightarrow> seed_state" where
  "seed_rbac st = seed_plans (seed_roles (seed_permissions st))"

definition run_seed :: "env \<Rightarrow> bool \<Rightarrow> string option \<Rightarrow> seed_state \<Rightarrow> seed_state" where
  "run_seed e rbac_only demo_email st =
     (if rbac_only then seed_rbac st
      else seed_demo e (coalesce demo_email ''admin@signara.local'') (seed_rbac st))"

section \<open>Running the seed twice\<close>

text \<open>A fold of steps that each establish a condition, keep those of the others and rest once theirs holds.\<close>

lemma foldl_keeps:
  assumes "\<And>x y st. x \<in> set xs \<Longrightarrow> y \<in> set xs \<Longrightarrow> Q x st \<Longrightarrow> Q x (f st y)"
    and "x \<in> set xs" "Q x st" "set ys \<subseteq> set xs"
  shows "Q x (foldl f st ys)"
  using assms(3,4) by (induction ys arbitrary: st) (auto intro: assms(1) [OF assms(2)])

lemma foldl_establishes:
  assumes "\<And>x st. x \<in> set xs \<Longrightarrow> Q x (f st x)"
    and "\<And>x y st. x \<in> set xs \<Longrightarrow> y \<in> set xs \<Longrightarrow> Q x st \<Longrightarrow> Q x (f st y)"
    and "x \<in> set xs"
  shows "Q x (foldl f st xs)"
proof -
  have "Q x (foldl f st ys)" if "x \<in> set ys" "set ys \<subseteq> set xs" for ys
    using that
  proof (induction ys arbitrary: st)
    case (Cons y ys)
    show ?case
    proof (cases "x = y")
      case True
      with Cons.prems show ?thesis by (auto intro: foldl_keeps [of xs Q f] assms)
    qed (use Cons in auto)
  qed simp
  with assms(3) show ?thesis by blast
qed

lemma foldl_rests: "\<forall>x \<in> set xs. f st x = st \<Longrightarrow> foldl f st xs = st"
  by (induction xs) simp_all

lemma upsert_matches:
  assumes "\<And>r. match r \<Longrightarrow> match (change r)" "\<And>i. match (create i)"
  shows "list_ex match (snd (upsert match change create t))"
  using assms by (cases t) (auto simp: upsert_def list_ex_iff)

lemma upsert_rows:
  "r \<in> set (snd (upsert match change create (n, rows))) \<Longrightarrow>
     r \<in> set rows \<and> \<not> match r \<or> (\<exists>q \<in> set rows. match q \<and> r = change q) \<or> r = create n"
  by (auto simp: upsert_def list_ex_iff split: if_splits)

text \<open>\<open>upserted\<close>: a further upsert on the same column changes nothing.\<close>

definition upserted :: "('r \<Rightarrow> bool) \<Rightarrow> ('r \<Rightarrow> 'r) \<Rightarrow> 'r list \<Rightarrow> bool" where
  "upserted match change rows \<longleftrightarrow> list_ex match rows \<and> (\<forall>r \<in> set rows. match r \<longrightarrow> change r = r)"

lemma upserted_rests: "upserted match change rows \<Longrightarrow> upsert match change create (n, rows) = (n, rows)"
  by (auto simp: upserted_def upsert_def intro: map_idI)

lemma upserted_upsert:
  assumes "\<And>r. match r \<Longrightarrow> match (change r)" "\<And>i. match (create i)"
    and "\<And>r. match r \<Longrightarrow> change (change r) = change r" "\<And>i. change (create i) = create i"
  shows "upserted match change (snd (upsert match change create (n, rows)))"
  using upsert_matches [of match change create "(n, rows)"] upsert_rows [of _ match change create n rows] assms
  unfolding upserted_def by blast

text \<open>An upsert of another row keeps the condition.\<close>

lemma upserted_other:
  assumes "upserted match change rows"
    and "\<And>r. match' r \<Longrightarrow> \<not> match r \<and> \<not> match (change' r)" "\<And>i. \<not> match (create' i)"
  shows "upserted match change (snd (upsert match' change' create' (n, rows)))"
  using assms unfolding upserted_def upsert_def by (auto simp: list_ex_iff)

section \<open>What each step establishes\<close>

definition permission_done :: "string \<times> string \<times> string \<Rightarrow> seed_state \<Rightarrow> bool" where
  "permission_done p st = (case p of (code, descr, cat) \<Rightarrow>
     upserted (\<lambda>r. pm_code r = code) (\<lambda>r. r\<lparr>pm_description := descr, pm_category := cat\<rparr>) (sd_permissions st))"

lemma all_codes_distinct: "distinct (map fst permission_catalog)"
  by code_simp

lemma seed_permission_db [simp]:
  "roles (sd_db (seed_permission st p)) = roles (sd_db st)" "plans (sd_db (seed_permission st p)) = plans (sd_db st)"
  by (simp_all add: seed_permission_def Let_def split: prod.split)

lemma permission_done_step: "permission_done p (seed_permission st p)"
proof -
  obtain code descr cat where p: "p = (code, descr, cat)" by (cases p)
  have "upserted (\<lambda>r. pm_code r = code) (\<lambda>r. r\<lparr>pm_description := descr, pm_category := cat\<rparr>)
    (snd (upsert (\<lambda>r. pm_code r = code) (\<lambda>r. r\<lparr>pm_description := descr, pm_category := cat\<rparr>)
      (\<lambda>i. \<lparr>pm_id = i, pm_code = code, pm_description = descr, pm_category = cat\<rparr>)
      (next_id (sd_db st), sd_permissions st)))"
    by (rule upserted_upsert) simp_all
  then show ?thesis by (simp add: p permission_done_def seed_permission_def Let_def case_prod_beta)
qed

lemma permission_done_kept:
  assumes "p \<in> set permission_catalog" "q \<in> set permission_catalog" "permission_done p st"
  shows "permission_done p (seed_permission st q)"
proof (cases "fst p = fst q")
  case True
  with assms all_codes_distinct have "p = q" by (metis eq_key_imp_eq_value prod.collapse)
  then show ?thesis by (simp add: permission_done_step)
next
  case False
  with assms(3) show ?thesis
    by (auto simp: permission_done_def seed_permission_def Let_def case_prod_beta intro!: upserted_other)
qed

lemma permission_done_rests: "permission_done p st \<Longrightarrow> seed_permission st p = st"
  by (auto simp: permission_done_def seed_permission_def Let_def upserted_rests split: prod.splits)

definition role_done :: "string \<times> string list \<Rightarrow> seed_state \<Rightarrow> bool" where
  "role_done rc st \<longleftrightarrow> list_ex (\<lambda>r. ro_name r = fst rc) (roles (sd_db st))
     \<and> (\<forall>r \<in> set (roles (sd_db st)). ro_name r = fst rc \<longrightarrow>
          (\<forall>p \<in> set (sd_permissions st). pm_code p \<in> set (snd rc) \<longrightarrow> pm_code p \<in> set (ro_permissions r)))"

lemma link_all: "set (foldl link_permission cs ds) = set cs \<union> set ds"
  by (induction ds arbitrary: cs) (auto simp: link_permission_def)

lemma link_none: "set ds \<subseteq> set cs \<Longrightarrow> foldl link_permission cs ds = cs"
  by (rule foldl_rests) (auto simp: link_permission_def)

lemma link_permissions_fields [simp]:
  "ro_name (link_permissions ps codes r) = ro_name r"
  "set (ro_permissions (link_permissions ps codes r)) = set (ro_permissions r) \<union> {pm_code p |p. p \<in> set ps \<and> pm_code p \<in> set codes}"
  by (auto simp: link_permissions_def link_all)

lemma seed_role_keeps [simp]:
  "sd_permissions (seed_role st rc) = sd_permissions st" "plans (sd_db (seed_role st rc)) = plans (sd_db st)"
  by (simp_all add: seed_role_def Let_def split: prod.split)

lemma seed_role_rows:
  "roles (sd_db (seed_role st (name, codes))) =
    map (\<lambda>r. if ro_name r = name then link_permissions (sd_permissions st) codes r else r)
      (if list_ex (\<lambda>r. ro_name r = name) (roles (sd_db st)) then roles (sd_db st)
       else roles (sd_db st) @ [\<lparr>ro_id = next_id (sd_db st), ro_name = name, ro_permissions = []\<rparr>])"
  by (simp add: seed_role_def Let_def upsert_def)

lemma list_ex_name: "list_ex (\<lambda>r. ro_name r = n) rs \<longleftrightarrow> n \<in> ro_name ` set rs"
  by (auto simp: list_ex_iff)

lemma seed_role_names:
  "ro_name ` set (roles (sd_db (seed_role st rc))) = insert (fst rc) (ro_name ` set (roles (sd_db st)))"
proof -
  obtain name codes where rc: "rc = (name, codes)" by (cases rc)
  have "ro_name (if ro_name r = name then link_permissions ps codes r else r) = ro_name r" for ps r by simp
  then show ?thesis unfolding rc seed_role_rows set_map image_image by (auto simp: list_ex_name)
qed

lemma seed_role_row:
  assumes "r \<in> set (roles (sd_db (seed_role st rc)))"
  shows "(ro_name r = fst rc \<and> (\<exists>q. (q \<in> set (roles (sd_db st)) \<or> ro_permissions q = []) \<and> ro_name q = fst rc
      \<and> r = link_permissions (sd_permissions st) (snd rc) q))
    \<or> (ro_name r \<noteq> fst rc \<and> r \<in> set (roles (sd_db st)))"
proof -
  obtain name codes where rc: "rc = (name, codes)" by (cases rc)
  let ?rows = "if list_ex (\<lambda>r. ro_name r = name) (roles (sd_db st)) then roles (sd_db st)
    else roles (sd_db st) @ [\<lparr>ro_id = next_id (sd_db st), ro_name = name, ro_permissions = []\<rparr>]"
  from assms obtain q where q: "q \<in> set ?rows"
    "r = (if ro_name q = name then link_permissions (sd_permissions st) codes q else q)"
    unfolding rc seed_role_rows set_map by blast
  show ?thesis
  proof (cases "ro_name q = name")
    case True
    moreover have "q \<in> set (roles (sd_db st)) \<or> ro_permissions q = []" using q(1) by (auto split: if_splits)
    ultimately show ?thesis using q(2) rc by auto
  next
    case False
    with q rc show ?thesis by (auto split: if_splits)
  qed
qed

lemma role_done_step: "role_done rc (seed_role st rc)"
proof -
  have "pm_code p \<in> set (ro_permissions r)"
    if r: "r \<in> set (roles (sd_db (seed_role st rc)))" "ro_name r = fst rc"
      and p: "p \<in> set (sd_permissions st)" "pm_code p \<in> set (snd rc)" for r p
  proof -
    obtain q where "r = link_permissions (sd_permissions st) (snd rc) q" using seed_role_row [OF r(1)] r(2) by blast
    with p show ?thesis by auto
  qed
  then show ?thesis by (simp add: role_done_def list_ex_name seed_role_names)
qed

lemma role_names_distinct: "distinct (map fst role_codes)"
  by code_simp

lemma role_done_kept:
  assumes "rc \<in> set role_codes" "rd \<in> set role_codes" "role_done rc st"
  shows "role_done rc (seed_role st rd)"
proof (cases "fst rc = fst rd")
  case True
  with assms role_names_distinct have "rc = rd" by (metis eq_key_imp_eq_value prod.collapse)
  then show ?thesis by (simp add: role_done_step)
next
  case False
  have "r \<in> set (roles (sd_db st))" if "r \<in> set (roles (sd_db (seed_role st rd)))" "ro_name r = fst rc" for r
    using seed_role_row [OF that(1)] that(2) False by auto
  with assms(3) show ?thesis by (simp add: role_done_def list_ex_name seed_role_names)
qed

lemma role_done_rests:
  assumes "role_done rc st"
  shows "seed_role st rc = st"
proof -
  obtain name codes where rc: "rc = (name, codes)" by (cases rc)
  have "link_permissions (sd_permissions st) codes r = r" if "r \<in> set (roles (sd_db st))" "ro_name r = name" for r
  proof -
    have "set (map pm_code (filter (\<lambda>p. pm_code p \<in> set codes) (sd_permissions st))) \<subseteq> set (ro_permissions r)"
      using assms that by (auto simp: role_done_def rc)
    then show ?thesis unfolding link_permissions_def by (simp only: link_none) simp
  qed
  then have "map (\<lambda>r. if ro_name r = name then link_permissions (sd_permissions st) codes r else r) (roles (sd_db st))
      = roles (sd_db st)"
    by (intro map_idI) simp
  moreover have "list_ex (\<lambda>r. ro_name r = name) (roles (sd_db st))" using assms by (simp add: role_done_def rc)
  ultimately show ?thesis by (simp add: rc seed_role_def Let_def upsert_def)
qed

definition plan_done :: "plan_code \<times> string \<times> int \<times> int \<Rightarrow> db \<Rightarrow> bool" where
  "plan_done p s = (case p of (code, name, monthly, yearly) \<Rightarrow>
     upserted (\<lambda>r. pl_code r = code)
       (\<lambda>r. r\<lparr>pl_name := name, pl_monthly := monthly, pl_yearly := yearly, pl_active := True\<rparr>) (plans s))"

lemma seed_plan_roles [simp]: "roles (seed_plan s p) = roles s"
  by (simp add: seed_plan_def Let_def split: prod.split)

lemma seed_plans_keeps [simp]:
  "sd_permissions (seed_plans st) = sd_permissions st" "roles (sd_db (seed_plans st)) = roles (sd_db st)"
proof -
  have "roles (foldl seed_plan s ps) = roles s" for s ps by (induction ps arbitrary: s) simp_all
  then show "sd_permissions (seed_plans st) = sd_permissions st" "roles (sd_db (seed_plans st)) = roles (sd_db st)"
    by (simp_all add: seed_plans_def)
qed

lemma plan_done_step: "plan_done p (seed_plan s p)"
proof -
  obtain code name monthly yearly where p: "p = (code, name, monthly, yearly)" by (cases p)
  let ?change = "\<lambda>r. r\<lparr>pl_name := name, pl_monthly := monthly, pl_yearly := yearly, pl_active := True\<rparr>"
  have "upserted (\<lambda>r. pl_code r = code) ?change (snd (upsert (\<lambda>r. pl_code r = code) ?change
      (\<lambda>i. \<lparr>pl_id = i, pl_code = code, pl_name = name, pl_monthly = monthly, pl_yearly = yearly, pl_active = True\<rparr>)
      (next_id s, plans s)))"
    by (rule upserted_upsert) simp_all
  then show ?thesis by (simp add: p plan_done_def seed_plan_def Let_def case_prod_beta)
qed

lemma plan_done_kept:
  assumes "p \<in> set plan_catalog" "q \<in> set plan_catalog" "plan_done p s"
  shows "plan_done p (seed_plan s q)"
proof (cases "fst p = fst q")
  case True
  with assms have "p = q" by (auto simp: plan_catalog_def)
  then show ?thesis by (simp add: plan_done_step)
next
  case False
  with assms(3) show ?thesis
    by (auto simp: plan_done_def seed_plan_def Let_def case_prod_beta intro!: upserted_other)
qed

lemma plan_done_rests: "plan_done p s \<Longrightarrow> seed_plan s p = s"
  by (auto simp: plan_done_def seed_plan_def Let_def upserted_rests split: prod.splits)

section \<open>The catalogue is complete after a run\<close>

definition rbac_done :: "seed_state \<Rightarrow> bool" where
  "rbac_done st \<longleftrightarrow> (\<forall>p \<in> set permission_catalog. permission_done p st) \<and> (\<forall>rc \<in> set role_codes. role_done rc st)
     \<and> (\<forall>p \<in> set plan_catalog. plan_done p (sd_db st))"

lemma seed_roles_keeps [simp]: "sd_permissions (seed_roles st) = sd_permissions st"
proof -
  have "sd_permissions (foldl seed_role st rs) = sd_permissions st" for rs by (induction rs arbitrary: st) simp_all
  then show ?thesis by (simp add: seed_roles_def)
qed

lemma permission_done_cong: "sd_permissions st = sd_permissions st' \<Longrightarrow> permission_done p st = permission_done p st'"
  by (simp add: permission_done_def)

lemma role_done_cong:
  "sd_permissions st = sd_permissions st' \<Longrightarrow> roles (sd_db st) = roles (sd_db st') \<Longrightarrow> role_done rc st = role_done rc st'"
  by (simp add: role_done_def)

lemma seed_rbac_done: "rbac_done (seed_rbac st)"
proof -
  have p: "permission_done p (seed_permissions st)" if "p \<in> set permission_catalog" for p
    unfolding seed_permissions_def
    by (rule foldl_establishes [OF _ _ that]) (blast intro: permission_done_step permission_done_kept)+
  have r: "role_done rc (seed_roles st')" if "rc \<in> set role_codes" for rc st'
    unfolding seed_roles_def
    by (rule foldl_establishes [OF _ _ that]) (blast intro: role_done_step role_done_kept)+
  have q: "plan_done p (sd_db (seed_plans st'))" if "p \<in> set plan_catalog" for p st'
  proof -
    have "plan_done p (foldl seed_plan (sd_db st') plan_catalog)"
      by (rule foldl_establishes [OF _ _ that]) (blast intro: plan_done_step plan_done_kept)+
    then show ?thesis by (simp add: seed_plans_def)
  qed
  have "permission_done p (seed_rbac st)" if "p \<in> set permission_catalog" for p
    using p [OF that] permission_done_cong [of "seed_rbac st" "seed_permissions st"] by (simp add: seed_rbac_def)
  moreover have "role_done rc (seed_rbac st)" if "rc \<in> set role_codes" for rc
    using r [OF that, of "seed_permissions st"] role_done_cong [of "seed_rbac st" "seed_roles (seed_permissions st)"]
    by (simp add: seed_rbac_def)
  ultimately show ?thesis unfolding rbac_done_def using q by (simp add: seed_rbac_def)
qed

lemma rbac_done_rests:
  assumes "rbac_done st"
  shows "seed_rbac st = st"
proof -
  have "seed_permissions st = st"
    using assms unfolding seed_permissions_def rbac_done_def by (intro foldl_rests) (simp add: permission_done_rests)
  moreover have "seed_roles st = st"
    using assms unfolding seed_roles_def rbac_done_def by (intro foldl_rests) (simp add: role_done_rests)
  moreover have "foldl seed_plan (sd_db st) plan_catalog = sd_db st"
    using assms unfolding rbac_done_def by (intro foldl_rests) (simp add: plan_done_rests)
  ultimately show ?thesis by (simp add: seed_rbac_def seed_plans_def)
qed

lemmas demo_steps = seed_user_def seed_org_def seed_membership_def seed_workspace_def seed_account_def

lemma demo_steps_tables [simp]:
  "orgs (seed_user e email s) = orgs s" "memberships (seed_user e email s) = memberships s"
  "workspaces (seed_user e email s) = workspaces s" "accounts (seed_user e email s) = accounts s"
  "users (seed_org s) = users s" "memberships (seed_org s) = memberships s" "workspaces (seed_org s) = workspaces s"
  "accounts (seed_org s) = accounts s"
  "users (seed_membership email s) = users s" "orgs (seed_membership email s) = orgs s"
  "workspaces (seed_membership email s) = workspaces s" "accounts (seed_membership email s) = accounts s"
  "users (seed_workspace email s) = users s" "orgs (seed_workspace email s) = orgs s"
  "memberships (seed_workspace email s) = memberships s" "accounts (seed_workspace email s) = accounts s"
  "users (seed_account s) = users s" "orgs (seed_account s) = orgs s" "memberships (seed_account s) = memberships s"
  "workspaces (seed_account s) = workspaces s"
  by (simp_all add: demo_steps Let_def split: prod.split)

lemma demo_steps_catalog [simp]:
  "roles (seed_user e email s) = roles s" "plans (seed_user e email s) = plans s"
  "roles (seed_org s) = roles s" "plans (seed_org s) = plans s"
  "roles (seed_membership email s) = roles s" "plans (seed_membership email s) = plans s"
  "roles (seed_workspace email s) = roles s" "plans (seed_workspace email s) = plans s"
  "roles (seed_account s) = roles s" "plans (seed_account s) = plans s"
  by (simp_all add: demo_steps Let_def split: prod.split)

lemma demo_ids_cong:
  "users s = users s' \<Longrightarrow> demo_user_id email s = demo_user_id email s'"
  "orgs s = orgs s' \<Longrightarrow> demo_org_id s = demo_org_id s'"
  by (simp_all add: demo_user_id_def demo_org_id_def)

definition user_done :: "string \<Rightarrow> db \<Rightarrow> bool" where
  "user_done email s \<longleftrightarrow> list_ex (\<lambda>x. u_email x = email) (users s)
     \<and> (\<forall>x \<in> set (users s). u_email x = email \<longrightarrow> u_platform_role x = PLATFORM_ADMIN \<and> u_status x = UserActive)"

definition demo_done :: "string \<Rightarrow> db \<Rightarrow> bool" where
  "demo_done email s \<longleftrightarrow> user_done email s
     \<and> upserted (\<lambda>x. o_slug x = ''signara-demo'') (\<lambda>x. x\<lparr>o_status := OrgActive\<rparr>) (orgs s)
     \<and> upserted (\<lambda>x. m_org x = demo_org_id s \<and> m_user x = demo_user_id email s) (\<lambda>x. x\<lparr>m_role := OWNER\<rparr>) (memberships s)
     \<and> upserted (\<lambda>x. w_org x = demo_org_id s \<and> w_slug x = ''default'') (\<lambda>x. x) (workspaces s)
     \<and> upserted (\<lambda>x. ac_org x = demo_org_id s) (\<lambda>x. x) (accounts s)"

lemma upsert_all:
  assumes "\<And>x. match x \<Longrightarrow> match (change x)" "\<And>x. Q (change x)" "\<And>i. match (create i)" "\<And>i. Q (create i)"
  shows "list_ex match (snd (upsert match change create (n, rows)))
      \<and> (\<forall>x \<in> set (snd (upsert match change create (n, rows))). match x \<longrightarrow> Q x)"
  using upsert_matches [of match change create "(n, rows)"] upsert_rows [of _ match change create n rows] assms by metis

lemma user_done_step: "user_done email (seed_user e email s)"
proof -
  let ?create = "\<lambda>i. \<lparr>u_id = i, u_email = email, u_first_name = Some ''Signara'', u_last_name = Some ''Admin'',
    u_display_name = Some ''Signara Admin'', u_email_verified = Some (e_now e), u_mfa = False, u_status = UserActive,
    u_platform_role = PLATFORM_ADMIN, u_provider_id = None, u_timezone = ''UTC'', u_locale = ''en'',
    u_last_login = None, u_deleted = None\<rparr>"
  have rows: "users (seed_user e email s) = snd (upsert (\<lambda>x. u_email x = email)
      (\<lambda>x. x\<lparr>u_platform_role := PLATFORM_ADMIN, u_status := UserActive, u_email_verified := Some (e_now e)\<rparr>) ?create
      (next_id s, users s))"
    by (simp add: seed_user_def Let_def case_prod_beta)
  show ?thesis unfolding user_done_def rows by (rule upsert_all) simp_all
qed

lemma org_done_step:
  "upserted (\<lambda>x. o_slug x = ''signara-demo'') (\<lambda>x. x\<lparr>o_status := OrgActive\<rparr>) (orgs (seed_org s))"
  unfolding seed_org_def Let_def case_prod_beta by (simp add: upserted_upsert)

lemma membership_done_step:
  "upserted (\<lambda>x. m_org x = demo_org_id s \<and> m_user x = demo_user_id email s) (\<lambda>x. x\<lparr>m_role := OWNER\<rparr>)
     (memberships (seed_membership email s))"
  unfolding seed_membership_def Let_def case_prod_beta by (simp add: upserted_upsert)

lemma workspace_done_step:
  "upserted (\<lambda>x. w_org x = demo_org_id s \<and> w_slug x = ''default'') (\<lambda>x. x) (workspaces (seed_workspace email s))"
  unfolding seed_workspace_def Let_def case_prod_beta by (simp add: upserted_upsert)

lemma account_done_step: "upserted (\<lambda>x. ac_org x = demo_org_id s) (\<lambda>x. x) (accounts (seed_account s))"
  unfolding seed_account_def Let_def case_prod_beta by (simp add: upserted_upsert)

lemma seed_demo_done: "demo_done email (sd_db (seed_demo e email st))"
proof -
  let ?u = "seed_user e email (sd_db st)"
  let ?o = "seed_org ?u"
  let ?m = "seed_membership email ?o"
  let ?w = "seed_workspace email ?m"
  let ?a = "seed_account ?w"
  have ids: "demo_user_id email ?a = demo_user_id email ?o" "demo_org_id ?a = demo_org_id ?o"
    "demo_org_id ?m = demo_org_id ?o" "demo_org_id ?w = demo_org_id ?o"
    by (rule demo_ids_cong; simp)+
  have "user_done email ?a" using user_done_step [of email e "sd_db st"] by (simp add: user_done_def)
  then show ?thesis
    using org_done_step [of ?u] membership_done_step [of ?o email] workspace_done_step [of ?m email] account_done_step [of ?w]
    by (simp add: demo_done_def seed_demo_def ids)
qed

text \<open>The one write of a further run: the e-mail of the demo user is verified again.\<close>

definition restamp :: "env \<Rightarrow> string \<Rightarrow> db \<Rightarrow> db" where
  "restamp e email s = s\<lparr>users := map (\<lambda>x. if u_email x = email then x\<lparr>u_email_verified := Some (e_now e)\<rparr> else x) (users s)\<rparr>"

lemma find_map_same:
  assumes "\<And>x. P (g x) = P x"
  shows "find P (map g xs) = map_option g (find P xs)"
  using assms by (induction xs) simp_all

lemma restamp_ids: "demo_user_id email (restamp e email' s) = demo_user_id email s"
proof -
  let ?g = "\<lambda>x. if u_email x = email' then x\<lparr>u_email_verified := Some (e_now e)\<rparr> else x"
  have "find (\<lambda>x. u_email x = email) (map ?g (users s)) = map_option ?g (find (\<lambda>x. u_email x = email) (users s))"
    by (rule find_map_same) simp
  then show ?thesis by (simp add: restamp_def demo_user_id_def split: option.splits)
qed

lemma demo_done_rests:
  assumes "demo_done email s"
  shows "sd_db (seed_demo e email (st\<lparr>sd_db := s\<rparr>)) = restamp e email s"
proof -
  have "seed_user e email s = restamp e email s"
    using assms unfolding demo_done_def user_done_def seed_user_def restamp_def Let_def upsert_def
    by (simp cong: map_cong)
  moreover have org: "demo_org_id (restamp e email s) = demo_org_id s" by (simp add: restamp_def demo_org_id_def)
  moreover have "seed_org (restamp e email s) = restamp e email s"
    using assms unfolding demo_done_def seed_org_def by (simp add: restamp_def upserted_rests)
  moreover have "seed_membership email (restamp e email s) = restamp e email s"
    using assms unfolding demo_done_def seed_membership_def org restamp_ids by (simp add: restamp_def upserted_rests)
  moreover have "seed_workspace email (restamp e email s) = restamp e email s"
    using assms unfolding demo_done_def seed_workspace_def org restamp_ids by (simp add: restamp_def upserted_rests)
  moreover have "seed_account (restamp e email s) = restamp e email s"
    using assms unfolding demo_done_def seed_account_def org by (simp add: restamp_def upserted_rests)
  ultimately show ?thesis by (simp add: seed_demo_def)
qed

lemma seed_demo_keeps_rbac:
  assumes "rbac_done st"
  shows "rbac_done (seed_demo e email st)"
proof -
  have "sd_permissions (seed_demo e email st) = sd_permissions st" "roles (sd_db (seed_demo e email st)) = roles (sd_db st)"
    "plans (sd_db (seed_demo e email st)) = plans (sd_db st)"
    by (simp_all add: seed_demo_def)
  with assms show ?thesis by (simp add: rbac_done_def permission_done_def role_done_def plan_done_def)
qed

text \<open>
  C17: the seed is safe to run again, whatever the database holds: a further run at a later time
  creates, links and removes nothing; it only renews the verification time of the demo user.
\<close>

theorem seed_idempotent:
  "run_seed e' rbac_only email (run_seed e rbac_only email st) =
    (let st1 = run_seed e rbac_only email st
     in if rbac_only then st1 else st1\<lparr>sd_db := restamp e' (coalesce email ''admin@signara.local'') (sd_db st1)\<rparr>)"
proof (cases rbac_only)
  case True
  then show ?thesis by (simp add: run_seed_def rbac_done_rests seed_rbac_done)
next
  case False
  let ?m = "coalesce email ''admin@signara.local''"
  let ?st = "seed_demo e ?m (seed_rbac st)"
  have "seed_rbac ?st = ?st" by (simp add: rbac_done_rests seed_demo_keeps_rbac seed_rbac_done)
  moreover have "sd_db (seed_demo e' ?m (?st\<lparr>sd_db := sd_db ?st\<rparr>)) = restamp e' ?m (sd_db ?st)"
    by (rule demo_done_rests) (rule seed_demo_done)
  ultimately show ?thesis using False by (simp add: run_seed_def Let_def seed_demo_def)
qed

section \<open>The roles of a fresh database\<close>

definition roles_sound :: "seed_state \<Rightarrow> bool" where
  "roles_sound st \<longleftrightarrow> (\<forall>r \<in> set (roles (sd_db st)). \<exists>codes. (ro_name r, codes) \<in> set role_codes \<and> set (ro_permissions r) \<subseteq> set codes)
     \<and> distinct (map ro_id (roles (sd_db st))) \<and> (\<forall>r \<in> set (roles (sd_db st)). ro_id r < next_id (sd_db st))"

lemma seed_role_ids:
  "map ro_id (roles (sd_db (seed_role st rc))) = map ro_id (roles (sd_db st))
     @ (if list_ex (\<lambda>r. ro_name r = fst rc) (roles (sd_db st)) then [] else [next_id (sd_db st)])
   \<and> next_id (sd_db (seed_role st rc)) = next_id (sd_db st)
     + (if list_ex (\<lambda>r. ro_name r = fst rc) (roles (sd_db st)) then 0 else 1)"
proof -
  obtain name codes where rc: "rc = (name, codes)" by (cases rc)
  have id: "ro_id (if ro_name r = name then link_permissions ps codes r else r) = ro_id r" for ps r
    by (simp add: link_permissions_def)
  have n: "next_id (sd_db (seed_role st rc)) = fst (upsert (\<lambda>r. ro_name r = name) (\<lambda>r. r)
      (\<lambda>i. \<lparr>ro_id = i, ro_name = name, ro_permissions = []\<rparr>) (next_id (sd_db st), roles (sd_db st)))"
    by (simp add: rc seed_role_def Let_def case_prod_beta)
  have rows: "map ro_id (roles (sd_db (seed_role st (name, codes)))) =
      map ro_id (if list_ex (\<lambda>r. ro_name r = name) (roles (sd_db st)) then roles (sd_db st)
        else roles (sd_db st) @ [\<lparr>ro_id = next_id (sd_db st), ro_name = name, ro_permissions = []\<rparr>])"
    unfolding seed_role_rows map_map comp_def id ..
  show ?thesis unfolding n using rows by (simp add: rc upsert_def)
qed

lemma roles_sound_step:
  assumes "roles_sound st" "rc \<in> set role_codes"
  shows "roles_sound (seed_role st rc)"
proof -
  have "\<exists>codes. (ro_name r, codes) \<in> set role_codes \<and> set (ro_permissions r) \<subseteq> set codes"
    if r: "r \<in> set (roles (sd_db (seed_role st rc)))" for r
    using seed_role_row [OF r]
  proof (elim disjE conjE exE)
    fix q
    assume name: "ro_name r = fst rc" "ro_name q = fst rc" and q: "r = link_permissions (sd_permissions st) (snd rc) q"
      and in_rows: "q \<in> set (roles (sd_db st))"
    obtain codes where c: "(fst rc, codes) \<in> set role_codes" "set (ro_permissions q) \<subseteq> set codes"
      using assms(1) in_rows name(2) unfolding roles_sound_def by metis
    have "codes = snd rc" using c(1) assms(2) role_names_distinct by (metis eq_key_imp_eq_value prod.collapse)
    with c name q assms(2) show ?thesis by (intro exI [of _ "snd rc"]) auto
  next
    fix q
    assume "ro_name r = fst rc" "r = link_permissions (sd_permissions st) (snd rc) q" "ro_permissions q = []"
    with assms(2) show ?thesis by (intro exI [of _ "snd rc"]) auto
  qed (use assms(1) in \<open>auto simp: roles_sound_def\<close>)
  moreover have "distinct (map ro_id (roles (sd_db (seed_role st rc))))
      \<and> (\<forall>i \<in> set (map ro_id (roles (sd_db (seed_role st rc)))). i < next_id (sd_db (seed_role st rc)))"
    using assms(1) unfolding roles_sound_def seed_role_ids [THEN conjunct1] seed_role_ids [THEN conjunct2] by force
  ultimately show ?thesis by (simp add: roles_sound_def)
qed

text \<open>On a database without roles and permissions the seed gives every role exactly its codes.\<close>

lemma seed_demo_rbac_fields:
  "roles (sd_db (run_seed e b m st)) = roles (sd_db (seed_roles (seed_permissions st)))"
  by (simp add: run_seed_def seed_rbac_def seed_demo_def)

lemma seed_permissions_roles: "roles (sd_db (seed_permissions st)) = roles (sd_db st)"
proof -
  have "roles (sd_db (foldl seed_permission st ps)) = roles (sd_db st)" for ps by (induction ps arbitrary: st) simp_all
  then show ?thesis by (simp add: seed_permissions_def)
qed

lemma seeded_codes_present:
  assumes "c \<in> set all_codes"
  shows "c \<in> pm_code ` set (sd_permissions (seed_permissions st))"
proof -
  obtain p where p: "p \<in> set permission_catalog" "c = fst p" using assms by (auto simp: all_codes_def)
  have "permission_done p (seed_permissions st)"
    unfolding seed_permissions_def
    by (rule foldl_establishes [OF _ _ p(1)]) (blast intro: permission_done_step permission_done_kept)+
  then show ?thesis by (cases p) (auto simp: permission_done_def upserted_def list_ex_iff p(2))
qed

lemma role_codes_in_catalog: "list_all (\<lambda>rc. list_all (\<lambda>c. c \<in> set all_codes) (snd rc)) role_codes"
  by code_simp

lemma seeded_roles_sound:
  assumes "roles (sd_db st) = []"
  shows "roles_sound (seed_roles (seed_permissions st))"
proof -
  have "roles_sound (foldl seed_role st' rs)" if "roles_sound st'" "set rs \<subseteq> set role_codes" for st' rs
    using that by (induction rs arbitrary: st') (simp_all add: roles_sound_step)
  moreover have "roles_sound (seed_permissions st)" using assms by (simp add: roles_sound_def seed_permissions_roles)
  ultimately show ?thesis by (simp add: seed_roles_def)
qed

lemma seeded_role:
  assumes "roles (sd_db st) = []" "(name, codes) \<in> set role_codes"
  shows "\<exists>r \<in> set (roles (sd_db (run_seed e b m st))). ro_name r = name"
    and "r \<in> set (roles (sd_db (run_seed e b m st))) \<Longrightarrow> ro_name r = name \<Longrightarrow> set (ro_permissions r) = set codes"
proof -
  let ?st = "seed_roles (seed_permissions st)"
  have rd: "role_done (name, codes) ?st"
    unfolding seed_roles_def
    by (rule foldl_establishes [OF _ _ assms(2)]) (blast intro: role_done_step role_done_kept)+
  then show "\<exists>r \<in> set (roles (sd_db (run_seed e b m st))). ro_name r = name"
    by (auto simp: role_done_def list_ex_iff seed_demo_rbac_fields)
  assume r: "r \<in> set (roles (sd_db (run_seed e b m st)))" "ro_name r = name"
  have "c \<in> set (ro_permissions r)" if c: "c \<in> set codes" for c
  proof -
    have "c \<in> set all_codes" using role_codes_in_catalog assms(2) c by (auto simp: list_all_iff)
    then obtain p where "p \<in> set (sd_permissions ?st)" "c = pm_code p" using seeded_codes_present by auto
    with rd r c show ?thesis unfolding role_done_def seed_demo_rbac_fields by auto
  qed
  moreover obtain codes' where "(name, codes') \<in> set role_codes" "set (ro_permissions r) \<subseteq> set codes'"
    using seeded_roles_sound [OF assms(1)] r unfolding roles_sound_def seed_demo_rbac_fields by metis
  moreover from this(1) assms(2) role_names_distinct have "codes' = codes" by (metis eq_key_imp_eq_value)
  ultimately show "set (ro_permissions r) = set codes" by auto
qed

lemma seeded_role_ids:
  assumes "roles (sd_db st) = []"
  shows "distinct (map ro_id (roles (sd_db (run_seed e b m st))))"
  using seeded_roles_sound [OF assms] by (simp add: roles_sound_def seed_demo_rbac_fields)

text \<open>The codes a member has whose membership got the system role of its role, as invitations do.\<close>

definition codes_of :: "membership_role \<Rightarrow> string list" where
  "codes_of r = (case r of OWNER \<Rightarrow> all_codes | ADMIN \<Rightarrow> all_codes | MANAGER \<Rightarrow> manager_codes
     | AUDITOR \<Rightarrow> auditor_codes | MEMBER \<Rightarrow> user_codes)"

lemma seeded_permissions:
  assumes "roles (sd_db st) = []" "roles s = roles (sd_db (run_seed e b m st))"
    and "m_role_id mb = resolve_system_role (m_role mb) s"
  shows "set (permissions_of mb s) = set (codes_of (m_role mb))"
proof -
  have codes: "(system_role (m_role mb), codes_of (m_role mb)) \<in> set role_codes"
    by (cases "m_role mb") (simp_all add: system_role_def codes_of_def role_codes_def)
  obtain r where "find (\<lambda>x. ro_name x = system_role (m_role mb)) (roles s) = Some r"
    using seeded_role(1) [OF assms(1) codes, of e b m] unfolding assms(2) [symmetric]
    by (cases "find (\<lambda>x. ro_name x = system_role (m_role mb)) (roles s)") (auto simp: find_None_iff)
  moreover from find_Some_iff_filter [OF this] have r: "ro_name r = system_role (m_role mb)" "r \<in> set (roles s)" by auto
  moreover have "find_row ro_id (ro_id r) (roles s) = Some r"
    using r(2) seeded_role_ids [OF assms(1), of e b m] unfolding assms(2) by (simp add: find_row_distinct)
  ultimately have "permissions_of mb s = ro_permissions r"
    by (simp add: permissions_of_def assms(3) resolve_system_role_def)
  then show ?thesis using seeded_role(2) [OF assms(1) codes, of r e b m] r unfolding assms(2) by simp
qed

end
