(* ===== verification/Routes.thy ===== *)
theory Routes
  imports Seed
begin

text \<open>
  The routes of the API: the controllers under apps/api/src/modules with their method, path and
  decorators (common/decorators.ts), the merging of the decorators of a handler with those of its
  class that \<open>Reflector.getAllAndOverride\<close> does, and what the guards make of them for the roles
  that the seed creates.
\<close>

section \<open>Decorators\<close>

text \<open>The metadata a decorator sets; \<open>None\<close> is a key that is not set.\<close>

record decorators =
  dc_public :: "bool option"
  dc_tenant :: "bool option"
  dc_permissions :: "string list option"

definition plain :: decorators where
  "plain = \<lparr>dc_public = None, dc_tenant = None, dc_permissions = None\<rparr>"

definition public :: decorators where
  "public = plain\<lparr>dc_public := Some True\<rparr>"

definition tenant_required :: decorators where
  "tenant_required = plain\<lparr>dc_tenant := Some True\<rparr>"

definition tenant_optional :: decorators where
  "tenant_optional = plain\<lparr>dc_tenant := Some False\<rparr>"

definition permits :: "string list \<Rightarrow> decorators" where
  "permits cs = plain\<lparr>dc_permissions := Some cs\<rparr>"

definition tenant_permits :: "string list \<Rightarrow> decorators" where
  "tenant_permits cs = (permits cs)\<lparr>dc_tenant := Some True\<rparr>"

definition override_all :: "decorators \<Rightarrow> decorators \<Rightarrow> route" where
  "override_all handler cls = \<lparr>rt_public = coalesce (coalesce_opt (dc_public handler) (dc_public cls)) False,
     rt_tenant = coalesce (coalesce_opt (dc_tenant handler) (dc_tenant cls)) False,
     rt_permissions = coalesce_opt (dc_permissions handler) (dc_permissions cls)\<rparr>"

section \<open>Controllers\<close>

datatype http_method = HttpGet | HttpPost | HttpPatch | HttpDelete

record controller =
  ct_prefix :: string
  ct_class :: decorators
  ct_handlers :: "(http_method \<times> string \<times> decorators) list"

definition auth_controller :: controller where
  "auth_controller = \<lparr>ct_prefix = ''auth'', ct_class = plain, ct_handlers = [
     (HttpGet, ''login'', public),
     (HttpGet, ''callback'', public),
     (HttpPost, ''refresh'', public),
     (HttpPost, ''logout'', plain),
     (HttpGet, ''me'', plain)]\<rparr>"

definition users_controller :: controller where
  "users_controller = \<lparr>ct_prefix = ''users'', ct_class = tenant_required, ct_handlers = [
     (HttpGet, ''me'', plain),
     (HttpPatch, ''me'', plain),
     (HttpGet, '''', permits [''members.invite'', ''organizations.read'']),
     (HttpPost, ''invite'', permits [''members.invite'']),
     (HttpPatch, '':id/role'', permits [''members.manage'']),
     (HttpDelete, '':id'', permits [''members.manage''])]\<rparr>"

definition organizations_controller :: controller where
  "organizations_controller = \<lparr>ct_prefix = ''organizations'', ct_class = tenant_required, ct_handlers = [
     (HttpPost, '''', tenant_optional),
     (HttpGet, ''current'', permits [''organizations.read'']),
     (HttpPatch, ''current'', permits [''organizations.update'']),
     (HttpGet, ''current/workspaces'', permits [''organizations.read'']),
     (HttpPost, ''current/workspaces'', permits [''workspaces.manage'']),
     (HttpGet, ''current/teams'', permits [''organizations.read'']),
     (HttpPost, ''current/teams'', permits [''teams.manage''])]\<rparr>"

definition documents_controller :: controller where
  "documents_controller = \<lparr>ct_prefix = ''documents'', ct_class = tenant_required, ct_handlers = [
     (HttpPost, ''upload'', permits [''documents.create'']),
     (HttpGet, '''', permits [''documents.read'']),
     (HttpGet, '':id'', permits [''documents.read'']),
     (HttpGet, '':id/download'', permits [''documents.download'']),
     (HttpPatch, '':id'', permits [''documents.update'']),
     (HttpPost, '':id/versions'', permits [''documents.update'']),
     (HttpDelete, '':id'', permits [''documents.delete''])]\<rparr>"

definition templates_controller :: controller where
  "templates_controller = \<lparr>ct_prefix = ''templates'', ct_class = tenant_required, ct_handlers = [
     (HttpPost, '''', permits [''templates.create'']),
     (HttpGet, '''', permits [''templates.read'']),
     (HttpGet, '':id'', permits [''templates.read'']),
     (HttpPatch, '':id'', permits [''templates.update'']),
     (HttpDelete, '':id'', permits [''templates.delete''])]\<rparr>"

definition signatures_controller :: controller where
  "signatures_controller = \<lparr>ct_prefix = ''signatures'', ct_class = plain, ct_handlers = [
     (HttpPost, ''requests'', tenant_permits [''signing.send'']),
     (HttpGet, ''requests'', tenant_permits [''signing.read'']),
     (HttpGet, ''requests/:id'', tenant_permits [''signing.read'']),
     (HttpPost, ''requests/:id/cancel'', tenant_permits [''signing.cancel'']),
     (HttpPost, ''requests/:id/remind'', tenant_permits [''signing.remind'']),
     (HttpGet, ''requests/:id/evidence'', tenant_permits [''audit.read'']),
     (HttpPost, ''requests/:id/in-person-session'', tenant_permits [''signing.send'']),
     (HttpPost, ''self-sign'', tenant_permits [''signing.send'']),
     (HttpGet, ''public/:token'', public),
     (HttpPost, ''public/:token/sign'', public),
     (HttpPost, ''public/:token/decline'', public),
     (HttpGet, ''public/:token/events'', public)]\<rparr>"

definition certificates_controller :: controller where
  "certificates_controller = \<lparr>ct_prefix = ''certificates'', ct_class = tenant_required, ct_handlers = [
     (HttpGet, '''', permits [''certificates.read'']),
     (HttpGet, ''providers'', permits [''certificates.read'']),
     (HttpPost, ''import'', permits [''certificates.manage'']),
     (HttpPost, ''provision'', permits [''certificates.manage'']),
     (HttpPost, ''verify'', permits [''certificates.read'']),
     (HttpGet, '':id'', permits [''certificates.read'']),
     (HttpPatch, '':id/revoke'', permits [''certificates.manage''])]\<rparr>"

definition audit_controller :: controller where
  "audit_controller = \<lparr>ct_prefix = ''audit'', ct_class = tenant_required, ct_handlers = [
     (HttpGet, '''', permits [''audit.read'']),
     (HttpGet, ''export'', permits [''audit.export'']),
     (HttpPost, ''csp-report'', public)]\<rparr>"

definition billing_controller :: controller where
  "billing_controller = \<lparr>ct_prefix = ''billing'', ct_class = tenant_required, ct_handlers = [
     (HttpGet, '''', permits [''billing.read'']),
     (HttpGet, ''plans'', permits [''billing.read'']),
     (HttpPost, ''subscriptions'', permits [''billing.manage'']),
     (HttpGet, ''invoices'', permits [''billing.read'']),
     (HttpGet, ''usage'', permits [''billing.read''])]\<rparr>"

definition admin_controller :: controller where
  "admin_controller = \<lparr>ct_prefix = ''admin'', ct_class = plain, ct_handlers = [
     (HttpGet, ''organizations'', plain),
     (HttpGet, ''users'', plain),
     (HttpPatch, ''organizations/:id/status'', plain),
     (HttpPatch, ''users/:id/status'', plain),
     (HttpGet, ''metrics'', plain),
     (HttpPost, ''search/reindex'', plain)]\<rparr>"

definition notifications_controller :: controller where
  "notifications_controller = \<lparr>ct_prefix = ''notifications'', ct_class = tenant_required, ct_handlers = [
     (HttpGet, '''', permits [''notifications.read'']),
     (HttpPatch, '':id/read'', permits [''notifications.read'']),
     (HttpPost, ''read-all'', permits [''notifications.read''])]\<rparr>"

definition api_keys_controller :: controller where
  "api_keys_controller = \<lparr>ct_prefix = ''api-keys'', ct_class = tenant_required, ct_handlers = [
     (HttpPost, '''', permits [''apikeys.manage'']),
     (HttpGet, '''', permits [''apikeys.manage'']),
     (HttpDelete, '':id'', permits [''apikeys.manage''])]\<rparr>"

definition webhooks_controller :: controller where
  "webhooks_controller = \<lparr>ct_prefix = ''webhooks'', ct_class = tenant_required, ct_handlers = [
     (HttpPost, '''', permits [''webhooks.manage'']),
     (HttpGet, '''', permits [''webhooks.manage'']),
     (HttpGet, ''deliveries'', permits [''webhooks.manage'']),
     (HttpPost, '':id/ping'', permits [''webhooks.manage'']),
     (HttpPost, '':id/enable'', permits [''webhooks.manage'']),
     (HttpDelete, '':id'', permits [''webhooks.manage''])]\<rparr>"

definition health_controller :: controller where
  "health_controller = \<lparr>ct_prefix = '''', ct_class = plain, ct_handlers = [
     (HttpGet, ''health'', public),
     (HttpGet, ''ready'', public),
     (HttpGet, ''metrics'', public)]\<rparr>"

definition controllers :: "controller list" where
  "controllers = [health_controller, auth_controller, users_controller, organizations_controller, documents_controller,
     templates_controller, signatures_controller, certificates_controller, audit_controller, billing_controller,
     admin_controller, notifications_controller, api_keys_controller, webhooks_controller]"

text \<open>The path below the global prefix, which \<open>main.ts\<close> sets for all but the three system routes.\<close>

definition excluded_paths :: "string list" where
  "excluded_paths = [''/health'', ''/ready'', ''/metrics'']"

definition route_path :: "string \<Rightarrow> string \<Rightarrow> string" where
  "route_path pre p =
     (let q = (if pre = [] then [] else ''/'' @ pre) @ (if p = [] then [] else ''/'' @ p)
      in if q \<in> set excluded_paths then q else ''/api/v1'' @ q)"

definition routes_of :: "controller \<Rightarrow> (http_method \<times> string \<times> route) list" where
  "routes_of ct = map (\<lambda>(m, p, d). (m, route_path (ct_prefix ct) p, override_all d (ct_class ct))) (ct_handlers ct)"

definition api_routes :: "(http_method \<times> string \<times> route) list" where
  "api_routes = concat (map routes_of controllers)"

section \<open>The guards on a route\<close>

definition admitted :: "route \<Rightarrow> auth_user option \<Rightarrow> bool" where
  "admitted rt u \<longleftrightarrow> tenant_guard rt u = None \<and> permissions_guard rt u = None"

definition needed :: "route \<Rightarrow> string list" where
  "needed rt = (if rt_public rt then [] else coalesce (rt_permissions rt) [])"

definition role_may :: "membership_role \<Rightarrow> route \<Rightarrow> bool" where
  "role_may r rt \<longleftrightarrow> needed rt = [] \<or> list_ex (\<lambda>c. c \<in> set (codes_of r)) (needed rt)"

section \<open>The access matrix\<close>

text \<open>
  The calls of the permission-gated routes that docs/AdministrationGuide.md leads one to expect of a
  role: managers send documents and keep templates, auditors read documents, requests and the audit
  trail, members upload and read. Owners and administrators may make every call.
\<close>

definition manager_calls :: "(http_method \<times> string) list" where
  "manager_calls = [
     (HttpPost, ''/api/v1/documents/upload''), (HttpGet, ''/api/v1/documents''), (HttpGet, ''/api/v1/documents/:id''),
     (HttpGet, ''/api/v1/documents/:id/download''), (HttpPatch, ''/api/v1/documents/:id''),
     (HttpPost, ''/api/v1/documents/:id/versions''), (HttpPost, ''/api/v1/templates''), (HttpGet, ''/api/v1/templates''),
     (HttpGet, ''/api/v1/templates/:id''), (HttpPatch, ''/api/v1/templates/:id''), (HttpPost, ''/api/v1/signatures/requests''),
     (HttpGet, ''/api/v1/signatures/requests''), (HttpGet, ''/api/v1/signatures/requests/:id''),
     (HttpPost, ''/api/v1/signatures/requests/:id/cancel''), (HttpPost, ''/api/v1/signatures/requests/:id/remind''),
     (HttpPost, ''/api/v1/signatures/requests/:id/in-person-session''), (HttpPost, ''/api/v1/signatures/self-sign''),
     (HttpGet, ''/api/v1/certificates''), (HttpGet, ''/api/v1/certificates/providers''),
     (HttpPost, ''/api/v1/certificates/verify''), (HttpGet, ''/api/v1/certificates/:id''), (HttpGet, ''/api/v1/notifications''),
     (HttpPatch, ''/api/v1/notifications/:id/read''), (HttpPost, ''/api/v1/notifications/read-all'')]"

definition auditor_calls :: "(http_method \<times> string) list" where
  "auditor_calls = [
     (HttpGet, ''/api/v1/documents''), (HttpGet, ''/api/v1/documents/:id''), (HttpGet, ''/api/v1/signatures/requests''),
     (HttpGet, ''/api/v1/signatures/requests/:id''), (HttpGet, ''/api/v1/signatures/requests/:id/evidence''),
     (HttpGet, ''/api/v1/audit''), (HttpGet, ''/api/v1/audit/export'')]"

definition member_calls :: "(http_method \<times> string) list" where
  "member_calls = [
     (HttpPost, ''/api/v1/documents/upload''), (HttpGet, ''/api/v1/documents''), (HttpGet, ''/api/v1/documents/:id''),
     (HttpGet, ''/api/v1/documents/:id/download''), (HttpGet, ''/api/v1/templates''), (HttpGet, ''/api/v1/templates/:id''),
     (HttpGet, ''/api/v1/signatures/requests''), (HttpGet, ''/api/v1/signatures/requests/:id''),
     (HttpGet, ''/api/v1/certificates''), (HttpGet, ''/api/v1/certificates/providers''),
     (HttpPost, ''/api/v1/certificates/verify''), (HttpGet, ''/api/v1/certificates/:id''), (HttpGet, ''/api/v1/notifications''),
     (HttpPatch, ''/api/v1/notifications/:id/read''), (HttpPost, ''/api/v1/notifications/read-all'')]"

definition may_call :: "membership_role \<Rightarrow> http_method \<times> string \<Rightarrow> bool" where
  "may_call r c = (case r of OWNER \<Rightarrow> True | ADMIN \<Rightarrow> True | MANAGER \<Rightarrow> c \<in> set manager_calls
     | AUDITOR \<Rightarrow> c \<in> set auditor_calls | MEMBER \<Rightarrow> c \<in> set member_calls)"

lemma matrix_checked:
  "list_all (\<lambda>(m, p, rt). list_all (\<lambda>r. needed rt = [] \<or> role_may r rt = may_call r (m, p))
     [OWNER, ADMIN, MANAGER, AUDITOR, MEMBER]) api_routes"
  by code_simp

lemma role_may_call: "(m, p, rt) \<in> set api_routes \<Longrightarrow> needed rt \<noteq> [] \<Longrightarrow> role_may r rt = may_call r (m, p)"
  using matrix_checked by (cases r) (auto simp: list_all_iff)

lemma gated_routes_need_tenant: "list_all (\<lambda>(m, p, rt). needed rt \<noteq> [] \<longrightarrow> rt_tenant rt) api_routes"
  by code_simp

text \<open>What the guards decide for a member of an open organization.\<close>

lemma admitted_member:
  assumes "au_org u = Some tn" "au_platform_role u = PlatformUser" "set (tn_permissions tn) = set (codes_of r)"
  shows "admitted rt (Some u) \<longleftrightarrow> role_may r rt"
  using assms unfolding admitted_def tenant_guard_def permissions_guard_def role_may_def needed_def granted_permissions_def
  by (auto simp: list_ex_iff)

text \<open>
  C16: on a database set up by the seed, the guards admit an ordinary member to a permission-gated
  route exactly when the call is one of those of the member's role, and to every other route.
\<close>

theorem role_access_matrix:
  assumes "roles (sd_db st) = []" "roles s = roles (sd_db (run_seed e b demo st))"
    and "m_role_id mb = resolve_system_role (m_role mb) s"
    and "au_org u = Some tn" "tn_permissions tn = permissions_of mb s" "au_platform_role u = PlatformUser"
    and "(m, p, rt) \<in> set api_routes"
  shows "admitted rt (Some u) \<longleftrightarrow> needed rt = [] \<or> may_call (m_role mb) (m, p)"
proof -
  have "set (tn_permissions tn) = set (codes_of (m_role mb))"
    unfolding assms(5) by (rule seeded_permissions [OF assms(1-3)])
  then have "admitted rt (Some u) \<longleftrightarrow> role_may (m_role mb) rt" by (rule admitted_member [OF assms(4,6)])
  with role_may_call [OF assms(7), of "m_role mb"] show ?thesis by (cases "needed rt = []") (simp_all add: role_may_def)
qed

definition sample_seed :: db where
  "sample_seed = sd_db (run_seed \<lparr>e_now = 0, e_rand = (\<lambda>_. []), e_sha256 = (\<lambda>x. x), e_blob = (\<lambda>_. None), e_smtp_host = None,
     e_reminder_after_days = None, e_reminder_max = None, e_web_url = None, e_allow_private = None,
     e_disable_after_days = None, e_disable_min_failures = None, e_billing_enabled = False\<rparr> True None
     \<lparr>sd_permissions = [], sd_db = empty_db\<rparr>)"

definition sample_manager :: auth_user where
  "sample_manager = \<lparr>au_id = Some 5, au_email = ''m@x.org'', au_display_name = None, au_platform_role = PlatformUser,
     au_sub = ''m'', au_groups = [], au_org = Some \<lparr>tn_id = 4, tn_slug = ''x'', tn_role = TenantRole MANAGER,
       tn_permissions = permissions_of \<lparr>m_id = 6, m_org = 4, m_user = 5, m_role = MANAGER,
         m_role_id = resolve_system_role MANAGER sample_seed\<rparr> sample_seed\<rparr>\<rparr>"

text \<open>A manager may send a request but, other than the guide says, not create a team.\<close>

theorem role_access_matrix_witness:
  "admitted (override_all (tenant_permits [''signing.send'']) plain) (Some sample_manager)
   \<and> \<not> admitted (override_all (permits [''teams.manage'']) tenant_required) (Some sample_manager)"
proof -
  let ?mb = "\<lparr>m_id = 6, m_org = 4, m_user = 5, m_role = MANAGER, m_role_id = resolve_system_role MANAGER sample_seed\<rparr>"
  let ?send = "override_all (tenant_permits [''signing.send'']) plain"
  let ?team = "override_all (permits [''teams.manage'']) tenant_required"
  have send: "(HttpPost, ''/api/v1/signatures/requests'', ?send) \<in> set api_routes"
    and team: "(HttpPost, ''/api/v1/organizations/current/teams'', ?team) \<in> set api_routes"
    by code_simp+
  have org: "au_org sample_manager = Some \<lparr>tn_id = 4, tn_slug = ''x'', tn_role = TenantRole MANAGER,
      tn_permissions = permissions_of ?mb sample_seed\<rparr>" "au_platform_role sample_manager = PlatformUser"
    by (simp_all add: sample_manager_def)
  have fresh: "roles (sd_db \<lparr>sd_permissions = [], sd_db = empty_db\<rparr>) = []" by (simp add: empty_db_def)
  note matrix = role_access_matrix [OF fresh, of sample_seed _ True None ?mb sample_manager, OF _ _ org(1) _ org(2)]
  have "may_call MANAGER (HttpPost, ''/api/v1/signatures/requests'')" "needed ?team \<noteq> []"
    "\<not> may_call MANAGER (HttpPost, ''/api/v1/organizations/current/teams'')"
    by code_simp+
  then show ?thesis
    using matrix [OF _ _ _ send] matrix [OF _ _ _ team] by (simp add: sample_seed_def)
qed

text \<open>
  an auditor cannot change anything through a permission-gated route: every such route that
  admits one is a GET.
\<close>

theorem auditor_read_only:
  assumes "roles (sd_db st) = []" "roles s = roles (sd_db (run_seed e b demo st))"
    and "m_role mb = AUDITOR" "m_role_id mb = resolve_system_role AUDITOR s"
    and "au_org u = Some tn" "tn_permissions tn = permissions_of mb s" "au_platform_role u = PlatformUser"
    and "(m, p, rt) \<in> set api_routes" "needed rt \<noteq> []" "admitted rt (Some u)"
  shows "m = HttpGet"
proof -
  have "set (tn_permissions tn) = set (codes_of AUDITOR)"
    unfolding assms(6) using seeded_permissions [OF assms(1,2), of mb] assms(3,4) by simp
  then have "role_may AUDITOR rt" using admitted_member [OF assms(5,7)] assms(10) by simp
  with role_may_call [OF assms(8,9)] have "(m, p) \<in> set auditor_calls" by (simp add: may_call_def)
  then show ?thesis by (auto simp: auditor_calls_def)
qed

section \<open>Requests without credentials\<close>

definition public_calls :: "(http_method \<times> string) list" where
  "public_calls = [(HttpGet, ''/health''), (HttpGet, ''/ready''), (HttpGet, ''/metrics''), (HttpGet, ''/api/v1/auth/login''),
     (HttpGet, ''/api/v1/auth/callback''), (HttpPost, ''/api/v1/auth/refresh''), (HttpGet, ''/api/v1/signatures/public/:token''),
     (HttpPost, ''/api/v1/signatures/public/:token/sign''), (HttpPost, ''/api/v1/signatures/public/:token/decline''),
     (HttpGet, ''/api/v1/signatures/public/:token/events''), (HttpPost, ''/api/v1/audit/csp-report'')]"

lemma public_checked: "list_all (\<lambda>(m, p, rt). rt_public rt = ((m, p) \<in> set public_calls)) api_routes"
  by code_simp

end
