(* ===== verification/Http_Api.thy ===== *)
theory Http_Api
  imports Routes Documents Templates Organizations Admin Billing Audit_Log Webhooks Notifications Certificates Signing_Room
begin

text \<open>
  A request from the guards to the audit log: the handlers of the controllers under
  apps/api/src/modules, each one call of a service, behind the three guards and inside the audit
  interceptor. The handlers of the identity provider's redirects and of the session cookies and the
  system routes are not part of it. The libraries the services use are the record \<open>deps\<close>; a query
  parameter that the code converts with \<open>Number\<close> or \<open>new Date\<close> goes through \<open>dp_number\<close> and
  \<open>dp_date\<close>. Rate limiting, the HTTP metrics and the validation of bodies are left to their libraries.
\<close>

section \<open>Libraries and calls\<close>

record deps =
  dp_crypto :: crypto
  dp_providers :: "provider list"
  dp_url :: "string \<Rightarrow> url option"
  dp_presign :: "string \<Rightarrow> string"
  dp_presign_for :: "string \<Rightarrow> nat \<Rightarrow> string"
  dp_put_ok :: "string \<Rightarrow> bool"
  dp_search :: "id option \<Rightarrow> string \<Rightarrow> nat \<Rightarrow> id list"
  dp_documents_by_update :: "document_row list \<Rightarrow> document_row list"
  dp_templates_by_update :: "template_row list \<Rightarrow> template_row list"
  dp_plans_by_order :: "plan_row list \<Rightarrow> plan_row list"
  dp_created :: "document_row \<Rightarrow> time"
  dp_index :: "document_row list \<Rightarrow> nat \<times> nat"
  dp_index_count :: "nat option"
  dp_json :: "json \<Rightarrow> string"
  dp_number :: "string \<Rightarrow> nat"
  dp_date :: "string \<Rightarrow> time"

datatype public_call =
    Sig_Session string | Sig_Sign string sign_input | Sig_Decline string "string option" | Sig_Events string
  | Audit_Csp obj

datatype users_call =
    Auth_Me | Users_Me | Users_UpdateMe "string option" "string option" "string option"
  | Users_List "string option" "membership_role option" "nat option" "nat option"
  | Users_Invite string membership_role "id list option" | Users_UpdateRole id membership_role
  | Users_Remove id

datatype org_call =
    Org_Create string "string option" "string option" | Org_Current | Org_Update org_input | Org_Workspaces
  | Org_CreateWorkspace string "string option" "string option" "visibility option" | Org_Teams "id option"
  | Org_CreateTeam string "string option" "id option" "id list option"

datatype doc_call =
    Doc_Upload "upload_file option" upload_input | Doc_List document_query | Doc_Get id
  | Doc_Download id "string option" | Doc_Update id metadata_input
  | Doc_AddVersion id "upload_file option" "string option" | Doc_Remove id

datatype tpl_call =
    Tpl_Create template_input | Tpl_List "template_status option" "id option" "nat option" "nat option"
  | Tpl_Get id | Tpl_Update id template_input | Tpl_Remove id

datatype sig_call =
    Sig_Create create_input | Sig_List "document_status option" "string option" "string option" | Sig_Get id
  | Sig_Cancel id "string option" | Sig_Remind id "id option" | Sig_Evidence id | Sig_InPerson id "id option"
  | Sig_Self id "id option"

datatype cert_call =
    Cert_List "certificate_status option" "string option" "string option" | Cert_Providers
  | Cert_Import import_input | Cert_Provision string string "string option" obj
  | Cert_Verify "string option" "id option" "string option" "string option" | Cert_Get id
  | Cert_Revoke id "string option"

datatype audit_call =
    Audit_List "string option" "string option" "string option" "audit_outcome option" "string option"
      "string option" "string option" "string option" "string option"
  | Audit_Export "string option" "string option" "string option"

datatype bill_call =
    Bill_Account | Bill_Plans | Bill_Subscribe plan_code "int option" "string option" "period option"
  | Bill_Invoices | Bill_Usage

datatype admin_call =
    Admin_Orgs "string option" "org_status option" "string option" "string option"
  | Admin_Users "string option" "user_status option" "string option" "string option"
  | Admin_OrgStatus id org_status | Admin_UserStatus id user_status | Admin_Metrics
  | Admin_Reindex "id option" "int option"

datatype notif_call =
    Notif_List "string option" "string option" "string option" | Notif_Read id | Notif_ReadAll

datatype key_call =
    Key_Create string "string list option" "int option" | Key_List | Key_Revoke id

datatype hook_call =
    Hook_Create string "string list option" "string option" | Hook_List | Hook_Deliveries "id option"
  | Hook_Ping id | Hook_Enable id | Hook_Remove id

datatype user_call =
    Users_Call users_call | Org_Call org_call | Doc_Call doc_call | Tpl_Call tpl_call | Sig_Call sig_call | Cert_Call cert_call
  | Audit_Call audit_call | Bill_Call bill_call | Admin_Call admin_call | Notif_Call notif_call | Key_Call key_call | Hook_Call hook_call

datatype call = Public_Call public_call | User_Call user_call

text \<open>What the handlers return.\<close>

datatype public_reply =
    Session session_view | Signed id "(nat \<times> assurance_level) option" | Declined
  | Event_List id id "(id \<times> event_type \<times> time \<times> bool option) list" | Received

datatype users_reply =
    Me auth_user | Profile "id option" string "string option" platform_role "tenant option" | User user_row
  | Members nat nat nat "(membership_row \<times> user_row option) list" | Invited id string membership_role user_status
  | Member membership_row | Member_Removed

datatype org_reply =
    Org org_view | Org_Row org_row | Workspaces "workspace_row list" | Workspace workspace_row
  | Teams "(team_row \<times> nat) list" | Team team_row

datatype doc_reply =
    Document document_row | Documents nat "(nat \<times> nat) option" "document_row list"
  | Document_Detail document_row "version_row list" "request_row list" | Download string string string
  | Version version_row document_row | Document_Removed

datatype tpl_reply =
    Template template_row "template_field_row list" | Templates nat "(template_row \<times> nat \<times> nat) list"
  | Template_Removed

datatype sig_reply =
    Created request_row "signer_row list" | Requests nat "request_row list" | Request request_view | Cancelled
  | Reminded nat | Evidence evidence_report | Handover handover | Self_Link id id nat string

datatype cert_reply =
    Certificates nat "certificate_row list" | Certificate certificate_row | Providers "(string \<times> bool) list"
  | Verified verification

datatype audit_reply = Audit_Rows nat "audit_row list" | Csv string

datatype bill_reply =
    Account account_row "subscription_row list" | Plans "plan_row list" | Invoices nat "invoice_row list"
  | Usage usage_report

datatype admin_reply =
    Orgs nat "(org_row \<times> nat \<times> nat) list" | Users nat "(user_row \<times> nat) list" | Org_Status id org_status
  | User_Status id user_status | Metrics metrics | Reindexed reindex_report

datatype notif_reply = Notes notification_page | Marked

datatype key_reply =
    Api_Key api_key_view | Api_Keys "(id \<times> string \<times> string \<times> string list \<times> time option) list" | Key_Revoked

datatype hook_reply =
    Endpoint endpoint_row | Endpoints "(endpoint_row \<times> health) list" | Deliveries "delivery_row list" | Pinged id
  | Health health | Endpoint_Removed

datatype reply =
    Public_Reply public_reply | Users_Reply users_reply | Org_Reply org_reply | Doc_Reply doc_reply | Tpl_Reply tpl_reply
  | Sig_Reply sig_reply | Cert_Reply cert_reply | Audit_Reply audit_reply | Bill_Reply bill_reply
  | Admin_Reply admin_reply | Notif_Reply notif_reply | Key_Reply key_reply | Hook_Reply hook_reply

section \<open>The handlers\<close>

text \<open>A service on the database alone, and a query that cannot fail.\<close>

definition on_rows :: "('a \<Rightarrow> 'r) \<Rightarrow> (db \<Rightarrow> ('a, db) res) \<Rightarrow> world \<Rightarrow> ('r, world) res" where
  "on_rows mk h w = (case h (fst w) of (r, s) \<Rightarrow> (map_sum id mk r, (s, snd w)))"

definition on_world :: "('a \<Rightarrow> 'r) \<Rightarrow> (world \<Rightarrow> ('a, world) res) \<Rightarrow> world \<Rightarrow> ('r, world) res" where
  "on_world mk h w = (case h w of (r, w') \<Rightarrow> (map_sum id mk r, w'))"

text \<open>\<open>x ? Number(x) : undefined\<close> and its like for dates.\<close>

definition param :: "(string \<Rightarrow> 'a) \<Rightarrow> string option \<Rightarrow> 'a option" where
  "param convert x = map_option convert (configured x)"

text \<open>The report is the value under \<open>csp-report\<close> or the body itself; a missing key is dropped.\<close>

definition csp_metadata :: "obj \<Rightarrow> json" where
  "csp_metadata body =
     (let report = (case map_of body ''csp-report'' of None \<Rightarrow> body | Some JNull \<Rightarrow> body | Some (JObj x) \<Rightarrow> x | Some _ \<Rightarrow> []);
          entry = (\<lambda>k k'. case map_of report k of None \<Rightarrow> [] | Some v \<Rightarrow> [(k', v)])
      in JObj (entry ''document-uri'' ''documentUri'' @ entry ''blocked-uri'' ''blockedUri''
           @ entry ''violated-directive'' ''violatedDirective''))"

definition csp_input :: "obj \<Rightarrow> audit_input" where
  "csp_input body = \<lparr>ai_org = None, ai_actor = None, ai_actor_email = None, ai_action = ''CSP_VIOLATION'',
     ai_resource_type = ''browser'', ai_resource_id = None, ai_outcome = None, ai_meta = Some (csp_metadata body),
     ai_ip = None, ai_agent = None\<rparr>"

text \<open>\<open>ctx\<close> of the signatures controller.\<close>

definition signer_client :: "client \<Rightarrow> client" where
  "signer_client cx = \<lparr>cx_ip = Some (coalesce (cx_ip cx) ''unknown''), cx_agent = Some (coalesce (cx_agent cx) [])\<rparr>"

primrec handle_public :: "env \<Rightarrow> deps \<Rightarrow> client \<Rightarrow> public_call \<Rightarrow> world \<Rightarrow> (public_reply, world) res" where
  "handle_public e d cx (Sig_Session token) =
     on_rows Session (public_session e (dp_url d) (dp_presign d) token (signer_client cx))"
| "handle_public e d cx (Sig_Sign token inp) =
     on_rows (case_prod Signed) (sign e (dp_crypto d) token inp (signer_client cx))"
| "handle_public e d cx (Sig_Decline token reason) = on_rows (\<lambda>_. Declined) (decline e token reason (signer_client cx))"
| "handle_public e d cx (Sig_Events token) = on_rows (\<lambda>(i, j, es). Event_List i j es) (public_events token)"
| "handle_public e d cx (Audit_Csp body) = on_rows (\<lambda>_. Received) (\<lambda>s. ok () (record_audit e (csp_input body) s))"

primrec handle_users :: "env \<Rightarrow> deps \<Rightarrow> auth_user \<Rightarrow> users_call \<Rightarrow> world \<Rightarrow> (users_reply, world) res" where
  "handle_users e d u Auth_Me = ok (Me u)"
| "handle_users e d u Users_Me =
     ok (Profile (au_id u) (au_email u) (au_display_name u) (au_platform_role u) (au_org u))"
| "handle_users e d u (Users_UpdateMe name tz loc) = on_rows User (update_profile u name tz loc)"
| "handle_users e d u (Users_List q role limit offset) =
     on_rows (\<lambda>(n, l, k, ms). Members n l k ms) (list_members u q role limit offset)"
| "handle_users e d u (Users_Invite email role wss) =
     on_rows (\<lambda>(i, m, r, st). Invited i m r st) (invite_member u email role wss)"
| "handle_users e d u (Users_UpdateRole i role) = on_rows Member (update_member_role u i role)"
| "handle_users e d u (Users_Remove i) = on_rows (\<lambda>_. Member_Removed) (remove_member u i)"

primrec handle_org :: "env \<Rightarrow> deps \<Rightarrow> auth_user \<Rightarrow> org_call \<Rightarrow> world \<Rightarrow> (org_reply, world) res" where
  "handle_org e d u (Org_Create name slug legal) = on_rows Org (create_organization u name slug legal)"
| "handle_org e d u Org_Current = on_rows Org (get_current u)"
| "handle_org e d u (Org_Update inp) = on_rows Org_Row (update_current u inp)"
| "handle_org e d u Org_Workspaces = on_rows Workspaces (\<lambda>s. ok (list_workspaces u s) s)"
| "handle_org e d u (Org_CreateWorkspace name slug descr vis) = on_rows Workspace (create_workspace u name slug descr vis)"
| "handle_org e d u (Org_Teams ws) = on_rows Teams (list_teams u ws)"
| "handle_org e d u (Org_CreateTeam name descr ws ids) = on_rows Team (create_team u name descr ws ids)"

primrec handle_doc :: "env \<Rightarrow> deps \<Rightarrow> auth_user \<Rightarrow> doc_call \<Rightarrow> world \<Rightarrow> (doc_reply, world) res" where
  "handle_doc e d u (Doc_Upload f inp) = on_world Document (upload_document e (dp_put_ok d) u f inp)"
| "handle_doc e d u (Doc_List q) =
     on_rows (\<lambda>(n, pg, ds). Documents n pg ds) (\<lambda>s. ok (list_documents (dp_search d) (dp_documents_by_update d) u q s) s)"
| "handle_doc e d u (Doc_Get i) = on_world (\<lambda>(x, vs, rs). Document_Detail x vs rs) (get_document u i)"
| "handle_doc e d u (Doc_Download i version) =
     on_world (\<lambda>(url, name, ty). Download url name ty) (download_document (dp_presign_for d) u i (param (dp_number d) version))"
| "handle_doc e d u (Doc_Update i inp) = on_world Document (update_metadata u i inp)"
| "handle_doc e d u (Doc_AddVersion i f note') = on_world (case_prod Version) (add_version e (dp_put_ok d) u i f note')"
| "handle_doc e d u (Doc_Remove i) = on_world (\<lambda>_. Document_Removed) (soft_delete e u i)"

primrec handle_tpl :: "env \<Rightarrow> deps \<Rightarrow> auth_user \<Rightarrow> tpl_call \<Rightarrow> world \<Rightarrow> (tpl_reply, world) res" where
  "handle_tpl e d u (Tpl_Create inp) = on_rows (case_prod Template) (create_template u inp)"
| "handle_tpl e d u (Tpl_List st ws limit offset) =
     on_rows (case_prod Templates) (\<lambda>s. ok (list_templates (dp_templates_by_update d) u st ws limit offset s) s)"
| "handle_tpl e d u (Tpl_Get i) = on_rows (case_prod Template) (get_template u i)"
| "handle_tpl e d u (Tpl_Update i inp) = on_rows (case_prod Template) (update_template u i inp)"
| "handle_tpl e d u (Tpl_Remove i) = on_rows (\<lambda>_. Template_Removed) (remove_template u i)"

primrec handle_sig :: "env \<Rightarrow> deps \<Rightarrow> auth_user \<Rightarrow> sig_call \<Rightarrow> world \<Rightarrow> (sig_reply, world) res" where
  "handle_sig e d u (Sig_Create inp) = on_rows (case_prod Created) (create_request e u inp)"
| "handle_sig e d u (Sig_List st limit offset) = on_rows (case_prod Requests)
     (\<lambda>s. ok (list_requests u st (param (dp_number d) limit) (param (dp_number d) offset) s) s)"
| "handle_sig e d u (Sig_Get i) = on_rows Request (get_request u i)"
| "handle_sig e d u (Sig_Cancel i reason) = on_rows (\<lambda>_. Cancelled) (cancel e u i reason)"
| "handle_sig e d u (Sig_Remind i signer) = on_rows Reminded (remind e u i signer)"
| "handle_sig e d u (Sig_Evidence i) = on_rows Evidence (evidence_report (dp_url d) u i)"
| "handle_sig e d u (Sig_InPerson i signer) = on_rows Handover (in_person_session e u i signer)"
| "handle_sig e d u (Sig_Self document template) =
     on_rows (\<lambda>(i, j, n, url). Self_Link i j n url) (self_sign e u document template)"

primrec handle_cert :: "env \<Rightarrow> deps \<Rightarrow> auth_user \<Rightarrow> cert_call \<Rightarrow> world \<Rightarrow> (cert_reply, world) res" where
  "handle_cert e d u (Cert_List st limit offset) = on_rows (case_prod Certificates)
     (list_certificates u st (param (dp_number d) limit) (param (dp_number d) offset))"
| "handle_cert e d u Cert_Providers = ok (Providers (registry_status (dp_providers d)))"
| "handle_cert e d u (Cert_Import inp) = on_rows Certificate (import_certificate e (dp_crypto d) u inp)"
| "handle_cert e d u (Cert_Provision kind name email options) =
     on_rows Certificate (provision_certificate e (dp_crypto d) (dp_providers d) u kind name email options)"
| "handle_cert e d u (Cert_Verify pem cert sig hash) =
     on_rows Verified (\<lambda>s. (verify_certificate e (dp_crypto d) pem cert sig hash s, s))"
| "handle_cert e d u (Cert_Get i) = on_rows Certificate (get_certificate u i)"
| "handle_cert e d u (Cert_Revoke i reason) = on_rows Certificate (revoke_certificate e u i reason)"

primrec handle_audit :: "env \<Rightarrow> deps \<Rightarrow> auth_user \<Rightarrow> audit_call \<Rightarrow> world \<Rightarrow> (audit_reply, world) res" where
  "handle_audit e d u (Audit_List action ty i outcome email lo hi limit offset) = on_rows (case_prod Audit_Rows)
     (list_audit u \<lparr>aq_action = action, aq_resource_type = ty, aq_resource_id = i, aq_outcome = outcome,
        aq_actor_email = email, aq_from = param (dp_date d) lo, aq_to = param (dp_date d) hi,
        aq_limit = param (dp_number d) limit, aq_offset = param (dp_number d) offset\<rparr>)"
| "handle_audit e d u (Audit_Export lo hi action) = on_rows Csv
     (\<lambda>s. ok (export_audit (dp_json d) u (param (dp_date d) lo) (param (dp_date d) hi) action s) s)"

primrec handle_bill :: "env \<Rightarrow> deps \<Rightarrow> auth_user \<Rightarrow> bill_call \<Rightarrow> world \<Rightarrow> (bill_reply, world) res" where
  "handle_bill e d u Bill_Account = on_rows (case_prod Account) (get_account u)"
| "handle_bill e d u Bill_Plans = on_rows Plans (\<lambda>s. ok (list_plans (dp_plans_by_order d) s) s)"
| "handle_bill e d u (Bill_Subscribe plan seats coupon period) = on_rows (case_prod Account)
     (create_subscription e u \<lparr>su_plan = plan, su_seats = coalesce seats 1, su_coupon = coupon, su_period = period\<rparr>)"
| "handle_bill e d u Bill_Invoices = on_rows (case_prod Invoices) (\<lambda>s. ok (list_invoices u s) s)"
| "handle_bill e d u Bill_Usage = on_rows Usage (usage e (dp_created d) u)"

primrec handle_admin :: "env \<Rightarrow> deps \<Rightarrow> auth_user \<Rightarrow> admin_call \<Rightarrow> world \<Rightarrow> (admin_reply, world) res" where
  "handle_admin e d u (Admin_Orgs q st limit offset) = on_rows (case_prod Orgs)
     (list_organizations u q st (param (dp_number d) limit) (param (dp_number d) offset))"
| "handle_admin e d u (Admin_Users q st limit offset) = on_rows (case_prod Users)
     (list_users u q st (param (dp_number d) limit) (param (dp_number d) offset))"
| "handle_admin e d u (Admin_OrgStatus i st) = on_rows (case_prod Org_Status) (set_organization_status e u i st)"
| "handle_admin e d u (Admin_UserStatus i st) = on_rows (case_prod User_Status) (set_user_status e u i st)"
| "handle_admin e d u Admin_Metrics = on_rows Metrics (platform_metrics e u)"
| "handle_admin e d u (Admin_Reindex org batch) =
     on_rows Reindexed (reindex_search (dp_index d) (dp_index_count d) u org batch)"

primrec handle_notif :: "env \<Rightarrow> deps \<Rightarrow> auth_user \<Rightarrow> notif_call \<Rightarrow> world \<Rightarrow> (notif_reply, world) res" where
  "handle_notif e d u (Notif_List unread limit offset) = on_rows Notes
     (\<lambda>s. ok (list_notifications u (unread = Some ''true'') (param (dp_number d) limit) (param (dp_number d) offset) s) s)"
| "handle_notif e d u (Notif_Read i) = on_rows (\<lambda>_. Marked) (mark_read e u i)"
| "handle_notif e d u Notif_ReadAll = on_rows (\<lambda>_. Marked) (mark_all_read e u)"

primrec handle_key :: "env \<Rightarrow> deps \<Rightarrow> auth_user \<Rightarrow> key_call \<Rightarrow> world \<Rightarrow> (key_reply, world) res" where
  "handle_key e d u (Key_Create name scopes days) = on_rows Api_Key (create_api_key e u name scopes days)"
| "handle_key e d u Key_List = on_rows Api_Keys (\<lambda>s. ok (list_api_keys u s) s)"
| "handle_key e d u (Key_Revoke i) = on_rows (\<lambda>_. Key_Revoked) (revoke_api_key e u i)"

primrec handle_hook :: "env \<Rightarrow> deps \<Rightarrow> auth_user \<Rightarrow> hook_call \<Rightarrow> world \<Rightarrow> (hook_reply, world) res" where
  "handle_hook e d u (Hook_Create url evs descr) = on_rows Endpoint (create_endpoint e (dp_url d) u url evs descr)"
| "handle_hook e d u Hook_List = on_rows Endpoints (list_endpoints e u)"
| "handle_hook e d u (Hook_Deliveries i) = on_rows Deliveries (list_deliveries u i)"
| "handle_hook e d u (Hook_Ping i) = on_rows Pinged (ping e u i)"
| "handle_hook e d u (Hook_Enable i) = on_rows Health (set_active e u i True)"
| "handle_hook e d u (Hook_Remove i) = on_rows (\<lambda>_. Endpoint_Removed) (remove_endpoint u i)"

primrec handle_user :: "env \<Rightarrow> deps \<Rightarrow> auth_user \<Rightarrow> user_call \<Rightarrow> world \<Rightarrow> (reply, world) res" where
  "handle_user e d u (Users_Call c) = on_world Users_Reply (handle_users e d u c)"
| "handle_user e d u (Org_Call c) = on_world Org_Reply (handle_org e d u c)"
| "handle_user e d u (Doc_Call c) = on_world Doc_Reply (handle_doc e d u c)"
| "handle_user e d u (Tpl_Call c) = on_world Tpl_Reply (handle_tpl e d u c)"
| "handle_user e d u (Sig_Call c) = on_world Sig_Reply (handle_sig e d u c)"
| "handle_user e d u (Cert_Call c) = on_world Cert_Reply (handle_cert e d u c)"
| "handle_user e d u (Audit_Call c) = on_world Audit_Reply (handle_audit e d u c)"
| "handle_user e d u (Bill_Call c) = on_world Bill_Reply (handle_bill e d u c)"
| "handle_user e d u (Admin_Call c) = on_world Admin_Reply (handle_admin e d u c)"
| "handle_user e d u (Notif_Call c) = on_world Notif_Reply (handle_notif e d u c)"
| "handle_user e d u (Key_Call c) = on_world Key_Reply (handle_key e d u c)"
| "handle_user e d u (Hook_Call c) = on_world Hook_Reply (handle_hook e d u c)"

section \<open>Routes of the calls\<close>

primrec public_key :: "public_call \<Rightarrow> http_method \<times> string" where
  "public_key (Sig_Session t) = (HttpGet, ''signatures/public/:token'')"
| "public_key (Sig_Sign t inp) = (HttpPost, ''signatures/public/:token/sign'')"
| "public_key (Sig_Decline t r) = (HttpPost, ''signatures/public/:token/decline'')"
| "public_key (Sig_Events t) = (HttpGet, ''signatures/public/:token/events'')"
| "public_key (Audit_Csp b) = (HttpPost, ''audit/csp-report'')"

primrec users_key :: "users_call \<Rightarrow> http_method \<times> string" where
  "users_key Auth_Me = (HttpGet, ''auth/me'')"
| "users_key Users_Me = (HttpGet, ''users/me'')"
| "users_key (Users_UpdateMe a b c) = (HttpPatch, ''users/me'')"
| "users_key (Users_List a b c x) = (HttpGet, ''users'')"
| "users_key (Users_Invite a b c) = (HttpPost, ''users/invite'')"
| "users_key (Users_UpdateRole i a) = (HttpPatch, ''users/:id/role'')"
| "users_key (Users_Remove i) = (HttpDelete, ''users/:id'')"

primrec org_key :: "org_call \<Rightarrow> http_method \<times> string" where
  "org_key (Org_Create a b c) = (HttpPost, ''organizations'')"
| "org_key Org_Current = (HttpGet, ''organizations/current'')"
| "org_key (Org_Update a) = (HttpPatch, ''organizations/current'')"
| "org_key Org_Workspaces = (HttpGet, ''organizations/current/workspaces'')"
| "org_key (Org_CreateWorkspace a b c x) = (HttpPost, ''organizations/current/workspaces'')"
| "org_key (Org_Teams a) = (HttpGet, ''organizations/current/teams'')"
| "org_key (Org_CreateTeam a b c x) = (HttpPost, ''organizations/current/teams'')"

primrec doc_key :: "doc_call \<Rightarrow> http_method \<times> string" where
  "doc_key (Doc_Upload a b) = (HttpPost, ''documents/upload'')"
| "doc_key (Doc_List a) = (HttpGet, ''documents'')"
| "doc_key (Doc_Get i) = (HttpGet, ''documents/:id'')"
| "doc_key (Doc_Download i a) = (HttpGet, ''documents/:id/download'')"
| "doc_key (Doc_Update i a) = (HttpPatch, ''documents/:id'')"
| "doc_key (Doc_AddVersion i a b) = (HttpPost, ''documents/:id/versions'')"
| "doc_key (Doc_Remove i) = (HttpDelete, ''documents/:id'')"

primrec tpl_key :: "tpl_call \<Rightarrow> http_method \<times> string" where
  "tpl_key (Tpl_Create a) = (HttpPost, ''templates'')"
| "tpl_key (Tpl_List a b c x) = (HttpGet, ''templates'')"
| "tpl_key (Tpl_Get i) = (HttpGet, ''templates/:id'')"
| "tpl_key (Tpl_Update i a) = (HttpPatch, ''templates/:id'')"
| "tpl_key (Tpl_Remove i) = (HttpDelete, ''templates/:id'')"

primrec sig_key :: "sig_call \<Rightarrow> http_method \<times> string" where
  "sig_key (Sig_Create a) = (HttpPost, ''signatures/requests'')"
| "sig_key (Sig_List a b c) = (HttpGet, ''signatures/requests'')"
| "sig_key (Sig_Get i) = (HttpGet, ''signatures/requests/:id'')"
| "sig_key (Sig_Cancel i a) = (HttpPost, ''signatures/requests/:id/cancel'')"
| "sig_key (Sig_Remind i a) = (HttpPost, ''signatures/requests/:id/remind'')"
| "sig_key (Sig_Evidence i) = (HttpGet, ''signatures/requests/:id/evidence'')"
| "sig_key (Sig_InPerson i a) = (HttpPost, ''signatures/requests/:id/in-person-session'')"
| "sig_key (Sig_Self a b) = (HttpPost, ''signatures/self-sign'')"

primrec cert_key :: "cert_call \<Rightarrow> http_method \<times> string" where
  "cert_key (Cert_List a b c) = (HttpGet, ''certificates'')"
| "cert_key Cert_Providers = (HttpGet, ''certificates/providers'')"
| "cert_key (Cert_Import a) = (HttpPost, ''certificates/import'')"
| "cert_key (Cert_Provision a b c x) = (HttpPost, ''certificates/provision'')"
| "cert_key (Cert_Verify a b c x) = (HttpPost, ''certificates/verify'')"
| "cert_key (Cert_Get i) = (HttpGet, ''certificates/:id'')"
| "cert_key (Cert_Revoke i a) = (HttpPatch, ''certificates/:id/revoke'')"

primrec audit_key :: "audit_call \<Rightarrow> http_method \<times> string" where
  "audit_key (Audit_List a b c x f g h k l) = (HttpGet, ''audit'')"
| "audit_key (Audit_Export a b c) = (HttpGet, ''audit/export'')"

primrec bill_key :: "bill_call \<Rightarrow> http_method \<times> string" where
  "bill_key Bill_Account = (HttpGet, ''billing'')"
| "bill_key Bill_Plans = (HttpGet, ''billing/plans'')"
| "bill_key (Bill_Subscribe a b c x) = (HttpPost, ''billing/subscriptions'')"
| "bill_key Bill_Invoices = (HttpGet, ''billing/invoices'')"
| "bill_key Bill_Usage = (HttpGet, ''billing/usage'')"

primrec admin_key :: "admin_call \<Rightarrow> http_method \<times> string" where
  "admin_key (Admin_Orgs a b c x) = (HttpGet, ''admin/organizations'')"
| "admin_key (Admin_Users a b c x) = (HttpGet, ''admin/users'')"
| "admin_key (Admin_OrgStatus i a) = (HttpPatch, ''admin/organizations/:id/status'')"
| "admin_key (Admin_UserStatus i a) = (HttpPatch, ''admin/users/:id/status'')"
| "admin_key Admin_Metrics = (HttpGet, ''admin/metrics'')"
| "admin_key (Admin_Reindex a b) = (HttpPost, ''admin/search/reindex'')"

primrec notif_key :: "notif_call \<Rightarrow> http_method \<times> string" where
  "notif_key (Notif_List a b c) = (HttpGet, ''notifications'')"
| "notif_key (Notif_Read i) = (HttpPatch, ''notifications/:id/read'')"
| "notif_key Notif_ReadAll = (HttpPost, ''notifications/read-all'')"

primrec key_key :: "key_call \<Rightarrow> http_method \<times> string" where
  "key_key (Key_Create a b c) = (HttpPost, ''api-keys'')"
| "key_key Key_List = (HttpGet, ''api-keys'')"
| "key_key (Key_Revoke i) = (HttpDelete, ''api-keys/:id'')"

primrec hook_key :: "hook_call \<Rightarrow> http_method \<times> string" where
  "hook_key (Hook_Create a b c) = (HttpPost, ''webhooks'')"
| "hook_key Hook_List = (HttpGet, ''webhooks'')"
| "hook_key (Hook_Deliveries a) = (HttpGet, ''webhooks/deliveries'')"
| "hook_key (Hook_Ping i) = (HttpPost, ''webhooks/:id/ping'')"
| "hook_key (Hook_Enable i) = (HttpPost, ''webhooks/:id/enable'')"
| "hook_key (Hook_Remove i) = (HttpDelete, ''webhooks/:id'')"

primrec user_key :: "user_call \<Rightarrow> http_method \<times> string" where
  "user_key (Users_Call c) = users_key c"
| "user_key (Org_Call c) = org_key c"
| "user_key (Doc_Call c) = doc_key c"
| "user_key (Tpl_Call c) = tpl_key c"
| "user_key (Sig_Call c) = sig_key c"
| "user_key (Cert_Call c) = cert_key c"
| "user_key (Audit_Call c) = audit_key c"
| "user_key (Bill_Call c) = bill_key c"
| "user_key (Admin_Call c) = admin_key c"
| "user_key (Notif_Call c) = notif_key c"
| "user_key (Key_Call c) = key_key c"
| "user_key (Hook_Call c) = hook_key c"

text \<open>The path parameter \<open>id\<close>.\<close>

definition user_id_param :: "user_call \<Rightarrow> id option" where
  "user_id_param c = (case c of
     Users_Call (Users_UpdateRole i _) \<Rightarrow> Some i
   | Users_Call (Users_Remove i) \<Rightarrow> Some i
   | Doc_Call (Doc_Get i) \<Rightarrow> Some i
   | Doc_Call (Doc_Download i _) \<Rightarrow> Some i
   | Doc_Call (Doc_Update i _) \<Rightarrow> Some i
   | Doc_Call (Doc_AddVersion i _ _) \<Rightarrow> Some i
   | Doc_Call (Doc_Remove i) \<Rightarrow> Some i
   | Tpl_Call (Tpl_Get i) \<Rightarrow> Some i
   | Tpl_Call (Tpl_Update i _) \<Rightarrow> Some i
   | Tpl_Call (Tpl_Remove i) \<Rightarrow> Some i
   | Sig_Call (Sig_Get i) \<Rightarrow> Some i
   | Sig_Call (Sig_Cancel i _) \<Rightarrow> Some i
   | Sig_Call (Sig_Remind i _) \<Rightarrow> Some i
   | Sig_Call (Sig_Evidence i) \<Rightarrow> Some i
   | Sig_Call (Sig_InPerson i _) \<Rightarrow> Some i
   | Cert_Call (Cert_Get i) \<Rightarrow> Some i
   | Cert_Call (Cert_Revoke i _) \<Rightarrow> Some i
   | Admin_Call (Admin_OrgStatus i _) \<Rightarrow> Some i
   | Admin_Call (Admin_UserStatus i _) \<Rightarrow> Some i
   | Notif_Call (Notif_Read i) \<Rightarrow> Some i
   | Key_Call (Key_Revoke i) \<Rightarrow> Some i
   | Hook_Call (Hook_Ping i) \<Rightarrow> Some i
   | Hook_Call (Hook_Enable i) \<Rightarrow> Some i
   | Hook_Call (Hook_Remove i) \<Rightarrow> Some i
   | _ \<Rightarrow> None)"

primrec call_key :: "call \<Rightarrow> http_method \<times> string" where
  "call_key (Public_Call c) = (fst (public_key c), ''/api/v1/'' @ snd (public_key c))"
| "call_key (User_Call c) = (fst (user_key c), ''/api/v1/'' @ snd (user_key c))"

definition route_of :: "call \<Rightarrow> route option" where
  "route_of c = map_option (\<lambda>(m, p, rt). rt) (find (\<lambda>(m, p, rt). (m, p) = call_key c) api_routes)"

section \<open>Serving a request\<close>

primrec method_name :: "http_method \<Rightarrow> string" where
  "method_name HttpGet = ''GET''"
| "method_name HttpPost = ''POST''"
| "method_name HttpPatch = ''PATCH''"
| "method_name HttpDelete = ''DELETE''"

record request_head =
  rh_headers :: http_headers
  rh_client :: client
  rh_id :: "string option"
  rh_duration :: int

definition request_info :: "request_head \<Rightarrow> auth_user option \<Rightarrow> call \<Rightarrow> http_request_info" where
  "request_info rh u c = \<lparr>hr_method = method_name (fst (call_key c)), hr_path = Some (snd (call_key c)),
     hr_url = snd (call_key c),
     hr_param_id = (case c of Public_Call _ \<Rightarrow> None | User_Call uc \<Rightarrow> map_option show_nat (user_id_param uc)),
     hr_resource = None, hr_user = u, hr_request_id = rh_id rh, hr_ip = cx_ip (rh_client rh),
     hr_agent = cx_agent (rh_client rh)\<rparr>"

text \<open>A handler of a protected route reads properties of \<open>request.user\<close>; without one it throws.\<close>

definition handle :: "env \<Rightarrow> deps \<Rightarrow> client \<Rightarrow> auth_user option \<Rightarrow> call \<Rightarrow> world \<Rightarrow> (reply, world) res" where
  "handle e d cx u c w = (case c of
     Public_Call pc \<Rightarrow> on_world Public_Reply (handle_public e d cx pc) w
   | User_Call uc \<Rightarrow> (case u of None \<Rightarrow> fail (InternalError ''Cannot read properties of undefined'') w
       | Some p \<Rightarrow> handle_user e d p uc w))"

text \<open>Guards, then the handler inside the audit interceptor; a path without route is not found.\<close>

definition audited ::
  "env \<Rightarrow> http_request_info \<Rightarrow> int \<Rightarrow> (world \<Rightarrow> ('r, world) res) \<Rightarrow> world \<Rightarrow> ('r, world) res" where
  "audited e rq duration h w =
     (let (r, w') = h w;
          (r', s) = intercept e rq (\<lambda>_. (r, fst w')) duration (fst w)
      in (r', (s, snd w')))"

definition serve ::
  "auth_config \<Rightarrow> jwt_lib \<Rightarrow> env \<Rightarrow> deps \<Rightarrow> request_head \<Rightarrow> call \<Rightarrow> world \<Rightarrow> (reply, world) res" where
  "serve cf jl e d rh c w =
     (case route_of c of
        None \<Rightarrow> fail (NotFound ''Cannot find the route'') w
      | Some rt \<Rightarrow>
        (case guarded cf jl e rt (rh_headers rh) (fst w) of
           (Inl err, s) \<Rightarrow> fail err (s, snd w)
         | (Inr u, s) \<Rightarrow>
             audited e (request_info rh u c) (rh_duration rh) (handle e d (rh_client rh) u c) (s, snd w)))"

end
