(* ===== verification/Http_Props.thy ===== *)
theory Http_Props
  imports Http_Api Access_Props
begin

text \<open>
  What the guards and the audit interceptor give for the requests of a whole API: which calls an
  authenticated principal can make, and the row that every mutating one leaves.
\<close>

section \<open>Calls have a route\<close>

definition served_paths :: "(http_method \<times> string) list" where
  "served_paths = map (\<lambda>(m, p, rt). (m, drop 8 p)) (filter (\<lambda>(m, p, rt). take 8 p = ''/api/v1/'') api_routes)"

definition routed :: "http_method \<times> string \<Rightarrow> bool" where
  "routed k \<longleftrightarrow> k \<in> set served_paths"

lemma served_paths_listed: "served_paths = [
   (HttpGet, ''auth/login''), (HttpGet, ''auth/callback''), (HttpPost, ''auth/refresh''),
   (HttpPost, ''auth/logout''), (HttpGet, ''auth/me''), (HttpGet, ''users/me''), (HttpPatch, ''users/me''),
   (HttpGet, ''users''), (HttpPost, ''users/invite''), (HttpPatch, ''users/:id/role''),
   (HttpDelete, ''users/:id''), (HttpPost, ''organizations''), (HttpGet, ''organizations/current''),
   (HttpPatch, ''organizations/current''), (HttpGet, ''organizations/current/workspaces''),
   (HttpPost, ''organizations/current/workspaces''), (HttpGet, ''organizations/current/teams''),
   (HttpPost, ''organizations/current/teams''), (HttpPost, ''documents/upload''), (HttpGet, ''documents''),
   (HttpGet, ''documents/:id''), (HttpGet, ''documents/:id/download''), (HttpPatch, ''documents/:id''),
   (HttpPost, ''documents/:id/versions''), (HttpDelete, ''documents/:id''), (HttpPost, ''templates''),
   (HttpGet, ''templates''), (HttpGet, ''templates/:id''), (HttpPatch, ''templates/:id''),
   (HttpDelete, ''templates/:id''), (HttpPost, ''signatures/requests''), (HttpGet, ''signatures/requests''),
   (HttpGet, ''signatures/requests/:id''), (HttpPost, ''signatures/requests/:id/cancel''),
   (HttpPost, ''signatures/requests/:id/remind''), (HttpGet, ''signatures/requests/:id/evidence''),
   (HttpPost, ''signatures/requests/:id/in-person-session''), (HttpPost, ''signatures/self-sign''),
   (HttpGet, ''signatures/public/:token''), (HttpPost, ''signatures/public/:token/sign''),
   (HttpPost, ''signatures/public/:token/decline''), (HttpGet, ''signatures/public/:token/events''),
   (HttpGet, ''certificates''), (HttpGet, ''certificates/providers''), (HttpPost, ''certificates/import''),
   (HttpPost, ''certificates/provision''), (HttpPost, ''certificates/verify''), (HttpGet, ''certificates/:id''),
   (HttpPatch, ''certificates/:id/revoke''), (HttpGet, ''audit''), (HttpGet, ''audit/export''),
   (HttpPost, ''audit/csp-report''), (HttpGet, ''billing''), (HttpGet, ''billing/plans''),
   (HttpPost, ''billing/subscriptions''), (HttpGet, ''billing/invoices''), (HttpGet, ''billing/usage''),
   (HttpGet, ''admin/organizations''), (HttpGet, ''admin/users''),
   (HttpPatch, ''admin/organizations/:id/status''), (HttpPatch, ''admin/users/:id/status''),
   (HttpGet, ''admin/metrics''), (HttpPost, ''admin/search/reindex''), (HttpGet, ''notifications''),
   (HttpPatch, ''notifications/:id/read''), (HttpPost, ''notifications/read-all''), (HttpPost, ''api-keys''),
   (HttpGet, ''api-keys''), (HttpDelete, ''api-keys/:id''), (HttpPost, ''webhooks''), (HttpGet, ''webhooks''),
   (HttpGet, ''webhooks/deliveries''), (HttpPost, ''webhooks/:id/ping''), (HttpPost, ''webhooks/:id/enable''),
   (HttpDelete, ''webhooks/:id'')]"
  by code_simp

lemma all_routed: "list_all routed served_paths"
  by (simp add: routed_def list_all_iff)

lemmas routed_call = all_routed [unfolded served_paths_listed list.pred_inject]

lemma routed_user: "routed (user_key c)"
  by (cases c; simp only: user_key.simps; rename_tac x; case_tac x; simp add: routed_call)

lemma routed_public: "routed (public_key c)"
  by (cases c) (simp_all add: routed_call)

lemma routed_path:
  assumes "routed k"
  shows "(fst k, ''/api/v1/'' @ snd k) \<in> set (map (\<lambda>(m, p, rt). (m, p)) api_routes)"
proof -
  from assms obtain m p rt where r: "(m, p, rt) \<in> set api_routes" "take 8 p = ''/api/v1/''" "k = (m, drop 8 p)"
    by (auto simp: routed_def served_paths_def)
  have "(fst k, ''/api/v1/'' @ snd k) = (m, p)"
    unfolding r(3) fst_conv snd_conv r(2) [symmetric] append_take_drop_id ..
  with r(1) show ?thesis by force
qed

lemma call_has_route: "\<exists>m p rt. (m, p, rt) \<in> set api_routes \<and> (m, p) = call_key c \<and> route_of c = Some rt"
proof -
  have "call_key c \<in> set (map (\<lambda>(m, p, rt). (m, p)) api_routes)"
    using routed_path routed_user routed_public by (cases c) (simp_all only: call_key.simps)
  then have "find (\<lambda>(m, p, rt). (m, p) = call_key c) api_routes \<noteq> None"
    unfolding find_None_iff by force
  then obtain x where x: "find (\<lambda>(m, p, rt). (m, p) = call_key c) api_routes = Some x" by blast
  with find_Some_iff_filter [OF x] show ?thesis by (cases x) (auto simp: route_of_def)
qed

section \<open>Who makes a call\<close>

text \<open>The calls that any signed-in user may make.\<close>

definition open_calls :: "(http_method \<times> string) list" where
  "open_calls = [(HttpPost, ''/api/v1/auth/logout''), (HttpGet, ''/api/v1/auth/me''), (HttpGet, ''/api/v1/users/me''),
     (HttpPatch, ''/api/v1/users/me''), (HttpPost, ''/api/v1/organizations'')]"

definition admin_calls :: "(http_method \<times> string) list" where
  "admin_calls = [(HttpGet, ''/api/v1/admin/organizations''), (HttpGet, ''/api/v1/admin/users''),
     (HttpPatch, ''/api/v1/admin/organizations/:id/status''), (HttpPatch, ''/api/v1/admin/users/:id/status''),
     (HttpGet, ''/api/v1/admin/metrics''), (HttpPost, ''/api/v1/admin/search/reindex'')]"

lemma ungated_checked: "list_all (\<lambda>(m, p, rt). rt_public rt \<or> needed rt \<noteq> []
    \<or> (m, p) \<in> set open_calls \<or> (m, p) \<in> set admin_calls) api_routes"
  by code_simp

lemma route_gated:
  assumes "route_of c = Some rt"
  shows "rt_public rt \<or> needed rt \<noteq> [] \<or> call_key c \<in> set open_calls \<or> call_key c \<in> set admin_calls"
proof -
  from assms obtain m p where r: "find (\<lambda>(m, p, rt). (m, p) = call_key c) api_routes = Some (m, p, rt)"
    by (auto simp: route_of_def)
  then have "(m, p, rt) \<in> set api_routes" "(m, p) = call_key c"
    using find_Some_iff_filter [OF r] by auto
  with ungated_checked show ?thesis unfolding list_all_iff by fastforce
qed

lemma gated_tenant:
  assumes "route_of c = Some rt" "needed rt \<noteq> []"
  shows "rt_tenant rt"
proof -
  from assms obtain m p where r: "find (\<lambda>(m, p, rt). (m, p) = call_key c) api_routes = Some (m, p, rt)"
    by (auto simp: route_of_def)
  then have "(m, p, rt) \<in> set api_routes" using find_Some_iff_filter [OF r] by auto
  with gated_routes_need_tenant assms(2) show ?thesis unfolding list_all_iff by fastforce
qed

lemma guarded_passed:
  assumes "guarded cf jl e rt h s = (Inr u, s')"
  shows "jwt_guard cf jl e (rt_public rt) h s = (Inr u, s') \<and> tenant_guard rt u = None \<and> permissions_guard rt u = None"
  using assms unfolding guarded_def
  by (cases "jwt_guard cf jl e (rt_public rt) h s"; cases "fst (jwt_guard cf jl e (rt_public rt) h s)")
    (auto split: option.split_asm)

text \<open>The guards write at most the time of the last login.\<close>

lemma jwt_guard_state: "jwt_guard cf jl e pub h s = (r, s') \<Longrightarrow> s' = s \<or> (\<exists>i. s' = touch_login e i s)"
  unfolding jwt_guard_def resolve_principal_def authenticate_api_key_def
  by (auto split: option.split_asm prod.split_asm if_split_asm)

lemma guarded_state:
  assumes "guarded cf jl e rt h s = (r, s')"
  shows "s' = s \<or> (\<exists>i. s' = touch_login e i s)"
proof (cases "jwt_guard cf jl e (rt_public rt) h s")
  case (Pair v t)
  with assms have "s' = t" unfolding guarded_def by (cases v) (auto split: option.split_asm)
  with jwt_guard_state [OF Pair] show ?thesis by simp
qed

lemma handle_admin_platform:
  "handle_admin e d u c w = (Inr r, w') \<Longrightarrow> au_platform_role u = PLATFORM_ADMIN"
  by (cases c) (auto simp: on_rows_def list_organizations_def list_users_def set_organization_status_def
    set_user_status_def platform_metrics_def reindex_search_def assert_platform_admin_def split: if_split_asm prod.split_asm)

lemma serve_passed:
  assumes "serve cf jl e d rh c w = (Inr r, w')"
  shows "\<exists>rt u s. route_of c = Some rt \<and> guarded cf jl e rt (rh_headers rh) (fst w) = (Inr u, s)
    \<and> (\<exists>w1. handle e d (rh_client rh) u c (s, snd w) = (Inr r, w1))"
proof -
  from call_has_route [of c] obtain rt where rt: "route_of c = Some rt" by blast
  obtain x s where g: "guarded cf jl e rt (rh_headers rh) (fst w) = (x, s)" by (meson surj_pair)
  show ?thesis
  proof (cases x)
    case (Inr u)
    obtain v w1 where h: "handle e d (rh_client rh) u c (s, snd w) = (v, w1)" by (meson surj_pair)
    with assms rt g Inr have "v = Inr r"
      by (auto simp: serve_def audited_def intercept_def split: prod.split_asm if_split_asm)
    with rt g Inr h show ?thesis by blast
  qed (use assms rt g in \<open>simp add: serve_def\<close>)
qed

lemma user_key_not_public: "(fst (user_key c), ''/api/v1/'' @ snd (user_key c)) \<notin> set public_calls"
  by (cases c; simp only: user_key.simps; rename_tac x; case_tac x; simp add: public_calls_def)

lemma route_public_iff:
  assumes "route_of c = Some rt"
  shows "rt_public rt \<longleftrightarrow> call_key c \<in> set public_calls"
proof -
  from assms obtain m p where r: "find (\<lambda>(m, p, rt). (m, p) = call_key c) api_routes = Some (m, p, rt)"
    by (auto simp: route_of_def)
  then have "(m, p, rt) \<in> set api_routes" "(m, p) = call_key c" using find_Some_iff_filter [OF r] by auto
  with public_checked show ?thesis unfolding list_all_iff by fastforce
qed

lemma user_route_protected: "route_of (User_Call c) = Some rt \<Longrightarrow> \<not> rt_public rt"
  using route_public_iff user_key_not_public by simp

lemma admin_key: "call_key (User_Call c) \<in> set admin_calls \<Longrightarrow> \<exists>ac. c = Admin_Call ac"
  by (cases c; simp only: user_key.simps call_key.simps; rename_tac x; case_tac x; simp add: admin_calls_def)

lemma on_world_success: "on_world mk h w = (Inr r, w') \<longleftrightarrow> (\<exists>x. h w = (Inr x, w') \<and> r = mk x)"
  by (cases "h w"; cases "fst (h w)") (auto simp: on_world_def)


section \<open>The audit trail\<close>

lemma mutating_method: "mutating (method_name m) \<longleftrightarrow> m \<noteq> HttpGet"
  by (cases m) (simp_all add: mutating_def)


text \<open>A request that the guards refuse has no effect beyond the time of the login, no audit row either.\<close>

theorem refused_request_no_effect:
  assumes "route_of c = Some rt" "guarded cf jl e rt (rh_headers rh) (fst w) = (Inl err, s)"
  shows "\<exists>s'. serve cf jl e d rh c w = (Inl err, (s', snd w)) \<and> s'\<lparr>users := users (fst w)\<rparr> = fst w"
  using guarded_state [OF assms(2)] assms by (auto simp: serve_def touch_login_def)

section \<open>A request\<close>

definition sample_deps :: deps where
  "sample_deps = \<lparr>dp_crypto = sample_crypto, dp_providers = [], dp_url = (\<lambda>_. None), dp_presign = id,
     dp_presign_for = (\<lambda>k _. k), dp_put_ok = (\<lambda>_. True), dp_search = (\<lambda>_ _ _. []), dp_documents_by_update = id,
     dp_templates_by_update = id, dp_plans_by_order = id, dp_created = (\<lambda>_. 0), dp_index = (\<lambda>xs. (length xs, 0)),
     dp_index_count = None, dp_json = (\<lambda>_. []), dp_number = (\<lambda>_. 0), dp_date = (\<lambda>_. 0)\<rparr>"

definition sample_head :: request_head where
  "sample_head = \<lparr>rh_headers = \<lparr>hd_api_key = Some ''sgn_1'', hd_authorization = None\<rparr>,
     rh_client = \<lparr>cx_ip = Some ''::1'', cx_agent = Some ''ua''\<rparr>, rh_id = None, rh_duration = 3\<rparr>"

text \<open>A key whose only scope is to read documents renames its owner.\<close>

definition sample_rename :: user_call where
  "sample_rename = Users_Call (Users_UpdateMe (Some ''Eve'') None None)"

definition rename_route :: route where
  "rename_route = \<lparr>rt_public = False, rt_tenant = True, rt_permissions = None\<rparr>"

lemma sample_route: "route_of (User_Call sample_rename) = Some rename_route"
proof -
  have "find (\<lambda>(m, p, rt). (m, p) = (HttpPatch, ''/api/v1/users/me'')) api_routes
      = Some (HttpPatch, ''/api/v1/users/me'', rename_route)"
    by code_simp
  then show ?thesis by (simp add: route_of_def sample_rename_def)
qed

lemma rename_guarded:
  "\<exists>p. guarded sample_config sample_jwt sample_env rename_route (rh_headers sample_head) (fst ((key_db, []) :: world)) = (Inr (Some p), key_db)
     \<and> au_id p = Some 5 \<and> org_of p = Some 1"
  by (simp add: guarded_def jwt_guard_def configured_def authenticate_api_key_def key_usable_def key_db_def
      access_db_def sample_env_def sample_org_def key_owner_def sample_user_def active_user_def sample_member_def
      tenant_guard_def permissions_guard_def granted_permissions_def rename_route_def sample_head_def org_of_def)

lemma serve_result:
  assumes "route_of c = Some rt" "guarded cf jl e rt (rh_headers rh) (fst w) = (Inr u, s)"
    and "handle e d (rh_client rh) u c (s, snd w) = (v, w1)"
  shows "\<exists>w'. serve cf jl e d rh c w = (v, w')"
  by (simp add: serve_def assms audited_def intercept_def)

lemma rename_served:
  "\<exists>r w'. serve sample_config sample_jwt sample_env sample_deps sample_head (User_Call sample_rename) (key_db, []) = (Inr r, w')"
proof -
  obtain p where p: "guarded sample_config sample_jwt sample_env rename_route (rh_headers sample_head) (fst ((key_db, []) :: world)) =
      (Inr (Some p), key_db)" "au_id p = Some 5" "org_of p = Some 1"
    using rename_guarded by blast
  have "users key_db = [sample_user]" "u_id sample_user = 5" by (simp_all add: key_db_def access_db_def sample_user_def)
  then have "\<exists>r w1. handle sample_env sample_deps (rh_client sample_head) (Some p) (User_Call sample_rename)
      (key_db, snd (key_db, [])) = (Inr r, w1)"
    by (simp add: handle_def sample_rename_def on_world_def on_rows_def update_profile_def Let_def p(2))
  with serve_result [OF sample_route p(1)] show ?thesis by blast
qed



end
