(* ===== verification/Isolation.thy ===== *)
theory Isolation
  imports Http_Props Organization_Props Signing_Steps
begin

text \<open>
  Tenant isolation of the whole API: no call of a member of one organization changes a row of
  another one. The tables with an organization column are compared row by row; the rows of another
  organization keep every column but one: the reference of a document to a template is cleared
  with the template, which a request may have taken from another organization.
\<close>

section \<open>Keyed tables\<close>

definition table_ok :: "nat \<Rightarrow> ('a \<Rightarrow> id) \<Rightarrow> 'a list \<Rightarrow> bool" where
  "table_ok n key xs \<longleftrightarrow> distinct (map key xs) \<and> list_all (\<lambda>k. k < n) (map key xs)"

lemma table_ok_update [simp]:
  "(\<And>x. key (f x) = key x) \<Longrightarrow> table_ok n key (update_row key i f xs) = table_ok n key xs"
  by (simp add: table_ok_def)

lemma table_ok_mono: "table_ok n key xs \<Longrightarrow> n \<le> n' \<Longrightarrow> table_ok n' key xs"
  by (auto simp: table_ok_def list_all_iff)

lemma table_ok_append: "table_ok n key xs \<Longrightarrow> n \<le> key x \<Longrightarrow> key x < n' \<Longrightarrow> table_ok n' key (xs @ [x])"
  by (fastforce simp: table_ok_def list_all_iff)

lemma table_ok_delete [simp]: "table_ok n key xs \<Longrightarrow> table_ok n key (delete_many p xs)"
  by (auto simp: table_ok_def delete_many_def distinct_map_filter list_all_iff)

lemma table_ok_key: "table_ok n key xs \<Longrightarrow> x \<in> set xs \<Longrightarrow> y \<in> set xs \<Longrightarrow> key x = key y \<Longrightarrow> x = y"
  by (auto simp: table_ok_def distinct_map dest: inj_onD)

text \<open>A write to a row outside of a selection leaves the selection as it is.\<close>

lemma filter_update_row:
  assumes "table_ok n key xs" "x \<in> set xs" "key x = i" "\<not> P x" "\<not> P (f x)"
  shows "filter P (update_row key i f xs) = filter P xs"
proof -
  have "\<not> P y \<and> \<not> P (f y)" if "y \<in> set xs" "key y = i" for y
    using table_ok_key [OF assms(1,2) that(1)] assms(3-5) that(2) by simp
  then show ?thesis unfolding update_row_def by (induction xs) auto
qed

lemma filter_delete_many:
  assumes "table_ok n key xs" "x \<in> set xs" "key x = i" "\<not> P x"
  shows "filter P (delete_many (\<lambda>y. key y = i) xs) = filter P xs"
proof -
  have "\<not> P y" if "y \<in> set xs" "key y = i" for y
    using table_ok_key [OF assms(1,2) that(1)] assms(3,4) that(2) by simp
  then show ?thesis unfolding delete_many_def filter_filter by (intro filter_cong) auto
qed

section \<open>The rows of an organization\<close>

definition tables_ok :: "db \<Rightarrow> bool" where
  "tables_ok s \<longleftrightarrow> table_ok (next_id s) d_id (documents s) \<and> table_ok (next_id s) tp_id (templates s)
     \<and> table_ok (next_id s) rq_id (requests s) \<and> table_ok (next_id s) c_id (certificates s)
     \<and> table_ok (next_id s) wh_id (endpoints s) \<and> table_ok (next_id s) k_id (api_keys s)
     \<and> table_ok (next_id s) m_id (memberships s) \<and> table_ok (next_id s) w_id (workspaces s)
     \<and> table_ok (next_id s) t_id (teams s) \<and> table_ok (next_id s) o_id (orgs s)
     \<and> table_ok (next_id s) ac_id (accounts s)
     \<and> (\<forall>r\<in>set (requests s). rq_document r < next_id s
          \<and> (\<forall>d\<in>set (documents s). d_id d = rq_document r \<longrightarrow> d_org d = rq_org r))"

record org_rows =
  or_documents :: "document_row list"
  or_templates :: "template_row list"
  or_requests :: "request_row list"
  or_certificates :: "certificate_row list"
  or_endpoints :: "endpoint_row list"
  or_api_keys :: "api_key_row list"
  or_memberships :: "membership_row list"
  or_workspaces :: "workspace_row list"
  or_teams :: "team_row list"
  or_org :: "org_row list"
  or_accounts :: "account_row list"

definition rows_of :: "id \<Rightarrow> db \<Rightarrow> org_rows" where
  "rows_of v s = \<lparr>or_documents = map (\<lambda>d. d\<lparr>d_template := None\<rparr>) (filter (\<lambda>d. d_org d = v) (documents s)),
     or_templates = filter (\<lambda>x. tp_org x = v) (templates s), or_requests = filter (\<lambda>x. rq_org x = v) (requests s),
     or_certificates = filter (\<lambda>x. c_org x = v) (certificates s), or_endpoints = filter (\<lambda>x. wh_org x = v) (endpoints s),
     or_api_keys = filter (\<lambda>x. k_org x = v) (api_keys s), or_memberships = filter (\<lambda>x. m_org x = v) (memberships s),
     or_workspaces = filter (\<lambda>x. w_org x = v) (workspaces s), or_teams = filter (\<lambda>x. t_org x = v) (teams s),
     or_org = filter (\<lambda>x. o_id x = v) (orgs s), or_accounts = filter (\<lambda>x. ac_org x = v) (accounts s)\<rparr>"

definition isolated :: "id \<Rightarrow> db \<Rightarrow> db \<Rightarrow> bool" where
  "isolated v s s' \<longleftrightarrow> tables_ok s' \<and> rows_of v s' = rows_of v s \<and> next_id s \<le> next_id s' \<and> audit_logs s' = audit_logs s"

lemma isolated_refl [simp]: "tables_ok s \<Longrightarrow> isolated v s s"
  by (simp add: isolated_def)

lemma isolated_trans: "isolated v s t \<Longrightarrow> isolated v t s' \<Longrightarrow> isolated v s s'"
  by (auto simp: isolated_def)

lemma isolated_keys: "isolated v s t \<Longrightarrow> tables_ok t"
  by (simp add: isolated_def)

text \<open>The tables the isolation is about; an operation that keeps them keeps it.\<close>

definition same_tables :: "db \<Rightarrow> db \<Rightarrow> bool" where
  "same_tables s s' \<longleftrightarrow> documents s' = documents s \<and> templates s' = templates s \<and> requests s' = requests s
     \<and> certificates s' = certificates s \<and> endpoints s' = endpoints s \<and> api_keys s' = api_keys s
     \<and> memberships s' = memberships s \<and> workspaces s' = workspaces s \<and> teams s' = teams s \<and> orgs s' = orgs s
     \<and> accounts s' = accounts s \<and> audit_logs s' = audit_logs s \<and> next_id s \<le> next_id s'"

lemma same_tables_refl [simp]: "same_tables s s"
  by (simp add: same_tables_def)

lemma same_tables_trans: "same_tables s t \<Longrightarrow> same_tables t s' \<Longrightarrow> same_tables s s'"
  by (auto simp: same_tables_def)

lemma isolated_frame: "tables_ok s \<Longrightarrow> same_tables s s' \<Longrightarrow> isolated v s s'"
  unfolding same_tables_def isolated_def tables_ok_def rows_of_def by (auto elim: table_ok_mono)

section \<open>Operations on the other tables\<close>

lemma same_tables_enqueue_all [simp]: "same_tables s (enqueue_all e eps ev p s)"
proof (induction e eps ev p s rule: enqueue_all.induct)
  case (2 e ep eps event payload s)
  have "same_tables s (snd (enqueue_delivery e ep event payload s))"
    by (simp add: same_tables_def enqueue_delivery_def Let_def)
  with "2.IH" show ?case by (auto intro: same_tables_trans)
qed simp

lemma same_tables_emit [simp]: "same_tables s (emit_webhook_for_request e ev rid p s)"
  by (simp add: emit_webhook_for_request_def emit_def Let_def split: option.split)

lemma same_tables_event [simp]: "same_tables s (record_event e rid ty g meta s)"
proof -
  have "same_tables s (append_event e rid ty g meta s)" by (simp add: same_tables_def append_event_def)
  then show ?thesis
    by (auto simp: record_event_def Let_def intro: same_tables_trans split: option.split)
qed

lemma same_tables_signer [simp]: "same_tables s (update_signer i f s)"
  by (simp add: same_tables_def update_signer_def)

lemma same_tables_queue [simp]:
  "same_tables s (enqueue_invites rid gs s)" "same_tables s (s\<lparr>signing_queue := q\<rparr>)"
  "same_tables s (placements_for_request rid fs hs s)"
  by (simp_all add: same_tables_def enqueue_invites_def placements_for_request_def)

lemmas same_after = same_tables_trans [OF _ same_tables_event] same_tables_trans [OF _ same_tables_signer]
  same_tables_trans [OF _ same_tables_queue(1)] same_tables_trans [OF _ same_tables_queue(3)]
  same_tables_trans [OF _ same_tables_emit]

lemma same_tables_reminders [simp]: "same_tables s (dispatch_reminders e rid ts meta s)"
proof (induction e rid ts meta s rule: dispatch_reminders.induct)
  case (2 e rid t ts meta s)
  have "same_tables s (dispatch_one e rid meta t s)"
    unfolding dispatch_one_def by (intro same_after same_tables_queue)
  with "2.IH" show ?case by (auto intro: same_tables_trans)
qed simp

section \<open>Writes to a row\<close>

text \<open>The rows an operation may write to: those of another organization than \<open>v\<close>.\<close>

lemma isolated_document:
  assumes "tables_ok s" "d \<in> set (documents s)" "d_id d = i" "d_org d \<noteq> v"
    and "\<And>d. d_id (f d) = d_id d" "\<And>d. d_org (f d) = d_org d"
  shows "isolated v s (s\<lparr>documents := update_row d_id i f (documents s)\<rparr>)"
proof -
  have "filter (\<lambda>d. d_org d = v) (update_row d_id i f (documents s)) = filter (\<lambda>d. d_org d = v) (documents s)"
    using assms by (intro filter_update_row [of "next_id s"]) (auto simp: tables_ok_def)
  with assms show ?thesis
    by (auto simp: isolated_def tables_ok_def rows_of_def set_update_row)
qed

lemma isolated_request:
  assumes "tables_ok s" "r \<in> set (requests s)" "rq_id r = i" "rq_org r \<noteq> v"
    and "\<And>r. rq_id (f r) = rq_id r" "\<And>r. rq_org (f r) = rq_org r" "\<And>r. rq_document (f r) = rq_document r"
  shows "isolated v s (s\<lparr>requests := update_row rq_id i f (requests s)\<rparr>)"
proof -
  have "filter (\<lambda>d. rq_org d = v) (update_row rq_id i f (requests s)) = filter (\<lambda>d. rq_org d = v) (requests s)"
    using assms by (intro filter_update_row [of "next_id s"]) (auto simp: tables_ok_def)
  with assms show ?thesis
    by (auto simp: isolated_def tables_ok_def rows_of_def set_update_row)
qed

lemma isolated_template:
  assumes "tables_ok s" "t \<in> set (templates s)" "tp_id t = i" "tp_org t \<noteq> v"
    and "\<And>d. tp_id (f d) = tp_id d" "\<And>d. tp_org (f d) = tp_org d"
  shows "isolated v s (s\<lparr>templates := update_row tp_id i f (templates s)\<rparr>)"
  using assms by (simp add: isolated_def tables_ok_def rows_of_def filter_update_row [of "next_id s"])

lemma isolated_certificate:
  assumes "tables_ok s" "t \<in> set (certificates s)" "c_id t = i" "c_org t \<noteq> v"
    and "\<And>d. c_id (f d) = c_id d" "\<And>d. c_org (f d) = c_org d"
  shows "isolated v s (s\<lparr>certificates := update_row c_id i f (certificates s)\<rparr>)"
  using assms by (simp add: isolated_def tables_ok_def rows_of_def filter_update_row [of "next_id s"])

lemma isolated_endpoint:
  assumes "tables_ok s" "t \<in> set (endpoints s)" "wh_id t = i" "wh_org t \<noteq> v"
    and "\<And>d. wh_id (f d) = wh_id d" "\<And>d. wh_org (f d) = wh_org d"
  shows "isolated v s (s\<lparr>endpoints := update_row wh_id i f (endpoints s)\<rparr>)"
  using assms by (simp add: isolated_def tables_ok_def rows_of_def filter_update_row [of "next_id s"])

lemma isolated_membership:
  assumes "tables_ok s" "t \<in> set (memberships s)" "m_id t = i" "m_org t \<noteq> v"
    and "\<And>d. m_id (f d) = m_id d" "\<And>d. m_org (f d) = m_org d"
  shows "isolated v s (s\<lparr>memberships := update_row m_id i f (memberships s)\<rparr>)"
  using assms by (simp add: isolated_def tables_ok_def rows_of_def filter_update_row [of "next_id s"])

lemma isolated_api_key:
  assumes "tables_ok s" "t \<in> set (api_keys s)" "k_id t = i" "k_org t \<noteq> v"
    and "\<And>d. k_id (f d) = k_id d" "\<And>d. k_org (f d) = k_org d"
  shows "isolated v s (s\<lparr>api_keys := update_row k_id i f (api_keys s)\<rparr>)"
  using assms by (simp add: isolated_def tables_ok_def rows_of_def filter_update_row [of "next_id s"])

lemma isolated_account:
  assumes "tables_ok s" "t \<in> set (accounts s)" "ac_id t = i" "ac_org t \<noteq> v"
    and "\<And>d. ac_id (f d) = ac_id d" "\<And>d. ac_org (f d) = ac_org d"
  shows "isolated v s (s\<lparr>accounts := update_row ac_id i f (accounts s)\<rparr>)"
  using assms by (simp add: isolated_def tables_ok_def rows_of_def filter_update_row [of "next_id s"])

lemma isolated_org:
  assumes "tables_ok s" "t \<in> set (orgs s)" "o_id t = i" "i \<noteq> v" "\<And>d. o_id (f d) = o_id d"
  shows "isolated v s (s\<lparr>orgs := update_row o_id i f (orgs s)\<rparr>)"
  using assms by (simp add: isolated_def tables_ok_def rows_of_def filter_update_row [of "next_id s"])

text \<open>New rows of another organization under a new id.\<close>

lemma tables_ok_mono: "tables_ok s \<Longrightarrow> next_id s \<le> n \<Longrightarrow> tables_ok (s\<lparr>next_id := n\<rparr>)"
  by (auto simp: tables_ok_def elim: table_ok_mono)

lemma isolated_new_document:
  assumes "tables_ok s" "d_id d = next_id s" "d_org d \<noteq> v" "next_id s < n"
  shows "isolated v s (s\<lparr>next_id := n, documents := documents s @ [d]\<rparr>)"
proof -
  have "table_ok n d_id (documents s @ [d])"
    using assms by (intro table_ok_append [of "next_id s"]) (simp_all add: tables_ok_def)
  moreover have "rq_document r < next_id s" if "r \<in> set (requests s)" for r
    using assms(1) that by (simp add: tables_ok_def)
  then have "d_id d \<noteq> rq_document r" if "r \<in> set (requests s)" for r using assms(2) that by fastforce
  ultimately show ?thesis
    using assms(3,4) tables_ok_mono [OF assms(1), of n]
    by (simp add: isolated_def tables_ok_def rows_of_def ball_Un)
qed

lemma isolated_new_request:
  assumes "tables_ok s" "rq_id r = next_id s" "rq_org r \<noteq> v" "next_id s < n"
    and "d \<in> set (documents s)" "rq_document r = d_id d" "rq_org r = d_org d"
  shows "isolated v s (s\<lparr>next_id := n, requests := requests s @ [r]\<rparr>)"
proof -
  have docs: "table_ok (next_id s) d_id (documents s)" using assms(1) by (simp add: tables_ok_def)
  then have "d_id d < n" using assms(4,5) by (auto simp: table_ok_def list_all_iff)
  moreover have "d_org e = d_org d" if "e \<in> set (documents s)" "d_id e = d_id d" for e
    using table_ok_key [OF docs assms(5) that(1)] that(2) by simp
  moreover have "table_ok n rq_id (requests s @ [r])"
    using assms by (intro table_ok_append [of "next_id s"]) (simp_all add: tables_ok_def)
  ultimately show ?thesis
    using assms(3,4,6,7) tables_ok_mono [OF assms(1), of n]
    by (simp add: isolated_def tables_ok_def rows_of_def ball_Un)
qed

lemma isolated_new_rows:
  assumes "tables_ok s" "next_id s < n"
  shows "tp_id t = next_id s \<Longrightarrow> tp_org t \<noteq> v \<Longrightarrow> isolated v s (s\<lparr>next_id := n, templates := templates s @ [t]\<rparr>)"
    and "c_id c = next_id s \<Longrightarrow> c_org c \<noteq> v \<Longrightarrow> isolated v s (s\<lparr>next_id := n, certificates := certificates s @ [c]\<rparr>)"
    and "wh_id h = next_id s \<Longrightarrow> wh_org h \<noteq> v \<Longrightarrow> isolated v s (s\<lparr>next_id := n, endpoints := endpoints s @ [h]\<rparr>)"
    and "k_id k = next_id s \<Longrightarrow> k_org k \<noteq> v \<Longrightarrow> isolated v s (s\<lparr>next_id := n, api_keys := api_keys s @ [k]\<rparr>)"
    and "m_id m = next_id s \<Longrightarrow> m_org m \<noteq> v \<Longrightarrow> isolated v s (s\<lparr>next_id := n, memberships := memberships s @ [m]\<rparr>)"
    and "w_id w = next_id s \<Longrightarrow> w_org w \<noteq> v \<Longrightarrow> isolated v s (s\<lparr>next_id := n, workspaces := workspaces s @ [w]\<rparr>)"
    and "t_id g = next_id s \<Longrightarrow> t_org g \<noteq> v \<Longrightarrow> isolated v s (s\<lparr>next_id := n, teams := teams s @ [g]\<rparr>)"
    and "ac_id a = next_id s \<Longrightarrow> ac_org a \<noteq> v \<Longrightarrow> isolated v s (s\<lparr>next_id := n, accounts := accounts s @ [a]\<rparr>)"
  using assms tables_ok_mono [OF assms(1), of n]
  by (auto simp: isolated_def tables_ok_def rows_of_def intro: table_ok_append)

text \<open>Deletions.\<close>

lemma isolated_delete:
  assumes "tables_ok s"
  shows "t \<in> set (templates s) \<Longrightarrow> tp_id t = i \<Longrightarrow> tp_org t \<noteq> v \<Longrightarrow>
      isolated v s (s\<lparr>templates := delete_many (\<lambda>t. tp_id t = i) (templates s)\<rparr>)"
    and "h \<in> set (endpoints s) \<Longrightarrow> wh_id h = i \<Longrightarrow> wh_org h \<noteq> v \<Longrightarrow>
      isolated v s (s\<lparr>endpoints := delete_many (\<lambda>h. wh_id h = i) (endpoints s)\<rparr>)"
    and "m \<in> set (memberships s) \<Longrightarrow> m_id m = i \<Longrightarrow> m_org m \<noteq> v \<Longrightarrow>
      isolated v s (s\<lparr>memberships := delete_many (\<lambda>m. m_id m = i) (memberships s)\<rparr>)"
  using assms by (simp_all add: isolated_def tables_ok_def rows_of_def filter_delete_many [of "next_id s"])

text \<open>Whatever follows in the tables without an organization.\<close>

lemma isolated_then: "isolated v s t \<Longrightarrow> same_tables t s' \<Longrightarrow> isolated v s s'"
  using isolated_frame isolated_keys isolated_trans by blast

lemma same_tables_others [simp]:
  "same_tables s (s\<lparr>users := us\<rparr>)" "same_tables s (s\<lparr>versions := vs\<rparr>)" "same_tables s (s\<lparr>template_fields := fs\<rparr>)"
  "same_tables s (s\<lparr>workspace_members := ps\<rparr>)" "same_tables s (s\<lparr>team_members := qs\<rparr>)"
  "same_tables s (s\<lparr>deliveries := ds\<rparr>)" "same_tables s (s\<lparr>notifications := ns\<rparr>)"
  "same_tables s (s\<lparr>signers := gs\<rparr>)" "same_tables s (s\<lparr>rules := rs\<rparr>)"
  "same_tables s (s\<lparr>redemptions := ps, coupons := cs\<rparr>)"
  "n \<ge> next_id s \<Longrightarrow> same_tables s (s\<lparr>next_id := n\<rparr>)"
  "n \<ge> next_id s \<Longrightarrow> same_tables s (s\<lparr>next_id := n, users := us\<rparr>)"
  "n \<ge> next_id s \<Longrightarrow> same_tables s (s\<lparr>next_id := n, versions := vs\<rparr>)"
  "n \<ge> next_id s \<Longrightarrow> same_tables s (s\<lparr>next_id := n, template_fields := fs\<rparr>)"
  "n \<ge> next_id s \<Longrightarrow> same_tables s (s\<lparr>next_id := n, subscriptions := ss\<rparr>)"
  "n \<ge> next_id s \<Longrightarrow> same_tables s (s\<lparr>next_id := n, invoices := is\<rparr>)"
  by (simp_all add: same_tables_def)

section \<open>The operations of a member\<close>

lemma find_tenant:
  assumes "find (\<lambda>x. key x = i \<and> in_tenant u (org x)) xs = Some x" "org_of u = Some ten"
  shows "x \<in> set xs \<and> key x = i \<and> org x = ten"
  using find_Some_iff_filter [OF assms(1)] assms(2) by (simp add: in_tenant_def)

subsection \<open>Documents\<close>

lemma find_document_own: "find_document u i s = Some d \<Longrightarrow> org_of u = Some ten \<Longrightarrow>
    d \<in> set (documents s) \<and> d_id d = i \<and> d_org d = ten"
  unfolding find_document_def by (rule find_tenant)

lemma isolated_upload:
  assumes "tables_ok (fst w)" "org_of u = Some ten" "ten \<noteq> v"
  shows "isolated v (fst w) (fst (snd (upload_document e put_ok u f inp w)))"
proof -
  have new: "isolated v s (insert_document d x s)" if "tables_ok s" "d_id d = next_id s" "d_org d = ten" for s d x
  proof -
    have "isolated v s (s\<lparr>next_id := next_id s + 2, documents := documents s @ [d]\<rparr>)"
      using that assms(3) by (intro isolated_new_document) simp_all
    then show ?thesis
      using isolated_then [OF _ same_tables_others(2)] by (fastforce simp: insert_document_def)
  qed
  show ?thesis
    using assms unfolding upload_document_def
    by (auto simp: Let_def uploaded_document_def intro!: new split: option.split sum.split)
qed

lemma isolated_update_metadata:
  assumes "tables_ok (fst w)" "org_of u = Some ten" "ten \<noteq> v"
  shows "isolated v (fst w) (fst (snd (update_metadata u i inp w)))"
  using assms unfolding update_metadata_def modify_document_def
  by (auto simp: apply_metadata_def modify_document_def dest!: find_document_own intro!: isolated_document split: option.split)

lemma isolated_soft_delete:
  assumes "tables_ok (fst w)" "org_of u = Some ten" "ten \<noteq> v"
  shows "isolated v (fst w) (fst (snd (soft_delete e u i w)))"
  using assms unfolding soft_delete_def modify_document_def
  by (auto simp: modify_document_def dest!: find_document_own intro!: isolated_document split: option.split)

lemma isolated_add_version:
  assumes "tables_ok (fst w)" "org_of u = Some ten" "ten \<noteq> v"
  shows "isolated v (fst w) (fst (snd (add_version e put_ok u i f note w)))"
proof -
  have "isolated v s (modify_document i (apply_version e f' key)
      (s\<lparr>next_id := next_id s + 1, versions := versions s @ [x]\<rparr>))"
    if "tables_ok s" "find_document u i s = Some d" for s d f' key x
  proof -
    let ?t = "s\<lparr>next_id := next_id s + 1, versions := versions s @ [x]\<rparr>"
    have t: "isolated v s ?t" using that(1) by (intro isolated_frame) simp_all
    have "isolated v ?t (modify_document i (apply_version e f' key) ?t)"
      using find_document_own [OF that(2) assms(2)] assms(3) isolated_keys [OF t] unfolding modify_document_def
      by (intro isolated_document) (auto simp: apply_version_def)
    with t show ?thesis by (rule isolated_trans)
  qed
  then show ?thesis
    using assms(1) unfolding add_version_def by (auto simp: Let_def split: option.split sum.split)
qed

subsection \<open>Templates\<close>

lemma find_template_own: "find_template u i s = Some d \<Longrightarrow> org_of u = Some ten \<Longrightarrow>
    d \<in> set (templates s) \<and> tp_id d = i \<and> tp_org d = ten"
  unfolding find_template_def by (rule find_tenant)

lemma isolated_create_template:
  assumes "tables_ok s" "org_of u = Some ten" "ten \<noteq> v"
  shows "isolated v s (snd (create_template u inp s))"
proof -
  have new: "isolated v s (s\<lparr>next_id := n, templates := templates s @ [t], template_fields := gs\<rparr>)"
    if "tp_id t = next_id s" "tp_org t = ten" "next_id s < n" for t n gs
    using isolated_new_rows(1) [OF assms(1) that(3,1), of v] that(2) assms(3)
      isolated_then [OF _ same_tables_others(3)] by fastforce
  show ?thesis
    using assms(1,2) unfolding create_template_def
    by (auto simp: Let_def new_template_def intro!: new split: option.split)
qed

lemma isolated_update_template:
  assumes "tables_ok s" "org_of u = Some ten" "ten \<noteq> v"
  shows "isolated v s (snd (update_template u i inp s))"
proof -
  have "isolated v s (replace_fields i fs (s\<lparr>templates := update_row tp_id i (apply_template inp) (templates s)\<rparr>))"
    if "find_template u i s = Some t" for t fs
  proof (rule isolated_then)
    show "isolated v s (s\<lparr>templates := update_row tp_id i (apply_template inp) (templates s)\<rparr>)"
      using find_template_own [OF that assms(2)] assms by (intro isolated_template) (auto simp: apply_template_def)
    show "same_tables t (replace_fields i fs t)" for t by (simp add: replace_fields_def split: option.split)
  qed
  then show ?thesis
    using assms(1) unfolding update_template_def by (auto simp: Let_def split: option.split)
qed

text \<open>Clearing a reference to a template shows in no other column.\<close>

lemma isolated_clear_template:
  assumes "tables_ok s"
  shows "isolated v s (s\<lparr>documents := map (\<lambda>d. if d_template d = Some i then d\<lparr>d_template := None\<rparr> else d) (documents s)\<rparr>)"
proof -
  let ?f = "\<lambda>d. if d_template d = Some i then d\<lparr>d_template := None\<rparr> else d"
  have ids: "map d_id (map ?f xs) = map d_id xs" for xs by (induction xs) auto
  have "tables_ok (s\<lparr>documents := map ?f (documents s)\<rparr>)"
    using assms unfolding tables_ok_def table_ok_def by (auto simp: ids simp del: map_map list.map_comp)
  moreover have "map (\<lambda>d. d\<lparr>d_template := None\<rparr>) (filter (\<lambda>d. d_org d = v) (map ?f xs))
      = map (\<lambda>d. d\<lparr>d_template := None\<rparr>) (filter (\<lambda>d. d_org d = v) xs)" for xs
    by (induction xs) auto
  ultimately show ?thesis
    by (simp add: isolated_def rows_of_def)
qed

lemma isolated_remove_template:
  assumes "tables_ok s" "org_of u = Some ten" "ten \<noteq> v"
  shows "isolated v s (snd (remove_template u i s))"
proof (cases "find_template u i s")
  case (Some t)
  let ?a = "s\<lparr>templates := delete_many (\<lambda>t. tp_id t = i) (templates s)\<rparr>"
  let ?b = "?a\<lparr>template_fields := delete_many (\<lambda>f. tf_template f = i) (template_fields s)\<rparr>"
  have "isolated v s ?a"
    using find_template_own [OF Some assms(2)] assms by (intro isolated_delete(1)) auto
  then have b: "isolated v s ?b" by (rule isolated_then) simp
  show ?thesis
    using isolated_trans [OF b isolated_clear_template [OF isolated_keys [OF b], of v i]] Some
    by (simp add: remove_template_def)
qed (use assms in \<open>simp add: remove_template_def\<close>)

subsection \<open>Signing requests\<close>

lemma find_request_own: "find_request u i s = Some r \<Longrightarrow> org_of u = Some ten \<Longrightarrow>
    r \<in> set (requests s) \<and> rq_id r = i \<and> rq_org r = ten"
  unfolding find_request_def by (rule find_tenant)

lemma isolated_update_request:
  assumes "tables_ok s" "r \<in> set (requests s)" "rq_id r = i" "rq_org r \<noteq> v"
    and "\<And>r. rq_id (f r) = rq_id r" "\<And>r. rq_org (f r) = rq_org r" "\<And>r. rq_document (f r) = rq_document r"
  shows "isolated v s (update_request i f s)"
  unfolding update_request_def by (rule isolated_request [OF assms])

lemma isolated_insert_request:
  assumes "tables_ok s" "rq_id r = next_id s" "rq_org r \<noteq> v"
    and "d \<in> set (documents s)" "rq_document r = d_id d" "rq_org r = d_org d"
  shows "isolated v s (insert_request r gs rs s)"
proof -
  let ?t = "s\<lparr>next_id := next_id s + 1 + length gs + length rs, requests := requests s @ [r]\<rparr>"
  have "isolated v s ?t" using assms by (intro isolated_new_request) simp_all
  then have "isolated v s (?t\<lparr>signers := signers s @ gs\<rparr>)" by (rule isolated_then) simp
  then show ?thesis unfolding insert_request_def by (rule isolated_then) simp
qed

lemma isolated_after_insert:
  assumes "tables_ok s" "d \<in> set (documents s)" "d_org d \<noteq> v"
  shows "isolated v s (after_insert e u inp rid d gs ps s)"
proof -
  let ?s1 = "update_document (d_id d) (\<lambda>d. d\<lparr>d_status := AWAITING_SIGNATURE,
    d_template := coalesce_opt (cr_template inp) (d_template d)\<rparr>) s"
  have d: "isolated v s ?s1"
    unfolding update_document_def using assms by (intro isolated_document) auto
  have "same_tables ?s1 (after_insert e u inp rid d gs ps s)"
    unfolding after_insert_def Let_def by (auto intro!: same_after)
  with d show ?thesis by (rule isolated_then)
qed

lemma isolated_create_request:
  assumes "tables_ok s" "org_of u = Some ten" "ten \<noteq> v"
  shows "isolated v s (snd (create_request e u inp s))"
proof (cases "check_create u inp s")
  case (Inr x)
  obtain o' d ordered ps where x: "x = (o', d, ordered, ps)" by (cases x)
  note c = check_createD [OF Inr [unfolded x]]
  define r gs rs where "r = new_request u inp o' d (next_id s)"
    and "gs = new_signers e (next_id s) (rq_mode r) (next_id s + 1) ordered"
    and "rs = new_rules (next_id s) (next_id s + 1 + length gs) (cr_rules inp)"
  have new: "isolated v s (insert_request r gs rs s)"
    using assms c by (intro isolated_insert_request [of _ _ _ d]) (simp_all add: r_def new_request_def)
  have "isolated v s (after_insert e u inp (next_id s) d gs ps (insert_request r gs rs s))"
    using isolated_trans [OF new isolated_after_insert [OF isolated_keys [OF new]]] c assms by simp
  moreover have "create_request e u inp s = (if au_id u = None then fail fk_error s
      else if \<not> tokens_unique gs s then fail (InternalError ''Unique constraint failed: token'') s
      else ok (r, gs) (after_insert e u inp (next_id s) d gs ps (insert_request r gs rs s)))"
    by (simp add: create_request_def Inr x Let_def r_def gs_def rs_def)
  ultimately show ?thesis using assms(1) by simp
qed (use assms in \<open>simp add: create_request_def\<close>)

lemma isolated_cancel:
  assumes "tables_ok s" "org_of u = Some ten" "ten \<noteq> v"
  shows "isolated v s (snd (cancel e u i reason s))"
proof (cases "find_request u i s")
  case (Some r)
  note r = find_request_own [OF Some assms(2)]
  let ?s1 = "update_request i (\<lambda>r. r\<lparr>rq_status := CANCELLED\<rparr>) s"
  let ?s2 = "update_document (rq_document r) (\<lambda>d. d\<lparr>d_status := CANCELLED\<rparr>) ?s1"
  have one: "isolated v s ?s1" using r assms by (intro isolated_update_request) auto
  have "isolated v ?s1 ?s2"
  proof (cases "\<exists>d \<in> set (documents ?s1). d_id d = rq_document r")
    case True
    then obtain d where d: "d \<in> set (documents ?s1)" "d_id d = rq_document r" by blast
    then have "d_org d = ten" using r assms(1) by (auto simp: tables_ok_def update_request_def)
    then show ?thesis
      unfolding update_document_def using d assms(3) isolated_keys [OF one] by (intro isolated_document) auto
  next
    case False
    then have "update_row d_id (rq_document r) f (documents ?s1) = documents ?s1" for f
      unfolding update_row_def by (intro map_idI) auto
    then have "same_tables ?s1 ?s2" by (simp add: same_tables_def update_document_def)
    with isolated_keys [OF one] show ?thesis by (rule isolated_frame)
  qed
  with one have "isolated v s (record_event e i ty g m ?s2)" for ty g m
    using isolated_trans isolated_then same_tables_event by blast
  with Some assms(1) show ?thesis by (simp add: cancel_def)
qed (use assms in \<open>simp add: cancel_def\<close>)

lemma isolated_remind: "tables_ok s \<Longrightarrow> isolated v s (snd (remind e u i only s))"
  unfolding remind_def by (auto simp: Let_def intro: isolated_frame split: option.split)

lemma isolated_in_person:
  assumes "tables_ok s" "org_of u = Some ten" "ten \<noteq> v"
  shows "isolated v s (snd (in_person_session e u i only s))"
proof (cases "find_request u i s")
  case (Some r)
  note r = find_request_own [OF Some assms(2)]
  have "isolated v s (update_request i (\<lambda>r. r\<lparr>rq_status := EXPIRED\<rparr>) s)"
    using r assms by (intro isolated_update_request) auto
  then have expired: "isolated v s (mark_request_expired e i s)"
    unfolding mark_request_expired_def by (rule isolated_then) simp
  have "isolated v s (record_event e i ty g m (update_signer j f s))" for ty g m j f
    using assms(1) by (intro isolated_frame same_after same_tables_refl)
  with expired Some assms(1,2) show ?thesis
    by (simp add: in_person_session_def split: sum.split)
qed (use assms in \<open>simp add: in_person_session_def split: option.split\<close>)

lemma isolated_self_sign:
  assumes "tables_ok s" "org_of u = Some ten" "ten \<noteq> v"
  shows "isolated v s (snd (self_sign e u doc tpl s))"
proof -
  let ?inp = "self_sign_input u doc tpl"
  obtain x s1 where c: "create_request e u ?inp s = (x, s1)" by (meson surj_pair)
  with isolated_create_request [OF assms, of e ?inp] have one: "isolated v s s1" by simp
  have "isolated v s (update_signer j f s1)" for j f using isolated_then [OF one] by simp
  with one assms(1,2) c show ?thesis
    by (auto simp: self_sign_def Let_def split: sum.split)
qed

subsection \<open>Organization and members\<close>

lemma isolated_update_current:
  assumes "tables_ok s" "org_of u = Some ten" "ten \<noteq> v"
  shows "isolated v s (snd (update_current u inp s))"
proof -
  have "isolated v s (s\<lparr>orgs := update_row o_id ten (apply_org inp) (orgs s)\<rparr>)" if "find_row o_id ten (orgs s) = Some x" for x
    using find_row_SomeD [OF that] assms by (intro isolated_org) (auto simp: apply_org_def)
  with assms show ?thesis by (auto simp: update_current_def split: option.split)
qed

lemma isolated_create_workspace:
  assumes "tables_ok s" "org_of u = Some ten" "ten \<noteq> v"
  shows "isolated v s (snd (create_workspace u name slug descr vis s))"
  using assms by (auto simp: create_workspace_def Let_def intro!: isolated_new_rows(6) split: option.split)

lemma isolated_create_team:
  assumes "tables_ok s" "org_of u = Some ten" "ten \<noteq> v"
  shows "isolated v s (snd (create_team u name descr ws ids s))"
proof -
  have new: "isolated v s (s\<lparr>next_id := Suc (next_id s), teams := teams s @ [t], team_members := ps\<rparr>)"
    if "t_id t = next_id s" "t_org t = ten" for t ps
    using isolated_new_rows(7) [OF assms(1) _ that(1), of "Suc (next_id s)" v] that(2) assms(3)
      isolated_then [OF _ same_tables_others(5)] by fastforce
  show ?thesis
    using assms(1,2) unfolding create_team_def by (auto simp: Let_def intro!: new split: option.split)
qed

lemma isolated_create_organization:
  "tables_ok s \<Longrightarrow> org_of u = Some ten \<Longrightarrow> isolated v s (snd (create_organization u name slug legal s))"
  by (auto simp: create_organization_def org_of_def)

lemma isolated_update_profile: "tables_ok s \<Longrightarrow> isolated v s (snd (update_profile u name tz loc s))"
  by (auto simp: update_profile_def Let_def intro!: isolated_frame split: option.split)

lemma isolated_invite_member:
  assumes "tables_ok s" "org_of u = Some ten" "ten \<noteq> v"
  shows "isolated v s (snd (invite_member u mail role wss s))"
proof -
  have user: "isolated v s (snd (ensure_user email s))" for email
    using assms(1) by (auto simp: ensure_user_def intro!: isolated_frame split: option.split)
  have new: "isolated v s (t\<lparr>next_id := Suc (next_id t), memberships := memberships t @ [m], workspace_members := ps\<rparr>)"
    if "isolated v s t" "m_id m = next_id t" "m_org m = ten" for t m ps
    using isolated_new_rows(5) [OF isolated_keys [OF that(1)] _ that(2), of "Suc (next_id t)" v] that assms(3)
      isolated_then [OF _ same_tables_others(4)] isolated_trans [OF that(1)] by fastforce
  show ?thesis
    using assms(1,2) user [of "js_trim (js_lower mail)"] unfolding invite_member_def
    by (auto simp: Let_def case_prod_beta intro!: new split: option.split)
qed

lemma isolated_update_member_role:
  assumes "tables_ok s" "org_of u = Some ten" "ten \<noteq> v"
  shows "isolated v s (snd (update_member_role u i role s))"
proof -
  have "isolated v s (s\<lparr>memberships := update_row m_id i (\<lambda>m. m\<lparr>m_role := role, m_role_id := k\<rparr>) (memberships s)\<rparr>)"
    if "find (\<lambda>m. m_id m = i \<and> m_org m = ten) (memberships s) = Some m" for m k
    using find_Some_iff_filter [OF that] assms by (intro isolated_membership [of _ m]) auto
  with assms show ?thesis by (auto simp: update_member_role_def Let_def split: option.split)
qed

lemma isolated_remove_member:
  assumes "tables_ok s" "org_of u = Some ten" "ten \<noteq> v"
  shows "isolated v s (snd (remove_member u i s))"
proof -
  have "isolated v s (s\<lparr>memberships := delete_many (\<lambda>m. m_id m = i) (memberships s)\<rparr>)"
    if "find_row m_id i (memberships s) = Some m" "m_org m = ten" for m
    using find_row_SomeD [OF that(1)] that(2) assms by (intro isolated_delete(3)) auto
  with assms show ?thesis by (auto simp: remove_member_def split: option.split)
qed

subsection \<open>Certificates, keys and webhooks\<close>

lemma isolated_upsert_certificate:
  assumes "tables_ok s" "ten \<noteq> v" "\<And>c. c_id (upd c) = c_id c" "\<And>c. c_org (upd c) = c_org c"
    and "\<And>i. c_id (mk i) = i" "\<And>i. c_org (mk i) = ten"
  shows "isolated v s (snd (upsert_certificate ten serial upd mk s))"
proof (cases "by_serial ten serial s")
  case (Some c)
  then have "c \<in> set (certificates s)" "c_org c = ten"
    unfolding by_serial_def using find_Some_iff_filter by fastforce+
  with Some assms show ?thesis by (auto simp: upsert_certificate_def intro!: isolated_certificate)
next
  case None
  with assms show ?thesis by (auto simp: upsert_certificate_def intro!: isolated_new_rows(2))
qed

lemma isolated_import_certificate:
  assumes "tables_ok s" "org_of u = Some ten" "ten \<noteq> v"
  shows "isolated v s (snd (import_certificate e cy u inp s))"
proof -
  have "isolated v s (snd (upsert_certificate ten (nz_serial nz) (imported_row inp nz k o')
      (\<lambda>i. imported_row inp nz k o' (blank_certificate ten i)) s))" for nz k o'
    using assms by (intro isolated_upsert_certificate) (simp_all add: imported_row_def blank_certificate_def)
  with assms show ?thesis
    by (auto simp: import_certificate_def Let_def case_prod_beta split: option.split sum.split)
qed

lemma isolated_persist_issued:
  assumes "tables_ok s" "ten \<noteq> v"
  shows "isolated v s (snd (persist_issued e cy ten o' kind iss nz hint s))"
proof -
  have "isolated v s (snd (upsert_certificate ten (nz_serial nz) (issued_row kind iss nz hint k o')
      (\<lambda>i. issued_row kind iss nz hint k o' (blank_certificate ten i)) s))" for k
    using assms by (intro isolated_upsert_certificate) (simp_all add: issued_row_def blank_certificate_def)
  with assms show ?thesis
    by (auto simp: persist_issued_def Let_def case_prod_beta split: option.split sum.split)
qed

lemma isolated_provision_certificate:
  assumes "tables_ok s" "org_of u = Some ten" "ten \<noteq> v"
  shows "isolated v s (snd (provision_certificate e cy ps u kind name email options s))"
proof -
  have "isolated v s (snd (and_then (persist_issued e cy ten o' k iss nz hint s) (\<lambda>c s'. ok (sanitize c) s')))" for o' k iss nz hint
    using isolated_persist_issued [OF assms(1,3), of e cy o' k iss nz hint]
    by (auto simp: and_then_def split: prod.split sum.split)
  with assms show ?thesis
    by (auto simp: provision_certificate_def split: option.split sum.split)
qed

lemma isolated_revoke_certificate:
  assumes "tables_ok s" "org_of u = Some ten" "ten \<noteq> v"
  shows "isolated v s (snd (revoke_certificate e u i reason s))"
  using assms unfolding revoke_certificate_def find_certificate_def
  by (auto simp: Let_def dest!: find_tenant intro!: isolated_certificate split: option.split)

lemma isolated_create_api_key:
  assumes "tables_ok s" "org_of u = Some ten" "ten \<noteq> v"
  shows "isolated v s (snd (create_api_key e u name scopes days s))"
  using assms unfolding create_api_key_def
  by (auto simp: Let_def new_api_key_def intro!: isolated_new_rows(4) split: option.split)

lemma isolated_revoke_api_key:
  assumes "tables_ok s" "org_of u = Some ten" "ten \<noteq> v"
  shows "isolated v s (snd (revoke_api_key e u i s))"
  using assms unfolding revoke_api_key_def
  by (auto dest!: find_tenant intro!: isolated_api_key split: option.split)

lemma isolated_create_endpoint:
  assumes "tables_ok s" "org_of u = Some ten" "ten \<noteq> v"
  shows "isolated v s (snd (create_endpoint e parse u raw evs descr s))"
  using assms unfolding create_endpoint_def
  by (auto simp: Let_def intro!: isolated_new_rows(3) split: option.split sum.split)

lemma isolated_ping: "tables_ok s \<Longrightarrow> isolated v s (snd (ping e u i s))"
proof -
  have "same_tables s (snd (enqueue_delivery e ep ev p s))" for ep ev p
    by (simp add: same_tables_def enqueue_delivery_def Let_def)
  then show "tables_ok s \<Longrightarrow> ?thesis"
    by (auto simp: ping_def Let_def case_prod_beta intro!: isolated_frame split: option.split)
qed

lemma find_endpoint_own: "find_endpoint ten i s = Some h \<Longrightarrow> h \<in> set (endpoints s) \<and> wh_id h = i \<and> wh_org h = ten"
  unfolding find_endpoint_def using find_Some_iff_filter by fastforce

lemma isolated_set_active:
  assumes "tables_ok s" "org_of u = Some ten" "ten \<noteq> v"
  shows "isolated v s (snd (set_active e u i active s))"
  using assms unfolding set_active_def update_endpoint_def
  by (auto simp: Let_def dest!: find_endpoint_own intro!: isolated_endpoint split: option.split)

lemma isolated_remove_endpoint:
  assumes "tables_ok s" "org_of u = Some ten" "ten \<noteq> v"
  shows "isolated v s (snd (remove_endpoint u i s))"
proof -
  have "isolated v s (s\<lparr>endpoints := delete_many (\<lambda>h. wh_id h = i) (endpoints s), deliveries := ds\<rparr>)"
    if "find_endpoint ten i s = Some h" for h ds
    using isolated_then [OF isolated_delete(2) [OF assms(1)] same_tables_others(6)] find_endpoint_own [OF that] assms(3)
    by blast
  with assms show ?thesis by (auto simp: remove_endpoint_def split: option.split)
qed

subsection \<open>Billing\<close>

lemma get_account_own:
  assumes "tables_ok s" "org_of u = Some ten" "ten \<noteq> v" "get_account u s = (r, s')"
  shows "isolated v s s' \<and> (\<forall>a xs. r = Inr (a, xs) \<longrightarrow> a \<in> set (accounts s') \<and> ac_org a = ten)"
proof (cases "find (\<lambda>a. ac_org a = ten) (accounts s)")
  case (Some a)
  with find_Some_iff_filter [OF Some] assms show ?thesis by (auto simp: get_account_def)
next
  case None
  have "isolated v s (s\<lparr>next_id := next_id s + 1, accounts := accounts s @ [new_account (next_id s) ten]\<rparr>)"
    using assms(1,3) by (intro isolated_new_rows(8)) (simp_all add: new_account_def)
  with None assms show ?thesis by (auto simp: get_account_def new_account_def)
qed

lemma isolated_perform_subscription:
  assumes "tables_ok s" "a \<in> set (accounts s)" "ac_org a \<noteq> v"
  shows "isolated v s (perform_subscription e a p inp discount s)"
proof -
  let ?i = "next_id s"
  let ?s1 = "s\<lparr>next_id := ?i + 1, subscriptions := subscriptions s @ [new_subscription e a p inp ?i]\<rparr>"
  let ?s2 = "if amount_due (price_of p inp) (su_seats inp) discount > 0
    then ?s1\<lparr>next_id := ?i + 2, invoices := invoices ?s1 @ [new_invoice a p inp discount ?i (?i + 1)]\<rparr> else ?s1"
  have s2: "isolated v s ?s2"
    using assms(1) by (intro isolated_frame) (auto simp: same_tables_def)
  have "isolated v ?s2 (?s2\<lparr>accounts := update_row ac_id (ac_id a)
      (\<lambda>a. a\<lparr>ac_plan := pl_code p, ac_status := SubTrialing, ac_seats := su_seats inp\<rparr>) (accounts ?s2)\<rparr>)"
    using assms(2,3) isolated_keys [OF s2] by (intro isolated_account [of _ a]) auto
  with s2 show ?thesis unfolding perform_subscription_def Let_def by (rule isolated_trans)
qed

lemma apply_coupon_tables: "apply_coupon e a code s = (r, s') \<Longrightarrow> same_tables s s'"
  by (auto simp: apply_coupon_def split: option.split_asm if_split_asm)

lemma isolated_create_subscription:
  assumes "tables_ok s" "org_of u = Some ten" "ten \<noteq> v"
  shows "isolated v s (snd (create_subscription e u inp s))"
proof -
  have rest: "isolated v s (snd (and_then (if cpn then apply_coupon e (ac_id a) code s1 else ok 0 s1)
      (\<lambda>discount t. get_account u (perform_subscription e a p inp discount t))))"
    if g: "get_account u s = (Inr (a, xs), s1)" for a xs s1 cpn code p
  proof -
    from get_account_own [OF assms g] have one: "isolated v s s1" and a: "a \<in> set (accounts s1)" "ac_org a \<noteq> v"
      using assms(3) by auto
    obtain x t where c: "(if cpn then apply_coupon e (ac_id a) code s1 else ok 0 s1) = (x, t)" by (meson surj_pair)
    then have same: "same_tables s1 t" by (auto split: if_split_asm intro: apply_coupon_tables)
    with one have two: "isolated v s t" by (rule isolated_then)
    have a': "a \<in> set (accounts t)" using a(1) same by (simp add: same_tables_def)
    show ?thesis
    proof (cases x)
      case (Inr discount)
      let ?q = "perform_subscription e a p inp discount t"
      have three: "isolated v s ?q"
        using two isolated_perform_subscription [OF isolated_keys [OF two] a' a(2)] by (rule isolated_trans)
      obtain y q where "get_account u ?q = (y, q)" by (meson surj_pair)
      with get_account_own [OF isolated_keys [OF three] assms(2,3) this] three c Inr show ?thesis
        by (auto simp: and_then_def intro: isolated_trans)
    qed (use c two in \<open>simp add: and_then_def\<close>)
  qed
  obtain y s1 where g: "get_account u s = (y, s1)" by (meson surj_pair)
  then show ?thesis
    using assms(1) get_account_own [OF assms g] rest
    by (cases y) (auto simp: create_subscription_def and_then_def [of "(y, s1)"] split: option.split)
qed

lemma isolated_usage:
  assumes "tables_ok s" "org_of u = Some ten" "ten \<noteq> v"
  shows "isolated v s (snd (usage e created u s))"
proof -
  obtain y s1 where g: "get_account u s = (y, s1)" by (meson surj_pair)
  with get_account_own [OF assms g] show ?thesis
    by (cases y) (auto simp: usage_def and_then_def Let_def)
qed

lemma isolated_get_account:
  assumes "tables_ok s" "org_of u = Some ten" "ten \<noteq> v"
  shows "isolated v s (snd (get_account u s))"
  using get_account_own [OF assms, of "fst (get_account u s)"] by simp

section \<open>Every call of a member\<close>

lemma on_rows_state [simp]: "snd (on_rows mk h w) = (snd (h (fst w)), snd w)"
  by (simp add: on_rows_def split: prod.split)

lemma on_world_state [simp]: "snd (on_world mk h w) = snd (h w)"
  by (simp add: on_world_def split: prod.split)

lemma reads_keep_rows [simp]:
  "snd (list_members u q role limit offset s) = s" "snd (get_current u s) = s" "snd (list_teams u ws s) = s"
  "snd (get_template u i s) = s" "snd (get_request u i s) = s" "snd (evidence_report parse u i s) = s"
  "snd (list_certificates u st limit offset s) = s" "snd (get_certificate u i s) = s" "snd (list_audit u aq s) = s"
  "snd (list_endpoints e u s) = s" "snd (list_deliveries u k s) = s" "snd (get_document u i w) = w"
  "snd (download_document presign u i version w) = w"
  by (auto simp: list_members_def get_current_def list_teams_def get_template_def get_request_def
      evidence_report_def list_certificates_def get_certificate_def list_audit_def list_endpoints_def
      list_deliveries_def get_document_def download_document_def Let_def split: option.split)

lemma isolated_notifications:
  "tables_ok s \<Longrightarrow> isolated v s (snd (mark_read e u i s))" "tables_ok s \<Longrightarrow> isolated v s (snd (mark_all_read e u s))"
  by (auto simp: mark_read_def mark_all_read_def intro!: isolated_frame split: option.split)

lemmas isolated_calls = isolated_upload isolated_update_metadata isolated_soft_delete isolated_add_version
  isolated_create_template isolated_update_template isolated_remove_template isolated_create_request
  isolated_cancel isolated_in_person isolated_self_sign isolated_update_current
  isolated_create_workspace isolated_create_team isolated_invite_member isolated_update_member_role
  isolated_remove_member isolated_import_certificate isolated_provision_certificate isolated_revoke_certificate
  isolated_create_api_key isolated_revoke_api_key isolated_create_endpoint isolated_set_active
  isolated_remove_endpoint isolated_create_subscription isolated_usage isolated_get_account

lemma isolated_handlers:
  assumes "tables_ok (fst w)" "org_of u = Some ten" "ten \<noteq> v"
  shows "isolated v (fst w) (fst (snd (handle_users e d u uc w)))"
    and "isolated v (fst w) (fst (snd (handle_org e d u oc w)))"
    and "isolated v (fst w) (fst (snd (handle_doc e d u dc w)))"
    and "isolated v (fst w) (fst (snd (handle_tpl e d u tc w)))"
    and "isolated v (fst w) (fst (snd (handle_sig e d u sc w)))"
    and "isolated v (fst w) (fst (snd (handle_cert e d u cc w)))"
    and "isolated v (fst w) (fst (snd (handle_audit e d u ac w)))"
    and "isolated v (fst w) (fst (snd (handle_bill e d u bc w)))"
    and "isolated v (fst w) (fst (snd (handle_notif e d u nc w)))"
    and "isolated v (fst w) (fst (snd (handle_key e d u kc w)))"
    and "isolated v (fst w) (fst (snd (handle_hook e d u hc w)))"
proof -
  note calls = assms isolated_calls [OF assms] isolated_remind isolated_update_profile isolated_ping
    isolated_notifications isolated_create_organization [OF _ assms(2)]
  show "isolated v (fst w) (fst (snd (handle_users e d u uc w)))" by (cases uc) (simp_all add: calls)
  show "isolated v (fst w) (fst (snd (handle_org e d u oc w)))" by (cases oc) (simp_all add: calls)
  show "isolated v (fst w) (fst (snd (handle_doc e d u dc w)))" by (cases dc) (simp_all add: calls)
  show "isolated v (fst w) (fst (snd (handle_tpl e d u tc w)))" by (cases tc) (simp_all add: calls)
  show "isolated v (fst w) (fst (snd (handle_sig e d u sc w)))" by (cases sc) (simp_all add: calls)
  show "isolated v (fst w) (fst (snd (handle_cert e d u cc w)))" by (cases cc) (simp_all add: calls)
  show "isolated v (fst w) (fst (snd (handle_audit e d u ac w)))" by (cases ac) (simp_all add: calls)
  show "isolated v (fst w) (fst (snd (handle_bill e d u bc w)))" by (cases bc) (simp_all add: calls)
  show "isolated v (fst w) (fst (snd (handle_notif e d u nc w)))" by (cases nc) (simp_all add: calls)
  show "isolated v (fst w) (fst (snd (handle_key e d u kc w)))" by (cases kc) (simp_all add: calls)
  show "isolated v (fst w) (fst (snd (handle_hook e d u hc w)))" by (cases hc) (simp_all add: calls)
qed

lemma admin_refused: "au_platform_role u \<noteq> PLATFORM_ADMIN \<Longrightarrow> snd (handle_admin e d u c w) = w"
  by (cases c) (simp_all add: list_organizations_def list_users_def set_organization_status_def
    set_user_status_def platform_metrics_def reindex_search_def assert_platform_admin_def)

lemma isolated_member:
  assumes "tables_ok (fst w)" "org_of u = Some ten" "ten \<noteq> v" "au_platform_role u \<noteq> PLATFORM_ADMIN"
  shows "isolated v (fst w) (fst (snd (handle_user e d u c w)))"
  by (cases c) (simp_all add: isolated_handlers [OF assms(1-3)] admin_refused [OF assms(4)] assms(1))

section \<open>Users without an organization\<close>

definition newcomer_calls :: "(http_method \<times> string) list" where
  "newcomer_calls = [(HttpPost, ''/api/v1/auth/logout''), (HttpGet, ''/api/v1/auth/me''), (HttpPost, ''/api/v1/organizations'')]"

lemma newcomer_checked: "list_all (\<lambda>(m, p, rt). rt_public rt \<or> rt_tenant rt
    \<or> (m, p) \<in> set newcomer_calls \<or> (m, p) \<in> set admin_calls) api_routes"
  by code_simp

lemma newcomer_key:
  "call_key (User_Call c) \<in> set newcomer_calls \<Longrightarrow> c = Users_Call Auth_Me \<or> (\<exists>n s l. c = Org_Call (Org_Create n s l))"
  by (cases c; simp only: user_key.simps call_key.simps; rename_tac x; case_tac x; simp add: newcomer_calls_def)

lemma newcomer_call:
  assumes "route_of (User_Call c) = Some rt" "tenant_guard rt (Some p) = None" "au_org p = None"
  shows "c = Users_Call Auth_Me \<or> (\<exists>n s l. c = Org_Call (Org_Create n s l)) \<or> (\<exists>ac. c = Admin_Call ac)"
proof -
  from assms(1) obtain m q where r: "find (\<lambda>(m, p, rt). (m, p) = call_key (User_Call c)) api_routes = Some (m, q, rt)"
    by (auto simp: route_of_def)
  then have rt: "(m, q, rt) \<in> set api_routes" "(m, q) = call_key (User_Call c)" using find_Some_iff_filter [OF r] by auto
  have "\<not> rt_public rt" by (rule user_route_protected [OF assms(1)])
  moreover from this have "\<not> rt_tenant rt" using assms(2,3) by (auto simp: tenant_guard_def)
  ultimately have "call_key (User_Call c) \<in> set newcomer_calls \<or> call_key (User_Call c) \<in> set admin_calls"
    using newcomer_checked rt unfolding list_all_iff by fastforce
  with newcomer_key admin_key show ?thesis by blast
qed

lemma isolated_new_organization:
  assumes "tables_ok s" "v < next_id s"
  shows "isolated v s (snd (create_organization u name slug legal s))"
proof -
  have "isolated v s (s\<lparr>next_id := next_id s + 4, orgs := orgs s @ [x], memberships := memberships s @ [m],
      accounts := accounts s @ [a], workspaces := workspaces s @ [k]\<rparr>)"
    if "o_id x = next_id s" "m_id m = next_id s + 1" "m_org m = next_id s" "ac_id a = next_id s + 2" "ac_org a = next_id s"
      "w_id k = next_id s + 3" "w_org k = next_id s" for x m a k
  proof -
    have "table_ok (next_id s + 4) o_id (orgs s @ [x])" "table_ok (next_id s + 4) m_id (memberships s @ [m])"
      "table_ok (next_id s + 4) ac_id (accounts s @ [a])" "table_ok (next_id s + 4) w_id (workspaces s @ [k])"
      using assms(1) that by (auto simp: tables_ok_def intro!: table_ok_append [of "next_id s"])
    then show ?thesis
      using assms tables_ok_mono [OF assms(1), of "next_id s + 4"] that
      by (simp add: isolated_def tables_ok_def rows_of_def)
  qed
  with assms(1) show ?thesis
    by (auto simp: create_organization_def Let_def split: option.split sum.split)
qed

lemma isolated_handled:
  assumes "tables_ok (fst w)" "v < next_id (fst w)" "org_of p \<noteq> Some v" "au_platform_role p \<noteq> PLATFORM_ADMIN"
    and "route_of (User_Call c) = Some rt" "tenant_guard rt (Some p) = None"
  shows "isolated v (fst w) (fst (snd (handle_user e d p c w)))"
proof (cases "org_of p")
  case None
  then have "au_org p = None" by (simp add: org_of_def)
  from newcomer_call [OF assms(5,6) this] show ?thesis
    using assms(1,2,4) isolated_new_organization by (auto simp: admin_refused)
qed (use assms isolated_member in auto)

section \<open>Requests\<close>

text \<open>What a request leaves alone: the rows of \<open>v\<close> and the audit log up to rows of others at its end.\<close>

definition untouched :: "id \<Rightarrow> db \<Rightarrow> db \<Rightarrow> bool" where
  "untouched v s s' \<longleftrightarrow> rows_of v s' = rows_of v s
     \<and> (\<exists>rows. audit_logs s' = audit_logs s @ rows \<and> (\<forall>row\<in>set rows. al_org row \<noteq> Some v))"

lemma untouched_trans: "untouched v s t \<Longrightarrow> untouched v t s' \<Longrightarrow> untouched v s s'"
  unfolding untouched_def by (metis append_assoc Un_iff set_append)

lemma isolated_untouched: "isolated v s s' \<Longrightarrow> untouched v s s'"
  by (auto simp: isolated_def untouched_def)

lemma record_audit_untouched:
  assumes "tables_ok s" "ai_org inp \<noteq> Some v"
  shows "tables_ok (record_audit e inp s) \<and> next_id (record_audit e inp s) = next_id s \<and> untouched v s (record_audit e inp s)"
  using assms by (auto simp: record_audit_def tables_ok_def rows_of_def untouched_def)

lemma audited_untouched:
  assumes "isolated v (fst w) (fst (snd (h w)))" "hr_user rq = Some p" "org_of p \<noteq> Some v"
  shows "tables_ok (fst (snd (audited e rq dur h w))) \<and> next_id (fst w) \<le> next_id (fst (snd (audited e rq dur h w)))
    \<and> untouched v (fst w) (fst (snd (audited e rq dur h w)))"
proof -
  obtain r s x where h: "h w = (r, (s, x))" by (metis surj_pair)
  let ?inp = "intercepted_input rq (case r of Inl _ \<Rightarrow> AuditFailure | Inr _ \<Rightarrow> AuditSuccess) dur"
  have "ai_org ?inp \<noteq> Some v" using assms(2,3) by (simp add: intercepted_input_def split: option.split)
  with assms(1) h have "tables_ok (record_audit e ?inp s) \<and> next_id (record_audit e ?inp s) = next_id s
      \<and> untouched v s (record_audit e ?inp s)"
    by (intro record_audit_untouched) (simp_all add: isolated_def)
  with assms(1) h isolated_untouched [OF assms(1)] show ?thesis
    by (auto simp: audited_def intercept_def isolated_def intro: untouched_trans)
qed

lemma isolated_guards: "tables_ok s \<Longrightarrow> guarded cf jl e rt h s = (r, s') \<Longrightarrow> isolated v s s'"
  using guarded_state [of cf jl e rt h s r s'] by (auto simp: touch_login_def intro!: isolated_frame)

lemma serve_untouched:
  assumes "tables_ok (fst w)" "v < next_id (fst w)" "serve cf jl e d rh (User_Call c) w = (r, w')"
    and "\<And>p s. jwt_guard cf jl e False (rh_headers rh) (fst w) = (Inr (Some p), s) \<Longrightarrow>
      org_of p \<noteq> Some v \<and> au_platform_role p \<noteq> PLATFORM_ADMIN"
  shows "tables_ok (fst w') \<and> next_id (fst w) \<le> next_id (fst w') \<and> untouched v (fst w) (fst w')"
proof -
  from call_has_route [of "User_Call c"] obtain rt where rt: "route_of (User_Call c) = Some rt" by blast
  have pub: "\<not> rt_public rt" by (rule user_route_protected [OF rt])
  obtain x s where g: "guarded cf jl e rt (rh_headers rh) (fst w) = (x, s)" by (meson surj_pair)
  note one = isolated_guards [OF assms(1) g, of v]
  show ?thesis
  proof (cases x)
    case (Inl err)
    with assms(3) rt g have "w' = (s, snd w)" by (simp add: serve_def)
    with one isolated_untouched [OF one] show ?thesis by (simp add: isolated_def)
  next
    case (Inr u)
    from guarded_passed [OF g [unfolded Inr]] pub have jwt: "jwt_guard cf jl e False (rh_headers rh) (fst w) = (Inr u, s)"
      and tenant: "tenant_guard rt u = None" by simp_all
    from jwt obtain p where u: "u = Some p"
      by (auto simp: jwt_guard_def and_then_def split: option.split_asm prod.split_asm sum.split_asm)
    from assms(4) jwt u have p: "org_of p \<noteq> Some v" "au_platform_role p \<noteq> PLATFORM_ADMIN" by auto
    let ?h = "handle e d (rh_client rh) u (User_Call c)" and ?rq = "request_info rh u (User_Call c)"
    have h: "isolated v (fst (s, snd w)) (fst (snd (?h (s, snd w))))"
      using isolated_handled [of "(s, snd w)" v p c rt e d] one assms(2) p tenant rt u
      by (simp add: handle_def isolated_def [of v "fst w"] on_world_def split: prod.split)
    have "hr_user ?rq = Some p" by (simp add: request_info_def u)
    note two = audited_untouched [where w = "(s, snd w)" and h = ?h, OF h this p(1), of e "rh_duration rh"]
    have "w' = snd (audited e ?rq (rh_duration rh) ?h (s, snd w))" using assms(3) rt g Inr by (simp add: serve_def)
    with two one isolated_untouched [OF one] show ?thesis
      by (auto simp: isolated_def [of v "fst w"] intro: untouched_trans)
  qed
qed

text \<open>A sequence of requests of which none is authenticated as a member of \<open>v\<close> or a platform administrator.\<close>

inductive outsiders :: "id \<Rightarrow> world \<Rightarrow> world \<Rightarrow> bool" for v where
  none: "outsiders v w w"
| request: "outsiders v w w1 \<Longrightarrow> serve cf jl e d rh (User_Call c) w1 = (r, w2) \<Longrightarrow>
    (case jwt_guard cf jl e False (rh_headers rh) (fst w1) of
       (Inr (Some p), _) \<Rightarrow> org_of p \<noteq> Some v \<and> au_platform_role p \<noteq> PLATFORM_ADMIN | _ \<Rightarrow> True) \<Longrightarrow>
    outsiders v w w2"


definition foreign_document :: document_row where
  "foreign_document = \<lparr>d_id = 9, d_org = 2, d_workspace = None, d_template = None, d_title = ''Plan'', d_description = None,
     d_status = DRAFT, d_file_name = ''plan.pdf'', d_file_key = ''k'', d_content_type = ''application/pdf'', d_size = 4,
     d_checksum = ''c'', d_version = 1, d_tags = [], d_created_by = None, d_deleted = None\<rparr>"

definition shared_db :: db where
  "shared_db = key_db\<lparr>documents := [foreign_document]\<rparr>"

lemma shared_jwt:
  "\<exists>p. jwt_guard sample_config sample_jwt sample_env False (rh_headers sample_head) shared_db = (Inr (Some p), shared_db)
     \<and> org_of p = Some 1 \<and> au_platform_role p = PlatformUser"
  by (simp add: shared_db_def jwt_guard_def configured_def authenticate_api_key_def key_usable_def key_db_def
      access_db_def sample_env_def sample_org_def key_owner_def sample_user_def active_user_def sample_member_def
      sample_head_def org_of_def)


end
