(* ===== verification/Locale_Provider.thy ===== *)
theory Locale_Provider
  imports I18n
begin

text \<open>
  components/i18n/locale-provider.tsx: the language of an open page. A choice starts the reading of
  a catalog unless it is cached, answers come in any order, and the answer of an effect that was
  cleaned up only fills the cache. The steps are those of the effects and of the answers.
\<close>

section \<open>The component\<close>

record catalog_request =
  cr_run :: nat
  cr_locale :: string

text \<open>
  \<open>lp_run\<close> counts the runs of the effect; the flag \<open>cancelled\<close> of a run is false only for the last.
  \<open>lp_cache\<close> is the map of the module, which outlives the component.
\<close>

record language_state =
  lp_locale :: string
  lp_messages :: json
  lp_cache :: "string \<rightharpoonup> json"
  lp_run :: nat
  lp_requests :: "catalog_request list"
  lp_cookie :: "string option"
  lp_lang :: string

definition has_keys :: "json \<Rightarrow> bool" where
  "has_keys m = (case m of JObj fs \<Rightarrow> fs \<noteq> [] | JArr xs \<Rightarrow> xs \<noteq> [] | JStr x \<Rightarrow> x \<noteq> [] | _ \<Rightarrow> False)"

text \<open>The effect that follows the locale.\<close>

definition follow_locale :: "language_state \<Rightarrow> language_state" where
  "follow_locale p = (let run = Suc (lp_run p) in
     (case lp_cache p (lp_locale p) of
        Some m \<Rightarrow> p\<lparr>lp_run := run, lp_messages := m\<rparr>
      | None \<Rightarrow> p\<lparr>lp_run := run, lp_requests := lp_requests p @ [\<lparr>cr_run = run, cr_locale = lp_locale p\<rparr>]\<rparr>))"

text \<open>The first render and its effects, in their order.\<close>

definition mount :: "string \<Rightarrow> json \<Rightarrow> (string \<rightharpoonup> json) \<Rightarrow> string option \<Rightarrow> language_state" where
  "mount l m cache cookie = follow_locale \<lparr>lp_locale = l, lp_messages = m,
     lp_cache = (if has_keys m then cache(l \<mapsto> m) else cache), lp_run = 0, lp_requests = [], lp_cookie = cookie,
     lp_lang = l\<rparr>"

text \<open>\<open>setLocale\<close>: choosing the current locale again renders nothing and runs no effect.\<close>

definition choose_locale :: "string \<Rightarrow> language_state \<Rightarrow> language_state" where
  "choose_locale l p = (let p = p\<lparr>lp_cookie := Some l\<rparr> in
     if l = lp_locale p then p else follow_locale (p\<lparr>lp_locale := l, lp_lang := l\<rparr>))"

text \<open>The answer of the \<open>k\<close>-th pending request; \<open>None\<close> is a failed one.\<close>

definition live :: "language_state \<Rightarrow> catalog_request \<Rightarrow> bool" where
  "live p r \<longleftrightarrow> cr_run r = lp_run p"

definition arrive :: "nat \<Rightarrow> json option \<Rightarrow> language_state \<Rightarrow> language_state" where
  "arrive k answer p = (let r = lp_requests p ! k;
       q = p\<lparr>lp_requests := take k (lp_requests p) @ drop (Suc k) (lp_requests p)\<rparr>
     in (case answer of
           None \<Rightarrow> if live p r then q\<lparr>lp_messages := JObj []\<rparr> else q
         | Some m \<Rightarrow> (let q = q\<lparr>lp_cache := (lp_cache q)(cr_locale r \<mapsto> m)\<rparr>
                     in if live p r then q\<lparr>lp_messages := m\<rparr> else q)))"

text \<open>\<open>t\<close> of the context; the variables of a call override \<open>appName\<close>.\<close>

definition translate_here :: "language_state \<Rightarrow> string \<Rightarrow> string option \<Rightarrow> (string \<Rightarrow> string option) option \<Rightarrow> string" where
  "translate_here p key fallback vars = translate (Some (lp_messages p)) key fallback (Some (\<lambda>n.
     (case (case vars of None \<Rightarrow> None | Some v \<Rightarrow> v n) of Some x \<Rightarrow> Some x
      | None \<Rightarrow> if n = ''appName'' then Some ''Signara'' else None)))"

section \<open>Runs\<close>

text \<open>
  A page opened with the catalog that the server read, or with the empty one when it could not;
  every fetch fails or gives the file of its locale.
\<close>

inductive provider_run :: "(string \<Rightarrow> json) \<Rightarrow> language_state \<Rightarrow> bool" for catalog where
  Open: "m = catalog l \<or> m = JObj [] \<Longrightarrow> provider_run catalog (mount l m Map.empty cookie)"
| Choose: "provider_run catalog p \<Longrightarrow> provider_run catalog (choose_locale l p)"
| Arrive: "provider_run catalog p \<Longrightarrow> k < length (lp_requests p) \<Longrightarrow>
    provider_run catalog (arrive k (Some (catalog (cr_locale (lp_requests p ! k)))) p)"
| Fail: "provider_run catalog p \<Longrightarrow> k < length (lp_requests p) \<Longrightarrow> provider_run catalog (arrive k None p)"

definition provider_ok :: "(string \<Rightarrow> json) \<Rightarrow> language_state \<Rightarrow> bool" where
  "provider_ok catalog p \<longleftrightarrow> lp_lang p = lp_locale p
     \<and> (\<forall>l m. lp_cache p l = Some m \<longrightarrow> m = catalog l)
     \<and> (\<forall>r\<in>set (lp_requests p). cr_run r \<le> lp_run p)
     \<and> (\<forall>r\<in>set (lp_requests p). live p r \<longrightarrow> cr_locale r = lp_locale p)
     \<and> distinct (map cr_run (lp_requests p))
     \<and> ((\<forall>r\<in>set (lp_requests p). \<not> live p r) \<longrightarrow> lp_messages p = catalog (lp_locale p) \<or> lp_messages p = JObj [])"

lemma ok_follow:
  assumes "lp_lang p = lp_locale p" "\<forall>l m. lp_cache p l = Some m \<longrightarrow> m = catalog l"
    and "\<forall>r\<in>set (lp_requests p). cr_run r \<le> lp_run p" "distinct (map cr_run (lp_requests p))"
  shows "provider_ok catalog (follow_locale p)"
  using assms by (fastforce simp: provider_ok_def follow_locale_def live_def Let_def split: option.split)

lemma ok_mount: "m = catalog l \<or> m = JObj [] \<Longrightarrow> provider_ok catalog (mount l m Map.empty cookie)"
  unfolding mount_def by (rule ok_follow) (auto simp: has_keys_def split: if_split_asm)

lemma ok_choose: "provider_ok catalog p \<Longrightarrow> provider_ok catalog (choose_locale l p)"
proof (cases "l = lp_locale p")
  case True
  assume "provider_ok catalog p"
  with True show ?thesis by (simp add: choose_locale_def provider_ok_def live_def)
next
  case False
  assume ok: "provider_ok catalog p"
  have "provider_ok catalog (follow_locale (p\<lparr>lp_cookie := Some l, lp_locale := l, lp_lang := l\<rparr>))"
    by (rule ok_follow) (use ok in \<open>simp_all add: provider_ok_def\<close>)
  with False show ?thesis by (simp add: choose_locale_def)
qed

text \<open>Taking one request out of the pending ones.\<close>

lemma removed_requests:
  assumes "k < length xs"
  shows "set (take k xs @ drop (Suc k) xs) \<subseteq> set xs" "set xs = insert (xs ! k) (set (take k xs @ drop (Suc k) xs))"
    "distinct (map f xs) \<Longrightarrow> distinct (map f (take k xs @ drop (Suc k) xs))
       \<and> (\<forall>y\<in>set (take k xs @ drop (Suc k) xs). f y \<noteq> f (xs ! k))"
proof -
  have split: "xs = take k xs @ xs ! k # drop (Suc k) xs" using assms by (rule id_take_nth_drop)
  show "set xs = insert (xs ! k) (set (take k xs @ drop (Suc k) xs))" by (subst split) auto
  then show "set (take k xs @ drop (Suc k) xs) \<subseteq> set xs" by blast
  assume d: "distinct (map f xs)"
  then have "distinct (map f (take k xs @ xs ! k # drop (Suc k) xs))" using split by metis
  then show "distinct (map f (take k xs @ drop (Suc k) xs)) \<and> (\<forall>y\<in>set (take k xs @ drop (Suc k) xs). f y \<noteq> f (xs ! k))"
    by (auto simp: image_iff)
qed

lemma arrive_parts [simp]:
  "lp_requests (arrive k a p) = take k (lp_requests p) @ drop (Suc k) (lp_requests p)"
  "lp_run (arrive k a p) = lp_run p" "lp_locale (arrive k a p) = lp_locale p" "lp_lang (arrive k a p) = lp_lang p"
  "lp_cache (arrive k a p) = (case a of None \<Rightarrow> lp_cache p | Some m \<Rightarrow> (lp_cache p)(cr_locale (lp_requests p ! k) \<mapsto> m))"
  "lp_messages (arrive k a p) =
     (if live p (lp_requests p ! k) then (case a of None \<Rightarrow> JObj [] | Some m \<Rightarrow> m) else lp_messages p)"
  by (simp_all add: arrive_def Let_def split: option.split)

lemma ok_arrive:
  assumes ok: "provider_ok catalog p" and k: "k < length (lp_requests p)"
    and answer: "answer = None \<or> answer = Some (catalog (cr_locale (lp_requests p ! k)))"
  shows "provider_ok catalog (arrive k answer p)"
proof -
  let ?r = "lp_requests p ! k"
  let ?rest = "take k (lp_requests p) @ drop (Suc k) (lp_requests p)"
  note rest = removed_requests [OF k]
  have d: "distinct (map cr_run ?rest)" using rest(3) [of cr_run] ok by (simp add: provider_ok_def)
  have cache: "\<forall>l m. lp_cache (arrive k answer p) l = Some m \<longrightarrow> m = catalog l"
    using ok answer by (auto simp: provider_ok_def split: if_split_asm)
  have waits: "\<forall>r\<in>set ?rest. live p r \<longrightarrow> cr_locale r = lp_locale p" and runs: "\<forall>r\<in>set ?rest. cr_run r \<le> lp_run p"
    using ok rest(1) unfolding provider_ok_def by blast+
  have shown: "lp_messages (arrive k answer p) = catalog (lp_locale p) \<or> lp_messages (arrive k answer p) = JObj []"
    if "\<forall>r\<in>set ?rest. \<not> live p r"
  proof (cases "live p ?r")
    case True
    with ok k have "cr_locale ?r = lp_locale p" by (simp add: provider_ok_def)
    with True answer show ?thesis by auto
  next
    case False
    with that rest(2) ok have "lp_messages p = catalog (lp_locale p) \<or> lp_messages p = JObj []"
      unfolding provider_ok_def by (metis insert_iff)
    with False show ?thesis by simp
  qed
  have "live (arrive k answer p) = live p" by (simp add: live_def fun_eq_iff)
  with d cache waits runs shown ok show ?thesis by (simp add: provider_ok_def)
qed

lemma provider_run_ok: "provider_run catalog p \<Longrightarrow> provider_ok catalog p"
  by (induction rule: provider_run.induct) (simp_all add: ok_mount ok_choose ok_arrive)

section \<open>Properties\<close>

text \<open>
  C30: in whatever order catalogs are chosen and answered, a page that waits for nothing shows the
  catalog of the last choice, or the defaults of its texts when that catalog could not be read;
  while it waits, it waits for that catalog only, and whatever comes for another choice changes
  no text.
\<close>

theorem last_choice_shown:
  assumes "provider_run catalog p"
  shows "((\<forall>r\<in>set (lp_requests p). \<not> live p r) \<longrightarrow>
      lp_messages p = catalog (lp_locale p) \<or> lp_messages p = JObj [])
    \<and> (\<forall>k < length (lp_requests p). live p (lp_requests p ! k) \<longrightarrow>
      lp_messages (arrive k (Some (catalog (cr_locale (lp_requests p ! k)))) p) = catalog (lp_locale p)
      \<and> (\<forall>r\<in>set (lp_requests (arrive k answer p)). \<not> live (arrive k answer p) r))
    \<and> (\<forall>k < length (lp_requests p). \<not> live p (lp_requests p ! k) \<longrightarrow> translate_here (arrive k answer p) = translate_here p)"
proof (intro conjI allI impI)
  note ok = provider_run_ok [OF assms]
  show "lp_messages p = catalog (lp_locale p) \<or> lp_messages p = JObj []" if "\<forall>r\<in>set (lp_requests p). \<not> live p r"
    using ok that by (simp add: provider_ok_def)
  show "translate_here (arrive k answer p) = translate_here p" if "\<not> live p (lp_requests p ! k)" for k
    using that by (simp add: translate_here_def fun_eq_iff)
  fix k
  assume k: "k < length (lp_requests p)" and l: "live p (lp_requests p ! k)"
  let ?rest = "take k (lp_requests p) @ drop (Suc k) (lp_requests p)"
  have "cr_locale (lp_requests p ! k) = lp_locale p" using ok k l by (simp add: provider_ok_def)
  with l show "lp_messages (arrive k (Some (catalog (cr_locale (lp_requests p ! k)))) p) = catalog (lp_locale p)" by simp
  have "\<forall>y\<in>set ?rest. cr_run y \<noteq> cr_run (lp_requests p ! k)"
    using removed_requests(3) [OF k, of cr_run] ok by (simp add: provider_ok_def)
  with l show "\<forall>r\<in>set (lp_requests (arrive k answer p)). \<not> live (arrive k answer p) r"
    by (simp add: live_def)
qed

text \<open>The page that follows opens in the language that was chosen here.\<close>

theorem choice_kept:
  assumes "l \<in> set locale_codes"
  shows "resolve_locale (lp_cookie (choose_locale l p)) accept = l"
proof -
  have "list_all (\<lambda>l. normalize_locale (Some l) = Some l) locale_codes" by code_simp
  with assms have "normalize_locale (Some l) = Some l" by (simp add: list_all_iff)
  moreover have "lp_cookie (choose_locale l p) = Some l" by (simp add: choose_locale_def follow_locale_def Let_def split: option.split)
  ultimately show ?thesis by (simp add: resolve_locale_def)
qed

text \<open>
  A catalog that arrived for a choice since taken back is in the cache, but not shown: the page
  waits for its own request, and shows the defaults when that one fails.
\<close>

definition two_languages :: "string \<Rightarrow> json" where
  "two_languages l = JObj [(''language'', JStr l)]"

definition back_and_forth :: language_state where
  "back_and_forth = choose_locale ''de'' (choose_locale ''fr'' (choose_locale ''de'' (mount ''en'' (two_languages ''en'') Map.empty None)))"

lemma back_and_forth_run: "provider_run two_languages back_and_forth"
  unfolding back_and_forth_def by (intro provider_run.Choose provider_run.Open) simp

lemma back_and_forth_waits:
  "lp_locale back_and_forth = ''de''"
  "lp_requests back_and_forth = [\<lparr>cr_run = 2, cr_locale = ''de''\<rparr>, \<lparr>cr_run = 3, cr_locale = ''fr''\<rparr>, \<lparr>cr_run = 4, cr_locale = ''de''\<rparr>]"
  "lp_run back_and_forth = 4"
  by (simp_all add: back_and_forth_def choose_locale_def mount_def follow_locale_def two_languages_def has_keys_def Let_def)

theorem last_choice_shown_witness:
  "lp_messages (arrive 2 (Some (two_languages ''de'')) back_and_forth) = two_languages ''de''
   \<and> translate_here (arrive 1 (Some (two_languages ''fr'')) back_and_forth) = translate_here back_and_forth"
  using last_choice_shown [OF back_and_forth_run, of "Some (two_languages ''fr'')"]
  unfolding back_and_forth_waits live_def
  by (auto simp: numeral_eq_Suc All_less_Suc)

theorem cached_catalog_not_shown:
  "let p = arrive 1 None (arrive 0 (Some (two_languages ''de'')) back_and_forth)
   in lp_locale p = ''de'' \<and> lp_cache p ''de'' = Some (two_languages ''de'') \<and> lp_messages p = JObj []"
  by (simp add: back_and_forth_def choose_locale_def mount_def follow_locale_def arrive_def live_def two_languages_def
      has_keys_def Let_def)

end
