(* ===== verification/Browser.thy ===== *)
theory Browser
  imports Http_Props Auth Session_Props
begin

text \<open>
  The browser side of a session: the cookies that modules/auth/auth.controller.ts sets and clears,
  and the request function of apps/web/src/lib/api.ts with its refresh of an expired access token.
  The jar holds the cookies for the host of the API; a cookie is identified by name, domain and
  path. What Express makes of a \<open>maxAge\<close> passed to \<open>clearCookie\<close> depends on its version and is the
  flag \<open>wl_keeps_max_age\<close>; resolving a URL and encoding a query are functions of the record.
\<close>

section \<open>Cookies\<close>

record cookie =
  ck_name :: string
  ck_value :: string
  ck_domain :: "string option"
  ck_path :: string
  ck_strict :: bool
  ck_until :: time

type_synonym jar = "cookie list"

definition cookie_key :: "cookie \<Rightarrow> string \<times> string option \<times> string" where
  "cookie_key c = (ck_name c, ck_domain c, ck_path c)"

text \<open>A \<open>Set-Cookie\<close> header: an expired cookie removes the one with its key.\<close>

definition store_cookie :: "time \<Rightarrow> jar \<Rightarrow> cookie \<Rightarrow> jar" where
  "store_cookie now jar c =
     filter (\<lambda>x. cookie_key x \<noteq> cookie_key c) jar @ (if ck_until c \<le> now then [] else [c])"

definition store_cookies :: "time \<Rightarrow> cookie list \<Rightarrow> jar \<Rightarrow> jar" where
  "store_cookies now cs jar = foldl (store_cookie now) jar cs"

text \<open>\<open>req.cookies[name]\<close> of a request to a path.\<close>

definition sent_cookie :: "time \<Rightarrow> jar \<Rightarrow> string \<Rightarrow> string \<Rightarrow> string option" where
  "sent_cookie now jar name path = map_option ck_value
     (find (\<lambda>c. ck_name c = name \<and> prefix (ck_path c) path \<and> now < ck_until c) jar)"

record web_lib =
  wl_keeps_max_age :: bool
  wl_encode :: "(string \<times> string) list \<Rightarrow> string"
  wl_resolve :: "string \<Rightarrow> string \<Rightarrow> string"
  wl_show_json :: "json \<Rightarrow> string"

section \<open>The auth controller\<close>

definition auth_path :: string where
  "auth_path = ''/api/v1/auth''"

text \<open>\<open>cookieOptions\<close> with the fields that a caller overrides.\<close>

definition make_cookie :: "auth_config \<Rightarrow> env \<Rightarrow> string \<Rightarrow> string \<Rightarrow> int \<Rightarrow> string \<Rightarrow> bool \<Rightarrow> cookie" where
  "make_cookie cf e name v seconds path strict = \<lparr>ck_name = name, ck_value = v,
     ck_domain = configured (Some (cookie_domain cf)), ck_path = path, ck_strict = strict,
     ck_until = e_now e + seconds * 1000\<rparr>"

definition state_cookie :: "auth_config \<Rightarrow> env \<Rightarrow> string \<Rightarrow> cookie" where
  "state_cookie cf e state = make_cookie cf e ''signara_oidc_state'' state (10 * 60) auth_path False"

definition auth_cookies :: "auth_config \<Rightarrow> env \<Rightarrow> token_pair \<Rightarrow> cookie list" where
  "auth_cookies cf e pair = [make_cookie cf e ''signara_access'' (tk_access pair) (15 * 60) ''/'' False,
     make_cookie cf e ''signara_refresh'' (tk_refresh pair) (30 * 24 * 60 * 60) auth_path True]"

text \<open>\<open>clearCookie\<close>: an empty value and an expiry in 1970, unless a \<open>maxAge\<close> of the options wins.\<close>

definition clear_cookie :: "web_lib \<Rightarrow> bool \<Rightarrow> cookie \<Rightarrow> cookie" where
  "clear_cookie wl with_max_age c = c\<lparr>ck_value := [],
     ck_until := (if wl_keeps_max_age wl \<and> with_max_age then ck_until c else 1)\<rparr>"

definition cleared_state :: "web_lib \<Rightarrow> cookie" where
  "cleared_state wl = clear_cookie wl False \<lparr>ck_name = ''signara_oidc_state'', ck_value = [], ck_domain = None,
     ck_path = auth_path, ck_strict = False, ck_until = 1\<rparr>"

definition cleared_session :: "auth_config \<Rightarrow> web_lib \<Rightarrow> env \<Rightarrow> cookie list" where
  "cleared_session cf wl e = [
     clear_cookie wl True (make_cookie cf e ''signara_access'' [] (15 * 60) ''/'' False),
     clear_cookie wl True (make_cookie cf e ''signara_refresh'' [] (30 * 24 * 60 * 60) auth_path False)]"

definition fingerprint :: "string option \<Rightarrow> string" where
  "fingerprint agent = take 256 (coalesce agent ''unknown'')"

definition auth_login ::
  "auth_config \<Rightarrow> jwt_lib \<Rightarrow> web_lib \<Rightarrow> env \<Rightarrow> string option \<Rightarrow> http_error + (string \<times> cookie list)" where
  "auth_login cf jl wl e nxt = (case create_login_state cf jl e nxt of
     Inl err \<Rightarrow> Inl err
   | Inr state \<Rightarrow> Inr (build_login_url cf (wl_encode wl) state, [state_cookie cf e state]))"

text \<open>The cookies of \<open>callback\<close> also reach the browser when a later step of it fails.\<close>

definition state_accepted ::
  "auth_config \<Rightarrow> jwt_lib \<Rightarrow> env \<Rightarrow> string option \<Rightarrow> string option \<Rightarrow> string option \<Rightarrow> string option \<Rightarrow> bool" where
  "state_accepted cf jl e code state err cookie \<longleftrightarrow> configured err = None \<and> configured code \<noteq> None
     \<and> configured state \<noteq> None \<and> configured cookie \<noteq> None \<and> length (coalesce cookie []) \<le> 4096 \<and> cookie = state
     \<and> \<not> isl (parse_login_state cf jl e (coalesce state []))"

definition auth_callback ::
  "auth_config \<Rightarrow> jwt_lib \<Rightarrow> idp \<Rightarrow> web_lib \<Rightarrow> env \<Rightarrow> string option \<Rightarrow> string option \<Rightarrow> string option \<Rightarrow> jar
   \<Rightarrow> client \<Rightarrow> db \<Rightarrow> cookie list \<times> (string, db) res" where
  "auth_callback cf jl ip wl e code state err jar cx s =
     (let cookie = sent_cookie (e_now e) jar ''signara_oidc_state'' (auth_path @ ''/callback'');
          cleared = (if state_accepted cf jl e code state err cookie then [cleared_state wl] else [])
      in (case login_callback cf jl ip (wl_show_json wl) e code state err cookie (cx_agent cx) (cx_ip cx) s of
            (Inl x, s') \<Rightarrow> (cleared, fail x s')
          | (Inr (pair, nxt), s') \<Rightarrow>
              (cleared @ auth_cookies cf e pair, ok (wl_resolve wl nxt (auth_web_url e)) s')))"

definition auth_refresh ::
  "auth_config \<Rightarrow> jwt_lib \<Rightarrow> env \<Rightarrow> jar \<Rightarrow> client \<Rightarrow> db \<Rightarrow> (token_pair, db) res" where
  "auth_refresh cf jl e jar cx s =
     (case configured (sent_cookie (e_now e) jar ''signara_refresh'' (auth_path @ ''/refresh'')) of
        None \<Rightarrow> fail (Unauthorized ''Missing refresh token'') s
      | Some token \<Rightarrow> refresh cf jl e token (fingerprint (cx_agent cx)) (coalesce (cx_ip cx) ''unknown'') s)"

definition auth_logout :: "env \<Rightarrow> jar \<Rightarrow> client \<Rightarrow> db \<Rightarrow> (unit, db) res" where
  "auth_logout e jar cx s =
     (case configured (sent_cookie (e_now e) jar ''signara_refresh'' (auth_path @ ''/logout'')) of
        None \<Rightarrow> ok () s
      | Some token \<Rightarrow> ok () (revoke_session e token (fingerprint (cx_agent cx)) s))"

section \<open>The browser\<close>

record browser =
  br_jar :: jar
  br_token :: string
  br_client :: client

text \<open>The headers of \<open>request\<close>: the token of the meta tag, unless it is empty.\<close>

definition browser_headers :: "browser \<Rightarrow> http_headers" where
  "browser_headers br = \<lparr>hd_api_key = None,
     hd_authorization = (if br_token br = [] then None else Some (''Bearer '' @ br_token br))\<rparr>"

definition browser_head :: "browser \<Rightarrow> request_head" where
  "browser_head br = \<lparr>rh_headers = browser_headers br, rh_client = br_client br, rh_id = None, rh_duration = 0\<rparr>"

text \<open>A public request of the auth controller behind guards and audit; it carries no user.\<close>

definition session_info :: "browser \<Rightarrow> string \<Rightarrow> auth_user option \<Rightarrow> http_request_info" where
  "session_info br action u = \<lparr>hr_method = ''POST'', hr_path = Some (auth_path @ action), hr_url = auth_path @ action,
     hr_param_id = None, hr_resource = None, hr_user = u, hr_request_id = None, hr_ip = cx_ip (br_client br),
     hr_agent = cx_agent (br_client br)\<rparr>"

definition serve_refresh ::
  "auth_config \<Rightarrow> jwt_lib \<Rightarrow> env \<Rightarrow> browser \<Rightarrow> world \<Rightarrow> (token_pair, world) res" where
  "serve_refresh cf jl e br w = audited e (session_info br ''/refresh'' None) 0
     (\<lambda>w. case auth_refresh cf jl e (br_jar br) (br_client br) (fst w) of (r, s) \<Rightarrow> (r, (s, snd w))) w"

text \<open>\<open>refreshSession\<close>: the cookies of the answer go to the jar, its access token to the meta tag.\<close>

definition refresh_session ::
  "auth_config \<Rightarrow> jwt_lib \<Rightarrow> env \<Rightarrow> browser \<Rightarrow> world \<Rightarrow> bool \<times> browser \<times> world" where
  "refresh_session cf jl e br w = (case serve_refresh cf jl e br w of
     (Inl err, w') \<Rightarrow> (False, br, w')
   | (Inr pair, w') \<Rightarrow> (True, br\<lparr>br_jar := store_cookies (e_now e) (auth_cookies cf e pair) (br_jar br),
        br_token := tk_access pair\<rparr>, w'))"

text \<open>
  \<open>request\<close>: one call, and when it is refused with 401 one refresh and, if that worked, one more
  call. The three run in the environments \<open>e1\<close>, \<open>e2\<close> and \<open>e3\<close>.
\<close>

definition unauthorized :: "http_error \<Rightarrow> bool" where
  "unauthorized err = (case err of Unauthorized _ \<Rightarrow> True | _ \<Rightarrow> False)"

definition with_refresh ::
  "auth_config \<Rightarrow> jwt_lib \<Rightarrow> env \<times> env \<times> env \<Rightarrow> (env \<Rightarrow> browser \<Rightarrow> world \<Rightarrow> ('r, world) res) \<Rightarrow> browser \<Rightarrow> world
   \<Rightarrow> (http_error + 'r) \<times> browser \<times> world" where
  "with_refresh cf jl es call br w = (case es of (e1, e2, e3) \<Rightarrow>
     (case call e1 br w of
        (Inr r, w1) \<Rightarrow> (Inr r, br, w1)
      | (Inl err, w1) \<Rightarrow>
        if \<not> unauthorized err then (Inl err, br, w1)
        else (case refresh_session cf jl e2 br w1 of
           (False, br', w2) \<Rightarrow> (Inl err, br', w2)
         | (True, br', w2) \<Rightarrow> (case call e3 br' w2 of (r, w3) \<Rightarrow> (r, br', w3)))))"

definition client_request ::
  "auth_config \<Rightarrow> jwt_lib \<Rightarrow> deps \<Rightarrow> env \<times> env \<times> env \<Rightarrow> browser \<Rightarrow> user_call \<Rightarrow> world
   \<Rightarrow> (http_error + reply) \<times> browser \<times> world" where
  "client_request cf jl d es br c w =
     with_refresh cf jl es (\<lambda>e br. serve cf jl e d (browser_head br) (User_Call c)) br w"

text \<open>\<open>POST /auth/logout\<close> needs a signed-in user; its row is audited like every mutating call.\<close>

definition serve_logout :: "auth_config \<Rightarrow> jwt_lib \<Rightarrow> env \<Rightarrow> browser \<Rightarrow> world \<Rightarrow> (unit, world) res" where
  "serve_logout cf jl e br w = (case jwt_guard cf jl e False (browser_headers br) (fst w) of
     (Inl err, s) \<Rightarrow> fail err (s, snd w)
   | (Inr u, s) \<Rightarrow> audited e (session_info br ''/logout'' u) 0
       (\<lambda>w. case auth_logout e (br_jar br) (br_client br) (fst w) of (r, s) \<Rightarrow> (r, (s, snd w))) (s, snd w))"

text \<open>The log-out button: the cookies of the answer take effect, then the page is left.\<close>

definition sign_out ::
  "auth_config \<Rightarrow> jwt_lib \<Rightarrow> web_lib \<Rightarrow> env \<times> env \<times> env \<Rightarrow> browser \<Rightarrow> world \<Rightarrow> browser \<times> world" where
  "sign_out cf jl wl es br w = (case with_refresh cf jl es (serve_logout cf jl) br w of
     (Inl err, br', w') \<Rightarrow> (br', w')
   | (Inr _, br', w') \<Rightarrow> (case es of (e1, e2, e3) \<Rightarrow>
       (br'\<lparr>br_jar := store_cookies (e_now e3) (cleared_session cf wl e3) (br_jar br')\<rparr>, w')))"

text \<open>\<open>response.status\<close> and the message of \<open>ApiError\<close>.\<close>

definition status_of :: "http_error \<Rightarrow> nat" where
  "status_of err = (case err of BadRequest _ \<Rightarrow> 400 | Unauthorized _ \<Rightarrow> 401 | Forbidden _ \<Rightarrow> 403 | NotFound _ \<Rightarrow> 404
     | Conflict _ \<Rightarrow> 409 | InternalError _ \<Rightarrow> 500)"

section \<open>The jar\<close>

lemma sent_stored:
  assumes "prefix (ck_path c) path" "t < ck_until c" "now < ck_until c"
    and "\<And>x. x \<in> set jar \<Longrightarrow> ck_name x = ck_name c \<Longrightarrow> prefix (ck_path x) path \<Longrightarrow> cookie_key x = cookie_key c"
  shows "sent_cookie t (store_cookie now jar c) (ck_name c) path = Some (ck_value c)"
proof -
  have none: "find (\<lambda>x. ck_name x = ck_name c \<and> prefix (ck_path x) path \<and> t < ck_until x)
      (filter (\<lambda>x. cookie_key x \<noteq> cookie_key c) jar) = None"
    using assms(4) by (auto simp: find_None_iff)
  have app: "find P (xs @ [y]) = (if find P xs = None then (if P y then Some y else None) else find P xs)" for P xs and y :: cookie
    by (induction xs) auto
  show ?thesis using assms(1-3) by (simp add: sent_cookie_def store_cookie_def app none)
qed

lemma sent_other:
  assumes "ck_name c \<noteq> name"
  shows "sent_cookie t (store_cookie now jar c) name path = sent_cookie t jar name path"
proof -
  have app: "find P (xs @ ys) = (if find P xs = None then find P ys else find P xs)" for P and xs ys :: jar
    by (induction xs) auto
  have "find (\<lambda>x. ck_name x = name \<and> Q x) (filter (\<lambda>x. cookie_key x \<noteq> cookie_key c) jar) = find (\<lambda>x. ck_name x = name \<and> Q x) jar" for Q
    using assms by (induction jar) (auto simp: cookie_key_def)
  with assms show ?thesis by (simp add: sent_cookie_def store_cookie_def app)
qed

section \<open>A signed-in browser\<close>

text \<open>The cookies of the session are those of one configuration.\<close>

definition own_cookies :: "auth_config \<Rightarrow> jar \<Rightarrow> bool" where
  "own_cookies cf jar \<longleftrightarrow> (\<forall>c\<in>set jar. ck_name c = ''signara_refresh'' \<longrightarrow>
     ck_domain c = configured (Some (cookie_domain cf)) \<and> ck_path c = auth_path)"

text \<open>What jsonwebtoken does: a token it signed verifies until it expires.\<close>

definition verifies :: "jwt_lib \<Rightarrow> string \<Rightarrow> claims \<Rightarrow> bool" where
  "verifies jl secret c \<longleftrightarrow> (let t = jl_sign jl secret c in t \<noteq> [] \<and> js_trim t = t
     \<and> jl_decode jl t = Some (''HS256'', None)
     \<and> (\<forall>now < coalesce (cl_exp c) 0. jl_hs256 jl secret now t = Some c))"

text \<open>The jar holds the refresh token of a live session of a user, good until \<open>limit\<close>.\<close>

definition signed_in :: "auth_config \<Rightarrow> jwt_lib \<Rightarrow> env \<Rightarrow> time \<Rightarrow> id \<Rightarrow> browser \<Rightarrow> db \<Rightarrow> bool" where
  "signed_in cf jl e limit uid br s \<longleftrightarrow> own_cookies cf (br_jar br) \<and> hashes_distinct s
     \<and> distinct (map se_id (sessions s)) \<and> (\<forall>x\<in>set (sessions s). se_id x < next_id s)
     \<and> (\<exists>token secret c x. required_secret (af_refresh_secret cf) ''JWT_REFRESH_SECRET'' = Inr secret
          \<and> token \<noteq> [] \<and> cl_type c = Some ''refresh'' \<and> cl_sub c = Some (show_nat uid)
          \<and> (\<forall>now < limit. sent_cookie now (br_jar br) ''signara_refresh'' (auth_path @ ''/refresh'') = Some token
               \<and> jl_hs256 jl secret now token = Some c)
          \<and> x \<in> set (sessions s) \<and> se_hash x = fingerprint_hash e (fingerprint (cx_agent (br_client br))) token
          \<and> se_user x = uid \<and> se_revoked x = None \<and> limit \<le> se_expires x)"

lemma show_nat_not_empty [simp]: "show_nat n \<noteq> []"
  by (subst show_nat.simps) simp

lemma count_unique:
  assumes "distinct (map key xs)" "x \<in> set xs" "P x"
  shows "count_rows (\<lambda>y. key y = key x \<and> P y) xs = 1"
proof -
  have "filter (\<lambda>y. key y = key x \<and> P y) xs = [x]"
    using assms
  proof (induction xs)
    case (Cons y ys)
    show ?case
    proof (cases "y = x")
      case True
      with Cons.prems have "\<forall>z\<in>set ys. key z \<noteq> key x" by (metis distinct.simps(2) image_eqI list.set_map list.simps(9))
      then have "filter (\<lambda>z. key z = key x \<and> P z) ys = []" by (simp add: filter_empty_conv)
      with True Cons.prems(3) show ?thesis by simp
    next
      case False
      with Cons.prems have "x \<in> set ys" by simp
      with Cons have "filter (\<lambda>z. key z = key x \<and> P z) ys = [x]" by simp
      moreover have "key y \<noteq> key x" using Cons.prems(1) \<open>x \<in> set ys\<close> by auto
      ultimately show ?thesis by simp
    qed
  qed simp
  then show ?thesis by (simp add: count_rows_def)
qed

lemma find_unique:
  assumes "x \<in> set xs" "P x" "\<And>y. y \<in> set xs \<Longrightarrow> P y \<Longrightarrow> y = x"
  shows "find P xs = Some x"
  using assms
proof (induction xs)
  case (Cons y ys)
  show ?case
  proof (cases "P y")
    case False
    with Cons.prems(1,2) have "x \<in> set ys" by auto
    then have "find P ys = Some x"
      by (rule Cons.IH [OF _ Cons.prems(2)]) (rule Cons.prems(3), simp_all)
    with False show ?thesis by simp
  next
    case True
    have "y = x" by (rule Cons.prems(3)) (use True in simp_all)
    with True show ?thesis by simp
  qed
qed simp

text \<open>What \<open>refresh\<close> does for a signed-in browser.\<close>

lemma signed_in_refresh:
  assumes "signed_in cf jl e limit uid br s" "e_now e < limit"
    and "find_row u_id uid (users s) = Some usr" "u_status usr = UserActive"
    and "issue_token_pair cf jl e uid (u_email usr) = Inr pair"
  shows "\<exists>token x. token \<noteq> [] \<and> x \<in> set (sessions s) \<and> se_user x = uid
    \<and> sent_cookie (e_now e) (br_jar br) ''signara_refresh'' (auth_path @ ''/refresh'') = Some token
    \<and> auth_refresh cf jl e (br_jar br) (br_client br) s = (Inr pair, create_session e uid (tk_refresh pair)
         (fingerprint (cx_agent (br_client br))) (coalesce (cx_ip (br_client br)) ''unknown'')
         (revoke_where e (\<lambda>y. se_id y = se_id x \<and> se_revoked y = None) s))"
proof -
  let ?fp = "fingerprint (cx_agent (br_client br))"
  from assms(1) obtain token secret c x where r: "required_secret (af_refresh_secret cf) ''JWT_REFRESH_SECRET'' = Inr secret"
    "token \<noteq> []" "cl_type c = Some ''refresh''" "cl_sub c = Some (show_nat uid)"
    and live: "\<forall>now < limit. sent_cookie now (br_jar br) ''signara_refresh'' (auth_path @ ''/refresh'') = Some token
      \<and> jl_hs256 jl secret now token = Some c"
    and x: "x \<in> set (sessions s)" "se_hash x = fingerprint_hash e ?fp token" "se_user x = uid" "se_revoked x = None"
      "limit \<le> se_expires x"
    and d: "hashes_distinct s" "distinct (map se_id (sessions s))"
    unfolding signed_in_def by blast
  have sub: "configured (Some (show_nat uid)) = Some (show_nat uid)" by (simp add: configured_def)
  have find: "find (live_session e (fingerprint_hash e ?fp token) (show_nat uid)) (sessions s) = Some x"
  proof (rule find_unique)
    show "live_session e (fingerprint_hash e ?fp token) (show_nat uid) x"
      using x assms(2) by (simp add: live_session_def)
    show "y = x" if "y \<in> set (sessions s)" "live_session e (fingerprint_hash e ?fp token) (show_nat uid) y" for y
    proof -
      have "inj_on se_hash (set (sessions s))" using d(1) by (simp add: hashes_distinct_def distinct_map)
      moreover have "se_hash y = se_hash x" using that(2) x(2) by (simp add: live_session_def)
      ultimately show ?thesis using that(1) x(1) by (rule inj_onD)
    qed
  qed (rule x(1))
  have "refresh cf jl e token ?fp (coalesce (cx_ip (br_client br)) ''unknown'') s = (Inr pair, create_session e uid (tk_refresh pair)
      ?fp (coalesce (cx_ip (br_client br)) ''unknown'') (revoke_where e (\<lambda>y. se_id y = se_id x \<and> se_revoked y = None) s))"
    using live assms(2-5) r x find sub count_unique [where key = se_id and P = "\<lambda>y. se_revoked y = None", OF d(2) x(1,4)]
    by (simp add: refresh_def Let_def open_token_session_def)
  moreover have sent: "sent_cookie (e_now e) (br_jar br) ''signara_refresh'' (auth_path @ ''/refresh'') = Some token"
    using live assms(2) by blast
  ultimately show ?thesis
    using r(2) x(1,3) by (intro exI [of _ token] exI [of _ x]) (simp add: auth_refresh_def configured_def)
qed

section \<open>A refresh renews the session\<close>

lemma own_cookies_stored:
  assumes "own_cookies cf jar"
    and "ck_name c = ''signara_refresh'' \<longrightarrow> ck_domain c = configured (Some (cookie_domain cf)) \<and> ck_path c = auth_path"
  shows "own_cookies cf (store_cookie now jar c)"
  using assms by (auto simp: own_cookies_def store_cookie_def)

lemma own_cookies_renewed: "own_cookies cf jar \<Longrightarrow> own_cookies cf (store_cookies now (auth_cookies cf e pair) jar)"
  by (simp add: store_cookies_def auth_cookies_def make_cookie_def own_cookies_stored)

text \<open>The new refresh cookie is the one that the next refresh sends, for thirty days.\<close>

lemma renewed_cookie_sent:
  assumes "own_cookies cf jar" "t < e_now e + 30 * day_ms"
  shows "sent_cookie t (store_cookies (e_now e) (auth_cookies cf e pair) jar) ''signara_refresh'' (auth_path @ ''/refresh'')
    = Some (tk_refresh pair)"
proof -
  let ?a = "make_cookie cf e ''signara_access'' (tk_access pair) (15 * 60) ''/'' False"
  let ?r = "make_cookie cf e ''signara_refresh'' (tk_refresh pair) (30 * 24 * 60 * 60) auth_path True"
  have "own_cookies cf (store_cookie (e_now e) jar ?a)"
    by (rule own_cookies_stored [OF assms(1)]) (simp add: make_cookie_def)
  then have "sent_cookie t (store_cookie (e_now e) (store_cookie (e_now e) jar ?a) ?r) (ck_name ?r) (auth_path @ ''/refresh'')
      = Some (ck_value ?r)"
    using assms(2) by (intro sent_stored) (auto simp: make_cookie_def day_ms_def own_cookies_def cookie_key_def)
  then show ?thesis by (simp add: store_cookies_def auth_cookies_def make_cookie_def)
qed

text \<open>What the table keeps over the rotation: distinct hashes and identifiers.\<close>

lemma rotated_tables:
  assumes "hashes_distinct s" "distinct (map se_id (sessions s))" "\<forall>x\<in>set (sessions s). se_id x < next_id s"
    and "fingerprint_hash e fp token \<notin> se_hash ` set (sessions s)"
    and "t = create_session e uid token fp ip (revoke_where e P s)"
  shows "hashes_distinct t" "distinct (map se_id (sessions t))" "\<forall>x\<in>set (sessions t). se_id x < next_id t"
    "users t = users s"
proof -
  have ids: "map se_id (sessions (revoke_where e P s)) = map se_id (sessions s)"
    and bound: "\<forall>x\<in>set (sessions (revoke_where e P s)). se_id x < next_id s"
    using assms(3) by (auto simp: revoke_where_def update_many_def)
  have hashes: "map se_hash (sessions t) = map se_hash (sessions s) @ [fingerprint_hash e fp token]"
    by (simp only: assms(5) create_session_def) simp
  have "map se_id (sessions t) = map se_id (sessions s) @ [next_id s]"
    using ids by (simp add: assms(5) create_session_def revoke_where_def)
  with assms(2,3) show "distinct (map se_id (sessions t))" by auto
  from hashes assms(1,4) show "hashes_distinct t" by (auto simp: hashes_distinct_def)
  from bound show "\<forall>x\<in>set (sessions t). se_id x < next_id t"
    by (auto simp: assms(5) create_session_def revoke_where_def)
  show "users t = users s" by (simp add: assms(5) create_session_def revoke_where_def)
qed

text \<open>The token pair of a user verifies with the secrets it is signed with.\<close>

definition pair_verifies :: "auth_config \<Rightarrow> jwt_lib \<Rightarrow> env \<Rightarrow> id \<Rightarrow> string \<Rightarrow> bool" where
  "pair_verifies cf jl e uid email \<longleftrightarrow> (case (configured (af_access_secret cf), configured (af_refresh_secret cf)) of
     (Some a, Some r) \<Rightarrow> verifies jl a (token_claims e ''access'' 0 (15 * 60) uid email)
       \<and> verifies jl r (token_claims e ''refresh'' 1 (30 * 24 * 60 * 60) uid email)
   | _ \<Rightarrow> False)"

text \<open>The account of the session, and the tokens that a refresh gives it: none was stored before.\<close>

definition renewable :: "auth_config \<Rightarrow> jwt_lib \<Rightarrow> env \<Rightarrow> user_row \<Rightarrow> browser \<Rightarrow> db \<Rightarrow> bool" where
  "renewable cf jl e usr br s \<longleftrightarrow> find_row u_id (u_id usr) (users s) = Some usr \<and> active_user usr
     \<and> pair_verifies cf jl e (u_id usr) (u_email usr)
     \<and> (case issue_token_pair cf jl e (u_id usr) (u_email usr) of Inl _ \<Rightarrow> False
        | Inr pair \<Rightarrow> fingerprint_hash e (fingerprint (cx_agent (br_client br))) (tk_refresh pair) \<notin> se_hash ` set (sessions s))"

lemma session_renewed:
  assumes "signed_in cf jl e limit (u_id usr) br (fst w)" "e_now e < limit" "renewable cf jl e usr br (fst w)"
  shows "\<exists>pair br' w'. issue_token_pair cf jl e (u_id usr) (u_email usr) = Inr pair
    \<and> refresh_session cf jl e br w = (True, br', w') \<and> br_token br' = tk_access pair \<and> br_client br' = br_client br
    \<and> signed_in cf jl e (e_now e + 30 * day_ms) (u_id usr) br' (fst w') \<and> users (fst w') = users (fst w)"
proof -
  let ?fp = "fingerprint (cx_agent (br_client br))" and ?s = "fst w"
  from assms(3) obtain pair where pair: "issue_token_pair cf jl e (u_id usr) (u_email usr) = Inr pair"
    and fresh: "fingerprint_hash e ?fp (tk_refresh pair) \<notin> se_hash ` set (sessions ?s)"
    and row: "find_row u_id (u_id usr) (users ?s) = Some usr" "u_status usr = UserActive"
    and pv: "pair_verifies cf jl e (u_id usr) (u_email usr)"
    by (auto simp: renewable_def active_user_def split: sum.split_asm)
  from signed_in_refresh [OF assms(1,2) row pair] obtain x :: session_row where
    ref: "auth_refresh cf jl e (br_jar br) (br_client br) ?s = (Inr pair, create_session e (u_id usr) (tk_refresh pair)
         ?fp (coalesce (cx_ip (br_client br)) ''unknown'') (revoke_where e (\<lambda>y. se_id y = se_id x \<and> se_revoked y = None) ?s))"
    by blast
  define t where "t = create_session e (u_id usr) (tk_refresh pair) ?fp (coalesce (cx_ip (br_client br)) ''unknown'')
      (revoke_where e (\<lambda>y. se_id y = se_id x \<and> se_revoked y = None) ?s)"
  have tables: "hashes_distinct ?s" "distinct (map se_id (sessions ?s))" "\<forall>x\<in>set (sessions ?s). se_id x < next_id ?s"
    and own: "own_cookies cf (br_jar br)"
    using assms(1) by (simp_all add: signed_in_def)
  note rot = rotated_tables [OF tables fresh t_def]
  define br' where "br' = br\<lparr>br_jar := store_cookies (e_now e) (auth_cookies cf e pair) (br_jar br), br_token := tk_access pair\<rparr>"
  obtain inp where run: "refresh_session cf jl e br w = (True, br', (record_audit e inp t, snd w))"
    using ref by (auto simp: refresh_session_def serve_refresh_def audited_def intercept_def mutating_def session_info_def
      t_def [symmetric] br'_def)
  let ?c = "token_claims e ''refresh'' 1 (30 * 24 * 60 * 60) (u_id usr) (u_email usr)"
  from pair pv obtain a r where secrets: "required_secret (af_refresh_secret cf) ''JWT_REFRESH_SECRET'' = Inr r"
    "configured (af_refresh_secret cf) = Some r" "tk_refresh pair = jl_sign jl r ?c"
    by (auto simp: issue_token_pair_def pair_verifies_def required_secret_def split: option.split_asm)
  with pv have v: "verifies jl r ?c" by (auto simp: pair_verifies_def split: option.split_asm)
  have new: "\<exists>y\<in>set (sessions t). se_hash y = fingerprint_hash e ?fp (tk_refresh pair) \<and> se_user y = u_id usr
      \<and> se_revoked y = None \<and> se_expires y = e_now e + 30 * day_ms"
    by (simp add: t_def create_session_def)
  have live: "\<forall>now < e_now e + 30 * day_ms. sent_cookie now (br_jar br') ''signara_refresh'' (auth_path @ ''/refresh'')
        = Some (tk_refresh pair) \<and> jl_hs256 jl r now (tk_refresh pair) = Some ?c"
    using renewed_cookie_sent [OF own] v by (simp add: br'_def verifies_def Let_def secrets(3) token_claims_def day_ms_def)
  have "signed_in cf jl e (e_now e + 30 * day_ms) (u_id usr) br' (record_audit e inp t)"
    unfolding signed_in_def
  proof (intro conjI)
    from new obtain y where y: "y \<in> set (sessions t)" "se_hash y = fingerprint_hash e ?fp (tk_refresh pair)"
      "se_user y = u_id usr" "se_revoked y = None" "se_expires y = e_now e + 30 * day_ms" by blast
    show "\<exists>token secret c x. required_secret (af_refresh_secret cf) ''JWT_REFRESH_SECRET'' = Inr secret
          \<and> token \<noteq> [] \<and> cl_type c = Some ''refresh'' \<and> cl_sub c = Some (show_nat (u_id usr))
          \<and> (\<forall>now < e_now e + 30 * day_ms. sent_cookie now (br_jar br') ''signara_refresh'' (auth_path @ ''/refresh'') = Some token
               \<and> jl_hs256 jl secret now token = Some c)
          \<and> x \<in> set (sessions (record_audit e inp t)) \<and> se_hash x = fingerprint_hash e (fingerprint (cx_agent (br_client br'))) token
          \<and> se_user x = u_id usr \<and> se_revoked x = None \<and> e_now e + 30 * day_ms \<le> se_expires x"
      using secrets live y v
      by (intro exI [of _ "tk_refresh pair"] exI [of _ r] exI [of _ ?c] exI [of _ y])
        (simp add: record_audit_def br'_def token_claims_def verifies_def Let_def)
  qed (use rot own in \<open>simp_all add: record_audit_def hashes_distinct_def br'_def own_cookies_renewed\<close>)
  with run pair rot(4) show ?thesis by (simp add: br'_def record_audit_def)
qed

section \<open>The retry\<close>

text \<open>Without a token that verifies, a call is refused by the first guard and leaves no trace.\<close>

lemma expired_refused:
  assumes "verify_token cf jl e (js_trim (br_token br)) = None"
  shows "\<exists>m. serve cf jl e d (browser_head br) (User_Call c) w = (Inl (Unauthorized m), w)"
proof -
  from call_has_route [of "User_Call c"] obtain rt where rt: "route_of (User_Call c) = Some rt" by blast
  have "\<exists>m. jwt_guard cf jl e False (browser_headers br) (fst w) = (Inl (Unauthorized m), fst w)"
    using assms by (auto simp: jwt_guard_def browser_headers_def extract_bearer_def configured_def resolve_principal_def)
  with user_route_protected [OF rt] obtain m where
    "guarded cf jl e rt (browser_headers br) (fst w) = (Inl (Unauthorized m), fst w)"
    by (auto simp: guarded_def)
  with rt show ?thesis by (simp add: serve_def browser_head_def)
qed

text \<open>The access token of a pair names its user until it expires.\<close>

lemma fresh_token_resolves:
  assumes "issue_token_pair cf jl e (u_id usr) (u_email usr) = Inr pair" "pair_verifies cf jl e (u_id usr) (u_email usr)"
    and "e_now e' < e_now e + 15 * 60 * 1000" "usr \<in> set (users s)" "active_user usr" "u_email usr \<noteq> []"
    and "\<And>x. x \<in> set (users s) \<Longrightarrow> u_provider_id x = Some (show_nat (u_id usr)) \<or> u_email x = u_email usr \<Longrightarrow> x = usr"
    and "br_token br = tk_access pair"
  shows "\<exists>p s'. jwt_guard cf jl e' False (browser_headers br) s = (Inr (Some p), s') \<and> au_id p = Some (u_id usr)"
proof -
  let ?c = "token_claims e ''access'' 0 (15 * 60) (u_id usr) (u_email usr)"
  from assms(1,2) obtain a where a: "configured (af_access_secret cf) = Some a" "tk_access pair = jl_sign jl a ?c"
    "verifies jl a ?c"
    by (auto simp: issue_token_pair_def pair_verifies_def required_secret_def split: option.split_asm)
  then have t: "tk_access pair \<noteq> []" "js_trim (tk_access pair) = tk_access pair"
    "jl_decode jl (tk_access pair) = Some (''HS256'', None)" "jl_hs256 jl a (e_now e') (tk_access pair) = Some ?c"
    using assms(3) by (simp_all add: verifies_def Let_def token_claims_def)
  then have "verify_token cf jl e' (tk_access pair) = Some ?c" by (simp add: verify_token_def a(1) token_claims_def)
  moreover have "find (\<lambda>x. (u_provider_id x = Some (show_nat (u_id usr)) \<or> u_email x = u_email usr) \<and> active_user x)
      (users s) = Some usr"
    by (rule find_unique) (use assms(4-7) in auto)
  ultimately show ?thesis
    using t(1,2) assms(6,8)
    by (simp add: jwt_guard_def browser_headers_def configured_def extract_bearer_def resolve_principal_def token_claims_def)
qed

text \<open>
  C9: a call made with an expired access token recovers by itself: while the refresh token is
  good the client refreshes the session once, the call is made again and acts for the account of
  the session, and the session is good for thirty more days, so that an open page that makes a
  call at least once in thirty days never has to sign in again.
\<close>

theorem expired_token_recovers:
  assumes "signed_in cf jl e2 limit (u_id usr) br (fst w)" "e_now e2 < limit" "renewable cf jl e2 usr br (fst w)"
    and "verify_token cf jl e1 (js_trim (br_token br)) = None" "e_now e3 < e_now e2 + 15 * 60 * 1000" "u_email usr \<noteq> []"
    and "\<And>x. x \<in> set (users (fst w)) \<Longrightarrow> u_provider_id x = Some (show_nat (u_id usr)) \<or> u_email x = u_email usr \<Longrightarrow> x = usr"
  shows "\<exists>br' w2 r w3 p s. client_request cf jl d (e1, e2, e3) br c w = (r, br', w3)
    \<and> serve cf jl e3 d (browser_head br') (User_Call c) w2 = (r, w3)
    \<and> jwt_guard cf jl e3 False (browser_headers br') (fst w2) = (Inr (Some p), s) \<and> au_id p = Some (u_id usr)
    \<and> signed_in cf jl e2 (e_now e2 + 30 * day_ms) (u_id usr) br' (fst w2)"
proof -
  from session_renewed [OF assms(1-3)] obtain pair br' w2 where
    pair: "issue_token_pair cf jl e2 (u_id usr) (u_email usr) = Inr pair" "br_token br' = tk_access pair"
    and run: "refresh_session cf jl e2 br w = (True, br', w2)"
    and new: "signed_in cf jl e2 (e_now e2 + 30 * day_ms) (u_id usr) br' (fst w2)" "users (fst w2) = users (fst w)" by blast
  obtain m where first: "serve cf jl e1 d (browser_head br) (User_Call c) w = (Inl (Unauthorized m), w)"
    using expired_refused [OF assms(4)] by blast
  from assms(3) have usr: "usr \<in> set (users (fst w2))" "active_user usr" "pair_verifies cf jl e2 (u_id usr) (u_email usr)"
    by (auto simp: renewable_def new(2) dest!: find_row_SomeD)
  obtain r w3 where second: "serve cf jl e3 d (browser_head br') (User_Call c) w2 = (r, w3)" by (meson surj_pair)
  have "client_request cf jl d (e1, e2, e3) br c w = (r, br', w3)"
    by (simp add: client_request_def with_refresh_def first unauthorized_def run second)
  with fresh_token_resolves [OF pair(1) usr(3) assms(5) usr(1,2) assms(6) assms(7) [folded new(2)] pair(2)] second new(1)
  show ?thesis by blast
qed

definition retry_jwt :: jwt_lib where
  "retry_jwt = \<lparr>jl_sign = (\<lambda>secret c. if cl_type c = Some ''access'' then ''acc'' else ''ref''),
     jl_decode = (\<lambda>t. if t \<in> {''acc'', ''ref''} then Some (''HS256'', None) else None),
     jl_hs256 = (\<lambda>secret now t. if t = ''tok'' then Some refresh_claims
       else if t = ''acc'' then (if now < 901000 then Some (token_claims sample_env ''access'' 0 (15 * 60) 5 ''ada@acme.test'') else None)
       else if t = ''ref'' then Some (token_claims sample_env ''refresh'' 1 (30 * 24 * 60 * 60) 5 ''ada@acme.test'')
       else None),
     jl_rs256 = (\<lambda>_ _ _ _ _. None)\<rparr>"

definition sample_browser :: browser where
  "sample_browser = \<lparr>br_jar = [\<lparr>ck_name = ''signara_refresh'', ck_value = ''tok'', ck_domain = None,
       ck_path = auth_path, ck_strict = True, ck_until = 5000\<rparr>],
     br_token = [], br_client = \<lparr>cx_ip = Some ''::1'', cx_agent = Some ''ua''\<rparr>\<rparr>"

lemma sample_signed_in: "signed_in sample_config retry_jwt sample_env 5000 5 sample_browser session_db"
proof -
  have [simp]: "fingerprint (Some ''ua'') = ''ua''" by (simp add: fingerprint_def)
  have [simp]: "prefix auth_path (auth_path @ ''/refresh'')" by simp
  have "\<forall>now < 5000. sent_cookie now (br_jar sample_browser) ''signara_refresh'' (auth_path @ ''/refresh'') = Some ''tok''
      \<and> jl_hs256 retry_jwt ''r'' now ''tok'' = Some refresh_claims"
    by (simp add: sample_browser_def sent_cookie_def retry_jwt_def)
  moreover have "required_secret (af_refresh_secret sample_config) ''JWT_REFRESH_SECRET'' = Inr ''r''"
    by (simp add: required_secret_def configured_def sample_config_def)
  moreover have "sample_session \<in> set (sessions session_db)" "se_user sample_session = 5" "se_revoked sample_session = None"
    "5000 \<le> se_expires sample_session"
    "se_hash sample_session = fingerprint_hash sample_env (fingerprint (cx_agent (br_client sample_browser))) ''tok''"
    by (simp_all add: session_db_def sample_session_def fingerprint_hash_def sample_env_def sample_browser_def)
  moreover have "own_cookies sample_config (br_jar sample_browser)"
    by (simp add: own_cookies_def sample_browser_def sample_config_def cookie_domain_def configured_def)
  moreover have "hashes_distinct session_db" "distinct (map se_id (sessions session_db))"
    "\<forall>x\<in>set (sessions session_db). se_id x < next_id session_db"
    by (simp_all add: hashes_distinct_def session_db_def sample_session_def)
  moreover have "cl_type refresh_claims = Some ''refresh''" "cl_sub refresh_claims = Some (show_nat 5)"
    by (simp_all add: refresh_claims_def)
  ultimately show ?thesis
    unfolding signed_in_def
    by (intro conjI exI [of _ "''tok''"] exI [of _ "''r''"] exI [of _ refresh_claims] exI [of _ sample_session]) simp_all
qed

lemma sample_renewable: "renewable sample_config retry_jwt sample_env sample_user sample_browser session_db"
proof -
  have [simp]: "js_trim ''acc'' = ''acc''" "js_trim ''ref'' = ''ref''" by code_simp+
  have [simp]: "fingerprint (Some ''ua'') = ''ua''" by (simp add: fingerprint_def)
  have u: "u_id sample_user = 5" "u_email sample_user = ''ada@acme.test''" by (simp_all add: sample_user_def)
  have "find_row u_id 5 (users session_db) = Some sample_user" "active_user sample_user"
    by (simp_all add: session_db_def sample_user_def active_user_def)
  moreover have "pair_verifies sample_config retry_jwt sample_env 5 ''ada@acme.test''"
    by (simp add: pair_verifies_def sample_config_def configured_def verifies_def Let_def retry_jwt_def token_claims_def
        sample_env_def)
  moreover have "issue_token_pair sample_config retry_jwt sample_env 5 ''ada@acme.test'' =
      Inr \<lparr>tk_access = ''acc'', tk_refresh = ''ref'', tk_expires_in = 15 * 60\<rparr>"
    by (simp add: issue_token_pair_def required_secret_def sample_config_def configured_def retry_jwt_def token_claims_def)
  moreover have "fingerprint_hash sample_env (fingerprint (cx_agent (br_client sample_browser))) ''ref'' \<notin> se_hash ` set (sessions session_db)"
    by (simp add: session_db_def sample_session_def sample_browser_def fingerprint_hash_def sample_env_def)
  ultimately show ?thesis unfolding renewable_def u by simp
qed

theorem expired_token_recovers_witness:
  "\<exists>br' w2 r w3 p s. client_request sample_config retry_jwt sample_deps (sample_env, sample_env, sample_env) sample_browser
       sample_rename (session_db, []) = (r, br', w3)
     \<and> jwt_guard sample_config retry_jwt sample_env False (browser_headers br') (fst w2) = (Inr (Some p), s) \<and> au_id p = Some 5"
proof -
  have u: "u_id sample_user = 5" "users (fst ((session_db, []) :: world)) = [sample_user]" "e_now sample_env = 1000"
    by (simp_all add: sample_user_def session_db_def sample_env_def)
  have t: "verify_token sample_config retry_jwt sample_env (js_trim (br_token sample_browser)) = None"
    by (simp add: verify_token_def retry_jwt_def sample_browser_def js_trim_def)
  have s: "signed_in sample_config retry_jwt sample_env 5000 (u_id sample_user) sample_browser (fst (session_db, []))"
    and r: "renewable sample_config retry_jwt sample_env sample_user sample_browser (fst (session_db, []))"
    using sample_signed_in sample_renewable by (simp_all add: sample_user_def)
  from expired_token_recovers [OF s _ r t, of sample_env sample_deps sample_rename] show ?thesis
    unfolding u by (simp add: sample_user_def) blast
qed

section \<open>Two refreshes at once\<close>

text \<open>
  C40: of two refreshes that a browser sends with the same cookie only one can succeed: when an
  expired access token meets two calls at once, the call whose refresh comes second fails with
  401 although the session is alive.
\<close>

theorem parallel_refresh_loses:
  assumes "refresh_session cf jl e br w = (True, br1, w1)" "hashes_distinct (fst w1)" "auth_steps (fst w1) (fst w2)"
    and "e_sha256 e' = e_sha256 e" "verify_token cf jl e1 (js_trim (br_token br)) = None"
    and "sent_cookie (e_now e') (br_jar br) ''signara_refresh'' (auth_path @ ''/refresh'')
      = sent_cookie (e_now e) (br_jar br) ''signara_refresh'' (auth_path @ ''/refresh'')"
  shows "\<exists>m w3. client_request cf jl d (e1, e', e3) br c w2 = (Inl (Unauthorized m), br, w3)"
proof -
  let ?fp = "fingerprint (cx_agent (br_client br))" and ?ip = "coalesce (cx_ip (br_client br)) ''unknown''"
  from assms(1) obtain pair s1 where r: "auth_refresh cf jl e (br_jar br) (br_client br) (fst w) = (Inr pair, s1)"
    "sessions (fst w1) = sessions s1"
    by (auto simp: refresh_session_def serve_refresh_def audited_def intercept_def mutating_def session_info_def
        record_audit_def split: prod.split_asm sum.split_asm)
  from r(1) obtain token where
    token: "configured (sent_cookie (e_now e) (br_jar br) ''signara_refresh'' (auth_path @ ''/refresh'')) = Some token"
    and ref: "refresh cf jl e token ?fp ?ip (fst w) = (Inr pair, s1)"
    by (auto simp: auth_refresh_def split: option.split_asm)
  have "used_up (fingerprint_hash e ?fp token) (fst w1)"
    using refresh_uses_up [OF ref] assms(2) r(2) by (simp add: hashes_distinct_def used_up_def)
  then have "used_up (fingerprint_hash e' ?fp token) (fst w2)"
    using used_up_steps [OF assms(3)] assms(4) by (simp add: fingerprint_hash_def)
  then have "\<not> succeeds (refresh cf jl e' token ?fp ?ip (fst w2))" by (rule used_up_refuses)
  then obtain x s2 where "refresh cf jl e' token ?fp ?ip (fst w2) = (Inl x, s2)"
    by (cases "refresh cf jl e' token ?fp ?ip (fst w2)"; cases "fst (refresh cf jl e' token ?fp ?ip (fst w2))") simp_all
  then have "auth_refresh cf jl e' (br_jar br) (br_client br) (fst w2) = (Inl x, s2)"
    by (simp add: auth_refresh_def assms(6) token)
  then obtain w3 where "refresh_session cf jl e' br w2 = (False, br, w3)"
    by (auto simp: refresh_session_def serve_refresh_def audited_def intercept_def mutating_def session_info_def)
  moreover obtain m where "serve cf jl e1 d (browser_head br) (User_Call c) w2 = (Inl (Unauthorized m), w2)"
    using expired_refused [OF assms(5)] by blast
  ultimately show ?thesis by (simp add: client_request_def with_refresh_def unauthorized_def)
qed

theorem parallel_refresh_loses_witness:
  "\<exists>m w3. client_request sample_config retry_jwt sample_deps (sample_env, sample_env, sample_env) sample_browser sample_rename
       (snd (snd (refresh_session sample_config retry_jwt sample_env sample_browser (session_db, [])))) = (Inl (Unauthorized m), sample_browser, w3)"
proof -
  have s: "signed_in sample_config retry_jwt sample_env 5000 (u_id sample_user) sample_browser (fst (session_db, []))"
    and r: "renewable sample_config retry_jwt sample_env sample_user sample_browser (fst (session_db, []))"
    using sample_signed_in sample_renewable by (simp_all add: sample_user_def)
  have now: "e_now sample_env < 5000" by (simp add: sample_env_def)
  obtain br1 w1 where run: "refresh_session sample_config retry_jwt sample_env sample_browser (session_db, []) = (True, br1, w1)"
    and d: "hashes_distinct (fst w1)"
    using session_renewed [OF s now r] by (auto simp: signed_in_def)
  show ?thesis unfolding run snd_conv
    by (rule parallel_refresh_loses [OF run d auth_steps.Refl refl _ refl])
      (simp add: verify_token_def retry_jwt_def sample_browser_def js_trim_def)
qed

section \<open>Signing out\<close>

lemma stored_only:
  assumes "own_cookies cf jar" "cookie_key c = (''signara_refresh'', configured (Some (cookie_domain cf)), auth_path)"
    and "x \<in> set (store_cookie now jar c)" "ck_name x = ''signara_refresh''"
  shows "x = c"
proof (rule ccontr)
  assume "x \<noteq> c"
  with assms(3) have "x \<in> set jar" "cookie_key x \<noteq> cookie_key c"
    by (auto simp: store_cookie_def split: if_split_asm)
  with assms(1,2,4) show False by (auto simp: own_cookies_def cookie_key_def)
qed

lemma cleared_not_sent:
  assumes "own_cookies cf jar"
  shows "configured (sent_cookie t (store_cookies now (cleared_session cf wl e) jar) ''signara_refresh'' path) = None"
proof -
  let ?c = "clear_cookie wl True (make_cookie cf e ''signara_refresh'' [] (30 * 24 * 60 * 60) auth_path False)"
  let ?a = "clear_cookie wl True (make_cookie cf e ''signara_access'' [] (15 * 60) ''/'' False)"
  let ?j = "store_cookie now jar ?a"
  have "own_cookies cf ?j" by (rule own_cookies_stored [OF assms]) (simp add: clear_cookie_def make_cookie_def)
  then have only: "x = ?c" if "x \<in> set (store_cookie now ?j ?c)" "ck_name x = ''signara_refresh''" for x
    by (rule stored_only [OF _ _ that]) (simp add: cookie_key_def clear_cookie_def make_cookie_def)
  have "ck_value ?c = []" by (simp add: clear_cookie_def)
  with only have "ck_value x = []" if "x \<in> set (store_cookie now ?j ?c)" "ck_name x = ''signara_refresh''" for x
    using that by metis
  moreover have "store_cookies now (cleared_session cf wl e) jar = store_cookie now ?j ?c"
    by (simp add: store_cookies_def cleared_session_def)
  ultimately show ?thesis
    by (cases "find (\<lambda>c. ck_name c = ''signara_refresh'' \<and> prefix (ck_path c) path \<and> t < ck_until c) (store_cookie now ?j ?c)")
      (auto simp: sent_cookie_def configured_def dest: find_Some_iff_filter)
qed

lemma logout_revokes:
  assumes "serve_logout cf jl e br w = (Inr (), w')"
    and "configured (sent_cookie (e_now e) (br_jar br) ''signara_refresh'' (auth_path @ ''/logout'')) = Some token"
  shows "sessions (fst w') = sessions (revoke_session e token (fingerprint (cx_agent (br_client br))) (fst w))"
proof -
  obtain v s where v: "jwt_guard cf jl e False (browser_headers br) (fst w) = (v, s)" by (meson surj_pair)
  with assms(1) obtain u where u: "v = Inr u" by (cases v) (simp_all add: serve_logout_def)
  note g = v [unfolded u]
  from jwt_guard_state [OF v] have "sessions s = sessions (fst w)" by (auto simp: touch_login_def)
  moreover have "sessions (fst w') = sessions (revoke_session e token (fingerprint (cx_agent (br_client br))) s)"
  proof -
    have "auth_logout e (br_jar br) (br_client br) s = (Inr (), revoke_session e token (fingerprint (cx_agent (br_client br))) s)"
      by (simp add: auth_logout_def assms(2))
    with assms(1) g have "fst w' = revoke_session e token (fingerprint (cx_agent (br_client br))) s
        \<or> (\<exists>inp. fst w' = record_audit e inp (revoke_session e token (fingerprint (cx_agent (br_client br))) s))"
      unfolding serve_logout_def audited_def intercept_def Let_def by (simp split: if_split_asm) (use surjective_pairing fst_conv in \<open>metis+\<close>)
    then show ?thesis by (auto simp: record_audit_def)
  qed
  ultimately show ?thesis by (simp add: revoke_session_def revoke_where_def)
qed

text \<open>
  signing out ends the session: the browser sends no refresh token any more, and a copy of the
  token is refused from then on, whatever happens to the session table later.
\<close>

theorem logout_ends_session:
  assumes "serve_logout cf jl e br w = (Inr (), w')" "own_cookies cf (br_jar br)" "hashes_distinct (fst w)"
    and "configured (sent_cookie (e_now e) (br_jar br) ''signara_refresh'' (auth_path @ ''/logout'')) = Some token"
    and "fingerprint_hash e (fingerprint (cx_agent (br_client br))) token \<in> se_hash ` set (sessions (fst w))"
    and "auth_steps (fst w') t" "e_sha256 e' = e_sha256 e"
  shows "configured (sent_cookie now (store_cookies (e_now e) (cleared_session cf wl e) (br_jar br)) ''signara_refresh'' path) = None
    \<and> \<not> succeeds (refresh cf' jl' e' token (fingerprint (cx_agent (br_client br))) ip t)"
proof -
  let ?h = "fingerprint_hash e (fingerprint (cx_agent (br_client br))) token"
  from assms(5) obtain x where x: "x \<in> set (sessions (fst w))" "se_hash x = ?h" by auto
  have ses: "sessions (fst w') = sessions (revoke_session e token (fingerprint (cx_agent (br_client br))) (fst w))"
    by (rule logout_revokes [OF assms(1,4)])
  have "used_up ?h (fst w')"
  proof (rule used_upI [of _ "x\<lparr>se_revoked := Some (e_now e)\<rparr>"])
    show "hashes_distinct (fst w')" using assms(3) by (simp add: hashes_distinct_def ses revoke_session_def)
    show "x\<lparr>se_revoked := Some (e_now e)\<rparr> \<in> set (sessions (fst w'))"
      using x by (auto simp: ses revoke_session_def revoke_where_def update_many_def image_iff intro!: bexI [of _ x])
  qed (simp_all add: x(2))
  then have "used_up (fingerprint_hash e' (fingerprint (cx_agent (br_client br))) token) t"
    using used_up_steps [OF assms(6)] assms(7) by (simp add: fingerprint_hash_def)
  with used_up_refuses cleared_not_sent [OF assms(2)] show ?thesis by blast
qed

lemma sample_sign_out:
  "\<exists>w'. serve_logout sample_config retry_jwt sample_env (sample_browser\<lparr>br_token := ''acc''\<rparr>) (session_db, []) = (Inr (), w')"
proof -
  have [simp]: "js_trim ''acc'' = ''acc''" by code_simp
  show ?thesis
    by (simp add: serve_logout_def jwt_guard_def browser_headers_def configured_def extract_bearer_def resolve_principal_def
        verify_token_def retry_jwt_def sample_config_def token_claims_def session_db_def sample_env_def sample_user_def
        active_user_def audited_def auth_logout_def sent_cookie_def sample_browser_def intercept_def session_info_def Let_def)
qed

theorem logout_ends_session_witness:
  "\<exists>w'. serve_logout sample_config retry_jwt sample_env (sample_browser\<lparr>br_token := ''acc''\<rparr>) (session_db, []) = (Inr (), w')
    \<and> \<not> succeeds (refresh sample_config retry_jwt sample_env ''tok'' (fingerprint (Some ''ua'')) ''::1'' (fst w'))"
proof -
  let ?br = "sample_browser\<lparr>br_token := ''acc''\<rparr>" and ?w = "(session_db, []) :: world"
  obtain w' where out: "serve_logout sample_config retry_jwt sample_env ?br ?w = (Inr (), w')"
    using sample_sign_out by blast
  have own: "own_cookies sample_config (br_jar ?br)" and hd: "hashes_distinct (fst ?w)"
    using sample_signed_in by (simp_all add: signed_in_def)
  have sent: "configured (sent_cookie (e_now sample_env) (br_jar ?br) ''signara_refresh'' (auth_path @ ''/logout'')) = Some ''tok''"
    by (simp add: sent_cookie_def sample_browser_def sample_env_def configured_def)
  have stored: "fingerprint_hash sample_env (fingerprint (cx_agent (br_client ?br))) ''tok'' \<in> se_hash ` set (sessions (fst ?w))"
    by (simp add: fingerprint_def fingerprint_hash_def session_db_def sample_session_def sample_browser_def sample_env_def)
  from logout_ends_session [OF out own hd sent stored auth_steps.Refl refl] out show ?thesis
    by (auto simp: sample_browser_def)
qed

text \<open>
  the cookie that binds a login to the browser outlives the login when a cookie domain is
  configured: it is cleared without the domain it was set with, so the same state is sent again
  until its ten minutes are over.
\<close>

theorem login_state_cookie_left:
  assumes "configured (Some (cookie_domain cf)) = Some host" "t < e_now e + 10 * 60 * 1000"
    and "\<And>x. x \<in> set jar \<Longrightarrow> ck_name x = ''signara_oidc_state'' \<Longrightarrow> ck_domain x = Some host \<and> ck_path x = auth_path"
  shows "sent_cookie t (store_cookies now (cleared_state wl # auth_cookies cf e' pair) (store_cookie (e_now e) jar (state_cookie cf e state)))
      ''signara_oidc_state'' (auth_path @ ''/callback'') = Some state"
proof -
  let ?j = "store_cookie (e_now e) jar (state_cookie cf e state)"
  have sent: "sent_cookie t ?j (ck_name (state_cookie cf e state)) (auth_path @ ''/callback'') = Some (ck_value (state_cookie cf e state))"
    using assms by (intro sent_stored) (auto simp: state_cookie_def make_cookie_def cookie_key_def)
  have keep: "ck_domain x = Some host" if "x \<in> set ?j" "ck_name x = ''signara_oidc_state''" for x
    using that assms by (auto simp: store_cookie_def state_cookie_def make_cookie_def split: if_split_asm)
  have "filter (\<lambda>x. cookie_key x \<noteq> cookie_key (cleared_state wl)) ?j = ?j"
    using keep by (auto simp: filter_id_conv cookie_key_def cleared_state_def clear_cookie_def)
  then have "store_cookie now ?j (cleared_state wl) = ?j @ (if ck_until (cleared_state wl) \<le> now then [] else [cleared_state wl])"
    by (simp add: store_cookie_def)
  moreover have "find P (xs @ ys) = (case find P xs of None \<Rightarrow> find P ys | Some y \<Rightarrow> Some y)" for P and xs ys :: jar
    by (induction xs) auto
  ultimately have "sent_cookie t (store_cookie now ?j (cleared_state wl)) ''signara_oidc_state'' (auth_path @ ''/callback'') = Some state"
    using sent by (auto simp: sent_cookie_def state_cookie_def make_cookie_def split: option.split_asm)
  then show ?thesis by (simp add: store_cookies_def auth_cookies_def make_cookie_def sent_other)
qed

theorem login_state_cookie_left_witness:
  "\<forall>t < 601000. sent_cookie t (store_cookies 2000 (cleared_state wl # auth_cookies (sample_config\<lparr>af_cookie_domain := Some ''acme.test''\<rparr>) sample_env pair)
       (store_cookie 1000 [] (state_cookie (sample_config\<lparr>af_cookie_domain := Some ''acme.test''\<rparr>) sample_env ''st'')))
      ''signara_oidc_state'' (auth_path @ ''/callback'') = Some ''st''"
  using login_state_cookie_left [of "sample_config\<lparr>af_cookie_domain := Some ''acme.test''\<rparr>" "''acme.test''" _ sample_env "[]" 2000 wl sample_env pair "''st''"]
  by (simp add: cookie_domain_def configured_def sample_env_def)

end
