(* ===== verification/Dto.thy ===== *)
theory Dto
  imports Send_Wizard Sign_Form
begin

text \<open>
  The bodies of requests: the DTO classes of the controllers as tables of their properties and
  decorators, the validation pipe of main.ts (whitelist, no undeclared property, implicit
  conversion), how a handler reads a validated body, and the bodies that the pages post. What a
  decorator checks and how class-transformer converts a value are functions of a record, with their
  documented behaviour as a predicate. A \<open>JDate\<close> is the ISO text of an instant before the conversion
  and the date after it; \<open>vl_text\<close> is the text of such an abstract string.
\<close>

section \<open>Decorators\<close>

datatype presence = Required | Optional

datatype conversion = As_Is | As_String | As_Number | As_Boolean | To_Number | To_Date

datatype decorator =
    Is_String | Each_String | Is_Boolean | Is_Int | Is_Date | Is_Object | Is_Array | Is_Email | Is_Url
  | Is_Enum "string list" | At_Least int | At_Most int | Min_Length nat | Max_Length nat | Matches string

type_synonym dto_property = "string \<times> presence \<times> conversion \<times> decorator list"

record dto =
  dt_own :: "dto_property list"
  dt_nested :: "(string \<times> presence \<times> dto_property list) list"

record validator =
  vl_convert :: "conversion \<Rightarrow> json \<Rightarrow> json"
  vl_holds :: "decorator \<Rightarrow> json \<Rightarrow> bool"
  vl_text :: "json \<Rightarrow> string"
  vl_ident :: "string \<Rightarrow> id"

definition is_text :: "json \<Rightarrow> bool" where
  "is_text j = (case j of JStr _ \<Rightarrow> True | JId _ \<Rightarrow> True | JDate _ \<Rightarrow> True | _ \<Rightarrow> False)"

text \<open>What class-validator and class-transformer document.\<close>

definition documented :: "validator \<Rightarrow> bool" where
  "documented v \<longleftrightarrow> (\<forall>j. vl_convert v As_Is j = j) \<and> (\<forall>c. vl_convert v c JNull = JNull)
     \<and> (\<forall>j. is_text j \<longrightarrow> vl_convert v As_String j = j)
     \<and> (\<forall>n. vl_convert v As_Number (JNum n) = JNum n \<and> vl_convert v To_Number (JNum n) = JNum n)
     \<and> (\<forall>b. vl_convert v As_Boolean (JBool b) = JBool b) \<and> (\<forall>t. vl_convert v To_Date (JDate t) = JDate t)
     \<and> (\<forall>j. vl_holds v Is_String j \<longleftrightarrow> is_text j)
     \<and> (\<forall>j. vl_holds v Each_String j \<longleftrightarrow> (\<exists>xs. j = JArr xs \<and> list_all is_text xs))
     \<and> (\<forall>j. vl_holds v Is_Boolean j \<longleftrightarrow> (\<exists>b. j = JBool b)) \<and> (\<forall>j. vl_holds v Is_Int j \<longleftrightarrow> (\<exists>n. j = JNum n))
     \<and> (\<forall>j. vl_holds v Is_Date j \<longleftrightarrow> (\<exists>t. j = JDate t)) \<and> (\<forall>j. vl_holds v Is_Object j \<longleftrightarrow> (\<exists>fs. j = JObj fs))
     \<and> (\<forall>j. vl_holds v Is_Array j \<longleftrightarrow> (\<exists>xs. j = JArr xs))
     \<and> (\<forall>names j. vl_holds v (Is_Enum names) j \<longleftrightarrow> (\<exists>x\<in>set names. j = JStr x))
     \<and> (\<forall>k n. vl_holds v (At_Least k) (JNum n) \<longleftrightarrow> k \<le> n) \<and> (\<forall>k n. vl_holds v (At_Most k) (JNum n) \<longleftrightarrow> n \<le> k)
     \<and> (\<forall>k x. vl_holds v (Min_Length k) (JStr x) \<longleftrightarrow> k \<le> length x)
     \<and> (\<forall>k x. vl_holds v (Max_Length k) (JStr x) \<longleftrightarrow> length x \<le> k) \<and> (\<forall>x. vl_text v (JStr x) = x)"

section \<open>The pipe\<close>

definition property_ok :: "validator \<Rightarrow> obj \<Rightarrow> dto_property \<Rightarrow> bool" where
  "property_ok v fs p = (case p of (name, pres, conv, checks) \<Rightarrow>
     (case map_of fs name of
        None \<Rightarrow> pres = Optional
      | Some j \<Rightarrow> pres = Optional \<and> j = JNull \<or> list_all (\<lambda>c. vl_holds v c (vl_convert v conv j)) checks))"

definition flat_ok :: "validator \<Rightarrow> dto_property list \<Rightarrow> json \<Rightarrow> bool" where
  "flat_ok v ps j = (case j of
     JObj fs \<Rightarrow> list_all (\<lambda>k. k \<in> set (map fst ps)) (map fst fs) \<and> list_all (property_ok v fs) ps
   | _ \<Rightarrow> False)"

text \<open>\<open>@IsArray() @ValidateNested({ each: true })\<close>.\<close>

definition nested_ok :: "validator \<Rightarrow> obj \<Rightarrow> string \<times> presence \<times> dto_property list \<Rightarrow> bool" where
  "nested_ok v fs n = (case n of (name, pres, ps) \<Rightarrow>
     (case map_of fs name of
        None \<Rightarrow> pres = Optional
      | Some JNull \<Rightarrow> pres = Optional
      | Some (JArr xs) \<Rightarrow> list_all (flat_ok v ps) xs
      | _ \<Rightarrow> False))"

definition declared :: "dto \<Rightarrow> string list" where
  "declared d = map fst (dt_own d) @ map fst (dt_nested d)"

definition accepts :: "validator \<Rightarrow> dto \<Rightarrow> json \<Rightarrow> bool" where
  "accepts v d j = (case j of
     JObj fs \<Rightarrow> list_all (\<lambda>k. k \<in> set (declared d)) (map fst fs) \<and> list_all (property_ok v fs) (dt_own d)
       \<and> list_all (nested_ok v fs) (dt_nested d)
   | _ \<Rightarrow> False)"

definition flat :: "dto_property list \<Rightarrow> dto" where
  "flat ps = \<lparr>dt_own = ps, dt_nested = []\<rparr>"

definition text_in :: "string \<Rightarrow> dto_property" where
  "text_in name = (name, Required, As_String, [Is_String])"

definition text_opt :: "string \<Rightarrow> dto_property" where
  "text_opt name = (name, Optional, As_String, [Is_String])"

definition enum_in :: "string \<Rightarrow> string list \<Rightarrow> dto_property" where
  "enum_in name names = (name, Required, As_String, [Is_Enum names])"

definition enum_opt :: "string \<Rightarrow> string list \<Rightarrow> dto_property" where
  "enum_opt name names = (name, Optional, As_String, [Is_Enum names])"

text \<open>\<open>limit\<close> and \<open>offset\<close> of the queries, which nothing but their type describes.\<close>

definition number_any :: "string \<Rightarrow> dto_property" where
  "number_any name = (name, Optional, As_Number, [])"

section \<open>The DTO classes\<close>

definition signing_modes :: "(string \<times> signing_mode) list" where
  "signing_modes = [(''SEQUENTIAL'', SEQUENTIAL), (''PARALLEL'', PARALLEL)]"

definition signer_roles :: "(string \<times> signer_role) list" where
  "signer_roles = [(''SIGNER'', SIGNER), (''APPROVER'', APPROVER), (''CC'', CC)]"

definition signature_types :: "(string \<times> signature_type) list" where
  "signature_types = [(''TYPED'', TYPED), (''DRAWN'', DRAWN), (''UPLOADED'', UPLOADED), (''CERTIFICATE'', CERTIFICATE)]"

definition rule_actions :: "(string \<times> rule_action) list" where
  "rule_actions = [(''APPROVE'', RuleApprove), (''ROUTE'', RuleRoute), (''REQUIRE'', RuleRequire), (''NOTIFY'', RuleNotify)]"

definition document_statuses :: "string list" where
  "document_statuses = [''DRAFT'', ''AWAITING_SIGNATURE'', ''IN_PROGRESS'', ''COMPLETED'', ''VOIDED'', ''CANCELLED'', ''EXPIRED'']"

definition membership_roles :: "string list" where
  "membership_roles = [''OWNER'', ''ADMIN'', ''MANAGER'', ''AUDITOR'', ''MEMBER'']"

definition template_statuses :: "string list" where
  "template_statuses = [''DRAFT'', ''ACTIVE'', ''ARCHIVED'']"

definition field_types :: "string list" where
  "field_types = [''SIGNATURE'', ''INITIAL'', ''DATE'', ''TEXT'', ''CHECKBOX'', ''DROPDOWN'', ''ATTACHMENT'', ''NAME'',
     ''EMAIL'', ''COMPANY'', ''JOB_TITLE'', ''PHONE'', ''ADDRESS'', ''CUSTOM'']"

definition visibilities :: "string list" where
  "visibilities = [''PRIVATE'', ''TEAM'', ''ORGANIZATION'']"

definition plan_codes :: "string list" where
  "plan_codes = [''COMMUNITY'', ''PROFESSIONAL'', ''BUSINESS'', ''ENTERPRISE'']"

subsection \<open>signatures.controller.ts\<close>

definition signer_dto :: "dto_property list" where
  "signer_dto = [text_in ''email'', text_opt ''name'', enum_opt ''role'' (map fst signer_roles),
     (''orderIndex'', Optional, To_Number, [Is_Int, At_Least 0])]"

definition workflow_rule_dto :: "dto_property list" where
  "workflow_rule_dto = [(''orderIndex'', Required, To_Number, [Is_Int, At_Least 0]), (''condition'', Required, As_Is, [Is_Object]),
     enum_in ''action'' (map fst rule_actions), text_opt ''targetSignerId'']"

definition create_request_dto :: dto where
  "create_request_dto = \<lparr>dt_own = [text_in ''documentId'', text_opt ''title'', text_opt ''message'',
       (''deadline'', Optional, To_Date, [Is_Date]), enum_opt ''mode'' (map fst signing_modes),
       (''sendInvites'', Optional, As_Boolean, [Is_Boolean])],
     dt_nested = [(''signers'', Required, signer_dto), (''workflowRules'', Optional, workflow_rule_dto)]\<rparr>"

definition self_sign_dto :: dto where
  "self_sign_dto = flat [text_in ''documentId'', text_opt ''templateId'']"

definition field_value_dto :: "dto_property list" where
  "field_value_dto = [text_in ''id'', (''value'', Optional, As_Is, [])]"

definition sign_dto :: dto where
  "sign_dto = \<lparr>dt_own = [enum_opt ''type'' (map fst signature_types), text_opt ''certificateSerial'', text_opt ''signedHash'',
       text_opt ''cryptoAlgorithm'', text_opt ''signatureData'', text_opt ''certificateId'', text_opt ''signatureValue''],
     dt_nested = [(''fields'', Optional, field_value_dto)]\<rparr>"

subsection \<open>certificates.controller.ts\<close>

definition import_certificate_dto :: dto where
  "import_certificate_dto = flat [text_in ''certificatePem'', text_opt ''chainPem'', text_opt ''privateKeyPem'',
     enum_opt ''provider'' [''INTERNAL_PKI'', ''WEB'', ''ACME'', ''CERULEAN''], enum_opt ''validationLevel'' [''DV'', ''OV'', ''EV''],
     text_opt ''commonName'']"

definition provision_certificate_dto :: dto where
  "provision_certificate_dto = flat [enum_in ''provider'' [''ACME'', ''CERULEAN'', ''INTERNAL_PKI''], text_in ''commonName'',
     (''email'', Optional, As_String, [Is_Email]), (''options'', Optional, As_Is, [Is_Object])]"

definition verify_certificate_dto :: dto where
  "verify_certificate_dto = flat [text_opt ''certificatePem'', text_opt ''certificateId'', text_opt ''signatureValue'',
     text_opt ''signedHash'']"

subsection \<open>organizations.controller.ts\<close>

definition create_organization_dto :: dto where
  "create_organization_dto = flat [(''name'', Required, As_String, [Is_String, Min_Length 2, Max_Length 120]),
     (''slug'', Optional, As_String, [Is_String, Matches ''^[a-z0-9][a-z0-9-]{0,118}[a-z0-9]$'']),
     (''legalName'', Optional, As_String, [Is_String, Max_Length 255])]"

definition update_organization_dto :: dto where
  "update_organization_dto = flat [text_opt ''name'', text_opt ''legalName'', text_opt ''taxId'', (''branding'', Optional, As_Is, [])]"

definition create_workspace_dto :: dto where
  "create_workspace_dto = flat [text_in ''name'', text_opt ''slug'', text_opt ''description'', enum_opt ''visibility'' visibilities]"

definition create_team_dto :: dto where
  "create_team_dto = flat [text_in ''name'', text_opt ''description'', text_opt ''workspaceId'', (''memberIds'', Optional, As_Is, [])]"

subsection \<open>documents.controller.ts\<close>

definition upload_dto :: dto where
  "upload_dto = flat [text_opt ''title'', text_opt ''description'', text_opt ''workspaceId'',
     (''tags'', Optional, As_Is, [Is_Array, Each_String]), text_opt ''templateId'']"

definition document_query_dto :: dto where
  "document_query_dto = flat [enum_opt ''status'' document_statuses, text_opt ''workspaceId'', text_opt ''search'',
     number_any ''limit'', number_any ''offset'']"

definition update_document_dto :: dto where
  "update_document_dto = flat [text_opt ''title'', text_opt ''description'', (''tags'', Optional, As_Is, [Is_Array, Each_String]),
     text_opt ''workspaceId'']"

definition add_version_dto :: dto where
  "add_version_dto = flat [text_opt ''changeNote'']"

subsection \<open>templates.controller.ts\<close>

definition template_field_dto :: "dto_property list" where
  "template_field_dto = [enum_in ''type'' field_types, text_opt ''name'', text_opt ''key'',
     (''isRequired'', Optional, As_Boolean, [Is_Boolean]), (''pageNumber'', Optional, To_Number, [Is_Int, At_Least 1]),
     (''assigneeOrder'', Optional, To_Number, [Is_Int, At_Least 0]), (''x'', Optional, To_Number, [Is_Int]),
     (''y'', Optional, To_Number, [Is_Int]), (''width'', Optional, To_Number, [Is_Int]), (''height'', Optional, To_Number, [Is_Int]),
     (''options'', Optional, As_Is, [Is_Object])]"

definition create_template_dto :: dto where
  "create_template_dto = \<lparr>dt_own = [text_in ''name'', text_opt ''description'', text_opt ''workspaceId'',
       (''variables'', Optional, As_Is, [Is_Object])],
     dt_nested = [(''fields'', Optional, template_field_dto)]\<rparr>"

definition update_template_dto :: dto where
  "update_template_dto = \<lparr>dt_own = [text_opt ''name'', text_opt ''description'', enum_opt ''status'' template_statuses,
       (''variables'', Optional, As_Is, [Is_Object])],
     dt_nested = [(''fields'', Optional, template_field_dto)]\<rparr>"

definition template_query_dto :: dto where
  "template_query_dto = flat [enum_opt ''status'' template_statuses, text_opt ''workspaceId'', number_any ''limit'', number_any ''offset'']"

subsection \<open>The other controllers\<close>

definition update_profile_dto :: dto where
  "update_profile_dto = flat [text_opt ''displayName'', text_opt ''timezone'', text_opt ''locale'']"

definition invite_member_dto :: dto where
  "invite_member_dto = flat [(''email'', Required, As_String, [Is_Email]), enum_in ''role'' membership_roles,
     (''workspaceIds'', Optional, As_Is, [Is_Array, Each_String])]"

definition member_query_dto :: dto where
  "member_query_dto = flat [text_opt ''search'', enum_opt ''role'' membership_roles, number_any ''limit'', number_any ''offset'']"

definition create_webhook_dto :: dto where
  "create_webhook_dto = flat [(''url'', Required, As_String, [Is_Url]), (''events'', Optional, As_Is, [Is_Array, Each_String]),
     text_opt ''description'']"

definition create_api_key_dto :: dto where
  "create_api_key_dto = flat [text_in ''name'', (''scopes'', Optional, As_Is, [Is_Array, Each_String]),
     (''expiresInDays'', Optional, As_Number, [Is_Int, At_Least 1, At_Most 365])]"

definition create_subscription_dto :: dto where
  "create_subscription_dto = flat [enum_in ''plan'' plan_codes, (''seats'', Optional, As_Number, [Is_Int, At_Least 1]),
     text_opt ''couponCode'', enum_opt ''period'' [''monthly'', ''yearly'']]"

definition org_status_dto :: dto where
  "org_status_dto = flat [enum_in ''status'' [''ACTIVE'', ''SUSPENDED'', ''CANCELED'']]"

definition user_status_dto :: dto where
  "user_status_dto = flat [enum_in ''status'' [''ACTIVE'', ''SUSPENDED'', ''DEACTIVATED'']]"

definition reindex_search_dto :: dto where
  "reindex_search_dto = flat [text_opt ''organizationId'', (''batchSize'', Optional, As_Number, [Is_Int, At_Least 1, At_Most 500])]"

end
