(* ===== verification/Bodies.thy ===== *)
theory Bodies
  imports Dto
begin

text \<open>
  What travels between the pages and the handlers: how the handlers of signatures.controller.ts read
  a validated body, the bodies of the calls of the web client, and that both sides agree.
\<close>

lemma documentedD:
  assumes "documented v"
  shows "vl_convert v As_Is j = j" "vl_convert v c JNull = JNull" "is_text j \<Longrightarrow> vl_convert v As_String j = j"
    "vl_convert v As_Number (JNum n) = JNum n" "vl_convert v To_Number (JNum n) = JNum n"
    "vl_convert v As_Boolean (JBool b) = JBool b" "vl_convert v To_Date (JDate t) = JDate t"
    "vl_holds v Is_String j \<longleftrightarrow> is_text j" "vl_holds v Is_Boolean j \<longleftrightarrow> (\<exists>b. j = JBool b)"
    "vl_holds v Is_Int j \<longleftrightarrow> (\<exists>n. j = JNum n)" "vl_holds v Is_Date j \<longleftrightarrow> (\<exists>t. j = JDate t)"
    "vl_holds v Is_Object j \<longleftrightarrow> (\<exists>fs. j = JObj fs)" "vl_holds v (Is_Enum names) j \<longleftrightarrow> (\<exists>x\<in>set names. j = JStr x)"
    "vl_holds v (At_Least k) (JNum n) \<longleftrightarrow> k \<le> n" "vl_holds v (At_Most k) (JNum n) \<longleftrightarrow> n \<le> k"
    "vl_holds v (Min_Length l) (JStr x) \<longleftrightarrow> l \<le> length x" "vl_holds v (Max_Length l) (JStr x) \<longleftrightarrow> length x \<le> l"
    "vl_text v (JStr x) = x"
  using assms by (simp_all add: documented_def)

lemma is_text_simps [simp]: "is_text (JStr x)" "is_text (JId i)" "is_text (JDate t)" "\<not> is_text JNull"
  by (simp_all add: is_text_def)

section \<open>Reading a body\<close>

text \<open>A property that is missing or null reads as missing.\<close>

definition given :: "validator \<Rightarrow> conversion \<Rightarrow> string \<Rightarrow> obj \<Rightarrow> json option" where
  "given v conv name fs = (case map_of fs name of
     None \<Rightarrow> None | Some j \<Rightarrow> if j = JNull then None else Some (vl_convert v conv j))"

definition text_of :: "validator \<Rightarrow> string \<Rightarrow> obj \<Rightarrow> string option" where
  "text_of v name fs = map_option (vl_text v) (given v As_String name fs)"

definition id_of :: "validator \<Rightarrow> string \<Rightarrow> obj \<Rightarrow> id option" where
  "id_of v name fs = map_option (\<lambda>j. case j of JId i \<Rightarrow> i | _ \<Rightarrow> vl_ident v (vl_text v j)) (given v As_String name fs)"

definition number_of :: "validator \<Rightarrow> string \<Rightarrow> obj \<Rightarrow> int option" where
  "number_of v name fs = (case given v To_Number name fs of Some (JNum n) \<Rightarrow> Some n | _ \<Rightarrow> None)"

definition bool_of :: "validator \<Rightarrow> string \<Rightarrow> obj \<Rightarrow> bool option" where
  "bool_of v name fs = (case given v As_Boolean name fs of Some (JBool b) \<Rightarrow> Some b | _ \<Rightarrow> None)"

definition date_of :: "validator \<Rightarrow> string \<Rightarrow> obj \<Rightarrow> time option" where
  "date_of v name fs = (case given v To_Date name fs of Some (JDate t) \<Rightarrow> Some t | _ \<Rightarrow> None)"

definition enum_of :: "validator \<Rightarrow> (string \<times> 'a) list \<Rightarrow> string \<Rightarrow> obj \<Rightarrow> 'a option" where
  "enum_of v table name fs = (case given v As_String name fs of Some (JStr x) \<Rightarrow> map_of table x | _ \<Rightarrow> None)"

definition elements :: "string \<Rightarrow> obj \<Rightarrow> json list" where
  "elements name fs = (case map_of fs name of Some (JArr xs) \<Rightarrow> xs | _ \<Rightarrow> [])"

definition read_signer :: "validator \<Rightarrow> json \<Rightarrow> signer_input option" where
  "read_signer v j = (case j of
     JObj fs \<Rightarrow> map_option (\<lambda>email. \<lparr>in_email = email, in_name = text_of v ''name'' fs,
       in_role = enum_of v signer_roles ''role'' fs, in_order = number_of v ''orderIndex'' fs\<rparr>) (text_of v ''email'' fs)
   | _ \<Rightarrow> None)"

definition read_rule :: "validator \<Rightarrow> json \<Rightarrow> rule_input option" where
  "read_rule v j = (case j of
     JObj fs \<Rightarrow>
       (case (number_of v ''orderIndex'' fs, given v As_Is ''condition'' fs, enum_of v rule_actions ''action'' fs) of
          (Some n, Some c, Some a) \<Rightarrow>
            Some \<lparr>ru_order = n, ru_condition = c, ru_action = a, ru_target = id_of v ''targetSignerId'' fs\<rparr>
        | _ \<Rightarrow> None)
   | _ \<Rightarrow> None)"

text \<open>The body of \<open>create\<close> as \<open>createRequest\<close> reads it; the DTO has no \<open>templateId\<close>.\<close>

definition read_create :: "validator \<Rightarrow> json \<Rightarrow> create_input option" where
  "read_create v j = (case j of
     JObj fs \<Rightarrow>
       (case (id_of v ''documentId'' fs, those (map (read_signer v) (elements ''signers'' fs)),
              those (map (read_rule v) (elements ''workflowRules'' fs))) of
          (Some d, Some gs, Some rs) \<Rightarrow> Some \<lparr>cr_document = d, cr_template = None, cr_title = text_of v ''title'' fs,
            cr_message = text_of v ''message'' fs, cr_deadline = date_of v ''deadline'' fs,
            cr_mode = enum_of v signing_modes ''mode'' fs, cr_signers = gs, cr_rules = rs,
            cr_send_invites = bool_of v ''sendInvites'' fs\<rparr>
        | _ \<Rightarrow> None)
   | _ \<Rightarrow> None)"

definition read_field_value :: "validator \<Rightarrow> json \<Rightarrow> field_input option" where
  "read_field_value v j = (case j of
     JObj fs \<Rightarrow> map_option (\<lambda>i. \<lparr>fi_id = i, fi_value = map_of fs ''value''\<rparr>) (id_of v ''id'' fs)
   | _ \<Rightarrow> None)"

definition read_sign :: "validator \<Rightarrow> json \<Rightarrow> sign_input option" where
  "read_sign v j = (case j of
     JObj fs \<Rightarrow> (case those (map (read_field_value v) (elements ''fields'' fs)) of
        None \<Rightarrow> None
      | Some xs \<Rightarrow> Some \<lparr>sn_type = enum_of v signature_types ''type'' fs, sn_serial = text_of v ''certificateSerial'' fs,
          sn_hash = text_of v ''signedHash'' fs, sn_algorithm = text_of v ''cryptoAlgorithm'' fs,
          sn_certificate = id_of v ''certificateId'' fs, sn_value = text_of v ''signatureValue'' fs,
          sn_fields = (if map_of fs ''fields'' \<in> {None, Some JNull} then None else Some xs)\<rparr>)
   | _ \<Rightarrow> None)"

section \<open>What an accepted body gives\<close>

text \<open>A property of an accepted body has the type that its decorators say.\<close>

lemma number_property:
  assumes "documented v" "property_ok v fs (name, pres, To_Number, [Is_Int, At_Least 0])"
  shows "pres = Required \<Longrightarrow> \<exists>n. number_of v name fs = Some n" "number_of v name fs = Some n \<Longrightarrow> 0 \<le> n"
  using assms(2) unfolding property_ok_def number_of_def given_def
  by (auto simp: documentedD [OF assms(1)] split: option.split_asm if_split_asm)

lemma text_property:
  assumes "documented v" "property_ok v fs (text_in name)"
  shows "\<exists>x. text_of v name fs = Some x" "\<exists>i. id_of v name fs = Some i"
  using assms(2) unfolding property_ok_def text_in_def text_of_def id_of_def given_def
  by (auto simp: documentedD [OF assms(1)] split: option.split_asm)

lemma enum_property:
  assumes "documented v" "property_ok v fs (enum_in name (map fst table))"
  shows "\<exists>a. enum_of v table name fs = Some a"
proof -
  from assms(2) obtain j where j: "map_of fs name = Some j" "vl_holds v (Is_Enum (map fst table)) (vl_convert v As_String j)"
    by (auto simp: property_ok_def enum_in_def split: option.split_asm)
  then obtain x where "x \<in> set (map fst table)" "vl_convert v As_String j = JStr x"
    by (auto simp: documentedD [OF assms(1)])
  with j show ?thesis
    by (cases "map_of table x") (auto simp: enum_of_def given_def documentedD [OF assms(1)] map_of_eq_None_iff)
qed

lemma object_property:
  assumes "documented v" "property_ok v fs (name, Required, As_Is, [Is_Object])"
  shows "\<exists>c. given v As_Is name fs = Some c"
  using assms(2) unfolding property_ok_def given_def
  by (auto simp: documentedD [OF assms(1)] split: option.split_asm)

lemma signer_readable:
  assumes "documented v" "flat_ok v signer_dto j"
  shows "\<exists>g. read_signer v j = Some g \<and> (\<forall>n. in_order g = Some n \<longrightarrow> 0 \<le> n)"
proof -
  from assms(2) obtain fs where j: "j = JObj fs" and ok: "list_all (property_ok v fs) signer_dto"
    by (auto simp: flat_ok_def split: json.split_asm)
  from ok have "property_ok v fs (text_in ''email'')" "property_ok v fs (''orderIndex'', Optional, To_Number, [Is_Int, At_Least 0])"
    by (simp_all add: signer_dto_def)
  with text_property(1) [OF assms(1)] number_property(2) [OF assms(1)] show ?thesis
    by (fastforce simp: read_signer_def j)
qed

lemma rule_readable:
  assumes "documented v" "flat_ok v workflow_rule_dto j"
  shows "\<exists>r. read_rule v j = Some r \<and> 0 \<le> ru_order r"
proof -
  from assms(2) obtain fs where j: "j = JObj fs" and ok: "list_all (property_ok v fs) workflow_rule_dto"
    by (auto simp: flat_ok_def split: json.split_asm)
  from ok have o: "property_ok v fs (''orderIndex'', Required, To_Number, [Is_Int, At_Least 0])"
    and c: "property_ok v fs (''condition'', Required, As_Is, [Is_Object])"
    and a: "property_ok v fs (enum_in ''action'' (map fst rule_actions))"
    by (simp_all add: workflow_rule_dto_def)
  from number_property(1) [OF assms(1) o] number_property(2) [OF assms(1) o] object_property [OF assms(1) c]
    enum_property [OF assms(1) a]
  show ?thesis by (auto simp: read_rule_def j)
qed

lemma those_all:
  assumes "\<And>x. x \<in> set xs \<Longrightarrow> \<exists>y. f x = Some y \<and> P y"
  shows "\<exists>ys. those (map f xs) = Some ys \<and> (\<forall>y\<in>set ys. P y) \<and> length ys = length xs"
  using assms
proof (induction xs)
  case (Cons x xs)
  then obtain ys y where "those (map f xs) = Some ys" "\<forall>y\<in>set ys. P y" "length ys = length xs" "f x = Some y" "P y"
    by fastforce
  then show ?case by auto
qed simp

lemma nested_elements:
  "nested_ok v fs (name, pres, ps) \<Longrightarrow> x \<in> set (elements name fs) \<Longrightarrow> flat_ok v ps x"
  by (auto simp: nested_ok_def elements_def list_all_iff split: option.split_asm json.split_asm)


section \<open>The bodies of the web client\<close>

text \<open>\<open>JSON.stringify\<close> leaves out a property that is undefined.\<close>

definition present :: "string \<Rightarrow> json option \<Rightarrow> obj" where
  "present name x = (case x of None \<Rightarrow> [] | Some j \<Rightarrow> [(name, j)])"

definition name_in :: "(string \<times> 'a) list \<Rightarrow> 'a \<Rightarrow> string" where
  "name_in table x = (case find (\<lambda>p. snd p = x) table of None \<Rightarrow> [] | Some p \<Rightarrow> fst p)"

definition signer_body :: "signer_draft \<Rightarrow> json" where
  "signer_body d = JObj ([(''email'', JStr (dr_email d))] @ present ''name'' (map_option JStr (dr_name d))
     @ [(''role'', JStr (name_in signer_roles (dr_role d))), (''orderIndex'', JNum (int (dr_order d)))])"

definition wizard_body :: "id \<Rightarrow> wizard \<Rightarrow> json" where
  "wizard_body document w = JObj ([(''documentId'', JId document)]
     @ present ''title'' (map_option JStr (or_undefined (js_trim (wz_title w))))
     @ present ''message'' (map_option JStr (or_undefined (js_trim (wz_message w))))
     @ present ''deadline'' (map_option JDate (wz_deadline w))
     @ [(''mode'', JStr (name_in signing_modes (wz_mode w))), (''signers'', JArr (map signer_body (wz_signers w))),
        (''sendInvites'', JBool (\<not> wz_in_person w))])"

definition value_body :: "field_input \<Rightarrow> json" where
  "value_body f = JObj ([(''id'', JId (fi_id f))] @ present ''value'' (fi_value f))"

definition sign_form_body :: "request_field_row list \<Rightarrow> form_values \<Rightarrow> json" where
  "sign_form_body fs vs = JObj ([(''type'', JStr ''TYPED'')]
     @ (if field_payload fs vs = [] then [] else [(''fields'', JArr (map value_body (field_payload fs vs)))]))"

definition self_sign_body :: "id \<Rightarrow> id option \<Rightarrow> json" where
  "self_sign_body document template = JObj ([(''documentId'', JId document)] @ present ''templateId'' (map_option JId template))"

definition profile_body :: "string \<Rightarrow> json" where
  "profile_body display_name = JObj [(''displayName'', JStr display_name)]"

definition organization_body :: "string \<Rightarrow> string \<Rightarrow> string \<Rightarrow> json" where
  "organization_body name legal tax = JObj [(''name'', JStr name), (''legalName'', JStr legal), (''taxId'', JStr tax)]"

definition invite_roles :: "string list" where
  "invite_roles = [''MEMBER'', ''MANAGER'', ''AUDITOR'', ''ADMIN'']"

definition invite_body :: "string \<Rightarrow> string \<Rightarrow> json" where
  "invite_body email role = JObj [(''email'', JStr email), (''role'', JStr role)]"

definition webhook_body :: "string \<Rightarrow> string \<Rightarrow> json" where
  "webhook_body url description = JObj ([(''url'', JStr (js_trim url))]
     @ present ''description'' (map_option JStr (or_undefined (js_trim description))))"

definition document_body :: "string \<Rightarrow> string \<Rightarrow> json" where
  "document_body title description = JObj [(''title'', JStr title), (''description'', JStr description)]"

definition new_template_body :: "string \<Rightarrow> string \<Rightarrow> json" where
  "new_template_body name description = JObj ([(''name'', JStr (js_trim name))]
     @ present ''description'' (map_option JStr (or_undefined (js_trim description))) @ [(''fields'', JArr [])])"

definition new_organization_body :: "string \<Rightarrow> json" where
  "new_organization_body name = JObj [(''name'', JStr name)]"

section \<open>Agreement\<close>

declare map_of_append [simp del]

lemma map_of_present [simp]:
  "map_of (present n x @ fs) k = (if k = n \<and> x \<noteq> None then x else map_of fs k)"
  "map_of (present n x) k = (if k = n then x else None)"
  by (auto simp: present_def map_of_append split: option.split)

lemma keys_present [simp]: "map fst (present n x) = (if x = None then [] else [n])"
  by (auto simp: present_def)

lemma mode_name [simp]:
  "map_of signing_modes (name_in signing_modes a) = Some a" "name_in signing_modes a \<in> fst ` set signing_modes"
  by (cases a; simp add: signing_modes_def name_in_def)+

lemma role_name [simp]:
  "map_of signer_roles (name_in signer_roles r) = Some r" "name_in signer_roles r \<in> fst ` set signer_roles"
  by (cases r; simp add: signer_roles_def name_in_def)+

lemma signer_body_accepted: "documented v \<Longrightarrow> flat_ok v signer_dto (signer_body d)"
  by (cases "dr_name d") (simp_all add: flat_ok_def signer_body_def signer_dto_def property_ok_def text_in_def text_opt_def
    enum_opt_def documentedD present_def)

lemma signer_body_read: "documented v \<Longrightarrow> read_signer v (signer_body d) = Some (draft_input d)"
  by (cases "dr_name d") (simp_all add: read_signer_def signer_body_def draft_input_def text_of_def enum_of_def number_of_def
    given_def documentedD present_def)

lemma those_map_Some: "(\<And>x. x \<in> set xs \<Longrightarrow> f x = Some (g x)) \<Longrightarrow> those (map f xs) = Some (map g xs)"
  by (induction xs) simp_all

text \<open>
  C29: what the wizard sends is what the API works on: the body passes the validation pipe, and the
  handler reads from it exactly the request that the sender composed.
\<close>

theorem wizard_body_read:
  assumes "documented v"
  shows "accepts v create_request_dto (wizard_body document w)
    \<and> read_create v (wizard_body document w) = Some (submitted_request document w)"
proof
  have own: "list_all (property_ok v fs) (dt_own create_request_dto)"
    if "map_of fs ''documentId'' = Some (JId document)" "map_of fs ''title'' = map_option JStr title"
      "map_of fs ''message'' = map_option JStr message" "map_of fs ''deadline'' = map_option JDate deadline"
      "map_of fs ''mode'' = Some (JStr (name_in signing_modes mode))" "map_of fs ''sendInvites'' = Some (JBool inv)"
    for fs title message deadline mode inv
    using that assms by (cases title; cases message; cases deadline)
      (simp_all add: create_request_dto_def property_ok_def text_in_def text_opt_def enum_opt_def documentedD)
  have keys: "declared create_request_dto = [''documentId'', ''title'', ''message'', ''deadline'', ''mode'', ''sendInvites'',
      ''signers'', ''workflowRules'']"
    by (simp add: declared_def create_request_dto_def text_in_def text_opt_def enum_opt_def)
  obtain fs where fs: "wizard_body document w = JObj fs" by (simp add: wizard_body_def)
  have "list_all (\<lambda>k. k \<in> set (declared create_request_dto)) (map fst fs)"
    using fs unfolding keys by (auto simp: wizard_body_def)
  moreover have "list_all (property_ok v fs) (dt_own create_request_dto)"
    by (rule own [of _ "or_undefined (js_trim (wz_title w))" "or_undefined (js_trim (wz_message w))" "wz_deadline w" "wz_mode w"
      "\<not> wz_in_person w"]) (use fs in \<open>auto simp: wizard_body_def\<close>)
  moreover have "list_all (nested_ok v fs) (dt_nested create_request_dto)"
    using fs signer_body_accepted [OF assms]
    by (auto simp: wizard_body_def create_request_dto_def nested_ok_def list_all_iff)
  ultimately show "accepts v create_request_dto (wizard_body document w)" by (simp add: fs accepts_def)
  have "those (map (read_signer v) (map signer_body (wz_signers w))) = Some (map draft_input (wz_signers w))"
    using those_map_Some [of "wz_signers w" "\<lambda>d. read_signer v (signer_body d)" draft_input] signer_body_read [OF assms]
    by (simp add: comp_def)
  then show "read_create v (wizard_body document w) = Some (submitted_request document w)"
    using assms by (simp add: read_create_def wizard_body_def submitted_request_def elements_def id_of_def text_of_def
        date_of_def enum_of_def bool_of_def given_def documentedD or_undefined_def split: option.split)
qed

text \<open>
  C3: what the signing room sends is what \<open>sign\<close> works on, whatever JSON the values of the fields are.
\<close>

theorem sign_form_body_read:
  assumes "documented v"
  shows "accepts v sign_dto (sign_form_body fs vs) \<and> read_sign v (sign_form_body fs vs) = Some (sign_body fs vs)"
proof
  have elem: "flat_ok v field_value_dto (value_body f)" for f
    using assms by (cases "fi_value f") (simp_all add: flat_ok_def value_body_def field_value_dto_def property_ok_def text_in_def
        documentedD present_def)
  then show "accepts v sign_dto (sign_form_body fs vs)"
    using assms by (simp add: accepts_def sign_form_body_def sign_dto_def declared_def property_ok_def nested_ok_def text_opt_def
        enum_opt_def documentedD list_all_iff signature_types_def)
  have "read_field_value v (value_body f) = Some f" for f
    using assms by (cases "fi_value f") (simp_all add: read_field_value_def value_body_def id_of_def given_def documentedD present_def)
  then have "those (map (read_field_value v) (map value_body (field_payload fs vs))) = Some (field_payload fs vs)"
    using those_map_Some [of "field_payload fs vs" "\<lambda>f. read_field_value v (value_body f)" id] by (simp add: comp_def)
  then show "read_sign v (sign_form_body fs vs) = Some (sign_body fs vs)"
    using assms by (simp add: read_sign_def sign_form_body_def sign_body_def elements_def id_of_def text_of_def enum_of_def given_def
        documentedD signature_types_def)
qed

lemmas dto_simps = accepts_def flat_def declared_def property_ok_def text_in_def text_opt_def enum_in_def

lemma small_bodies_accepted:
  assumes "documented v"
  shows "accepts v update_profile_dto (profile_body name)"
    and "accepts v update_organization_dto (organization_body name legal tax)"
    and "accepts v update_document_dto (document_body title text)"
  using assms by (simp_all add: dto_simps update_profile_dto_def profile_body_def update_organization_dto_def organization_body_def
    update_document_dto_def document_body_def documentedD)

lemma self_sign_accepted: "documented v \<Longrightarrow> accepts v self_sign_dto (self_sign_body d t)"
  by (cases t) (simp_all add: dto_simps self_sign_dto_def self_sign_body_def present_def documentedD)

lemma new_template_accepted: "documented v \<Longrightarrow> accepts v create_template_dto (new_template_body name text)"
  by (simp add: dto_simps nested_ok_def create_template_dto_def new_template_body_def present_def or_undefined_def documentedD)

lemma invite_accepted:
  assumes "documented v" "role \<in> set invite_roles"
  shows "accepts v invite_member_dto (invite_body email role) \<longleftrightarrow> vl_holds v Is_Email (JStr email)"
proof -
  have "\<exists>x\<in>set membership_roles. JStr role = JStr x" using assms(2) by (auto simp: invite_roles_def membership_roles_def)
  with assms(1) show ?thesis by (simp add: dto_simps invite_member_dto_def invite_body_def documentedD)
qed

lemma webhook_accepted:
  "documented v \<Longrightarrow> accepts v create_webhook_dto (webhook_body url text) \<longleftrightarrow> vl_holds v Is_Url (JStr (js_trim url))"
  by (simp add: dto_simps create_webhook_dto_def webhook_body_def present_def or_undefined_def documentedD)

lemma organization_accepted:
  "documented v \<Longrightarrow> accepts v create_organization_dto (new_organization_body name) \<longleftrightarrow> 2 \<le> length name \<and> length name \<le> 120"
  by (simp add: dto_simps create_organization_dto_def new_organization_body_def documentedD)

text \<open>
  the other forms of the pages always pass the checks of types, and are refused only for what a
  text says: an invitation for an address that is no e-mail address, a webhook for a text that is no
  URL, a new organization for a name that is too short or too long.
\<close>

theorem page_bodies_accepted:
  assumes "documented v" "role \<in> set invite_roles"
  shows "accepts v self_sign_dto (self_sign_body d t) \<and> accepts v update_profile_dto (profile_body name)
    \<and> accepts v update_organization_dto (organization_body name legal tax) \<and> accepts v update_document_dto (document_body title text)
    \<and> accepts v create_template_dto (new_template_body name text)
    \<and> (accepts v invite_member_dto (invite_body email role) \<longleftrightarrow> vl_holds v Is_Email (JStr email))
    \<and> (accepts v create_webhook_dto (webhook_body url text) \<longleftrightarrow> vl_holds v Is_Url (JStr (js_trim url)))
    \<and> (accepts v create_organization_dto (new_organization_body name) \<longleftrightarrow> 2 \<le> length name \<and> length name \<le> 120)"
  using small_bodies_accepted [OF assms(1)] self_sign_accepted [OF assms(1)] new_template_accepted [OF assms(1)]
    invite_accepted [OF assms] webhook_accepted [OF assms(1)] organization_accepted [OF assms(1)] by blast

section \<open>A validator\<close>

definition plain_holds :: "decorator \<Rightarrow> json \<Rightarrow> bool" where
  "plain_holds c j = (case c of
     Is_String \<Rightarrow> is_text j
   | Each_String \<Rightarrow> (case j of JArr xs \<Rightarrow> list_all is_text xs | _ \<Rightarrow> False)
   | Is_Boolean \<Rightarrow> (case j of JBool _ \<Rightarrow> True | _ \<Rightarrow> False)
   | Is_Int \<Rightarrow> (case j of JNum _ \<Rightarrow> True | _ \<Rightarrow> False)
   | Is_Date \<Rightarrow> (case j of JDate _ \<Rightarrow> True | _ \<Rightarrow> False)
   | Is_Object \<Rightarrow> (case j of JObj _ \<Rightarrow> True | _ \<Rightarrow> False)
   | Is_Array \<Rightarrow> (case j of JArr _ \<Rightarrow> True | _ \<Rightarrow> False)
   | Is_Email \<Rightarrow> (case j of JStr x \<Rightarrow> email_pattern x | _ \<Rightarrow> False)
   | Is_Url \<Rightarrow> (case j of JStr x \<Rightarrow> prefix ''https://'' x | _ \<Rightarrow> False)
   | Is_Enum names \<Rightarrow> (case j of JStr x \<Rightarrow> x \<in> set names | _ \<Rightarrow> False)
   | At_Least k \<Rightarrow> (case j of JNum n \<Rightarrow> k \<le> n | _ \<Rightarrow> False)
   | At_Most k \<Rightarrow> (case j of JNum n \<Rightarrow> n \<le> k | _ \<Rightarrow> False)
   | Min_Length k \<Rightarrow> (case j of JStr x \<Rightarrow> k \<le> length x | _ \<Rightarrow> False)
   | Max_Length k \<Rightarrow> (case j of JStr x \<Rightarrow> length x \<le> k | _ \<Rightarrow> False)
   | Matches _ \<Rightarrow> is_text j)"

definition plain_validator :: validator where
  "plain_validator = \<lparr>vl_convert = (\<lambda>_ j. j), vl_holds = plain_holds,
     vl_text = (\<lambda>j. case j of JStr x \<Rightarrow> x | JId i \<Rightarrow> show_nat i | _ \<Rightarrow> []), vl_ident = length\<rparr>"

lemma plain_documented: "documented plain_validator"
  unfolding documented_def by (auto simp: plain_validator_def plain_holds_def split: json.split)


theorem wizard_body_read_witness:
  "read_create plain_validator (wizard_body 2 (run_wizard sample_actions ''Lease''))
     = Some (submitted_request 2 (run_wizard sample_actions ''Lease''))"
  using wizard_body_read [OF plain_documented] by blast

theorem sign_form_body_read_witness:
  "read_sign plain_validator (sign_form_body [] (\<lambda>_. None)) = Some (sign_body [] (\<lambda>_. None))"
  using sign_form_body_read [OF plain_documented] by blast

theorem page_bodies_accepted_witness:
  "accepts plain_validator invite_member_dto (invite_body ''ada@acme.test'' ''MEMBER'')
   \<and> \<not> accepts plain_validator create_organization_dto (new_organization_body ''A'')"
proof -
  have "email_pattern ''ada@acme.test''" by code_simp
  with page_bodies_accepted [OF plain_documented, of "''MEMBER''"] show ?thesis
    by (simp add: invite_roles_def plain_validator_def plain_holds_def)
qed

end
