(* ===== verification/Settings_Page.thy ===== *)
theory Settings_Page
  imports Browser Bodies Organization_Props
begin

text \<open>
  The settings page: apps/web/src/app/settings/settings-client.tsx, lib/org-members.ts and
  components/team-members-table.tsx. The state of the component is a record; its handlers run
  against a function that makes a call of the API. The last sections compose them with the API.
\<close>

section \<open>Calls of a page\<close>

type_synonym caller = "user_call \<Rightarrow> world \<Rightarrow> (reply, world) res"

text \<open>
  The message of an \<open>ApiError\<close>: both filters answer with a list of messages, which \<open>request\<close> joins;
  what is no HTTP exception gets the text of the last filter.
\<close>

definition error_text :: "http_error \<Rightarrow> string" where
  "error_text err = (case err of BadRequest m \<Rightarrow> m | Unauthorized m \<Rightarrow> m | Forbidden m \<Rightarrow> m | NotFound m \<Rightarrow> m | Conflict m \<Rightarrow> m
     | InternalError _ \<Rightarrow> ''An unexpected error occurred. Please try again or contact support.'')"

text \<open>The API for an authenticated account: its guards on the route, then the handler.\<close>

definition gated :: "env \<Rightarrow> deps \<Rightarrow> auth_user \<Rightarrow> caller" where
  "gated e d u c w = (case route_of (User_Call c) of
     None \<Rightarrow> fail (NotFound ''Cannot find the route'') w
   | Some rt \<Rightarrow> (case tenant_guard rt (Some u) of
       Some err \<Rightarrow> fail err w
     | None \<Rightarrow> (case permissions_guard rt (Some u) of Some err \<Rightarrow> fail err w | None \<Rightarrow> handle_user e d u c w)))"

section \<open>Members\<close>

record org_member =
  om_membership :: id
  om_user :: id
  om_email :: string
  om_name :: "string option"
  om_role :: membership_role

text \<open>\<open>None\<close> is the exception for an item without its user.\<close>

definition map_members :: "(membership_row \<times> user_row option) list \<Rightarrow> org_member list option" where
  "map_members items = those (map (\<lambda>(m, x). map_option (\<lambda>x. \<lparr>om_membership = m_id m, om_user = u_id x,
     om_email = u_email x, om_name = u_display_name x, om_role = m_role m\<rparr>) x) items)"

text \<open>The table offers to remove anybody but the owner.\<close>

definition removable :: "org_member \<Rightarrow> bool" where
  "removable m \<longleftrightarrow> om_role m \<noteq> OWNER"

section \<open>The component\<close>

datatype settings_tab = Profile_Tab | Organization_Tab | Team_Tab | Billing_Tab | Webhooks_Tab

text \<open>\<open>load\<close> shows the view of the organization, \<open>saveOrg\<close> the bare row that the update returns.\<close>

datatype shown_org = Shown_View org_view | Shown_Row org_row

record settings =
  st_tab :: settings_tab
  st_me :: "auth_user option"
  st_org :: "shown_org option"
  st_members :: "org_member list"
  st_loading :: bool
  st_error :: "string option"
  st_saving :: bool
  st_saved :: "string option"
  st_display_name :: string
  st_org_name :: string
  st_legal_name :: string
  st_tax_id :: string
  st_invite_email :: string
  st_invite_role :: string
  st_inviting :: bool
  st_removing :: "id option"

definition initial_settings :: settings where
  "initial_settings = \<lparr>st_tab = Profile_Tab, st_me = None, st_org = None, st_members = [], st_loading = True,
     st_error = None, st_saving = False, st_saved = None, st_display_name = [], st_org_name = [], st_legal_name = [],
     st_tax_id = [], st_invite_email = [], st_invite_role = ''MEMBER'', st_inviting = False, st_removing = None\<rparr>"

definition can_manage_members :: "settings \<Rightarrow> bool" where
  "can_manage_members st \<longleftrightarrow> (case Option.bind (st_me st) tenant_role_of of
     Some (TenantRole OWNER) \<Rightarrow> True | Some (TenantRole ADMIN) \<Rightarrow> True | _ \<Rightarrow> False)"

text \<open>\<open>Promise.all\<close>: the first rejection wins; \<open>org_first\<close> says whose comes first when both fail.\<close>

definition load_settings :: "caller \<Rightarrow> bool \<Rightarrow> world \<Rightarrow> settings \<Rightarrow> settings \<times> world" where
  "load_settings api org_first w st =
     (let st = st\<lparr>st_error := None\<rparr>;
          (me, w1) = api (Users_Call Auth_Me) w;
          (org, w2) = api (Org_Call Org_Current) w1
      in ((case (me, org) of
            (Inr (Users_Reply (Me u)), Inr (Org_Reply (Org v))) \<Rightarrow>
              st\<lparr>st_me := Some u, st_org := Some (Shown_View v), st_display_name := coalesce (au_display_name u) [],
                 st_org_name := o_name (ow_org v), st_legal_name := coalesce (o_legal_name (ow_org v)) [],
                 st_tax_id := coalesce (o_tax_id (ow_org v)) []\<rparr>
          | (Inl a, Inl b) \<Rightarrow> st\<lparr>st_error := Some (error_text (if org_first then b else a))\<rparr>
          | (Inl a, _) \<Rightarrow> st\<lparr>st_error := Some (error_text a)\<rparr>
          | (_, Inl b) \<Rightarrow> st\<lparr>st_error := Some (error_text b)\<rparr>
          | _ \<Rightarrow> st\<lparr>st_error := Some ''Failed to load settings''\<rparr>)
         \<lparr>st_loading := False\<rparr>, w2))"

text \<open>The list stays as it is when the call fails.\<close>

definition load_members :: "caller \<Rightarrow> world \<Rightarrow> settings \<Rightarrow> settings \<times> world" where
  "load_members api w st = (case api (Users_Call (Users_List None None (Some 50) None)) w of
     (Inr (Users_Reply (Members n l k items)), w') \<Rightarrow>
       (case map_members items of None \<Rightarrow> (st, w') | Some ms \<Rightarrow> (st\<lparr>st_members := ms\<rparr>, w'))
   | (_, w') \<Rightarrow> (st, w'))"

definition choose_tab :: "caller \<Rightarrow> settings_tab \<Rightarrow> world \<Rightarrow> settings \<Rightarrow> settings \<times> world" where
  "choose_tab api tab w st = (let st' = st\<lparr>st_tab := tab\<rparr>
     in if tab = Team_Tab \<and> st_tab st \<noteq> Team_Tab then load_members api w st' else (st', w))"

definition save_profile :: "caller \<Rightarrow> world \<Rightarrow> settings \<Rightarrow> settings \<times> world" where
  "save_profile api w st =
     (case api (Users_Call (Users_UpdateMe (Some (st_display_name st)) None None)) w of
        (Inr _, w') \<Rightarrow> (st\<lparr>st_saving := False, st_saved := Some ''Profile updated.''\<rparr>, w')
      | (Inl err, w') \<Rightarrow> (st\<lparr>st_saving := False, st_saved := None, st_error := Some (error_text err)\<rparr>, w'))"

definition save_org :: "caller \<Rightarrow> world \<Rightarrow> settings \<Rightarrow> settings \<times> world" where
  "save_org api w st =
     (case api (Org_Call (Org_Update \<lparr>oi_name = Some (st_org_name st), oi_legal_name = Some (st_legal_name st),
               oi_tax_id = Some (st_tax_id st), oi_branding = None\<rparr>)) w of
        (Inr (Org_Reply (Org_Row x)), w') \<Rightarrow>
          (st\<lparr>st_saving := False, st_org := Some (Shown_Row x), st_saved := Some ''Organization updated.''\<rparr>, w')
      | (Inr _, w') \<Rightarrow> (st\<lparr>st_saving := False, st_saved := Some ''Organization updated.''\<rparr>, w')
      | (Inl err, w') \<Rightarrow> (st\<lparr>st_saving := False, st_saved := None, st_error := Some (error_text err)\<rparr>, w'))"

text \<open>The role of the form is one of \<open>INVITE_ROLES\<close>; the handler reads it as its enum.\<close>

definition role_named :: "string \<Rightarrow> membership_role" where
  "role_named r = (if r = ''ADMIN'' then ADMIN else if r = ''MANAGER'' then MANAGER else if r = ''AUDITOR'' then AUDITOR else MEMBER)"

definition invite_from_form :: "caller \<Rightarrow> world \<Rightarrow> settings \<Rightarrow> settings \<times> world" where
  "invite_from_form api w st = (let email = js_trim (st_invite_email st) in
     if email = [] then (st, w)
     else (case api (Users_Call (Users_Invite email (role_named (st_invite_role st)) None)) w of
        (Inl err, w') \<Rightarrow> (st\<lparr>st_inviting := False, st_error := Some (error_text err), st_saved := None\<rparr>, w')
      | (Inr _, w') \<Rightarrow>
          (case load_members api w' (st\<lparr>st_error := None, st_invite_email := [],
               st_saved := Some (email @ '' was added to the organization as '' @ st_invite_role st @ ''.'')\<rparr>) of
             (st', w'') \<Rightarrow> (st'\<lparr>st_inviting := False\<rparr>, w''))))"

definition remove_from_table :: "caller \<Rightarrow> bool \<Rightarrow> org_member \<Rightarrow> world \<Rightarrow> settings \<Rightarrow> settings \<times> world" where
  "remove_from_table api confirmed m w st = (let label = coalesce (om_name m) (om_email m) in
     if \<not> confirmed then (st, w)
     else (case api (Users_Call (Users_Remove (om_membership m))) w of
        (Inl err, w') \<Rightarrow> (st\<lparr>st_removing := None, st_error := Some (error_text err), st_saved := None\<rparr>, w')
      | (Inr _, w') \<Rightarrow> (st\<lparr>st_removing := None, st_error := None,
          st_members := filter (\<lambda>x. om_membership x \<noteq> om_membership m) (st_members st),
          st_saved := Some (label @ '' was removed from the organization.'')\<rparr>, w')))"

text \<open>The billing tab: the account of the organization, when there is one to show.\<close>

definition shown_account :: "settings \<Rightarrow> (plan_code \<times> subscription_status \<times> int \<times> time option) option" where
  "shown_account st = (case st_org st of Some (Shown_View v) \<Rightarrow> ow_account v | _ \<Rightarrow> None)"

section \<open>The API behind the page\<close>

lemma serve_gated:
  assumes "jwt_guard cf jl e False (rh_headers rh) (fst w) = (Inr (Some u), s)"
  shows "fst (serve cf jl e d rh (User_Call c) w) = fst (gated e d u c (s, snd w))"
proof -
  from call_has_route [of "User_Call c"] obtain rt where rt: "route_of (User_Call c) = Some rt" by blast
  note pub = user_route_protected [OF rt]
  obtain v w1 where h: "handle_user e d u c (s, snd w) = (v, w1)" by (meson surj_pair)
  from assms pub have g: "guarded cf jl e rt (rh_headers rh) (fst w) =
      (case tenant_guard rt (Some u) of Some err \<Rightarrow> fail err s
       | None \<Rightarrow> (case permissions_guard rt (Some u) of Some err \<Rightarrow> fail err s | None \<Rightarrow> ok (Some u) s))"
    by (simp add: guarded_def)
  have "handle e d (rh_client rh) (Some u) (User_Call c) (s, snd w) = (v, w1)" by (simp add: handle_def h)
  then have "fst (audited e (request_info rh (Some u) (User_Call c)) (rh_duration rh)
      (handle e d (rh_client rh) (Some u) (User_Call c)) (s, snd w)) = v"
    by (simp add: audited_def intercept_def)
  then show ?thesis using rt g h by (simp add: serve_def gated_def split: option.split)
qed

definition current_route :: route where
  "current_route = override_all (permits [''organizations.read'']) tenant_required"

definition invite_route :: route where
  "invite_route = override_all (permits [''members.invite'']) tenant_required"

definition remove_route :: route where
  "remove_route = override_all (permits [''members.manage'']) tenant_required"

lemma page_routes:
  "route_of (User_Call (Org_Call Org_Current)) = Some current_route"
  "route_of (User_Call (Users_Call Auth_Me)) = Some \<lparr>rt_public = False, rt_tenant = False, rt_permissions = None\<rparr>"
  "route_of (User_Call (Users_Call (Users_UpdateMe a b c))) = Some rename_route"
  "route_of (User_Call (Users_Call (Users_Invite m r ws))) = Some invite_route"
  "route_of (User_Call (Users_Call (Users_Remove i))) = Some remove_route"
proof -
  have "map_option (snd \<circ> snd) (find (\<lambda>(m, p, rt). (m, p) = k) api_routes) = Some rt \<Longrightarrow> route_of c = Some rt"
    if "call_key c = k" for k c rt using that by (auto simp: route_of_def split: option.split prod.split)
  note r = this [rotated]
  show "route_of (User_Call (Org_Call Org_Current)) = Some current_route"
    "route_of (User_Call (Users_Call Auth_Me)) = Some \<lparr>rt_public = False, rt_tenant = False, rt_permissions = None\<rparr>"
    "route_of (User_Call (Users_Call (Users_UpdateMe a b c))) = Some rename_route"
    "route_of (User_Call (Users_Call (Users_Invite m r ws))) = Some invite_route"
    "route_of (User_Call (Users_Call (Users_Remove i))) = Some remove_route"
    by (rule r [where k = "(HttpGet, ''/api/v1/organizations/current'')"], code_simp, simp,
      rule r [where k = "(HttpGet, ''/api/v1/auth/me'')"], code_simp, simp,
      rule r [where k = "(HttpPatch, ''/api/v1/users/me'')"], code_simp, simp,
      rule r [where k = "(HttpPost, ''/api/v1/users/invite'')"], code_simp, simp,
      rule r [where k = "(HttpDelete, ''/api/v1/users/:id'')"], code_simp, simp)
qed

lemma gated_admitted:
  "route_of (User_Call c) = Some rt \<Longrightarrow> admitted rt (Some u) \<Longrightarrow> gated e d u c w = handle_user e d u c w"
  by (simp add: gated_def admitted_def)

lemma gated_refused:
  "route_of (User_Call c) = Some rt \<Longrightarrow> \<not> admitted rt (Some u) \<Longrightarrow> \<exists>m. gated e d u c w = (Inl (Forbidden m), w)"
  by (auto simp: gated_def admitted_def tenant_guard_def permissions_guard_def split: option.split if_split_asm)

section \<open>Who is offered what\<close>

lemma owner_codes: "''members.invite'' \<in> set all_codes" "''members.manage'' \<in> set all_codes" "''organizations.read'' \<in> set all_codes"
  by (simp_all add: all_codes_def permission_catalog_def)

lemma management_codes:
  "''members.invite'' \<in> set (codes_of r) \<longleftrightarrow> r \<in> {OWNER, ADMIN}" "''members.manage'' \<in> set (codes_of r) \<longleftrightarrow> r \<in> {OWNER, ADMIN}"
  "''organizations.read'' \<in> set (codes_of r) \<longleftrightarrow> r \<in> {OWNER, ADMIN}"
  by (cases r; simp add: codes_of_def owner_codes manager_codes_def auditor_codes_def user_codes_def)+

lemma needed_codes:
  "needed invite_route = [''members.invite'']" "needed remove_route = [''members.manage'']"
  "needed current_route = [''organizations.read'']" "needed rename_route = []"
  by code_simp+

lemma management_routes:
  "role_may r invite_route \<longleftrightarrow> r \<in> {OWNER, ADMIN}" "role_may r remove_route \<longleftrightarrow> r \<in> {OWNER, ADMIN}"
  "role_may r current_route \<longleftrightarrow> r \<in> {OWNER, ADMIN}" "role_may r rename_route"
  by (simp_all add: role_may_def needed_codes management_codes)

text \<open>
  the team tab offers to invite and to remove members exactly to those accounts that the
  guards and the service let do it, when their roles carry the permissions of the seed.
\<close>

theorem management_offered_iff:
  assumes "au_org u = Some tn" "tn_role tn = TenantRole r" "au_platform_role u = PlatformUser"
    and "set (tn_permissions tn) = set (codes_of r)" "st_me st = Some u"
  shows "can_manage_members st \<longleftrightarrow> admitted invite_route (Some u) \<and> admitted remove_route (Some u) \<and> assert_can_manage u = None"
proof -
  have "can_manage_members st \<longleftrightarrow> r \<in> {OWNER, ADMIN}"
    using assms(1,2,5) by (cases r) (simp_all add: can_manage_members_def tenant_role_of_def)
  moreover have "assert_can_manage u = None \<longleftrightarrow> r \<in> {OWNER, ADMIN}"
    using assms(1,2) by (cases r) (simp_all add: assert_can_manage_def tenant_role_of_def)
  ultimately show ?thesis using admitted_member [OF assms(1,3,4)] management_routes by simp
qed

definition principal_in :: "membership_role \<Rightarrow> auth_user" where
  "principal_in r = sample_principal\<lparr>au_org := Some \<lparr>tn_id = 1, tn_slug = ''acme'', tn_role = TenantRole r,
     tn_permissions = codes_of r\<rparr>\<rparr>"

lemma principal_in_simps [simp]:
  "au_org (principal_in r) = Some \<lparr>tn_id = 1, tn_slug = ''acme'', tn_role = TenantRole r, tn_permissions = codes_of r\<rparr>"
  "au_platform_role (principal_in r) = PlatformUser" "au_id (principal_in r) = Some 5" "org_of (principal_in r) = Some 1"
  by (simp_all add: principal_in_def sample_principal_def org_of_def)

theorem management_offered_iff_witness:
  "can_manage_members (initial_settings\<lparr>st_me := Some (principal_in ADMIN)\<rparr>)
   \<longleftrightarrow> admitted invite_route (Some (principal_in ADMIN)) \<and> admitted remove_route (Some (principal_in ADMIN))
     \<and> assert_can_manage (principal_in ADMIN) = None"
  using management_offered_iff [OF principal_in_simps(1) _ principal_in_simps(2), of ADMIN ADMIN
    "initial_settings\<lparr>st_me := Some (principal_in ADMIN)\<rparr>"] by simp

section \<open>A page that cannot load\<close>

lemma load_refused:
  assumes "au_org u = Some tn" "au_platform_role u = PlatformUser" "set (tn_permissions tn) = set (codes_of r)" "r \<notin> {OWNER, ADMIN}"
  shows "\<exists>m. load_settings (gated e d u) first w st = (st\<lparr>st_error := Some m, st_loading := False\<rparr>, w)"
proof -
  have "gated e d u (Users_Call Auth_Me) w = (Inr (Users_Reply (Me u)), w)"
    using gated_admitted [OF page_routes(2)] by (simp add: admitted_def tenant_guard_def permissions_guard_def on_world_def)
  moreover obtain m where "gated e d u (Org_Call Org_Current) w = (Inl (Forbidden m), w)"
    using gated_refused [OF page_routes(1)] admitted_member [OF assms(1-3)] management_routes(3) assms(4) by blast
  ultimately show ?thesis
    by (intro exI [of _ "error_text (Forbidden m)"]) (simp add: load_settings_def Let_def)
qed

text \<open>
  C32: for a manager, an auditor or a plain member the settings never load, because the page also asks
  for the organization, which their roles may not read; the empty form that is shown instead can be
  saved, and saving it erases the display name of the account.
\<close>

theorem blocked_settings_erase_name:
  assumes "au_org u = Some tn" "au_platform_role u = PlatformUser" "set (tn_permissions tn) = set (codes_of r)" "r \<notin> {OWNER, ADMIN}"
    and "au_id u = Some i" "find_row u_id i (users (fst w)) = Some usr"
    and "load_settings (gated e d u) first w initial_settings = (st1, w1)" "save_profile (gated e d u) w1 st1 = (st2, w2)"
  shows "st_me st1 = None \<and> st_error st1 \<noteq> None \<and> \<not> st_loading st1 \<and> st_saved st2 = Some ''Profile updated.''
    \<and> map_option u_display_name (find_row u_id i (users (fst w2))) = Some (Some [])"
proof -
  from load_refused [OF assms(1-4), of e d first w initial_settings] assms(7) obtain m where
    st1: "st1 = initial_settings\<lparr>st_error := Some m, st_loading := False\<rparr>" and w1: "w1 = w" by auto
  let ?f = "\<lambda>x. x\<lparr>u_display_name := coalesce_opt (Some []) (u_display_name x),
                 u_timezone := coalesce None (u_timezone x), u_locale := coalesce None (u_locale x)\<rparr>"
  have "admitted rename_route (Some u)" using admitted_member [OF assms(1-3)] management_routes(4) by simp
  then have "gated e d u (Users_Call (Users_UpdateMe (Some []) None None)) w
      = (Inr (Users_Reply (User (?f usr))), ((fst w)\<lparr>users := update_row u_id i ?f (users (fst w))\<rparr>, snd w))"
    using gated_admitted [OF page_routes(3)] assms(5,6) by (simp add: on_world_def on_rows_def update_profile_def Let_def)
  with assms(8) have st2: "st2 = st1\<lparr>st_saving := False, st_saved := Some ''Profile updated.''\<rparr>"
    and w2: "w2 = ((fst w)\<lparr>users := update_row u_id i ?f (users (fst w))\<rparr>, snd w)"
    by (simp_all add: save_profile_def w1 st1 initial_settings_def)
  have "find_row u_id i (users (fst w2)) = Some (?f usr)"
    unfolding w2 using assms(6) by (simp add: find_row_update_row)
  then show ?thesis by (simp add: st1 st2 initial_settings_def coalesce_opt_def)
qed

theorem blocked_settings_erase_name_witness:
  "\<exists>st1 w1 st2 w2. load_settings (gated sample_env sample_deps (principal_in MEMBER)) False (key_db, []) initial_settings = (st1, w1)
     \<and> save_profile (gated sample_env sample_deps (principal_in MEMBER)) w1 st1 = (st2, w2)
     \<and> map_option u_display_name (find_row u_id 5 (users (fst w2))) = Some (Some [])"
proof -
  let ?api = "gated sample_env sample_deps (principal_in MEMBER)"
  obtain st1 w1 where l: "load_settings ?api False (key_db, []) initial_settings = (st1, w1)" by (meson surj_pair)
  obtain st2 w2 where p: "save_profile ?api w1 st1 = (st2, w2)" by (meson surj_pair)
  have u: "find_row u_id 5 (users (fst ((key_db, []) :: world))) = Some sample_user"
    by (simp add: key_db_def access_db_def sample_user_def)
  from blocked_settings_erase_name [OF principal_in_simps(1,2) _ _ principal_in_simps(3) u l p] have
    "map_option u_display_name (find_row u_id 5 (users (fst w2))) = Some (Some [])" by simp
  with l p show ?thesis by blast
qed

section \<open>The list of members\<close>

lemma those_map_filter:
  assumes "those (map f xs) = Some ys" "\<And>x y. x \<in> set xs \<Longrightarrow> f x = Some y \<Longrightarrow> P x \<longleftrightarrow> Q y"
  shows "those (map f (filter P xs)) = Some (filter Q ys)"
  using assms by (induction xs arbitrary: ys) (auto split: option.split_asm)

lemma members_items:
  "map_members items = Some ms \<Longrightarrow> map_members (filter (\<lambda>(m, x). m_id m \<noteq> i) items) = Some (filter (\<lambda>x. om_membership x \<noteq> i) ms)"
  unfolding map_members_def by (rule those_map_filter) auto

lemma remove_member_result:
  "remove_member u i s = (Inr r, s') \<Longrightarrow> s' = s\<lparr>memberships := delete_many (\<lambda>y. m_id y = i) (memberships s)\<rparr>"
  by (auto simp: remove_member_def split: option.split_asm if_split_asm)

lemma handle_remove_effect:
  assumes "handle_user e d u (Users_Call (Users_Remove i)) w = (Inr r, w')"
  shows "w' = ((fst w)\<lparr>memberships := delete_many (\<lambda>y. m_id y = i) (memberships (fst w))\<rparr>, snd w)"
proof -
  obtain v s' where v: "remove_member u i (fst w) = (v, s')" by (meson surj_pair)
  with assms have "w' = (s', snd w)" and "\<not> isl v" by (cases v; simp add: on_world_def on_rows_def)+
  with remove_member_result [of u i "fst w"] v show ?thesis by (cases v) auto
qed

text \<open>
  after a member was removed the page shows exactly what loading the list again would show, as
  long as the organization has no more members than the page asks for.
\<close>

theorem removal_matches_reload:
  assumes "load_members (handle_user e d u) w st = (st1, w1)" "org_of u = Some org"
    and "length (filter (\<lambda>m. m_org m = org) (memberships (fst w))) \<le> 50"
    and "\<forall>m\<in>set (memberships (fst w)). m_org m = org \<longrightarrow> find_row u_id (m_user m) (users (fst w)) \<noteq> None"
    and "remove_from_table (handle_user e d u) True m w1 st1 = (st2, w2)" "st_error st2 = None"
  shows "st_members (fst (load_members (handle_user e d u) w2 st2)) = st_members st2
    \<and> om_membership m \<notin> om_membership ` set (st_members st2)"
proof -
  let ?s = "fst w"
  let ?ms = "filter (\<lambda>m. m_org m = org) (memberships ?s)"
  let ?items = "\<lambda>xs. map (\<lambda>m. (m, find_row u_id (m_user m) (users ?s))) xs"
  have list: "handle_user e d u (Users_Call (Users_List None None (Some 50) None)) (s', q)
      = (Inr (Users_Reply (Members (length xs) 50 0 (?items xs))), (s', q))"
    if "xs = filter (\<lambda>m. m_org m = org) (memberships s')" "users s' = users ?s" "length xs \<le> 50" for s' q xs
    using that assms(2) by (simp add: on_world_def on_rows_def list_members_def configured_def page_def Let_def)
  let ?item = "\<lambda>(m, x). map_option (\<lambda>x. \<lparr>om_membership = m_id m, om_user = u_id x, om_email = u_email x,
      om_name = u_display_name x, om_role = m_role m\<rparr>) x"
  have "\<exists>y. ?item x = Some y \<and> True" if "x \<in> set (?items ?ms)" for x using that assms(4) by auto
  from those_all [of "?items ?ms" ?item, OF this] obtain ms where ms: "map_members (?items ?ms) = Some ms"
    by (auto simp: map_members_def)
  have w1: "w1 = w" and st1: "st1 = st\<lparr>st_members := ms\<rparr>"
    using assms(1) list [of ?ms ?s "snd w"] assms(3) ms by (auto simp: load_members_def)
  let ?i = "om_membership m"
  have ok: "\<exists>r. handle_user e d u (Users_Call (Users_Remove ?i)) w = (Inr r, w2)"
    and st2: "st_members st2 = filter (\<lambda>x. om_membership x \<noteq> ?i) ms"
  proof -
    obtain r w' where run: "handle_user e d u (Users_Call (Users_Remove ?i)) w = (r, w')" by (meson surj_pair)
    then obtain v where "r = Inr v" using assms(5,6) by (cases r) (auto simp: remove_from_table_def Let_def w1 st1)
    with run assms(5) show "\<exists>r. handle_user e d u (Users_Call (Users_Remove ?i)) w = (Inr r, w2)"
      "st_members st2 = filter (\<lambda>x. om_membership x \<noteq> ?i) ms"
      by (auto simp: remove_from_table_def Let_def w1 st1)
  qed
  then have w2: "w2 = (?s\<lparr>memberships := delete_many (\<lambda>y. m_id y = ?i) (memberships ?s)\<rparr>, snd w)"
    using handle_remove_effect by blast
  let ?ms' = "filter (\<lambda>m. m_org m = org) (memberships (fst w2))"
  have ms': "?ms' = filter (\<lambda>y. m_id y \<noteq> ?i) ?ms" by (simp add: w2 delete_many_def conj_commute)
  have len: "length ?ms' \<le> 50"
    unfolding ms' by (rule order_trans [OF length_filter_le assms(3)])
  have "map_members (?items ?ms') = Some (st_members st2)"
    using members_items [OF ms, of ?i] by (simp add: ms' st2 filter_map comp_def)
  then have "load_members (handle_user e d u) w2 st2 = (st2\<lparr>st_members := st_members st2\<rparr>, w2)"
    using list [of ?ms' "fst w2" "snd w2", OF refl _ len] by (simp add: load_members_def w2)
  then show ?thesis using st2 by auto
qed

text \<open>Saving the organization hides its billing account until the page is loaded again.\<close>

theorem saved_organization_hides_account:
  assumes "save_org api w st = (st', w')" "api (Org_Call (Org_Update \<lparr>oi_name = Some (st_org_name st),
      oi_legal_name = Some (st_legal_name st), oi_tax_id = Some (st_tax_id st), oi_branding = None\<rparr>)) w = (Inr (Org_Reply (Org_Row x)), w')"
  shows "shown_account st' = None"
  using assms by (auto simp: save_org_def shown_account_def)

definition team_db :: db where
  "team_db = empty_db\<lparr>users := [sample_user, invited_user ''bob@acme.test'' 8],
     memberships := [\<lparr>m_id = 6, m_org = 1, m_user = 5, m_role = OWNER, m_role_id = None\<rparr>,
       \<lparr>m_id = 7, m_org = 1, m_user = 8, m_role = MEMBER, m_role_id = None\<rparr>]\<rparr>"

theorem removal_matches_reload_witness:
  "\<exists>st1 w1 st2 w2. let api = handle_user sample_env sample_deps (principal_in OWNER) in
     load_members api (team_db, []) initial_settings = (st1, w1)
     \<and> remove_from_table api True \<lparr>om_membership = 7, om_user = 8, om_email = ''bob@acme.test'', om_name = None, om_role = MEMBER\<rparr> w1 st1 = (st2, w2)
     \<and> st_members (fst (load_members api w2 st2)) = st_members st2 \<and> 7 \<notin> om_membership ` set (st_members st2)"
proof -
  let ?api = "handle_user sample_env sample_deps (principal_in OWNER)"
  let ?m = "\<lparr>om_membership = 7, om_user = 8, om_email = ''bob@acme.test'', om_name = None, om_role = MEMBER\<rparr>"
  have list: "\<exists>st1. load_members ?api (team_db, []) initial_settings = (st1, (team_db, []))"
    by (simp add: load_members_def on_world_def on_rows_def list_members_def configured_def page_def Let_def team_db_def
        map_members_def sample_user_def invited_user_def)
  then obtain st1 where l: "load_members ?api (team_db, []) initial_settings = (st1, (team_db, []))" by blast
  have "assert_can_manage (principal_in OWNER) = None" by (simp add: assert_can_manage_def tenant_role_of_def)
  then have "\<exists>st2 w2. remove_from_table ?api True ?m (team_db, []) st1 = (st2, w2) \<and> st_error st2 = None"
    by (simp add: remove_from_table_def Let_def on_world_def on_rows_def remove_member_def team_db_def)
  then obtain st2 w2 where r: "remove_from_table ?api True ?m (team_db, []) st1 = (st2, w2)" "st_error st2 = None" by blast
  have "st_members (fst (load_members ?api w2 st2)) = st_members st2 \<and> om_membership ?m \<notin> om_membership ` set (st_members st2)"
    by (rule removal_matches_reload [OF l _ _ _ r, of 1]) (simp_all add: team_db_def sample_user_def invited_user_def)
  with l r(1) show ?thesis
    by (intro exI [of _ st1] exI [of _ "(team_db, [])"] exI [of _ st2] exI [of _ w2]) (simp add: Let_def)
qed

end
