(* ===== verification/Webhook_Panel.thy ===== *)
theory Webhook_Panel
  imports Settings_Page Webhook_Api
begin

text \<open>
  components/webhook-endpoints-panel.tsx: the list of webhook endpoints with their health, and its
  buttons. How a date is shown is a parameter; of the colours only their names are kept.
\<close>

section \<open>What a row shows\<close>

datatype tone = Green | Amber | Red | Gray

definition status_tone :: "health_status \<Rightarrow> tone" where
  "status_tone st = (case st of Healthy \<Rightarrow> Green | Failing \<Rightarrow> Amber | Disabled \<Rightarrow> Red)"

definition status_label :: "health_status \<Rightarrow> string" where
  "status_label st = (case st of Healthy \<Rightarrow> ''Healthy'' | Failing \<Rightarrow> ''Failing'' | Disabled \<Rightarrow> ''Disabled'')"

text \<open>The dash in UTF-8.\<close>

definition em_dash :: string where
  "em_dash = [CHR 0xE2, CHR 0x80, CHR 0x94]"

definition health_detail :: "(time \<Rightarrow> string) \<Rightarrow> health \<Rightarrow> tone \<times> string" where
  "health_detail show_date h =
     (if he_status h = Disabled then
        (Red, coalesce (he_reason h) ''This endpoint is disabled. Re-enable it once the subscriber is fixed.'')
      else if he_status h = Failing then
        (Amber, show_nat (he_failures h) @ '' delivery attempt(s) failed since the last success''
           @ (case configured (he_last_error h) of None \<Rightarrow> [] | Some x \<Rightarrow> '' '' @ em_dash @ '' last error: '' @ x)
           @ '' ('' @ (case he_last_failure h of None \<Rightarrow> ''recently'' | Some t \<Rightarrow> show_date t) @ '').'')
      else (Green, (case he_last_success h of None \<Rightarrow> ''No deliveries yet.''
           | Some t \<Rightarrow> ''Last delivered '' @ show_date t @ ''.'')))"

definition events_label :: "string list \<Rightarrow> string" where
  "events_label evs = (if ''*'' \<in> set evs then ''All events'' else js_join '', '' evs)"

definition offers_enable :: "endpoint_row \<Rightarrow> bool" where
  "offers_enable ep \<longleftrightarrow> \<not> wh_active ep"

definition offers_ping :: "endpoint_row \<Rightarrow> bool \<Rightarrow> bool" where
  "offers_ping ep busy \<longleftrightarrow> wh_active ep \<and> \<not> busy"

definition delivery_tone :: "delivery_status \<Rightarrow> tone" where
  "delivery_tone st = (case st of DlDelivered \<Rightarrow> Green | DlFailed \<Rightarrow> Red | _ \<Rightarrow> Gray)"

section \<open>The component\<close>

record panel =
  pn_endpoints :: "(endpoint_row \<times> health) list"
  pn_deliveries :: "delivery_row list"
  pn_loading :: bool
  pn_forbidden :: bool
  pn_error :: "string option"
  pn_notice :: "string option"
  pn_busy :: "id option"
  pn_creating :: bool
  pn_form :: bool
  pn_url :: string
  pn_description :: string
  pn_created :: "(id \<times> string) option"

definition initial_panel :: panel where
  "initial_panel = \<lparr>pn_endpoints = [], pn_deliveries = [], pn_loading = True, pn_forbidden = False, pn_error = None,
     pn_notice = None, pn_busy = None, pn_creating = False, pn_form = False, pn_url = [], pn_description = [],
     pn_created = None\<rparr>"

definition is_forbidden :: "http_error \<Rightarrow> bool" where
  "is_forbidden err \<longleftrightarrow> status_of err = 403"

text \<open>The two lists are asked for together; \<open>log_first\<close> says which rejection comes first when both fail.\<close>

definition load_panel :: "caller \<Rightarrow> bool \<Rightarrow> world \<Rightarrow> panel \<Rightarrow> panel \<times> world" where
  "load_panel api log_first w pn =
     (let (eps, w1) = api (Hook_Call Hook_List) w;
          (dls, w2) = api (Hook_Call (Hook_Deliveries None)) w1;
          rejected = (\<lambda>err. if is_forbidden err then pn\<lparr>pn_error := None, pn_forbidden := True, pn_loading := False\<rparr>
                            else pn\<lparr>pn_error := Some (error_text err), pn_loading := False\<rparr>)
      in (case (eps, dls) of
            (Inr (Hook_Reply (Endpoints es)), Inr (Hook_Reply (Deliveries ds))) \<Rightarrow>
              (pn\<lparr>pn_endpoints := es, pn_deliveries := ds, pn_forbidden := False, pn_error := None, pn_loading := False\<rparr>, w2)
          | (Inl a, Inl b) \<Rightarrow> (rejected (if log_first then b else a), w2)
          | (Inl a, _) \<Rightarrow> (rejected a, w2)
          | (_, Inl b) \<Rightarrow> (rejected b, w2)
          | _ \<Rightarrow> (pn\<lparr>pn_error := Some ''Failed to load webhook endpoints'', pn_loading := False\<rparr>, w2)))"

definition panel_failed :: "http_error \<Rightarrow> panel \<Rightarrow> panel" where
  "panel_failed err pn = pn\<lparr>pn_error := Some (error_text err), pn_notice := None, pn_busy := None\<rparr>"

definition panel_enable :: "caller \<Rightarrow> bool \<Rightarrow> id \<Rightarrow> world \<Rightarrow> panel \<Rightarrow> panel \<times> world" where
  "panel_enable api log_first i w pn = (case api (Hook_Call (Hook_Enable i)) w of
     (Inl err, w') \<Rightarrow> (panel_failed err pn, w')
   | (Inr _, w') \<Rightarrow> (case load_panel api log_first w' (pn\<lparr>pn_notice := Some ''Endpoint re-enabled. Its signing secret is unchanged.''\<rparr>) of
       (pn', w'') \<Rightarrow> (pn'\<lparr>pn_busy := None\<rparr>, w'')))"

definition panel_ping :: "caller \<Rightarrow> id \<Rightarrow> world \<Rightarrow> panel \<Rightarrow> panel \<times> world" where
  "panel_ping api i w pn = (case api (Hook_Call (Hook_Ping i)) w of
     (Inl err, w') \<Rightarrow> (panel_failed err pn, w')
   | (Inr _, w') \<Rightarrow> (pn\<lparr>pn_notice := Some ''Ping queued. Give the delivery log a moment to show the result.'', pn_busy := None\<rparr>, w'))"

definition panel_remove :: "caller \<Rightarrow> bool \<Rightarrow> bool \<Rightarrow> id \<Rightarrow> world \<Rightarrow> panel \<Rightarrow> panel \<times> world" where
  "panel_remove api log_first confirmed i w pn = (if \<not> confirmed then (pn, w)
     else (case api (Hook_Call (Hook_Remove i)) w of
        (Inl err, w') \<Rightarrow> (panel_failed err pn, w')
      | (Inr _, w') \<Rightarrow> (case load_panel api log_first w' (pn\<lparr>pn_notice := Some ''Endpoint removed.''\<rparr>) of
          (pn', w'') \<Rightarrow> (pn'\<lparr>pn_busy := None\<rparr>, w''))))"

text \<open>The button is disabled while the URL is blank.\<close>

definition panel_create :: "caller \<Rightarrow> bool \<Rightarrow> world \<Rightarrow> panel \<Rightarrow> panel \<times> world" where
  "panel_create api log_first w pn = (if js_trim (pn_url pn) = [] then (pn, w)
     else (case api (Hook_Call (Hook_Create (js_trim (pn_url pn)) None (or_undefined (js_trim (pn_description pn))))) w of
        (Inr (Hook_Reply (Endpoint ep)), w') \<Rightarrow>
          (case load_panel api log_first w' (pn\<lparr>pn_error := None, pn_notice := None, pn_created := Some (wh_id ep, wh_secret ep),
               pn_url := [], pn_description := [], pn_form := False\<rparr>) of
             (pn', w'') \<Rightarrow> (pn'\<lparr>pn_creating := False\<rparr>, w''))
      | (Inr _, w') \<Rightarrow> (pn\<lparr>pn_error := Some ''Failed to register endpoint'', pn_notice := None, pn_creating := False\<rparr>, w')
      | (Inl err, w') \<Rightarrow> (pn\<lparr>pn_error := Some (error_text err), pn_notice := None, pn_creating := False\<rparr>, w')))"

section \<open>The panel and the API\<close>

text \<open>Both lists of an account in a tenant are answered.\<close>

definition shown_endpoints :: "env \<Rightarrow> id \<Rightarrow> db \<Rightarrow> (endpoint_row \<times> health) list" where
  "shown_endpoints e org s = map (\<lambda>ep. (ep, describe_health ep (e_now e) s)) (rev (filter (\<lambda>ep. wh_org ep = org) (endpoints s)))"

lemma panel_loads:
  assumes "org_of u = Some org"
  shows "\<exists>ds. load_panel (handle_user e d u) first w pn = (pn\<lparr>pn_endpoints := shown_endpoints e org (fst w),
    pn_deliveries := ds, pn_forbidden := False, pn_error := None, pn_loading := False\<rparr>, w)"
  using assms by (simp add: load_panel_def Let_def on_world_def on_rows_def list_endpoints_def list_deliveries_def
    shown_endpoints_def) metis

text \<open>Every row on display says what the table holds.\<close>

definition panel_current :: "env \<Rightarrow> id \<Rightarrow> db \<Rightarrow> panel \<Rightarrow> bool" where
  "panel_current e org s pn \<longleftrightarrow> pn_endpoints pn = shown_endpoints e org s"

lemma shown_disabled:
  assumes "(ep, h) \<in> set (shown_endpoints e org s)"
  shows "ep \<in> set (endpoints s)" "wh_org ep = org" "he_status h = Disabled \<longleftrightarrow> \<not> wh_active ep"
    "he_status h = Disabled \<Longrightarrow> he_reason h \<noteq> None"
  using assms by (auto simp: shown_endpoints_def describe_health_def Let_def split: if_split_asm)

text \<open>
  the row of an endpoint offers to enable it exactly when its badge says that it is disabled, and
  then gives the reason; pressing the button makes it active again, clears the badge in the reloaded
  list, and changes the rows of no other endpoint.
\<close>

theorem enable_from_panel:
  assumes "org_of u = Some org" "panel_current e org (fst w) pn" "(ep, h) \<in> set (pn_endpoints pn)" "offers_enable ep"
    and "distinct (map wh_id (endpoints (fst w)))"
    and "panel_enable (handle_user e d u) first (wh_id ep) w pn = (pn', w')"
  shows "status_label (he_status h) = ''Disabled'' \<and> he_reason h \<noteq> None \<and> pn_error pn' = None
    \<and> panel_current e org (fst w') pn'
    \<and> (\<exists>h'. (ep\<lparr>wh_active := True, wh_disabled := None\<rparr>, h') \<in> set (pn_endpoints pn') \<and> status_label (he_status h') \<noteq> ''Disabled'')
    \<and> (\<forall>x\<in>set (endpoints (fst w)). wh_id x \<noteq> wh_id ep \<longrightarrow> x \<in> set (endpoints (fst w')))"
proof -
  let ?f = "\<lambda>ep. ep\<lparr>wh_active := True, wh_disabled := None\<rparr>"
  have mem: "ep \<in> set (endpoints (fst w))" "wh_org ep = org" "he_status h = Disabled" "he_reason h \<noteq> None"
    using shown_disabled [of ep h e org "fst w"] assms(2-4) by (auto simp: panel_current_def offers_enable_def)
  have "find_endpoint org (wh_id ep) (fst w) = Some ep"
    unfolding find_endpoint_def
    by (rule find_unique [OF mem(1)]) (use mem assms(5) in \<open>auto simp: distinct_map dest: inj_onD\<close>)
  then have "handle_user e d u (Hook_Call (Hook_Enable (wh_id ep))) w =
      (Inr (Hook_Reply (Health (describe_health (?f ep) (e_now e) (update_endpoint (wh_id ep) ?f (fst w))))),
       (update_endpoint (wh_id ep) ?f (fst w), snd w))"
    using assms(1) by (simp add: on_world_def on_rows_def set_active_def Let_def)
  with assms(6) panel_loads [OF assms(1), of e d first "(update_endpoint (wh_id ep) ?f (fst w), snd w)"
      "pn\<lparr>pn_notice := Some ''Endpoint re-enabled. Its signing secret is unchanged.''\<rparr>"]
  have w': "fst w' = update_endpoint (wh_id ep) ?f (fst w)" and pn': "pn_endpoints pn' = shown_endpoints e org (fst w')"
    "pn_error pn' = None"
    by (auto simp: panel_enable_def)
  have new: "?f ep \<in> set (endpoints (fst w'))"
    using mem(1) by (force simp: w' update_endpoint_def update_row_def)
  have keep: "x \<in> set (endpoints (fst w'))" if "x \<in> set (endpoints (fst w))" "wh_id x \<noteq> wh_id ep" for x
    using that by (force simp: w' update_endpoint_def update_row_def)
  have "(?f ep, describe_health (?f ep) (e_now e) (fst w')) \<in> set (pn_endpoints pn')"
    using new mem(2) by (auto simp: pn' shown_endpoints_def)
  moreover have "he_status (describe_health (?f ep) (e_now e) (fst w')) \<noteq> Disabled"
    by (simp add: describe_health_def Let_def)
  ultimately show ?thesis
    using mem pn' keep by (auto simp: panel_current_def status_label_def split: health_status.split)
qed

definition panel_db :: db where
  "panel_db = empty_db\<lparr>endpoints := [sample_endpoint\<lparr>wh_active := False\<rparr>]\<rparr>"

theorem enable_from_panel_witness:
  "\<exists>pn h pn' w'. panel_enable (handle_user sample_env sample_deps sample_principal) False 3 (panel_db, []) pn = (pn', w')
     \<and> (sample_endpoint\<lparr>wh_active := False\<rparr>, h) \<in> set (pn_endpoints pn) \<and> status_label (he_status h) = ''Disabled''
     \<and> pn_error pn' = None \<and> panel_current sample_env 1 (fst w') pn'"
proof -
  let ?api = "handle_user sample_env sample_deps sample_principal"
  let ?ep = "sample_endpoint\<lparr>wh_active := False\<rparr>"
  let ?pn = "initial_panel\<lparr>pn_endpoints := shown_endpoints sample_env 1 panel_db\<rparr>"
  obtain pn' w' where run: "panel_enable ?api False (wh_id ?ep) (panel_db, []) ?pn = (pn', w')" by (meson surj_pair)
  have org: "org_of sample_principal = Some 1" by (simp add: org_of_def sample_principal_def)
  have current: "panel_current sample_env 1 (fst (panel_db, [])) ?pn" by (simp add: panel_current_def)
  have mem: "(?ep, describe_health ?ep (e_now sample_env) panel_db) \<in> set (pn_endpoints ?pn)"
    by (simp add: shown_endpoints_def panel_db_def sample_endpoint_def)
  have off: "offers_enable ?ep" by (simp add: offers_enable_def)
  have "wh_id ?ep = 3" by (simp add: sample_endpoint_def)
  with enable_from_panel [OF org current mem off _ run] run mem show ?thesis
    by (intro exI [of _ ?pn] exI [of _ "describe_health ?ep (e_now sample_env) panel_db"] exI [of _ pn'] exI [of _ w'])
      (simp add: panel_db_def)
qed

text \<open>
  A failed action leaves its message until the list is loaded again: a later ping that succeeds is
  announced next to the error of the earlier one.
\<close>

theorem ping_keeps_old_error:
  assumes "api (Hook_Call (Hook_Ping i)) w = (Inl err, w1)" "api (Hook_Call (Hook_Ping j)) w1 = (Inr r, w2)"
    and "panel_ping api i w pn = (pn1, w1)" "panel_ping api j w1 pn1 = (pn2, w2)"
  shows "pn_error pn2 = Some (error_text err) \<and> pn_notice pn2 \<noteq> None"
  using assms by (auto simp: panel_ping_def panel_failed_def)

theorem ping_keeps_old_error_witness:
  "\<exists>pn1 w1 pn2 w2. let api = handle_user sample_env sample_deps sample_principal in
     panel_ping api 9 (panel_db, []) initial_panel = (pn1, w1) \<and> panel_ping api 3 w1 pn1 = (pn2, w2)
     \<and> pn_error pn2 = Some ''Webhook endpoint not found'' \<and> pn_notice pn2 \<noteq> None"
proof -
  let ?api = "handle_user sample_env sample_deps sample_principal"
  have org: "org_of sample_principal = Some 1" by (simp add: org_of_def sample_principal_def)
  have a: "?api (Hook_Call (Hook_Ping 9)) (panel_db, []) = (Inl (NotFound ''Webhook endpoint not found''), (panel_db, []))"
    using org by (simp add: on_world_def on_rows_def ping_def find_endpoint_def panel_db_def sample_endpoint_def)
  have "\<exists>r w2. ?api (Hook_Call (Hook_Ping 3)) (panel_db, []) = (Inr r, w2)"
    using org by (simp add: on_world_def on_rows_def ping_def find_endpoint_def panel_db_def sample_endpoint_def Let_def split: prod.split)
  then obtain r w2 where b: "?api (Hook_Call (Hook_Ping 3)) (panel_db, []) = (Inr r, w2)" by blast
  obtain pn1 where p1: "panel_ping ?api 9 (panel_db, []) initial_panel = (pn1, (panel_db, []))"
    by (simp only: panel_ping_def a prod.case sum.case)
  obtain pn2 where p2: "panel_ping ?api 3 (panel_db, []) pn1 = (pn2, w2)"
    by (simp only: panel_ping_def b prod.case sum.case)
  from ping_keeps_old_error [of ?api 9, OF a b p1 p2] p1 p2 show ?thesis
    by (intro exI [of _ pn1] exI [of _ "(panel_db, [])"] exI [of _ pn2] exI [of _ w2])
      (simp only: Let_def error_text_def http_error.case simp_thms)
qed

end
