(* ===== verification/Document_Pages.thy ===== *)
theory Document_Pages
  imports Settings_Page Complex_Main
begin

text \<open>
  The pages on documents: app/documents/documents-client.tsx (list and upload),
  app/documents/[id]/document-detail-client.tsx, self-sign-panel.tsx, app/templates/new and
  app/dashboard/dashboard-client.tsx. A page is a record, its handlers run against a function that
  makes a call of the API; where the browser is sent to is a field. \<open>Number\<close> on a byte count and
  its quotients by 1024 are exact below \<open>2 ^ 53\<close>, so they are rationals here.
\<close>

section \<open>Sizes\<close>

function scale_bytes :: "nat \<Rightarrow> rat \<Rightarrow> nat \<times> rat" where
  "scale_bytes unit v = (if 1024 \<le> v \<and> unit < 3 then scale_bytes (unit + 1) (v / 1024) else (unit, v))"
  by auto

termination scale_bytes
  by (relation "measure (\<lambda>(unit, v). 3 - unit)") auto

declare scale_bytes.simps [simp del]

text \<open>\<open>toFixed\<close> of the language on a number that is not negative: a tie goes to the larger.\<close>

definition to_fixed :: "rat \<Rightarrow> nat \<Rightarrow> string" where
  "to_fixed v k = (let n = nat \<lfloor>v * 10 ^ k + 1 / 2\<rfloor> in if k = 0 then show_nat n
     else let t = show_nat (n mod 10 ^ k) in show_nat (n div 10 ^ k) @ ''.'' @ replicate (k - length t) (CHR ''0'') @ t)"

text \<open>The argument is the decimal text of the \<open>BigInt\<close> column, read as a number.\<close>

definition format_bytes :: "nat \<Rightarrow> string" where
  "format_bytes n = (if n = 0 then [CHR 0xE2, CHR 0x80, CHR 0x94]
     else (case scale_bytes 0 (of_nat n) of (unit, v) \<Rightarrow>
       to_fixed v (if 10 \<le> v \<or> unit = 0 then 0 else 1) @ '' '' @ [''B'', ''KB'', ''MB'', ''GB''] ! unit))"

lemma scale_bytes_scaled:
  assumes "scale_bytes unit v = (k, q)" "0 \<le> v" "unit \<le> 3" "unit = 0 \<or> 1 \<le> v"
  shows "q * 1024 ^ k = v * 1024 ^ unit \<and> unit \<le> k \<and> k \<le> 3 \<and> (k < 3 \<longrightarrow> q < 1024) \<and> (k = 0 \<or> 1 \<le> q)"
  using assms
proof (induction unit v arbitrary: k q rule: scale_bytes.induct)
  case (1 unit v)
  show ?case
  proof (cases "1024 \<le> v \<and> unit < 3")
    case True
    with 1(2) have s: "scale_bytes (unit + 1) (v / 1024) = (k, q)" by (simp add: scale_bytes.simps [of unit v])
    have ih: "q * 1024 ^ k = v / 1024 * 1024 ^ (unit + 1) \<and> unit + 1 \<le> k \<and> k \<le> 3 \<and> (k < 3 \<longrightarrow> q < 1024) \<and> (k = 0 \<or> 1 \<le> q)"
      by (rule 1(1) [OF True s]) (use 1(3) True in simp_all)
    then have "k \<noteq> 0" by simp
    with ih show ?thesis by simp
  next
    case False
    with 1(2) have "k = unit" "q = v" by (auto simp: scale_bytes.simps [of unit v])
    with False 1(4,5) show ?thesis by auto
  qed
qed

section \<open>The list of documents\<close>

record documents_page =
  ls_items :: "document_row list"
  ls_loading :: bool
  ls_uploading :: bool
  ls_error :: "string option"
  ls_templates :: "(template_row \<times> nat \<times> nat) list"
  ls_template :: "id option"

definition initial_documents :: documents_page where
  "initial_documents = \<lparr>ls_items = [], ls_loading = True, ls_uploading = False, ls_error = None, ls_templates = [],
     ls_template = None\<rparr>"

definition recent_query :: "nat \<Rightarrow> document_query" where
  "recent_query n = \<lparr>dq_status = None, dq_workspace = None, dq_search = None, dq_limit = Some n, dq_offset = None\<rparr>"

definition load_documents :: "caller \<Rightarrow> world \<Rightarrow> documents_page \<Rightarrow> documents_page \<times> world" where
  "load_documents api w p = (case api (Doc_Call (Doc_List (recent_query 50))) w of
     (Inr (Doc_Reply (Documents n pg ds)), w') \<Rightarrow> (p\<lparr>ls_error := None, ls_items := ds, ls_loading := False\<rparr>, w')
   | (Inr _, w') \<Rightarrow> (p\<lparr>ls_error := None, ls_loading := False\<rparr>, w')
   | (Inl err, w') \<Rightarrow> (p\<lparr>ls_error := Some (error_text err), ls_loading := False\<rparr>, w'))"

definition load_templates :: "caller \<Rightarrow> world \<Rightarrow> documents_page \<Rightarrow> documents_page \<times> world" where
  "load_templates api w p = (case api (Tpl_Call (Tpl_List None None (Some 100) None)) w of
     (Inr (Tpl_Reply (Templates n ts)), w') \<Rightarrow> (p\<lparr>ls_templates := ts\<rparr>, w')
   | (_, w') \<Rightarrow> (p, w'))"

text \<open>\<open>file.name.replace(/\.[^.]+$/, '')\<close>: the last dot and what follows, when something follows.\<close>

definition without_extension :: "string \<Rightarrow> string" where
  "without_extension name = (let ext = takeWhile (\<lambda>c. c \<noteq> CHR ''.'') (rev name)
     in if ext = [] \<or> ext = rev name then name else take (length name - length ext - 1) name)"

text \<open>The upload goes through \<open>fetch\<close>: its refusals have one message, and no refresh is tried.\<close>

definition upload_selected :: "caller \<Rightarrow> upload_file option \<Rightarrow> world \<Rightarrow> documents_page \<Rightarrow> documents_page \<times> world" where
  "upload_selected api f w p = (case f of
     None \<Rightarrow> (p, w)
   | Some f \<Rightarrow> (case api (Doc_Call (Doc_Upload (Some f) \<lparr>up_title = Some (without_extension (fi_name f)), up_workspace = None,
            up_tags = None, up_description = None, up_template = ls_template p\<rparr>)) w of
        (Inl _, w') \<Rightarrow> (p\<lparr>ls_uploading := False, ls_error := Some ''Upload failed''\<rparr>, w')
      | (Inr _, w') \<Rightarrow> (case load_documents api w' (p\<lparr>ls_error := None\<rparr>) of
          (p', w'') \<Rightarrow> (p'\<lparr>ls_uploading := False\<rparr>, w''))))"

section \<open>One document\<close>

record detail_page =
  dd_id :: id
  dd_doc :: "(document_row \<times> version_row list \<times> request_row list) option"
  dd_loading :: bool
  dd_error :: "string option"
  dd_busy :: "string option"
  dd_editing :: bool
  dd_title :: string
  dd_description :: string
  dd_goto :: "string option"
  dd_opened :: "string list"

definition initial_detail :: "id \<Rightarrow> detail_page" where
  "initial_detail i = \<lparr>dd_id = i, dd_doc = None, dd_loading = True, dd_error = None, dd_busy = None, dd_editing = False,
     dd_title = [], dd_description = [], dd_goto = None, dd_opened = []\<rparr>"

definition load_detail :: "caller \<Rightarrow> world \<Rightarrow> detail_page \<Rightarrow> detail_page \<times> world" where
  "load_detail api w p = (case api (Doc_Call (Doc_Get (dd_id p))) w of
     (Inr (Doc_Reply (Document_Detail d vs rs)), w') \<Rightarrow> (p\<lparr>dd_error := None, dd_doc := Some (d, vs, rs), dd_title := d_title d,
       dd_description := coalesce (d_description d) [], dd_loading := False\<rparr>, w')
   | (Inr _, w') \<Rightarrow> (p\<lparr>dd_error := None, dd_loading := False\<rparr>, w')
   | (Inl err, w') \<Rightarrow> (p\<lparr>dd_error := Some (error_text err), dd_loading := False\<rparr>, w'))"

definition detail_failed :: "string \<Rightarrow> detail_page \<Rightarrow> detail_page" where
  "detail_failed m p = p\<lparr>dd_error := Some m, dd_busy := None\<rparr>"

definition start_in_person :: "caller \<Rightarrow> id \<Rightarrow> world \<Rightarrow> detail_page \<Rightarrow> detail_page \<times> world" where
  "start_in_person api r w p = (case api (Sig_Call (Sig_InPerson r None)) w of
     (Inr (Sig_Reply (Handover h)), w') \<Rightarrow>
       (p\<lparr>dd_error := None, dd_busy := Some (''in-person-'' @ show_nat r), dd_goto := Some (ho_url h)\<rparr>, w')
   | (Inr _, w') \<Rightarrow> (p, w')
   | (Inl err, w') \<Rightarrow> (detail_failed (error_text err) p, w'))"

text \<open>\<open>?version=\<close> only for a version other than 0; the URL is opened in a new tab.\<close>

definition download_version :: "caller \<Rightarrow> nat option \<Rightarrow> world \<Rightarrow> detail_page \<Rightarrow> detail_page \<times> world" where
  "download_version api version w p = (if dd_doc p = None then (p, w)
     else (case api (Doc_Call (Doc_Download (dd_id p) (if coalesce version 0 = 0 then None else map_option show_nat version))) w of
        (Inr (Doc_Reply (Download url name ty)), w') \<Rightarrow> (p\<lparr>dd_opened := dd_opened p @ [url], dd_busy := None\<rparr>, w')
      | (Inr _, w') \<Rightarrow> (p\<lparr>dd_busy := None\<rparr>, w')
      | (Inl err, w') \<Rightarrow> (detail_failed (error_text err) p, w')))"

definition upload_version :: "caller \<Rightarrow> upload_file option \<Rightarrow> world \<Rightarrow> detail_page \<Rightarrow> detail_page \<times> world" where
  "upload_version api f w p = (if f = None \<or> dd_doc p = None then (p, w)
     else (case api (Doc_Call (Doc_AddVersion (dd_id p) f None)) w of
        (Inl _, w') \<Rightarrow> (detail_failed ''Version upload failed'' p, w')
      | (Inr _, w') \<Rightarrow> (case load_detail api w' (p\<lparr>dd_error := None\<rparr>) of (p', w'') \<Rightarrow> (p'\<lparr>dd_busy := None\<rparr>, w''))))"

definition save_details :: "caller \<Rightarrow> world \<Rightarrow> detail_page \<Rightarrow> detail_page \<times> world" where
  "save_details api w p = (if dd_doc p = None then (p, w)
     else (case api (Doc_Call (Doc_Update (dd_id p) \<lparr>md_title = Some (dd_title p), md_description = Some (dd_description p),
              md_tags = None, md_workspace = None\<rparr>)) w of
        (Inl err, w') \<Rightarrow> (detail_failed (error_text err) p, w')
      | (Inr _, w') \<Rightarrow> (case load_detail api w' (p\<lparr>dd_error := None, dd_editing := False\<rparr>) of
          (p', w'') \<Rightarrow> (p'\<lparr>dd_busy := None\<rparr>, w''))))"

text \<open>After a removal the button stays busy while the router leaves the page.\<close>

definition remove_document :: "caller \<Rightarrow> bool \<Rightarrow> world \<Rightarrow> detail_page \<Rightarrow> detail_page \<times> world" where
  "remove_document api confirmed w p = (if dd_doc p = None \<or> \<not> confirmed then (p, w)
     else (case api (Doc_Call (Doc_Remove (dd_id p))) w of
        (Inl err, w') \<Rightarrow> (detail_failed (error_text err) p, w')
      | (Inr _, w') \<Rightarrow> (p\<lparr>dd_busy := Some ''delete'', dd_goto := Some ''/documents''\<rparr>, w')))"

section \<open>Signing oneself\<close>

definition template_status_text :: "template_status \<Rightarrow> string" where
  "template_status_text st = (case st of TplDraft \<Rightarrow> ''draft'' | TplActive \<Rightarrow> ''active'' | TplArchived \<Rightarrow> ''archived'')"

definition template_option_label :: "template_row \<times> nat \<times> nat \<Rightarrow> string" where
  "template_option_label t = (case t of (row, n, k) \<Rightarrow>
     tp_name row @ '' ('' @ show_nat n @ '' fields)''
       @ (if tp_status row = TplActive then [] else '' '' @ [CHR 0xE2, CHR 0x80, CHR 0x94] @ '' '' @ template_status_text (tp_status row)))"

record self_sign_panel =
  sp_document :: document_row
  sp_templates :: "(template_row \<times> nat \<times> nat) list"
  sp_template :: "id option"
  sp_busy :: bool
  sp_error :: "string option"
  sp_goto :: "string option"

definition open_panel :: "document_row \<Rightarrow> self_sign_panel" where
  "open_panel d = \<lparr>sp_document = d, sp_templates = [], sp_template = d_template d, sp_busy = False, sp_error = None, sp_goto = None\<rparr>"

definition chosen_template :: "self_sign_panel \<Rightarrow> (template_row \<times> nat \<times> nat) option" where
  "chosen_template p = find (\<lambda>t. Some (tp_id (fst t)) = sp_template p) (sp_templates p)"

text \<open>The number of fields announced; \<open>None\<close> while the list does not tell.\<close>

definition placed_fields :: "self_sign_panel \<Rightarrow> nat option" where
  "placed_fields p = (case chosen_template p of
     Some (row, n, k) \<Rightarrow> Some n
   | None \<Rightarrow> if d_template (sp_document p) = sp_template p \<and> sp_template p \<noteq> None then None else Some 0)"

definition relinking :: "self_sign_panel \<Rightarrow> bool" where
  "relinking p \<longleftrightarrow> sp_template p \<noteq> None \<and> sp_template p \<noteq> d_template (sp_document p)"

definition start_self_sign :: "caller \<Rightarrow> world \<Rightarrow> self_sign_panel \<Rightarrow> self_sign_panel \<times> world" where
  "start_self_sign api w p = (case api (Sig_Call (Sig_Self (d_id (sp_document p)) (sp_template p))) w of
     (Inr (Sig_Reply (Self_Link r g n url)), w') \<Rightarrow> (p\<lparr>sp_busy := True, sp_error := None, sp_goto := Some url\<rparr>, w')
   | (Inr _, w') \<Rightarrow> (p, w')
   | (Inl err, w') \<Rightarrow> (p\<lparr>sp_busy := False, sp_error := Some (error_text err)\<rparr>, w'))"

section \<open>The dashboard\<close>

record dashboard =
  db_loading :: bool
  db_error :: "string option"
  db_me :: "auth_user option"
  db_total :: nat
  db_awaiting :: nat
  db_completed :: nat
  db_recent :: "document_row list"

definition initial_dashboard :: dashboard where
  "initial_dashboard = \<lparr>db_loading = True, db_error = None, db_me = None, db_total = 0, db_awaiting = 0, db_completed = 0,
     db_recent = []\<rparr>"

text \<open>The effect of the first render, unless the page is left before it ends.\<close>

definition load_dashboard :: "caller \<Rightarrow> world \<Rightarrow> dashboard \<Rightarrow> dashboard \<times> world" where
  "load_dashboard api w p = (case api (Users_Call Auth_Me) w of
     (Inl err, w') \<Rightarrow> (p\<lparr>db_error := Some (error_text err), db_loading := False\<rparr>, w')
   | (Inr (Users_Reply (Me u)), w') \<Rightarrow>
       if au_org u = None then (p\<lparr>db_me := Some u, db_loading := False\<rparr>, w')
       else (case api (Doc_Call (Doc_List (recent_query 8))) w' of
          (Inr (Doc_Reply (Documents n pg ds)), w'') \<Rightarrow> (p\<lparr>db_me := Some u, db_total := n,
             db_awaiting := length (filter (\<lambda>d. d_status d = AWAITING_SIGNATURE \<or> d_status d = IN_PROGRESS) ds),
             db_completed := length (filter (\<lambda>d. d_status d = COMPLETED) ds), db_recent := ds, db_loading := False\<rparr>, w'')
        | (Inr _, w'') \<Rightarrow> (p\<lparr>db_me := Some u, db_loading := False\<rparr>, w'')
        | (Inl err, w'') \<Rightarrow> (p\<lparr>db_me := Some u, db_error := Some (error_text err), db_loading := False\<rparr>, w''))
   | (Inr _, w') \<Rightarrow> (p\<lparr>db_loading := False\<rparr>, w'))"

text \<open>The first-run form: its button needs two characters besides blanks, the body has the raw text.\<close>

definition offers_creation :: "string \<Rightarrow> bool" where
  "offers_creation name \<longleftrightarrow> 2 \<le> length (js_trim name)"

section \<open>Properties\<close>

text \<open>
  the number in front of the unit is the exact size: times the unit it is the byte count, it is
  below 1024 unless the unit is the largest, and at least 1.
\<close>

theorem format_bytes_exact:
  assumes "0 < n"
  shows "\<exists>k q. scale_bytes 0 (of_nat n) = (k, q) \<and> q * 1024 ^ k = of_nat n \<and> k \<le> 3 \<and> (k < 3 \<longrightarrow> q < 1024) \<and> 1 \<le> q
    \<and> format_bytes n = to_fixed q (if 10 \<le> q \<or> k = 0 then 0 else 1) @ '' '' @ [''B'', ''KB'', ''MB'', ''GB''] ! k"
proof -
  obtain k q where s: "scale_bytes 0 (of_nat n) = (k, q)" by (meson surj_pair)
  from scale_bytes_scaled [OF s] have q: "q * 1024 ^ k = of_nat n" "k \<le> 3" "k < 3 \<longrightarrow> q < 1024" "k = 0 \<or> 1 \<le> q" by simp_all
  then have "1 \<le> q" using assms by (cases "k = 0") simp_all
  with s q assms show ?thesis by (simp add: format_bytes_def)
qed

theorem format_bytes_exact_witness:
  "scale_bytes 0 1536 = (1, 3 / 2) \<and> format_bytes 1536 = ''1.5 KB''"
proof -
  have s: "scale_bytes 0 1536 = (1, 3 / 2)" by (simp add: scale_bytes.simps)
  from format_bytes_exact [of 1536] obtain k q where f: "scale_bytes 0 1536 = (k, q)"
    "format_bytes 1536 = to_fixed q (if 10 \<le> q \<or> k = 0 then 0 else 1) @ '' '' @ [''B'', ''KB'', ''MB'', ''GB''] ! k" by auto
  from f(1) s have "k = 1" "q = 3 / 2" by simp_all
  have "\<lfloor>31 / 2 :: rat\<rfloor> = 15" by (simp add: floor_eq_iff)
  moreover have "char_of (49 :: nat) = CHR ''1''" "char_of (53 :: nat) = CHR ''5''" by code_simp+
  ultimately have "to_fixed (3 / 2) 1 = ''1.5''" by (simp add: to_fixed_def show_nat.simps Let_def)
  with f(2) [unfolded \<open>k = 1\<close> \<open>q = 3 / 2\<close>] s show ?thesis by simp
qed

text \<open>What the API does for the calls of these pages.\<close>

lemma soft_delete_effect:
  assumes "soft_delete e u i w = (Inr r, w')"
  shows "documents (fst w') = update_row d_id i (\<lambda>d. d\<lparr>d_deleted := Some (e_now e)\<rparr>) (documents (fst w))"
proof (cases "find_document u i (fst w)")
  case (Some d)
  with assms have "w' = log_effect (UnindexDoc i) (on_db (modify_document i (\<lambda>d. d\<lparr>d_deleted := Some (e_now e)\<rparr>)) w)"
    by (simp add: soft_delete_def)
  then show ?thesis by (simp add: modify_document_def)
qed (use assms in \<open>simp add: soft_delete_def\<close>)

lemma update_metadata_effect:
  assumes "update_metadata u i inp w = (Inr r, w')"
  shows "documents (fst w') = update_row d_id i (apply_metadata inp) (documents (fst w))"
proof (cases "find_document u i (fst w)")
  case (Some d)
  with assms have "w' = log_effect (IndexDoc i) (on_db (modify_document i (apply_metadata inp)) w)"
    by (simp add: update_metadata_def split: option.split_asm)
  then show ?thesis by (simp add: modify_document_def)
qed (use assms in \<open>simp add: update_metadata_def\<close>)

lemma handle_removal:
  "handle_user e d u (Doc_Call (Doc_Remove i)) w = (Inr r, w') \<Longrightarrow> \<exists>x. soft_delete e u i w = (Inr x, w')"
  by (cases "soft_delete e u i w"; cases "fst (soft_delete e u i w)") (simp_all add: on_world_def)

lemma handle_rename:
  "handle_user e d u (Doc_Call (Doc_Update i inp)) w = (Inr r, w') \<Longrightarrow> \<exists>x. update_metadata u i inp w = (Inr x, w')"
  by (cases "update_metadata u i inp w"; cases "fst (update_metadata u i inp w)") (simp_all add: on_world_def)

definition shown_document :: "auth_user \<Rightarrow> id \<Rightarrow> db \<Rightarrow> document_row option" where
  "shown_document u i s = find (\<lambda>x. d_id x = i \<and> in_tenant u (d_org x) \<and> d_deleted x = None) (documents s)"

lemma handle_get:
  "handle_user e d u (Doc_Call (Doc_Get i)) w = (case shown_document u i (fst w) of
     None \<Rightarrow> (Inl (NotFound ''Document not found''), w)
   | Some x \<Rightarrow> (Inr (Doc_Reply (Document_Detail x (rev (sort_key v_version (versions_of i (fst w))))
       (filter (\<lambda>r. rq_document r = i) (requests (fst w))))), w))"
  by (simp add: on_world_def get_document_def shown_document_def split: option.split)

lemma handle_recent:
  "handle_user e d u (Doc_Call (Doc_List (recent_query n))) w = (let ds = filter (\<lambda>x. in_tenant u (d_org x) \<and> d_deleted x = None) (documents (fst w))
     in (Inr (Doc_Reply (Documents (length ds) (Some (min n 100, 0)) (page 0 (min n 100) (dp_documents_by_update d ds)))), w))"
  by (simp add: on_world_def on_rows_def list_documents_def recent_query_def Let_def)

text \<open>The handlers of the page, against any function that makes the calls.\<close>

lemma remove_document_done:
  assumes "remove_document api True w p = (p', w')" "dd_doc p \<noteq> None" "dd_error p' = None"
  shows "(\<exists>r. api (Doc_Call (Doc_Remove (dd_id p))) w = (Inr r, w')) \<and> dd_goto p' = Some ''/documents''"
  using assms by (auto simp: remove_document_def detail_failed_def split: prod.split_asm sum.split_asm)

lemma save_details_done:
  assumes "save_details api w p = (p', w')" "dd_doc p \<noteq> None" "dd_error p' = None"
  obtains r w1 p1 where "api (Doc_Call (Doc_Update (dd_id p) \<lparr>md_title = Some (dd_title p), md_description = Some (dd_description p),
      md_tags = None, md_workspace = None\<rparr>)) w = (Inr r, w1)"
    "load_detail api w1 (p\<lparr>dd_error := None, dd_editing := False\<rparr>) = (p1, w')" "p' = p1\<lparr>dd_busy := None\<rparr>"
  using assms by (auto simp: save_details_def detail_failed_def split: prod.split_asm sum.split_asm)

lemma load_detail_found:
  "load_detail (handle_user e d u) w p = (case shown_document u (dd_id p) (fst w) of
     None \<Rightarrow> (p\<lparr>dd_error := Some ''Document not found'', dd_loading := False\<rparr>, w)
   | Some x \<Rightarrow> (p\<lparr>dd_error := None, dd_doc := Some (x, rev (sort_key v_version (versions_of (dd_id p) (fst w))),
         filter (\<lambda>r. rq_document r = dd_id p) (requests (fst w))),
       dd_title := d_title x, dd_description := coalesce (d_description x) [], dd_loading := False\<rparr>, w))"
  by (simp only: load_detail_def handle_get) (simp add: error_text_def split: option.split)

lemma load_documents_listed:
  "load_documents (handle_user e d u) w p = (p\<lparr>ls_error := None, ls_items := page 0 50 (dp_documents_by_update d
     (filter (\<lambda>x. in_tenant u (d_org x) \<and> d_deleted x = None) (documents (fst w)))), ls_loading := False\<rparr>, w)"
  by (simp only: load_documents_def handle_recent) (simp add: Let_def)

text \<open>
  a document that is removed on its page is gone: the browser leaves for the list, the list no
  longer shows it, and its page cannot be opened again.
\<close>

theorem removed_document_gone:
  assumes "remove_document (handle_user e d u) True w p = (p', w')" "dd_doc p \<noteq> None" "dd_error p' = None"
    and "\<And>xs. set (dp_documents_by_update d xs) \<subseteq> set xs"
  shows "dd_goto p' = Some ''/documents'' \<and> dd_doc (fst (load_detail (handle_user e d v) w' (initial_detail (dd_id p)))) = None
    \<and> dd_id p \<notin> d_id ` set (ls_items (fst (load_documents (handle_user e d v) w' initial_documents)))"
proof -
  from remove_document_done [OF assms(1-3)] obtain r where
    run: "handle_user e d u (Doc_Call (Doc_Remove (dd_id p))) w = (Inr r, w')" and goto: "dd_goto p' = Some ''/documents''" by blast
  from handle_removal [OF run] obtain x where "soft_delete e u (dd_id p) w = (Inr x, w')" by blast
  from soft_delete_effect [OF this] have gone: "d_deleted x \<noteq> None" if "x \<in> set (documents (fst w'))" "d_id x = dd_id p" for x
    using that by (auto simp: update_row_def split: if_split_asm)
  then have "shown_document v (dd_id p) (fst w') = None" by (auto simp: shown_document_def find_None_iff)
  then have "dd_doc (fst (load_detail (handle_user e d v) w' (initial_detail (dd_id p)))) = None"
    by (simp add: load_detail_found initial_detail_def)
  moreover have "dd_id p \<notin> d_id ` set (ls_items (fst (load_documents (handle_user e d v) w' initial_documents)))"
  proof
    assume "dd_id p \<in> d_id ` set (ls_items (fst (load_documents (handle_user e d v) w' initial_documents)))"
    then obtain x where x: "d_id x = dd_id p" "x \<in> set (dp_documents_by_update d
        (filter (\<lambda>x. in_tenant v (d_org x) \<and> d_deleted x = None) (documents (fst w'))))"
      by (auto simp: load_documents_listed page_def dest!: in_set_takeD)
    from subsetD [OF assms(4) x(2)] gone [of x] x(1) show False by simp
  qed
  ultimately show ?thesis using goto by blast
qed

definition page_db :: db where
  "page_db = sample_db\<lparr>documents := [sample_document, sample_document\<lparr>d_id := 3, d_title := ''Annex''\<rparr>]\<rparr>"

abbreviation page_api :: caller where
  "page_api \<equiv> handle_user sample_env sample_deps (principal_in MEMBER)"

definition opened_page :: detail_page where
  "opened_page = (initial_detail 2)\<lparr>dd_doc := Some (sample_document, [], []), dd_title := ''Rent'', dd_description := ''Flat 2''\<rparr>"

theorem removed_document_gone_witness:
  "\<exists>p' w'. remove_document page_api True (page_db, []) opened_page = (p', w')
     \<and> 2 \<notin> d_id ` set (ls_items (fst (load_documents page_api w' initial_documents)))"
proof -
  obtain p' w' where run: "remove_document page_api True (page_db, []) opened_page = (p', w')" by (meson surj_pair)
  have "dd_error (fst (remove_document page_api True (page_db, []) opened_page)) = None"
    by (simp add: remove_document_def opened_page_def initial_detail_def on_world_def soft_delete_def find_document_def
        page_db_def sample_db_def sample_document_def in_tenant_def)
  with run have "dd_error p' = None" by simp
  from removed_document_gone [OF run _ this, of "principal_in MEMBER"] run show ?thesis
    by (simp add: opened_page_def initial_detail_def sample_deps_def)
qed

text \<open>
  after the details of a document were saved the page shows what was typed, and the table of
  documents holds it; the other documents are unchanged.
\<close>

theorem saved_details_shown:
  assumes "save_details (handle_user e d u) w p = (p', w')" "dd_doc p \<noteq> None" "dd_error p' = None"
  shows "\<exists>doc vs rs. dd_doc p' = Some (doc, vs, rs) \<and> d_title doc = dd_title p \<and> d_description doc = Some (dd_description p)
    \<and> dd_title p' = dd_title p \<and> dd_description p' = dd_description p \<and> \<not> dd_editing p' \<and> doc \<in> set (documents (fst w'))
    \<and> (\<forall>x\<in>set (documents (fst w)). d_id x \<noteq> dd_id p \<longrightarrow> x \<in> set (documents (fst w')))"
proof -
  let ?inp = "\<lparr>md_title = Some (dd_title p), md_description = Some (dd_description p), md_tags = None, md_workspace = None\<rparr>"
  obtain r w1 p1 where run: "handle_user e d u (Doc_Call (Doc_Update (dd_id p) ?inp)) w = (Inr r, w1)"
    and load: "load_detail (handle_user e d u) w1 (p\<lparr>dd_error := None, dd_editing := False\<rparr>) = (p1, w')"
    and p': "p' = p1\<lparr>dd_busy := None\<rparr>"
    using save_details_done [OF assms(1-3)] by blast
  from handle_rename [OF run] obtain v where "update_metadata u (dd_id p) ?inp w = (Inr v, w1)" by blast
  note docs = update_metadata_effect [OF this]
  have keep: "\<forall>x\<in>set (documents (fst w)). d_id x \<noteq> dd_id p \<longrightarrow> x \<in> set (documents (fst w1))"
    by (force simp: docs update_row_def)
  from load p' assms(3) obtain doc where doc: "shown_document u (dd_id p) (fst w1) = Some doc"
    by (cases "shown_document u (dd_id p) (fst w1)") (auto simp: load_detail_found)
  then have mem: "doc \<in> set (documents (fst w1))" "d_id doc = dd_id p"
    by (auto simp: shown_document_def find_Some_iff)
  with docs obtain x where "doc = apply_metadata ?inp x" by (auto simp: update_row_def apply_metadata_def split: if_split_asm)
  then have shown: "d_title doc = dd_title p" "d_description doc = Some (dd_description p)"
    by (simp_all add: apply_metadata_def)
  from load doc have "w' = w1" "\<exists>vs rs. dd_doc p' = Some (doc, vs, rs)" "dd_title p' = d_title doc"
    "dd_description p' = coalesce (d_description doc) []" "\<not> dd_editing p'"
    by (auto simp: load_detail_found p')
  with shown mem(1) keep show ?thesis by auto
qed

theorem saved_details_shown_witness:
  "\<exists>p' w' doc vs rs. save_details page_api (page_db, []) opened_page = (p', w')
     \<and> dd_doc p' = Some (doc, vs, rs) \<and> d_title doc = ''Rent'' \<and> d_description doc = Some ''Flat 2''"
proof -
  obtain p' w' where run: "save_details page_api (page_db, []) opened_page = (p', w')" by (meson surj_pair)
  have "dd_error (fst (save_details page_api (page_db, []) opened_page)) = None"
    by (simp add: save_details_def load_detail_def opened_page_def initial_detail_def on_world_def update_metadata_def
        get_document_def find_document_def assert_workspace_in_tenant_def modify_document_def apply_metadata_def
        page_db_def sample_db_def sample_document_def in_tenant_def update_row_def)
  with run have "dd_error p' = None" by simp
  from saved_details_shown [OF run _ this] run show ?thesis by (auto simp: opened_page_def initial_detail_def)
qed

text \<open>
  the counters of the dashboard look at the eight documents it lists: however many documents
  wait for a signature or are completed, the two numbers never add up to more than eight.
\<close>

theorem dashboard_counts_listed:
  "db_awaiting (fst (load_dashboard (handle_user e d u) w initial_dashboard))
   + db_completed (fst (load_dashboard (handle_user e d u) w initial_dashboard)) \<le> 8"
proof -
  define p where "p = fst (load_dashboard (handle_user e d u) w initial_dashboard)"
  have sum: "length (filter (\<lambda>d. d_status d = AWAITING_SIGNATURE \<or> d_status d = IN_PROGRESS) ds)
      + length (filter (\<lambda>d. d_status d = COMPLETED) ds) \<le> length ds" for ds
    by (induction ds) auto
  have me: "handle_user e d u (Users_Call Auth_Me) w = (Inr (Users_Reply (Me u)), w)" by (simp add: on_world_def)
  let ?ds = "page 0 8 (dp_documents_by_update d (filter (\<lambda>x. in_tenant u (d_org x) \<and> d_deleted x = None) (documents (fst w))))"
  have "length ?ds \<le> 8" by (simp add: page_def)
  moreover have "db_recent p = (if au_org u = None then [] else ?ds)
      \<and> db_awaiting p = length (filter (\<lambda>d. d_status d = AWAITING_SIGNATURE \<or> d_status d = IN_PROGRESS) (db_recent p))
      \<and> db_completed p = length (filter (\<lambda>d. d_status d = COMPLETED) (db_recent p))"
    unfolding p_def load_dashboard_def me handle_recent by (auto simp: initial_dashboard_def Let_def)
  ultimately have "db_awaiting p + db_completed p \<le> 8" using sum [of "db_recent p"] by (auto split: if_split_asm)
  then show ?thesis by (simp only: p_def)
qed

text \<open>What the first-run form offers to send passes the validation of the API, unless it is too long.\<close>

lemma js_trim_length: "length (js_trim x) \<le> length x"
  unfolding js_trim_def by (metis length_dropWhile_le length_rev order_trans)

lemma onboarding_accepted:
  assumes "documented v" "offers_creation name" "length name \<le> 120"
  shows "accepts v create_organization_dto (new_organization_body name)"
  using organization_accepted [OF assms(1), of name] assms(2,3) js_trim_length [of name] by (simp add: offers_creation_def)

end
