(* ===== verification/Sign_Page.thy ===== *)
theory Sign_Page
  imports Sign_Form Signing_Refine Settings_Page
begin

text \<open>
  The signing room as a page: apps/web/src/app/sign/[token]/signing-room.tsx. \<open>Sign_Form\<close> has the
  values and the body; here are the state of the component, its handlers, what it shows and which
  controls are enabled. The last sections compose it with the public endpoints of the API.
\<close>

section \<open>Fields\<close>

text \<open>\<open>field.name ?? field.type.replaceAll('_', ' ').toLowerCase()\<close>\<close>

definition field_label :: "request_field_row \<Rightarrow> string" where
  "field_label f = (case rf_name f of Some n \<Rightarrow> n
     | None \<Rightarrow> js_lower (map (\<lambda>c. if c = CHR ''_'' then CHR '' '' else c) (field_type_name (rf_type f))))"

definition nullish :: "json option \<Rightarrow> bool" where
  "nullish x \<longleftrightarrow> x = None \<or> x = Some JNull"

definition dropdown_options :: "request_field_row \<Rightarrow> string list" where
  "dropdown_options f = (case rf_options f of
     Some (JArr xs) \<Rightarrow> map js_string xs
   | Some (JObj fs) \<Rightarrow> (let l = (if \<not> nullish (map_of fs ''choices'') then map_of fs ''choices''
                            else if \<not> nullish (map_of fs ''options'') then map_of fs ''options'' else map_of fs ''values'')
       in (case l of Some (JArr xs) \<Rightarrow> map js_string xs | _ \<Rightarrow> []))
   | _ \<Rightarrow> [])"

datatype control = Checkbox | Select "string list" | Textarea | No_Input | Input string

definition control_of :: "request_field_row \<Rightarrow> control" where
  "control_of f = (case rf_type f of FtCheckbox \<Rightarrow> Checkbox | FtDropdown \<Rightarrow> Select (dropdown_options f) | FtAddress \<Rightarrow> Textarea
     | FtAttachment \<Rightarrow> No_Input | FtDate \<Rightarrow> Input ''date'' | FtEmail \<Rightarrow> Input ''email'' | FtPhone \<Rightarrow> Input ''tel'' | _ \<Rightarrow> Input ''text'')"

text \<open>What a control lets its user enter.\<close>

datatype entry = Ticked bool | Typed string

definition entry_value :: "control \<Rightarrow> entry \<Rightarrow> json option" where
  "entry_value c en = (case (c, en) of
     (Checkbox, Ticked b) \<Rightarrow> Some (JBool b)
   | (Select os, Typed x) \<Rightarrow> if x = [] \<or> x \<in> set os then Some (JStr x) else None
   | (Textarea, Typed x) \<Rightarrow> Some (JStr x)
   | (Input ty, Typed x) \<Rightarrow> Some (JStr x)
   | _ \<Rightarrow> None)"

section \<open>The component\<close>

type_synonym public_caller = "public_call \<Rightarrow> world \<Rightarrow> (public_reply, world) res"

text \<open>\<open>action\<close> is set only while a call is awaited, which is one step here.\<close>

record room =
  rm_token :: string
  rm_session :: "session_view option"
  rm_loading :: bool
  rm_error :: "string option"
  rm_done :: bool
  rm_values :: form_values

definition initial_room :: "string \<Rightarrow> room" where
  "initial_room token = \<lparr>rm_token = token, rm_session = None, rm_loading = True, rm_error = None, rm_done = False,
     rm_values = (\<lambda>_. None)\<rparr>"

definition load_room :: "public_caller \<Rightarrow> world \<Rightarrow> room \<Rightarrow> room \<times> world" where
  "load_room api w rm = (case api (Sig_Session (rm_token rm)) w of
     (Inr (Session v), w') \<Rightarrow> (rm\<lparr>rm_session := Some v, rm_values := loaded_values (sv_fields v), rm_loading := False\<rparr>, w')
   | (Inr _, w') \<Rightarrow> (rm\<lparr>rm_loading := False\<rparr>, w')
   | (Inl err, w') \<Rightarrow> (rm\<lparr>rm_error := Some (error_text err), rm_loading := False\<rparr>, w'))"

definition room_fields :: "room \<Rightarrow> request_field_row list" where
  "room_fields rm = (case rm_session rm of None \<Rightarrow> [] | Some v \<Rightarrow> sv_fields v)"

definition sign_here :: "public_caller \<Rightarrow> world \<Rightarrow> room \<Rightarrow> room \<times> world" where
  "sign_here api w rm = (case api (Sig_Sign (rm_token rm) (sign_body (room_fields rm) (rm_values rm))) w of
     (Inr _, w') \<Rightarrow> (rm\<lparr>rm_error := None, rm_done := True\<rparr>, w')
   | (Inl err, w') \<Rightarrow> (rm\<lparr>rm_error := Some (error_text err)\<rparr>, w'))"

text \<open>Declining does not clear an earlier error.\<close>

definition decline_here :: "public_caller \<Rightarrow> world \<Rightarrow> room \<Rightarrow> room \<times> world" where
  "decline_here api w rm = (case api (Sig_Decline (rm_token rm) None) w of
     (Inr _, w') \<Rightarrow> (rm\<lparr>rm_done := True\<rparr>, w')
   | (Inl err, w') \<Rightarrow> (rm\<lparr>rm_error := Some (error_text err)\<rparr>, w'))"

datatype screen = Loading_Screen | Error_Screen string | Thanks_Screen | Signed_Screen session_view | Form_Screen session_view

definition screen_of :: "room \<Rightarrow> screen" where
  "screen_of rm = (if rm_loading rm then Loading_Screen
     else (case rm_session rm of
        None \<Rightarrow> (case rm_error rm of Some m \<Rightarrow> if m = [] then Thanks_Screen else Error_Screen m | None \<Rightarrow> Thanks_Screen)
      | Some v \<Rightarrow> if rm_done rm then Thanks_Screen
                  else if sg_status (sv_signer v) = SIGNED then Signed_Screen v else Form_Screen v))"

definition offers_sign :: "room \<Rightarrow> bool" where
  "offers_sign rm \<longleftrightarrow> (case screen_of rm of Form_Screen v \<Rightarrow> sv_allows v \<and> can_sign_form (room_fields rm) (rm_values rm) | _ \<Rightarrow> False)"

definition offers_decline :: "room \<Rightarrow> bool" where
  "offers_decline rm \<longleftrightarrow> (case screen_of rm of Form_Screen v \<Rightarrow> True | _ \<Rightarrow> False)"

text \<open>\<open>This request is in sequential order - you can review, but signing unlocks once it is your turn.\<close>\<close>

definition turn_notice :: "room \<Rightarrow> bool" where
  "turn_notice rm \<longleftrightarrow> (case screen_of rm of Form_Screen v \<Rightarrow> \<not> sv_allows v | _ \<Rightarrow> False)"

definition enter_field :: "request_field_row \<Rightarrow> entry \<Rightarrow> room \<Rightarrow> room" where
  "enter_field f en rm = (case screen_of rm of
     Form_Screen v \<Rightarrow> (case entry_value (control_of f) en of
        Some x \<Rightarrow> if f \<in> set (room_fields rm) \<and> sv_allows v then rm\<lparr>rm_values := enter_value (rf_id f) x (rm_values rm)\<rparr> else rm
      | None \<Rightarrow> rm)
   | _ \<Rightarrow> rm)"

definition progress :: "room \<Rightarrow> nat \<times> nat" where
  "progress rm = (length (room_fields rm) - length (missing_fields (room_fields rm) (rm_values rm)), length (room_fields rm))"

section \<open>The API behind the page\<close>

lemma open_session_cases:
  assumes "open_session e parse presign token cx s = (Inr v, t)"
  obtains g r d where "find_token token s = Some (g, r)" "active_status (rq_status r)" "\<not> past_deadline e r"
    "sg_status g \<noteq> DECLINED" "sg_status g \<noteq> SignerExpired" "find_row d_id (rq_document r) (documents s) = Some d"
    "sv_allows v \<longleftrightarrow> sg_status g \<in> {PENDING, INVITED, VIEWED} \<and> can_signer_act (rq_mode r) g s"
    "sv_fields v = request_fields_for_signer (rq_id r) (sg_id g) t" "sv_mode v = rq_mode r"
    "sg_role (sv_signer v) = sg_role g" "sg_order (sv_signer v) = sg_order g" "sg_request (sv_signer v) = sg_request g"
    "\<not> sv_allows v \<Longrightarrow> t = s \<and> sv_signer v = g" "sv_allows v \<Longrightarrow> sg_status (sv_signer v) = VIEWED"
proof -
  from assms obtain g r where gr: "find_token token s = Some (g, r)"
    by (cases "find_token token s") (auto simp: open_session_def)
  with assms have act: "active_status (rq_status r)" "sg_status g \<noteq> DECLINED" "sg_status g \<noteq> SignerExpired" "\<not> past_deadline e r"
    by (auto simp: open_session_def split: if_split_asm)
  with gr assms obtain d where d: "find_row d_id (rq_document r) (documents s) = Some d"
    by (cases "find_row d_id (rq_document r) (documents s)") (auto simp: open_session_def)
  let ?can = "sg_status g \<in> {PENDING, INVITED, VIEWED} \<and> can_signer_act (rq_mode r) g s"
  from assms gr act d have v: "sv_allows v \<longleftrightarrow> ?can" "sv_fields v = request_fields_for_signer (rq_id r) (sg_id g) t"
    "sv_mode v = rq_mode r" "sg_role (sv_signer v) = sg_role g" "sg_order (sv_signer v) = sg_order g"
    "sg_request (sv_signer v) = sg_request g" "\<not> ?can \<Longrightarrow> t = s \<and> sv_signer v = g" "?can \<Longrightarrow> sg_status (sv_signer v) = VIEWED"
    by (auto simp: open_session_def Let_def split: if_split_asm prod.split_asm)
  show ?thesis by (rule that [OF gr act(1,4,2,3) d v(1-6)]) (use v(1,7,8) in blast)+
qed

text \<open>The room that has just been opened.\<close>

lemma load_room_form:
  assumes "load_room (handle_public e d cx) w (initial_room token) = (rm, w1)" "screen_of rm = Form_Screen v" "token \<noteq> demo_token"
  shows "open_session e (dp_url d) (dp_presign d) token (signer_client cx) (fst w) = (Inr v, fst w1)" "snd w1 = snd w"
    "rm = \<lparr>rm_token = token, rm_session = Some v, rm_loading = False, rm_error = None, rm_done = False,
       rm_values = loaded_values (sv_fields v)\<rparr>" "sg_status (sv_signer v) \<noteq> SIGNED"
proof -
  obtain x t where x: "open_session e (dp_url d) (dp_presign d) token (signer_client cx) (fst w) = (x, t)" by (meson surj_pair)
  with assms have w1: "w1 = (t, snd w)" and rm: "rm = (case x of
      Inl err \<Rightarrow> (initial_room token)\<lparr>rm_error := Some (error_text err), rm_loading := False\<rparr>
    | Inr v \<Rightarrow> (initial_room token)\<lparr>rm_session := Some v, rm_values := loaded_values (sv_fields v), rm_loading := False\<rparr>)"
    by (cases x; simp add: load_room_def initial_room_def on_rows_def public_session_def)+
  from assms(2) have "x = Inr v" "sg_status (sv_signer v) \<noteq> SIGNED"
    by (cases x; simp add: rm screen_of_def initial_room_def split: if_split_asm)+
  with x w1 rm show "open_session e (dp_url d) (dp_presign d) token (signer_client cx) (fst w) = (Inr v, fst w1)" "snd w1 = snd w"
    "rm = \<lparr>rm_token = token, rm_session = Some v, rm_loading = False, rm_error = None, rm_done = False,
       rm_values = loaded_values (sv_fields v)\<rparr>" "sg_status (sv_signer v) \<noteq> SIGNED"
    by (simp_all add: initial_room_def)
qed

lemma sign_here_done:
  "\<not> rm_done rm \<Longrightarrow> rm_done (fst (sign_here (handle_public e d cx) w rm))
     \<longleftrightarrow> succeeds (sign e (dp_crypto d) (rm_token rm) (sign_body (room_fields rm) (rm_values rm)) (signer_client cx) (fst w))"
  by (cases "sign e (dp_crypto d) (rm_token rm) (sign_body (room_fields rm) (rm_values rm)) (signer_client cx) (fst w)";
      cases "fst (sign e (dp_crypto d) (rm_token rm) (sign_body (room_fields rm) (rm_values rm)) (signer_client cx) (fst w))")
    (auto simp: sign_here_def on_rows_def succeeds_def)

lemma plain_body: "plain_input (sign_body fs vs)"
  by (simp add: plain_input_def sign_body_def)

lemma sign_needs:
  assumes "succeeds (sign e cy token inp cx t)" "find_token token t = Some (g, r)"
  shows "sign_guard g r t = None \<and> (\<exists>x. resolve_field_values (rq_id r) (sg_id g) (sn_fields inp) t = Inr x)"
  using assms by (auto simp: sign_def succeeds_def prepare_signature_def Let_def split: if_split_asm option.split_asm sum.split_asm)

lemma room_sign_when_allowed:
  assumes "signing_ok s" "distinct (map rf_id (request_fields s))" and opened: "open_session e parse presign token cx s = (Inr v, t)"
    and "sv_allows v" "\<And>doc. doc \<in> set (documents s) \<Longrightarrow> e_blob e (d_file_key doc) \<noteq> None"
  shows "succeeds (sign e cy token (sign_body (sv_fields v) vs) cx t) \<longleftrightarrow> can_sign_form (sv_fields v) vs"
proof -
  obtain g r doc where g: "find_token token s = Some (g, r)" and act: "active_status (rq_status r)" "\<not> past_deadline e r"
    and doc: "find_row d_id (rq_document r) (documents s) = Some doc"
    and st: "sg_status g \<in> {PENDING, INVITED, VIEWED}" "can_signer_act (rq_mode r) g s"
    and fields: "sv_fields v = request_fields_for_signer (rq_id r) (sg_id g) t"
    using assms(4) by (rule_tac open_session_cases [OF opened]) blast
  let ?body = "sign_body (sv_fields v) vs"
  obtain h where h: "find_token token t = Some (h, r)" "sign_guard h r t = None" "sg_id h = sg_id g"
    "documents t = documents s" "request_fields t = request_fields s"
    using open_session_ready [OF g assms(1) act st doc, where t = t and parse = parse and presign = presign and cx = cx] opened by auto
  have res: "resolve_field_values (rq_id r) (sg_id h) (sn_fields ?body) t =
      (if can_sign_form (sv_fields v) vs then Inr (map (\<lambda>f. (rf_id f, vs (rf_id f))) (filter (\<lambda>f. \<not> is_empty_value (vs (rf_id f))) (sv_fields v)))
       else Inl (BadRequest (''Complete the required field(s) first: ''
         @ js_join '', '' (map (\<lambda>f. coalesce (rf_name f) (field_type_name (rf_type f))) (missing_fields (sv_fields v) vs)))))"
    using assms(2) h(5) fields h(3) by (intro form_resolution) simp_all
  show ?thesis
  proof (cases "can_sign_form (sv_fields v) vs")
    case True
    obtain blob where blob: "e_blob e (d_file_key doc) = Some blob"
      using assms(5) [of doc] find_row_SomeD [OF doc] by auto
    have ok: "signing_ok t"
      using open_session_ok [OF assms(1), where e = e and parse = parse and presign = presign and token = token and cx = cx] opened by simp
    have at: "find_row d_id (rq_document r) (documents t) = Some doc" using doc h(4) by simp
    note rv = res [unfolded if_P [OF True]]
    show ?thesis using plain_sign_succeeds [OF ok h(1,2) act at blob rv plain_body] True by simp
  next
    case False
    with res sign_needs [OF _ h(1), where e = e and cy = cy and inp = ?body and cx = cx] show ?thesis by auto
  qed
qed

lemma room_sign_when_not_allowed:
  assumes opened: "open_session e parse presign token cx s = (Inr v, t)" and "\<not> sv_allows v" "sg_status (sv_signer v) \<noteq> SIGNED"
  shows "\<not> succeeds (sign e cy token (sign_body (sv_fields v) vs) cx t)"
proof -
  obtain g r where g: "find_token token s = Some (g, r)" and t: "t = s" "sv_signer v = g"
    and allows: "\<not> (sg_status g \<in> {PENDING, INVITED, VIEWED} \<and> can_signer_act (rq_mode r) g s)"
    using assms(2) by (rule_tac open_session_cases [OF opened]) blast
  with assms(3) have "sign_guard g r t \<noteq> None" by (auto simp: sign_guard_def)
  with sign_needs [OF _ g [folded t(1)], where e = e and cy = cy and inp = "sign_body (sv_fields v) vs" and cx = cx] show ?thesis by auto
qed

text \<open>
  C39: the signing room offers to sign exactly when the API accepts the signature: whatever a signer
  has entered in the room they just opened, pressing the button records the signature if the button
  is enabled, and would be refused if it is not.
\<close>

theorem room_offers_what_api_accepts:
  assumes "signing_ok (fst w)" "distinct (map rf_id (request_fields (fst w)))" "token \<noteq> demo_token"
    and "load_room (handle_public e d cx) w (initial_room token) = (rm, w1)" "screen_of rm = Form_Screen v"
    and "\<And>doc. doc \<in> set (documents (fst w)) \<Longrightarrow> e_blob e (d_file_key doc) \<noteq> None"
  shows "offers_sign (rm\<lparr>rm_values := vs\<rparr>) \<longleftrightarrow> rm_done (fst (sign_here (handle_public e d cx) w1 (rm\<lparr>rm_values := vs\<rparr>)))"
proof -
  note opened = load_room_form [OF assms(4,5,3)]
  have "rm_done (fst (sign_here (handle_public e d cx) w1 (rm\<lparr>rm_values := vs\<rparr>))) \<longleftrightarrow>
      succeeds (sign e (dp_crypto d) token (sign_body (sv_fields v) vs) (signer_client cx) (fst w1))"
    using sign_here_done [of "rm\<lparr>rm_values := vs\<rparr>"] by (simp add: opened(3) room_fields_def)
  moreover have "offers_sign (rm\<lparr>rm_values := vs\<rparr>) \<longleftrightarrow> sv_allows v \<and> can_sign_form (sv_fields v) vs"
    using opened(4) by (simp add: offers_sign_def screen_of_def opened(3) room_fields_def)
  ultimately show ?thesis
    using room_sign_when_allowed [OF assms(1,2) opened(1) _ assms(6)] room_sign_when_not_allowed [OF opened(1) _ opened(4)] by auto
qed

text \<open>
  the room tells its reader to wait for their turn in three cases: somebody ahead in a sequential
  request has not signed, which is what it says; but also to every carbon-copy recipient and to a
  signer whose invitation was taken back, whose turn never comes.
\<close>

theorem turn_notice_reasons:
  assumes "load_room (handle_public e d cx) w (initial_room token) = (rm, w1)" "screen_of rm = Form_Screen v" "token \<noteq> demo_token"
  shows "turn_notice rm \<longleftrightarrow> sg_role (sv_signer v) = CC \<or> sg_status (sv_signer v) = RESCINDED
    \<or> sv_mode v \<noteq> PARALLEL \<and> (\<exists>c\<in>set (signers_of (sg_request (sv_signer v)) (fst w)).
         sg_order c < sg_order (sv_signer v) \<and> sg_role c \<noteq> CC \<and> sg_status c \<noteq> SIGNED)"
proof -
  note opened = load_room_form [OF assms]
  from opened(1) show ?thesis
  proof (rule open_session_cases)
    fix g r d'
    assume st: "sg_status g \<noteq> DECLINED" "sg_status g \<noteq> SignerExpired"
      and allows: "sv_allows v \<longleftrightarrow> sg_status g \<in> {PENDING, INVITED, VIEWED} \<and> can_signer_act (rq_mode r) g (fst w)"
      and same: "sv_mode v = rq_mode r" "sg_role (sv_signer v) = sg_role g" "sg_order (sv_signer v) = sg_order g"
        "sg_request (sv_signer v) = sg_request g"
      and still: "\<not> sv_allows v \<Longrightarrow> fst w1 = fst w \<and> sv_signer v = g"
      and viewed: "sv_allows v \<Longrightarrow> sg_status (sv_signer v) = VIEWED"
    have notice: "turn_notice rm \<longleftrightarrow> \<not> sv_allows v" using assms(2) by (simp add: turn_notice_def)
    have act: "can_signer_act (rq_mode r) g (fst w) \<longleftrightarrow> sg_role g \<noteq> CC \<and> (rq_mode r = PARALLEL \<or>
        (\<forall>c\<in>set (signers_of (sg_request g) (fst w)). sg_order c < sg_order g \<and> sg_role c \<noteq> CC \<longrightarrow> sg_status c = SIGNED))"
      by (auto simp: can_signer_act_def list_all_iff)
    have resc: "sg_status (sv_signer v) = RESCINDED \<longleftrightarrow> sg_status g \<notin> {PENDING, INVITED, VIEWED}"
    proof (cases "sv_allows v")
      case True
      then show ?thesis using allows viewed by simp
    next
      case False
      with still have "sv_signer v = g" by simp
      with st opened(4) show ?thesis by (cases "sg_status g") auto
    qed
    show ?thesis unfolding notice allows act same resc by auto
  qed
qed

text \<open>A required attachment that was not given before can never be given here.\<close>

lemma enter_field_frame:
  "rm_session (enter_field f en rm) = rm_session rm" "rm_loading (enter_field f en rm) = rm_loading rm"
  "rm_done (enter_field f en rm) = rm_done rm"
  by (auto simp: enter_field_def split: screen.split option.split)

lemma enter_field_attachment:
  assumes "distinct (map rf_id (room_fields rm))" "a \<in> set (room_fields rm)" "rf_type a = FtAttachment"
  shows "rm_values (enter_field f en rm) (rf_id a) = rm_values rm (rf_id a)"
proof (cases "f = a \<or> f \<notin> set (room_fields rm)")
  case True
  have "entry_value (control_of a) en = None" by (simp add: control_of_def entry_value_def assms(3))
  with True show ?thesis by (auto simp: enter_field_def split: screen.split option.split)
next
  case False
  then have "rf_id f \<noteq> rf_id a" using assms(1,2) by (auto simp: distinct_map inj_on_def)
  then show ?thesis by (auto simp: enter_field_def enter_value_def split: screen.split option.split)
qed

lemma attachment_never_signable:
  assumes "distinct (map rf_id (room_fields rm))" "a \<in> set (room_fields rm)" "rf_type a = FtAttachment" "rf_required a"
    and "is_empty_value (rm_values rm (rf_id a))"
  shows "\<not> offers_sign (foldl (\<lambda>rm (f, en). enter_field f en rm) rm es)"
  using assms
proof (induction es arbitrary: rm)
  case Nil
  then have "missing_fields (room_fields rm) (rm_values rm) \<noteq> []" "room_fields rm \<noteq> []"
    by (auto simp: missing_fields_def filter_empty_conv)
  then show ?case by (auto simp: offers_sign_def can_sign_form_def split: screen.split)
next
  case (Cons x es)
  obtain f en where x: "x = (f, en)" by (cases x)
  have "room_fields (enter_field f en rm) = room_fields rm" by (simp add: room_fields_def enter_field_frame)
  with Cons.prems enter_field_attachment [OF Cons.prems(1-3), of f en] Cons.IH [of "enter_field f en rm"]
  show ?case by (simp add: x)
qed

section \<open>Witness\<close>

abbreviation room_api :: public_caller where
  "room_api \<equiv> handle_public sample_env sample_deps (rh_client sample_head)"

theorem room_offers_what_api_accepts_witness:
  "\<exists>rm w1. load_room room_api (run_created, []) (initial_room ''sgn_0'') = (rm, w1)
     \<and> rm_done (fst (sign_here room_api w1 (rm\<lparr>rm_values := \<lambda>_. None\<rparr>)))"
proof -
  obtain rm w1 where l: "load_room room_api (run_created, []) (initial_room ''sgn_0'') = (rm, w1)" by (meson surj_pair)
  have "offers_sign ((fst (load_room room_api (run_created, []) (initial_room ''sgn_0'')))\<lparr>rm_values := \<lambda>_. None\<rparr>)" by code_simp
  then have o: "offers_sign (rm\<lparr>rm_values := \<lambda>_. None\<rparr>)" by (simp add: l)
  then obtain v where v: "screen_of rm = Form_Screen v"
    by (auto simp: offers_sign_def screen_of_def split: screen.split_asm option.split_asm if_split_asm)
  have f: "request_fields run_created = []" by code_simp
  have "list_all (\<lambda>x. e_blob sample_env (d_file_key x) \<noteq> None) (documents run_created)" by code_simp
  then have b: "e_blob sample_env (d_file_key x) \<noteq> None" if "x \<in> set (documents run_created)" for x
    using that by (auto simp: list_all_iff)
  have t: "''sgn_0'' \<noteq> demo_token" by (simp add: demo_token_def)
  have "rm_done (fst (sign_here room_api w1 (rm\<lparr>rm_values := \<lambda>_. None\<rparr>)))"
    using room_offers_what_api_accepts [of "(run_created, [])", OF _ _ t l v] reachable_ok [OF run_reachable(2)] f b o by simp
  with l show ?thesis by blast
qed

end
