(* ===== verification/Acme.thy ===== *)
theory Acme
  imports Certificates
begin

text \<open>
  modules/certificates/providers/acme.provider.ts: a certificate from an ACME server. The server and
  the calls of Cloudflare are parameters; the records of the zone are the state, because the
  provider adds one for the validation and must take it away again. A thrown error is an
  \<open>InternalError\<close>, and the state of the zone stays behind.
\<close>

section \<open>The two remote parties\<close>

record challenge =
  ch_type :: string
  ch_token :: string

record txt_record =
  tx_id :: id
  tx_name :: string
  tx_value :: string

text \<open>
  The ACME client: errors are messages. \<open>av_authorizations\<close> is the order with the challenges of each
  authorization, \<open>av_validate\<close> the three steps from verification to the valid status, which look at the
  published records; \<open>av_finalize\<close> is the status of the order for a signing request and \<open>av_chain\<close> the
  certificates of the chain.
\<close>

record acme_server =
  av_account :: "string list \<Rightarrow> string option"
  av_authorizations :: "string \<Rightarrow> string + challenge list list"
  av_key_auth :: "challenge \<Rightarrow> string"
  av_validate :: "txt_record list \<Rightarrow> challenge \<Rightarrow> string option"
  av_finalize :: "string \<Rightarrow> string option \<Rightarrow> json option \<Rightarrow> string"
  av_chain :: "string list"
  av_key :: string

text \<open>
  The API of Cloudflare: the id of an active zone, and the outcomes of creating, listing and deleting
  records. Whether a deletion was accepted is not looked at.
\<close>

record cloudflare =
  cl_zone :: "string \<Rightarrow> id option"
  cl_create :: "nat \<Rightarrow> nat option"
  cl_list_ok :: bool
  cl_delete_ok :: "id \<Rightarrow> bool"
  cl_fresh :: id

section \<open>The DNS handler\<close>

definition zone_id :: "cloudflare \<Rightarrow> string \<Rightarrow> http_error + id" where
  "zone_id cl zone = (case cl_zone cl zone of
     None \<Rightarrow> Inl (InternalError (''Cloudflare zone not found for '' @ zone))
   | Some i \<Rightarrow> Inr i)"

text \<open>\<open>cl_create\<close> answers \<open>Some\<close> status when the record of that number is refused.\<close>

definition set_txt_record :: "cloudflare \<Rightarrow> string \<Rightarrow> string \<Rightarrow> string \<Rightarrow> txt_record list \<Rightarrow> (unit, txt_record list) res" where
  "set_txt_record cl zone name val z = (case zone_id cl zone of
     Inl err \<Rightarrow> fail err z
   | Inr i \<Rightarrow> (case cl_create cl (length z) of
       Some status \<Rightarrow> fail (InternalError (''Cloudflare TXT create failed: HTTP '' @ show_nat status)) z
     | None \<Rightarrow> ok () (z @ [\<lparr>tx_id = cl_fresh cl, tx_name = name, tx_value = val\<rparr>])))"

definition clear_txt_record :: "cloudflare \<Rightarrow> string \<Rightarrow> string \<Rightarrow> txt_record list \<Rightarrow> (unit, txt_record list) res" where
  "clear_txt_record cl zone name z = (case zone_id cl zone of
     Inl err \<Rightarrow> fail err z
   | Inr i \<Rightarrow> if \<not> cl_list_ok cl then fail (InternalError ''body.result is not iterable'') z
             else ok () (filter (\<lambda>r. tx_name r \<noteq> name \<or> \<not> cl_delete_ok cl (tx_id r)) z))"

section \<open>Provisioning\<close>

definition acme_configured :: "(string \<Rightarrow> string option) \<Rightarrow> bool" where
  "acme_configured vars \<longleftrightarrow> vars ''ACME_DIRECTORY_URL'' \<noteq> None \<and> vars ''ACME_DIRECTORY_URL'' \<noteq> Some []"

definition given_option :: "string \<Rightarrow> obj \<Rightarrow> json option" where
  "given_option k opts = (case map_of opts k of Some JNull \<Rightarrow> None | x \<Rightarrow> x)"

definition acme_identifier :: "provision_input \<Rightarrow> string" where
  "acme_identifier inp = (case given_option ''identifier'' (pi_options inp) of
     Some j \<Rightarrow> js_string j | None \<Rightarrow> js_lower (pi_common_name inp))"

definition pick_challenge :: "challenge list \<Rightarrow> challenge option" where
  "pick_challenge cs = coalesce_opt (find (\<lambda>c. ch_type c = ''dns-01'') cs) (find (\<lambda>c. ch_type c = ''http-01'') cs)"

text \<open>
  \<open>Inr True\<close> is the handler of Cloudflare, \<open>Inr False\<close> none. A handler among the options came from
  JSON, so it has no functions to call.
\<close>

definition build_dns_handler :: "(string \<Rightarrow> string option) \<Rightarrow> provision_input \<Rightarrow> http_error + bool" where
  "build_dns_handler vars inp =
     (if vars ''ACME_DNS_PROVIDER'' = Some ''cloudflare'' then
        (if vars ''CF_API_TOKEN'' = None \<or> vars ''CF_API_TOKEN'' = Some []
         then Inl (InternalError ''ACME_DNS_PROVIDER=cloudflare requires CF_API_TOKEN'') else Inr True)
      else if given_option ''dnsHandler'' (pi_options inp) \<noteq> None
      then Inl (InternalError ''dnsHandler.setTxtRecord is not a function'')
      else Inr False)"

text \<open>After the validation: the signing request, the order and the certificate.\<close>

definition acme_finish :: "acme_server \<Rightarrow> provision_input \<Rightarrow> http_error + issued" where
  "acme_finish sv inp =
     (let mail = (case given_option ''emailAddress'' (pi_options inp) of Some j \<Rightarrow> Some (js_string j) | None \<Rightarrow> pi_email inp);
          status = av_finalize sv (pi_common_name inp) mail (given_option ''altNames'' (pi_options inp))
      in if status \<noteq> ''valid'' then Inl (InternalError (''ACME order did not finalize (status: '' @ status @ '')''))
         else (case av_chain sv of
            [] \<Rightarrow> Inl (InternalError ''No certificate in the chain'')
          | leaf # issuers \<Rightarrow> Inr \<lparr>is_pem = leaf, is_chain = Some (js_join [CHR 0x0A] issuers), is_key = Some (av_key sv),
              is_algorithm = Some ''ECDSA-P256'', is_validation = Some ''DV'', is_source = Some (''acme:'' @ acme_identifier inp)\<rparr>))"

definition challenge_name :: "provision_input \<Rightarrow> string" where
  "challenge_name inp = ''_acme-challenge.'' @ acme_identifier inp"

text \<open>The \<open>try\<close> and \<open>finally\<close> of a DNS challenge: an error of the clean-up hides one of the validation.\<close>

definition prove_by_dns ::
  "acme_server \<Rightarrow> cloudflare \<Rightarrow> provision_input \<Rightarrow> challenge \<Rightarrow> txt_record list \<Rightarrow> (unit, txt_record list) res" where
  "prove_by_dns sv cl inp c z =
     (let val = av_key_auth sv c in
      (case set_txt_record cl (acme_identifier inp) (challenge_name inp) val z of
         (Inl err, z1) \<Rightarrow> fail err z1
       | (Inr _, z1) \<Rightarrow>
           (case (if val = [] then ok () z1 else clear_txt_record cl (acme_identifier inp) (challenge_name inp) z1) of
              (Inl err, z2) \<Rightarrow> fail err z2
            | (Inr _, z2) \<Rightarrow> (case av_validate sv z1 c of Some m \<Rightarrow> fail (InternalError m) z2 | None \<Rightarrow> ok () z2))))"

definition prove_control ::
  "(string \<Rightarrow> string option) \<Rightarrow> acme_server \<Rightarrow> cloudflare \<Rightarrow> provision_input \<Rightarrow> challenge \<Rightarrow> txt_record list
   \<Rightarrow> (unit, txt_record list) res" where
  "prove_control vars sv cl inp c z =
     (if ch_type c = ''dns-01'' then
        (case build_dns_handler vars inp of
           Inl err \<Rightarrow> fail err z
         | Inr h \<Rightarrow> if \<not> h then fail (InternalError
               ''ACME dns-01 requires ACME_DNS_PROVIDER=cloudflare (or a dnsHandler provisioning option)'') z
             else prove_by_dns sv cl inp c z)
      else if vars ''ACME_HTTP_CHALLENGE'' = None \<or> vars ''ACME_HTTP_CHALLENGE'' = Some []
      then fail (InternalError (''ACME offered only http-01 - set ACME_HTTP_CHALLENGE=true and expose ''
          @ ''<API_URL>/.well-known/acme-challenge (see Deployment.md)'')) z
      else (case av_validate sv z c of Some m \<Rightarrow> fail (InternalError m) z | None \<Rightarrow> ok () z))"

definition acme_contact :: "(string \<Rightarrow> string option) \<Rightarrow> provision_input \<Rightarrow> string list" where
  "acme_contact vars inp = (case coalesce_opt (vars ''ACME_CONTACT_EMAIL'') (pi_email inp) of
     None \<Rightarrow> [] | Some c \<Rightarrow> if c = [] then [] else [''mailto:'' @ c])"

definition acme_provision ::
  "(string \<Rightarrow> string option) \<Rightarrow> acme_server \<Rightarrow> cloudflare \<Rightarrow> provision_input \<Rightarrow> txt_record list \<Rightarrow> (issued, txt_record list) res" where
  "acme_provision vars sv cl inp z =
     (if \<not> acme_configured vars then fail (InternalError ''ACME_DIRECTORY_URL is not configured'') z
      else (case av_account sv (acme_contact vars inp) of
        Some m \<Rightarrow> fail (InternalError m) z
      | None \<Rightarrow> (case av_authorizations sv (acme_identifier inp) of
          Inl m \<Rightarrow> fail (InternalError m) z
        | Inr [] \<Rightarrow> fail (InternalError ''Cannot read properties of undefined'') z
        | Inr (cs # more_authorizations) \<Rightarrow> (case pick_challenge cs of
            None \<Rightarrow> fail (InternalError ''ACME server offered no supported challenge type (dns-01/http-01)'') z
          | Some c \<Rightarrow> (case prove_control vars sv cl inp c z of
              (Inl err, z1) \<Rightarrow> fail err z1
            | (Inr _, z1) \<Rightarrow> (acme_finish sv inp, z1))))))"

section \<open>Properties\<close>

text \<open>Cloudflare does what it is asked to do.\<close>

definition tidy :: "cloudflare \<Rightarrow> bool" where
  "tidy cl \<longleftrightarrow> cl_list_ok cl \<and> (\<forall>i. cl_delete_ok cl i)"

lemma set_txt_record_cases:
  "set_txt_record cl zone name val z = (r, z1) \<Longrightarrow> (\<exists>err. r = Inl err \<and> z1 = z) \<or>
     (r = Inr () \<and> z1 = z @ [\<lparr>tx_id = cl_fresh cl, tx_name = name, tx_value = val\<rparr>] \<and> (\<exists>i. zone_id cl zone = Inr i))"
  by (auto simp: set_txt_record_def split: sum.split_asm option.split_asm)

lemma prove_by_dns_zone:
  assumes "tidy cl" "av_key_auth sv c \<noteq> []" "prove_by_dns sv cl inp c z = (r, z')"
  shows "z' = z \<or> z' = filter (\<lambda>x. tx_name x \<noteq> challenge_name inp) z"
proof -
  obtain q z1 where q: "set_txt_record cl (acme_identifier inp) (challenge_name inp) (av_key_auth sv c) z = (q, z1)"
    by (meson surj_pair)
  from set_txt_record_cases [OF this] show ?thesis
  proof
    assume "\<exists>err. q = Inl err \<and> z1 = z"
    then show ?thesis using assms(3) q by (auto simp: prove_by_dns_def)
  next
    assume a: "q = Inr () \<and> z1 = z @ [\<lparr>tx_id = cl_fresh cl, tx_name = challenge_name inp, tx_value = av_key_auth sv c\<rparr>]
      \<and> (\<exists>i. zone_id cl (acme_identifier inp) = Inr i)"
    then have "clear_txt_record cl (acme_identifier inp) (challenge_name inp) z1 = (Inr (), filter (\<lambda>x. tx_name x \<noteq> challenge_name inp) z)"
      using assms(1) by (auto simp: clear_txt_record_def tidy_def)
    then show ?thesis using assms(2,3) q a by (auto simp: prove_by_dns_def split: option.split_asm)
  qed
qed

lemma prove_control_zone:
  assumes "tidy cl" "av_key_auth sv c \<noteq> []" "prove_control vars sv cl inp c z = (r, z')"
  shows "z' = z \<or> z' = filter (\<lambda>x. tx_name x \<noteq> challenge_name inp) z"
  using assms(3) prove_by_dns_zone [OF assms(1,2), of inp z r z']
  by (auto simp: prove_control_def split: if_split_asm sum.split_asm option.split_asm)

text \<open>
  however provisioning ends, with a certificate or with an error at any step, no record of the
  challenge is left in the zone that was not there before, and no other record is touched.
\<close>

theorem acme_leaves_no_record:
  assumes "tidy cl" "\<And>c. av_key_auth sv c \<noteq> []" "acme_provision vars sv cl inp z = (r, z')"
  shows "set z' \<subseteq> set z \<and> filter (\<lambda>x. tx_name x \<noteq> challenge_name inp) z' = filter (\<lambda>x. tx_name x \<noteq> challenge_name inp) z"
proof -
  have "z' = z \<or> z' = filter (\<lambda>x. tx_name x \<noteq> challenge_name inp) z"
    using assms(3) prove_control_zone [OF assms(1,2)]
    by (auto simp: acme_provision_def split: if_split_asm option.split_asm sum.split_asm list.split_asm prod.split_asm)
  then show ?thesis by auto
qed

text \<open>
  a certificate is issued only after the server has validated a challenge it offered; a DNS
  challenge was validated while the record with its key authorization was in the zone.
\<close>

theorem acme_issued_after_proof:
  assumes "acme_provision vars sv cl inp z = (Inr crt, z')"
  shows "\<exists>cs css c z1. av_authorizations sv (acme_identifier inp) = Inr (cs # css) \<and> c \<in> set cs \<and> av_validate sv z1 c = None
    \<and> (ch_type c = ''dns-01'' \<longrightarrow> (\<exists>t\<in>set z1. tx_name t = challenge_name inp \<and> tx_value t = av_key_auth sv c))
    \<and> is_source crt = Some (''acme:'' @ acme_identifier inp)"
proof -
  from assms obtain cs css c where auth: "av_authorizations sv (acme_identifier inp) = Inr (cs # css)" and pick: "pick_challenge cs = Some c"
    and prove: "prove_control vars sv cl inp c z = (Inr (), z')" and fin: "acme_finish sv inp = Inr crt"
    by (auto simp: acme_provision_def split: if_split_asm option.split_asm sum.split_asm list.split_asm prod.split_asm)
  have c: "c \<in> set cs" using pick unfolding pick_challenge_def coalesce_opt_def
    by (auto split: option.split_asm dest!: find_Some_iff_filter)
  have src: "is_source crt = Some (''acme:'' @ acme_identifier inp)"
    using fin by (auto simp: acme_finish_def Let_def split: if_split_asm list.split_asm)
  show ?thesis
  proof (cases "ch_type c = ''dns-01''")
    case True
    with prove have dns: "prove_by_dns sv cl inp c z = (Inr (), z')"
      by (auto simp: prove_control_def split: sum.split_asm if_split_asm)
    obtain q z1 where q: "set_txt_record cl (acme_identifier inp) (challenge_name inp) (av_key_auth sv c) z = (q, z1)"
      by (meson surj_pair)
    with dns obtain x where "q = Inr x" by (cases q) (auto simp: prove_by_dns_def)
    with q set_txt_record_cases [OF q] have z1: "z1 = z @ [\<lparr>tx_id = cl_fresh cl, tx_name = challenge_name inp, tx_value = av_key_auth sv c\<rparr>]"
      by auto
    have "av_validate sv z1 c = None"
      using dns q \<open>q = Inr x\<close> by (auto simp: prove_by_dns_def split: prod.split_asm sum.split_asm option.split_asm)
    then show ?thesis using auth c src z1 by (intro exI [of _ cs] exI [of _ css] exI [of _ c] exI [of _ z1]) simp
  next
    case False
    with prove have "av_validate sv z c = None"
      by (auto simp: prove_control_def split: if_split_asm option.split_asm)
    then show ?thesis using auth c src False by blast
  qed
qed

text \<open>The zone asked for is the identifier itself, so a host below a zone finds none.\<close>

lemma subdomain_has_no_zone:
  "cl_zone cl (acme_identifier inp) = None \<Longrightarrow> \<exists>m. prove_by_dns sv cl inp c z = (Inl (InternalError m), z)"
  by (simp add: prove_by_dns_def set_txt_record_def zone_id_def Let_def)

section \<open>Witnesses\<close>

definition sample_server :: acme_server where
  "sample_server = \<lparr>av_account = (\<lambda>_. None), av_authorizations = (\<lambda>_. Inr [[\<lparr>ch_type = ''dns-01'', ch_token = ''t''\<rparr>]]),
     av_key_auth = (\<lambda>c. ch_token c @ ''.k''), av_validate = (\<lambda>z c. if list_ex (\<lambda>r. tx_value r = ch_token c @ ''.k'') z then None else Some ''no record''),
     av_finalize = (\<lambda>_ _ _. ''valid''), av_chain = [''leaf'', ''ca''], av_key = ''key''\<rparr>"

definition sample_cloudflare :: cloudflare where
  "sample_cloudflare = \<lparr>cl_zone = (\<lambda>_. Some 1), cl_create = (\<lambda>_. None), cl_list_ok = True, cl_delete_ok = (\<lambda>_. True), cl_fresh = 7\<rparr>"

definition sample_vars :: "string \<Rightarrow> string option" where
  "sample_vars = [''ACME_DIRECTORY_URL'' \<mapsto> ''https://acme.test'', ''ACME_DNS_PROVIDER'' \<mapsto> ''cloudflare'', ''CF_API_TOKEN'' \<mapsto> ''c''] "

definition sample_order :: provision_input where
  "sample_order = \<lparr>pi_org = 1, pi_common_name = ''Acme.test'', pi_email = None, pi_options = []\<rparr>"

definition sample_zone :: "txt_record list" where
  "sample_zone = [\<lparr>tx_id = 3, tx_name = ''acme.test'', tx_value = ''v=spf1''\<rparr>]"

lemma enrolment_run:
  "acme_provision sample_vars sample_server sample_cloudflare sample_order sample_zone =
     (Inr \<lparr>is_pem = ''leaf'', is_chain = Some ''ca'', is_key = Some ''key'', is_algorithm = Some ''ECDSA-P256'',
        is_validation = Some ''DV'', is_source = Some ''acme:acme.test''\<rparr>, sample_zone)"
  by code_simp

theorem acme_leaves_no_record_witness:
  "set (snd (acme_provision sample_vars sample_server sample_cloudflare sample_order sample_zone)) \<subseteq> set sample_zone"
  using acme_leaves_no_record [OF _ _ enrolment_run] unfolding enrolment_run snd_conv
  by (simp add: tidy_def sample_cloudflare_def sample_server_def)

theorem acme_issued_after_proof_witness:
  "\<exists>z1. \<exists>t\<in>set z1. tx_value t = ''t.k'' \<and> av_validate sample_server z1 \<lparr>ch_type = ''dns-01'', ch_token = ''t''\<rparr> = None"
proof -
  let ?c = "\<lparr>ch_type = ''dns-01'', ch_token = ''t''\<rparr>"
  from acme_issued_after_proof [OF enrolment_run] obtain z1 t where "av_validate sample_server z1 ?c = None" "t \<in> set z1" "tx_value t = ''t.k''"
    by (auto simp: sample_server_def)
  then show ?thesis by blast
qed

end
