(* ===== verification/Storage.thy ===== *)
theory Storage
  imports Configuration Documents
begin

text \<open>
  The clients of the object store and of the search engine: storage/minio.service.ts and
  storage/meilisearch.service.ts. The wire protocols are parameters; what the services make of the
  answers, the objects that are kept and the documents of the index are modelled.
\<close>

section \<open>Object store\<close>

text \<open>\<open>None\<close> is the exception of \<open>new URL\<close>.\<close>

record store_client =
  sk_host :: string
  sk_port :: "int option"
  sk_ssl :: bool
  sk_access :: string
  sk_secret :: string
  sk_region :: string
  sk_path_style :: bool

definition build_client :: "(string \<Rightarrow> url option) \<Rightarrow> s3_section \<Rightarrow> string \<Rightarrow> store_client option" where
  "build_client parse sc endpoint = map_option (\<lambda>u. \<lparr>sk_host = url_hostname u,
     sk_port = (if url_port u \<noteq> [] then js_number (url_port u) else if url_protocol u = ''https:'' then Some 443 else Some 80),
     sk_ssl = (url_protocol u = ''https:''), sk_access = s3_access_key sc, sk_secret = s3_secret_key sc,
     sk_region = s3_region sc, sk_path_style = s3_path_style sc\<rparr>) (parse endpoint)"

record object_store =
  os_client :: store_client
  os_public :: "store_client option"
  os_objects :: "string \<rightharpoonup> string \<times> string \<times> string option"

text \<open>The constructor; \<open>None\<close> when an endpoint is no URL.\<close>

definition connect_store :: "(string \<Rightarrow> url option) \<Rightarrow> s3_section \<Rightarrow> (string \<rightharpoonup> string \<times> string \<times> string option) \<Rightarrow> object_store option" where
  "connect_store parse sc objs = (case build_client parse sc (s3_endpoint sc) of
     None \<Rightarrow> None
   | Some c \<Rightarrow> if s3_public_endpoint sc \<noteq> [] \<and> s3_public_endpoint sc \<noteq> s3_endpoint sc
       then map_option (\<lambda>p. \<lparr>os_client = c, os_public = Some p, os_objects = objs\<rparr>) (build_client parse sc (s3_public_endpoint sc))
       else Some \<lparr>os_client = c, os_public = None, os_objects = objs\<rparr>)"

definition signing_client :: "object_store \<Rightarrow> store_client" where
  "signing_client st = coalesce (os_public st) (os_client st)"

text \<open>\<open>any?.message || any?.code || any?.name || String(error)\<close>\<close>

record store_error =
  se_message :: "string option"
  se_code :: "string option"
  se_name :: "string option"
  se_text :: string

definition describe_error :: "store_error \<Rightarrow> string" where
  "describe_error x = coalesce (configured (se_message x)) (coalesce (configured (se_code x)) (coalesce (configured (se_name x)) (se_text x)))"

text \<open>\<open>present\<close> and \<open>created\<close> are the answers of the store; \<open>Some\<close> is the message the process stops with.\<close>

definition ensure_bucket :: "s3_section \<Rightarrow> store_error + bool \<Rightarrow> store_error option \<Rightarrow> string option" where
  "ensure_bucket sc present created = (case present of
     Inl err \<Rightarrow> Some (''Cannot reach the object store at '' @ s3_endpoint sc @ '' for bucket '' @ quote_mark @ s3_bucket sc @ quote_mark
       @ '': '' @ describe_error err @ ''. Check S3_ENDPOINT / S3_ACCESS_KEY / S3_SECRET_KEY - an endpoint that only ''
       @ ''accepts a different signing scheme (or HTTP Basic) rejects SigV4 requests here.'')
   | Inr True \<Rightarrow> None
   | Inr False \<Rightarrow> (case created of
       None \<Rightarrow> None
     | Some err \<Rightarrow> Some (''Bucket '' @ quote_mark @ s3_bucket sc @ quote_mark @ '' does not exist at '' @ s3_endpoint sc
         @ '' and creating it failed: '' @ describe_error err @ ''. Create it with your storage'' @ quote_mark
         @ ''s own tooling (e.g. `mc mb`), or point S3_BUCKET at an existing bucket.'')))"

text \<open>An object is its bytes, its content type and the checksum of its metadata.\<close>

definition put_object :: "string \<Rightarrow> string \<Rightarrow> string \<Rightarrow> string option \<Rightarrow> object_store \<Rightarrow> object_store" where
  "put_object key bytes ty sha st = st\<lparr>os_objects := (os_objects st)(key \<mapsto> (bytes, ty, configured sha))\<rparr>"

text \<open>The stream comes in pieces; \<open>pieces\<close> is how the store cuts the bytes.\<close>

definition get_buffer :: "(string \<Rightarrow> string list) \<Rightarrow> string \<Rightarrow> object_store \<Rightarrow> string option" where
  "get_buffer pieces key st = map_option (\<lambda>(bytes, ty, sha). concat (pieces bytes)) (os_objects st key)"

definition delete_object :: "string \<Rightarrow> object_store \<Rightarrow> object_store" where
  "delete_object key st = st\<lparr>os_objects := (os_objects st)(key := None)\<rparr>"

text \<open>Size, type and checksum of an object.\<close>

definition stat_object :: "string \<Rightarrow> object_store \<Rightarrow> (nat \<times> string \<times> string option) option" where
  "stat_object key st = map_option (\<lambda>(bytes, ty, sha). (length bytes, ty, sha)) (os_objects st key)"

text \<open>\<open>presign\<close> makes the URL of a client for a bucket, a key and the seconds it lives.\<close>

definition presigned_url :: "(store_client \<Rightarrow> string \<Rightarrow> string \<Rightarrow> nat \<Rightarrow> string) \<Rightarrow> s3_section \<Rightarrow> string \<Rightarrow> nat option \<Rightarrow> object_store \<Rightarrow> string" where
  "presigned_url presign sc key seconds st = presign (signing_client st) (s3_bucket sc) key (coalesce seconds 900)"

section \<open>Search engine\<close>

record search_document =
  sd_id :: id
  sd_org :: id
  sd_title :: string
  sd_file :: string
  sd_tags :: "string list"
  sd_status :: document_status

text \<open>The index, its documents in the order they came, and the counter of rejected operations.\<close>

record search_index =
  ix_documents :: "search_document list"
  ix_failures :: nat

text \<open>\<open>addDocuments\<close> with the primary key: a document takes the place of the one with its id.\<close>

definition put_document :: "search_document \<Rightarrow> search_document list \<Rightarrow> search_document list" where
  "put_document x ds = (if list_ex (\<lambda>d. sd_id d = sd_id x) ds then map (\<lambda>d. if sd_id d = sd_id x then x else d) ds else ds @ [x])"

text \<open>\<open>up\<close>: the engine accepts the batch. The report counts what was indexed and what failed.\<close>

definition index_docs :: "bool \<Rightarrow> search_document list \<Rightarrow> search_index \<Rightarrow> (nat \<times> nat) \<times> search_index" where
  "index_docs up xs ix = (if xs = [] then ((0, 0), ix)
     else if up then ((length xs, 0), ix\<lparr>ix_documents := foldl (\<lambda>ds x. put_document x ds) (ix_documents ix) xs\<rparr>)
     else ((0, length xs), ix\<lparr>ix_failures := ix_failures ix + length xs\<rparr>))"

definition index_doc :: "bool \<Rightarrow> search_document \<Rightarrow> search_index \<Rightarrow> (nat \<times> nat) \<times> search_index" where
  "index_doc up x = index_docs up [x]"

definition delete_doc :: "bool \<Rightarrow> id \<Rightarrow> search_index \<Rightarrow> search_index" where
  "delete_doc up i ix = (if up then ix\<lparr>ix_documents := filter (\<lambda>d. sd_id d \<noteq> i) (ix_documents ix)\<rparr>
     else ix\<lparr>ix_failures := ix_failures ix + 1\<rparr>)"

text \<open>
  \<open>rank\<close> selects and orders the documents that match the query among those that pass the filter
  \<open>organizationId = ...\<close>.
\<close>

definition search_documents ::
  "(string \<Rightarrow> search_document list \<Rightarrow> search_document list) \<Rightarrow> id \<Rightarrow> string \<Rightarrow> nat option \<Rightarrow> search_index \<Rightarrow> search_document list" where
  "search_documents rank org q limit ix =
     take (coalesce limit 20) (rank q (filter (\<lambda>d. sd_org d = org) (ix_documents ix)))"

definition document_count :: "search_index \<Rightarrow> nat" where
  "document_count ix = length (ix_documents ix)"

section \<open>Properties\<close>

text \<open>
  what is read back is what was stored last, however the stream is cut, and the links that a
  browser gets are signed for the public endpoint exactly when one is set that differs.
\<close>

theorem stored_object_read_back:
  assumes "\<And>b. concat (pieces b) = b" "connect_store parse sc objs = Some st"
  shows "get_buffer pieces key (put_object key bytes ty sha st) = Some bytes
    \<and> (other \<noteq> key \<longrightarrow> get_buffer pieces other (put_object key bytes ty sha st) = get_buffer pieces other st
        \<and> get_buffer pieces other (delete_object key st) = get_buffer pieces other st)
    \<and> get_buffer pieces key (delete_object key st) = None
    \<and> Some (signing_client (put_object key bytes ty sha st)) = build_client parse sc
        (if s3_public_endpoint sc \<noteq> [] then s3_public_endpoint sc else s3_endpoint sc)"
proof -
  have "Some (signing_client st) = build_client parse sc (if s3_public_endpoint sc \<noteq> [] then s3_public_endpoint sc else s3_endpoint sc)"
    using assms(2) by (auto simp: connect_store_def signing_client_def split: option.split_asm if_split_asm)
  then show ?thesis
    using assms(1) by (simp add: get_buffer_def put_object_def delete_object_def signing_client_def)
qed

section \<open>A store with keys\<close>

text \<open>What the client of a table of values with keys relies on, and what follows for a batch.\<close>

locale keyed_store =
  fixes put :: "'v \<Rightarrow> 's \<Rightarrow> 's" and del :: "'k \<Rightarrow> 's \<Rightarrow> 's" and look :: "'s \<Rightarrow> 'k \<Rightarrow> 'v option"
    and key :: "'v \<Rightarrow> 'k" and inv :: "'s \<Rightarrow> bool"
  assumes look_put: "inv s \<Longrightarrow> look (put v s) = (look s)(key v \<mapsto> v)"
    and look_del: "inv s \<Longrightarrow> look (del k s) = (look s)(k := None)"
    and inv_put: "inv s \<Longrightarrow> inv (put v s)"
    and inv_del: "inv s \<Longrightarrow> inv (del k s)"
begin

lemma look_puts:
  "inv s \<Longrightarrow> inv (foldl (\<lambda>s v. put v s) s vs)
     \<and> look (foldl (\<lambda>s v. put v s) s vs) = look s ++ map_of (rev (map (\<lambda>v. (key v, v)) vs))"
proof (induction vs arbitrary: s)
  case (Cons v vs)
  from Cons.IH [OF inv_put [OF Cons.prems]] look_put [OF Cons.prems] show ?case
    by (auto simp: fun_eq_iff map_add_def split: option.split)
qed simp

lemma look_del_put: "inv s \<Longrightarrow> look (del (key v) (put v s)) (key v) = None"
  by (simp add: look_del inv_put)

end

definition found :: "search_document list \<Rightarrow> id \<Rightarrow> search_document option" where
  "found ds i = find (\<lambda>d. sd_id d = i) ds"

definition unique_ids :: "search_document list \<Rightarrow> bool" where
  "unique_ids ds \<longleftrightarrow> distinct (map sd_id ds)"

definition drop_document :: "id \<Rightarrow> search_document list \<Rightarrow> search_document list" where
  "drop_document i ds = filter (\<lambda>d. sd_id d \<noteq> i) ds"

lemma has_id: "list_ex (\<lambda>d. sd_id d = i) ds \<longleftrightarrow> i \<in> sd_id ` set ds"
  by (induction ds) auto

lemma put_document_ids:
  "map sd_id (put_document x ds) = (if sd_id x \<in> sd_id ` set ds then map sd_id ds else map sd_id ds @ [sd_id x])"
  by (auto simp: put_document_def has_id)

lemma found_append: "found (xs @ ys) i = (case found xs i of None \<Rightarrow> found ys i | Some d \<Rightarrow> Some d)"
  by (induction xs) (simp_all add: found_def)

lemma found_replace:
  "found (map (\<lambda>d. if sd_id d = sd_id x then x else d) ds) i = (if i = sd_id x \<and> found ds i \<noteq> None then Some x else found ds i)"
  by (induction ds) (auto simp: found_def)

lemma found_None: "found ds i = None \<longleftrightarrow> i \<notin> sd_id ` set ds"
  by (auto simp: found_def find_None_iff)

lemma found_put: "found (put_document x ds) i = (if i = sd_id x then Some x else found ds i)"
proof (cases "sd_id x \<in> sd_id ` set ds")
  case True
  then have "put_document x ds = map (\<lambda>d. if sd_id d = sd_id x then x else d) ds" by (simp add: put_document_def has_id)
  with True found_None [of ds "sd_id x"] show ?thesis by (auto simp: found_replace)
next
  case False
  then have "put_document x ds = ds @ [x]" by (simp add: put_document_def has_id)
  with False found_None [of ds "sd_id x"] show ?thesis
    by (auto simp: found_append split: option.split) (simp_all add: found_def)
qed

lemma found_drop: "found (drop_document k ds) i = (if i = k then None else found ds i)"
  by (induction ds) (auto simp: found_def drop_document_def)

lemma unique_drop: "unique_ids ds \<Longrightarrow> unique_ids (drop_document i ds)"
  by (simp add: unique_ids_def drop_document_def distinct_map_filter)

interpretation documents_by_id: keyed_store put_document drop_document found sd_id unique_ids
  by unfold_locales (auto simp: fun_eq_iff found_put found_drop unique_drop, simp add: unique_ids_def put_document_ids)

text \<open>
  a batch of documents is either all in the index, where each id then shows the last version of the
  batch and every other document is as before, or counted as failed and reported, and the index is
  as before; the index never holds two documents of one id.
\<close>

theorem index_batch_sound:
  assumes "unique_ids (ix_documents ix)" "index_docs up xs ix = ((n, k), ix')"
  shows "unique_ids (ix_documents ix') \<and> n + k = length xs \<and> ix_failures ix' = ix_failures ix + k
    \<and> (if k = 0 then found (ix_documents ix') = found (ix_documents ix) ++ map_of (rev (map (\<lambda>x. (sd_id x, x)) xs))
       else ix_documents ix' = ix_documents ix)"
  using assms documents_by_id.look_puts [OF assms(1), of xs] by (auto simp: index_docs_def split: if_split_asm)

text \<open>A document that was taken out is not found until it is indexed again.\<close>

lemma deleted_document:
  "unique_ids (ix_documents ix) \<Longrightarrow> found (ix_documents (delete_doc True i ix)) = (found (ix_documents ix))(i := None)"
  using documents_by_id.look_del [of "ix_documents ix" i] by (simp add: delete_doc_def drop_document_def)

text \<open>A search shows documents of the organization only, whatever the engine ranks.\<close>

theorem search_within_organization:
  assumes "\<And>q ds. set (rank q ds) \<subseteq> set ds"
  shows "(\<forall>d\<in>set (search_documents rank org q limit ix). sd_org d = org \<and> d \<in> set (ix_documents ix))
    \<and> length (search_documents rank org q limit ix) \<le> coalesce limit 20"
  using assms by (fastforce simp: search_documents_def dest: in_set_takeD)

lemma deleted_not_found:
  assumes "\<And>q ds. set (rank q ds) \<subseteq> set ds" "d \<in> set (search_documents rank org q limit (delete_doc True i ix))"
  shows "sd_id d \<noteq> i"
  using assms by (fastforce simp: search_documents_def delete_doc_def dest: in_set_takeD)

section \<open>Witnesses\<close>

definition sample_s3 :: s3_section where
  "sample_s3 = s3_of [''S3_PUBLIC_ENDPOINT'' \<mapsto> ''https://storage.test'']"

definition sample_urls :: "string \<Rightarrow> url option" where
  "sample_urls x = Some \<lparr>url_protocol = ''https:'', url_hostname = x, url_port = [], url_href = x\<rparr>"

theorem stored_object_read_back_witness:
  "\<exists>st. connect_store sample_urls sample_s3 (\<lambda>_. None) = Some st
     \<and> get_buffer (map (\<lambda>c. [c])) ''k'' (put_object ''k'' ''PDF'' ''application/pdf'' None st) = Some ''PDF''"
proof -
  have "\<exists>st. connect_store sample_urls sample_s3 (\<lambda>_. None) = Some st"
    by (simp add: connect_store_def build_client_def sample_urls_def sample_s3_def s3_of_def)
  then obtain st where s: "connect_store sample_urls sample_s3 (\<lambda>_. None) = Some st" by blast
  have "concat (map (\<lambda>c. [c]) b) = b" for b :: string by (induction b) simp_all
  from stored_object_read_back [OF this s] s show ?thesis by blast
qed

definition sample_entry :: "id \<Rightarrow> string \<Rightarrow> search_document" where
  "sample_entry i t = \<lparr>sd_id = i, sd_org = 1, sd_title = t, sd_file = ''a.pdf'', sd_tags = [], sd_status = DRAFT\<rparr>"

theorem index_batch_sound_witness:
  "found (ix_documents (snd (index_docs True [sample_entry 2 ''New'', sample_entry 4 ''Third'']
     \<lparr>ix_documents = [sample_entry 2 ''Old'', sample_entry 3 ''Kept''], ix_failures = 0\<rparr>))) 2 = Some (sample_entry 2 ''New'')"
proof -
  let ?ix = "\<lparr>ix_documents = [sample_entry 2 ''Old'', sample_entry 3 ''Kept''], ix_failures = 0\<rparr>"
  let ?xs = "[sample_entry 2 ''New'', sample_entry 4 ''Third'']"
  obtain ix' where r: "index_docs True ?xs ?ix = ((2, 0), ix')" by (simp add: index_docs_def)
  have "unique_ids (ix_documents ?ix)" by (simp add: unique_ids_def sample_entry_def)
  from index_batch_sound [OF this r] show ?thesis by (simp add: r map_add_def) (simp add: sample_entry_def)
qed

end
