(* ===== verification/Spec2Isabelle.thy ===== *)
theory Spec2Isabelle
  imports Webhook_Api Certificate_Api Signing_Props Signing_Refine Document_Api Templates Session_Props Access_Props
    Organization_Props Billing Audit_Log Mail Jobs I18n Posture
    Send_Wizard Sign_Form Template_Editor Isolation
    Locale_Provider Webhook_Panel Document_Pages Sign_Page Configuration Acme Storage
begin

text \<open>
  A verification library for Signara, a multi-tenant electronic-signature platform. The API
  under apps/api/src is a NestJS application over PostgreSQL (through Prisma), BullMQ queues, an
  object store and a search engine; apps/web/src is its web client; packages/database/prisma has the
  schema and the seed. The library models the services of the API, its guards, the validation of its
  bodies, its mail and queue workers, the seed, whole requests through the routes, and of the web
  client the API client, the translations and the state and handlers of its pages.

  \<^bold>\<open>How code is modelled.\<close> \<open>Prelude\<close> gives JavaScript strings, dynamically typed values and the
  result of a handler: an error or a value, together with the state left behind, because a write
  made before a \<open>throw\<close> stays. \<open>Schema\<close> is packages/database/prisma/schema.prisma: every enum is a
  datatype, every model a record, every table the list of its rows in creation order, and the
  database one record \<open>db\<close>. A handler is a function from its arguments and a \<open>db\<close> to such a result,
  with the checks in the order of the code. What is not code of the repository is an argument: the
  clock, the random generator, SHA-256, the object store and the configuration are fields of
  \<open>env\<close>; AES-GCM, certificates and signatures are fields of \<open>crypto\<close>; JWT verification, HTTP
  calls, the URL parser, \<open>JSON.stringify\<close>, the mail transport and the search engine are function
  parameters. Theorems that rely on them name the documented behaviour they use as a hypothesis.
  Instants are integers in milliseconds, ids are numbers drawn from \<open>next_id\<close>, and one handler
  call reads one instant of the clock and is atomic.

  \<^bold>\<open>Interfaces.\<close> The locale \<open>keyed_table\<close> states what handlers rely on when they look up and update a
  row by its key; \<open>Schema\<close> interprets it for eight tables. The locale \<open>tenant_api\<close> states that a
  call of one tenant keeps the invariant and leaves the rows of the others alone, and lifts it to
  sequences of calls; it is interpreted on the endpoints, documents, templates and memberships. The locale \<open>keyed_store\<close>
  has the laws of put and delete and what follows for a batch; \<open>Storage\<close> interprets it for the index.

  \<^bold>\<open>Signing\<close> (modules/signatures/signatures.service.ts). \<open>Placements\<close> has the fields copied from a
  template and the values a signer must give; \<open>Signing\<close> has events, creation, the public session,
  signing, declining, cancelling and reminders; \<open>Signing_Room\<close> the evidence report, in-person and
  self-signing and the demo room with its generated PDF. \<open>Signing_Inv\<close> states the invariant on the
  keys of the rows, \<open>Signing_Steps\<close> proves that every operation keeps it and defines the service as
  a step relation, \<open>Signing_Flow\<close> shows how rows evolve, \<open>Signing_Samples\<close> is a concrete run.
  \<open>Signing_Props\<close> has the safety results: order, completion, one signature per signer, finality.
  \<open>Signing_Refine\<close> relates the service to an abstract protocol of envelopes whose parties accept or
  refuse when it is their turn: signing and declining are its two moves, every other call
  is silent, and an open envelope can always make progress.

  \<^bold>\<open>Certificates\<close> (modules/certificates, common/crypto.ts). \<open>Crypto\<close> is the encryption of keys at
  rest, \<open>Certificates\<close> the service with its providers, \<open>Acme\<close> the enrolment with an
  ACME server and the TXT records it leaves in a zone, \<open>Assurance\<close> the identity-assurance
  score, \<open>Certificate_Api\<close> what evidence guarantees.

  \<^bold>\<open>Documents and templates\<close> (modules/documents, modules/templates). \<open>Documents\<close> and \<open>Document_Api\<close>
  model uploads, versions and search; the writes to the object store and the index are a log beside
  the database; \<open>Storage\<close> has the two clients (storage) with the objects and the index as state. \<open>Templates\<close> has the templates and their fields.

  \<^bold>\<open>Identity.\<close> \<open>Access\<close> has the three guards and the API keys (common/guards, modules/api-keys),
  \<open>Auth\<close> the login and the rotating sessions (modules/auth), \<open>Admin\<close> the platform administration with
  the rebuild of the search index (modules/admin), \<open>Organizations\<close> tenants, workspaces, teams and
  members (modules/organizations, modules/users). \<open>Session_Props\<close>, \<open>Access_Props\<close> and
  \<open>Organization_Props\<close> have their results.

  \<^bold>\<open>The rest of the API.\<close> \<open>Webhooks\<close> and \<open>Webhook_Api\<close> (modules/webhooks, the webhook worker), with the
  URL guard of \<open>Net\<close>; \<open>Notifications\<close>; \<open>Billing\<close>; \<open>Audit_Log\<close> (modules/audit and the audit
  interceptor); \<open>Mail\<close> (modules/mailer), \<open>Jobs\<close> (the signing worker and the schedulers), \<open>Branding\<close>,
  \<open>Dates\<close> (ISO instants), \<open>Posture\<close> (config/secret-posture.ts), \<open>Configuration\<close>
  (config/configuration.ts and the start in main.ts) and \<open>I18n\<close> (apps/web/src/lib/i18n).

  \<^bold>\<open>Whole requests.\<close> \<open>Seed\<close> is packages/database/prisma/seed.ts as upserts; \<open>Routes\<close> the decorators of
  the controllers; \<open>Http_Api\<close> the controllers as one call type and its dispatch, wrapped by the guards
  and the audit interceptor in the order of app.module.ts; \<open>Http_Props\<close> shows which role reaches
  which route and that mutations are audited; \<open>Isolation\<close> that no sequence of requests by members of
  other organizations changes a row of an organization. It is about signed-in calls: signers with a
  link and platform administrators act across organizations on purpose, and copying the placements
  of a template named in the creation of a request is not confined inside the service.

  \<^bold>\<open>Web client.\<close> \<open>Browser\<close> composes lib/api.ts with the cookies of the auth controller: refreshing once
  after a 401, signing in and out. \<open>Dto\<close> has the validated classes of all controllers as tables and
  the validation pipe over them, \<open>Bodies\<close> the values that reach the services and the bodies that the
  pages post; class-validator is a record of functions with its documented behaviour as a
  hypothesis. \<open>Send_Wizard\<close>, \<open>Sign_Form\<close>, \<open>Sign_Page\<close>, \<open>Template_Editor\<close>, \<open>Settings_Page\<close>,
  \<open>Webhook_Panel\<close> and \<open>Document_Pages\<close> are pages: the state of a component is a record, a handler runs against any function
  that makes API calls, and the theorems instantiate it with the API of \<open>Http_Api\<close>, so they say what a
  user sees after the tables changed. \<open>Locale_Provider\<close> is the language switch with catalogs that
  arrive in any order. An \<open>await\<close> is one step: a page does not start a second handler inside it.

  \<^bold>\<open>Recursion and bounds.\<close> No definition uses fuel. The loop of the index rebuild ends because the rows
  behind the cursor become fewer, the interpolation and the CSV reader because the rest of the
  text does; the delivery job recurses over its five attempts; all other recursions are structural.
  The limits of the code are kept: 50 signers, 200 template fields, 50 MB, pages of 100, exports of
  50,000 rows, batches of 500.

  \<^bold>\<open>Not modelled.\<close> Handlers do not interleave inside a call, so races between two requests (for
  which the code relies on unique constraints) appear only as the outcome of a constraint. The
  columns createdAt and updatedAt exist where a handler reads them; elsewhere the creation order
  stands for them. Left out are metrics and
  health probes, the start-up of the framework, rate limiting, the markup of the pages, and the
  static landing page and demo room: they call libraries, read environment variables or draw. Text
  with code points beyond Latin-1 is outside the string type; typographic dashes in messages of the
  API are hyphens.
\<close>

end
